(* ===== verification/Detta_Prelude.thy ===== *)
theory Detta_Prelude
  imports
    Main
    "HOL-Library.Word"
    "HOL-Library.Finite_Map"
    "HOL-Library.Char_ord"
    "HOL-Library.List_Lexorder"
    "HOL-Library.Product_Lexorder"
begin

text \<open>
  The prelude of the development: the machine integers of the Rust sources and their
  checked and saturating operations, the decimal printer and the string splitter of the
  standard library, sums over ordered maps (\<open>BTreeMap\<close>, modelled as \<open>fmap\<close>), and the
  execution monad in which every handler of \<open>detta-core\<close> is written.

  A \<open>BTreeMap\<close> is an \<open>fmap\<close>: a finite map, iterated in key order by
  \<open>sorted_list_of_fmap\<close>. A \<open>BTreeSet\<close> is an \<open>fset\<close>, iterated by
  \<open>sorted_list_of_fset\<close>. A \<open>String\<close> is a \<open>string\<close>, one \<open>char\<close> per byte.
\<close>

section \<open>Machine integers\<close>

type_synonym u8 = "8 word"
type_synonym u64 = "64 word"
type_synonym u128 = "128 word"

named_theorems checked_simps "characterisations of the checked and saturating operations"

definition checked_add :: "'a::len word \<Rightarrow> 'a word \<Rightarrow> 'a word option" where
  "checked_add a b = (if unat a + unat b < 2 ^ LENGTH('a) then Some (a + b) else None)"

definition checked_sub :: "'a::len word \<Rightarrow> 'a word \<Rightarrow> 'a word option" where
  "checked_sub a b = (if b \<le> a then Some (a - b) else None)"

definition checked_mul :: "'a::len word \<Rightarrow> 'a word \<Rightarrow> 'a word option" where
  "checked_mul a b = (if unat a * unat b < 2 ^ LENGTH('a) then Some (a * b) else None)"

definition saturating_add :: "'a::len word \<Rightarrow> 'a word \<Rightarrow> 'a word" where
  "saturating_add a b = (if unat a + unat b < 2 ^ LENGTH('a) then a + b else - 1)"

definition saturating_sub :: "'a::len word \<Rightarrow> 'a word \<Rightarrow> 'a word" where
  "saturating_sub a b = (if b \<le> a then a - b else 0)"

definition saturating_mul :: "'a::len word \<Rightarrow> 'a word \<Rightarrow> 'a word" where
  "saturating_mul a b = (if unat a * unat b < 2 ^ LENGTH('a) then a * b else - 1)"

text \<open>\<open>u64::try_from\<close> on a \<open>u128\<close>, and the widening cast \<open>as Amount\<close>.\<close>

definition u64_try_from :: "u128 \<Rightarrow> u64 option" where
  "u64_try_from x = (if unat x < 2 ^ 64 then Some (ucast x) else None)"

abbreviation as_amount :: "u64 \<Rightarrow> u128" where
  "as_amount x \<equiv> ucast x"

lemma checked_add_Some [checked_simps]:
  "checked_add a b = Some c \<longleftrightarrow> unat c = unat a + unat b"
proof
  assume "checked_add a b = Some c"
  then show "unat c = unat a + unat b"
    by (auto simp: checked_add_def unat_word_ariths split: if_splits)
next
  assume c: "unat c = unat a + unat b"
  then have "unat a + unat b < 2 ^ LENGTH('a)"
    by (metis unsigned_less)
  moreover from this c have "c = a + b"
    by (simp add: word_unat_eq_iff unat_word_ariths)
  ultimately show "checked_add a b = Some c"
    by (simp add: checked_add_def)
qed

lemma checked_mul_Some [checked_simps]:
  "checked_mul a b = Some c \<longleftrightarrow> unat c = unat a * unat b"
proof
  assume "checked_mul a b = Some c"
  then show "unat c = unat a * unat b"
    by (auto simp: checked_mul_def unat_word_ariths split: if_splits)
next
  assume c: "unat c = unat a * unat b"
  then have "unat a * unat b < 2 ^ LENGTH('a)"
    by (metis unsigned_less)
  moreover from this c have "c = a * b"
    by (simp add: word_unat_eq_iff unat_word_ariths)
  ultimately show "checked_mul a b = Some c"
    by (simp add: checked_mul_def)
qed

lemma unat_minus_le:
  assumes "(b :: 'a::len word) \<le> a"
  shows "unat (a - b) = unat a - unat b"
  using assms by (rule unat_sub)

lemma checked_add_None [checked_simps]:
  "checked_add (a :: 'a::len word) b = None \<longleftrightarrow> 2 ^ LENGTH('a) \<le> unat a + unat b"
  by (auto simp: checked_add_def)

lemma checked_mul_None [checked_simps]:
  "checked_mul (a :: 'a::len word) b = None \<longleftrightarrow> 2 ^ LENGTH('a) \<le> unat a * unat b"
  by (auto simp: checked_mul_def)

lemma checked_sub_Some [checked_simps]:
  "checked_sub a b = Some c \<longleftrightarrow> unat b \<le> unat a \<and> unat c = unat a - unat b"
  by (auto simp: checked_sub_def word_le_nat_alt unat_minus_le word_unat_eq_iff)

lemma unat_saturating_add [checked_simps]:
  "unat (saturating_add (a :: 'a::len word) b) = min (unat a + unat b) (2 ^ LENGTH('a) - 1)"
  by (auto simp: saturating_add_def unat_word_ariths unsigned_minus_1_eq_mask mask_eq_exp_minus_1 min_def)

lemma unat_saturating_sub [checked_simps]:
  "unat (saturating_sub a b) = unat a - unat b"
  by (auto simp: saturating_sub_def unat_minus_le word_le_nat_alt)

lemma u64_try_from_Some [checked_simps]:
  "u64_try_from x = Some y \<longleftrightarrow> unat x = unat y"
proof -
  have "unat (ucast x :: u64) = unat x" if "unat x < 2 ^ 64"
    using that by (simp add: unsigned_ucast_eq take_bit_nat_eq_self)
  moreover have "unat y < 2 ^ 64"
    using unsigned_less [of y] by simp
  ultimately show ?thesis
    by (auto simp: u64_try_from_def word_unat_eq_iff)
qed

lemma unat_as_amount [simp]: "unat (as_amount x) = unat x"
proof -
  have "unat x < 2 ^ 64"
    using unsigned_less [of x] by simp
  then show ?thesis
    by (simp add: unsigned_ucast_eq take_bit_nat_eq_self)
qed

text \<open>No overflow: the side condition of a successful addition.\<close>

definition fits :: "'a::len word \<Rightarrow> 'a word \<Rightarrow> bool" where
  "fits a b \<longleftrightarrow> unat a + unat b < 2 ^ LENGTH('a)"

lemma checked_add_conv: "checked_add a b = Some c \<longleftrightarrow> fits a b \<and> c = a + b"
  by (auto simp: checked_add_def fits_def)

lemma unat_add_fits: "fits a b \<Longrightarrow> unat (a + b) = unat a + unat b"
  by (simp add: fits_def unat_word_ariths)

text \<open>Code equations that compare in \<open>int\<close>, whose numerals are binary.\<close>

lemma unat_bound_int:
  "unat (a :: 'a::len word) + unat b < 2 ^ n \<longleftrightarrow> uint a + uint b < 2 ^ n"
  "unat a * unat b < 2 ^ n \<longleftrightarrow> uint a * uint b < 2 ^ n"
  "unat a < 2 ^ n \<longleftrightarrow> uint a < 2 ^ n"
  by (simp_all flip: of_nat_less_iff [where 'a = int])

lemma checked_code [code]:
  "checked_add (a :: 'a::len word) b =
     (if uint a + uint b < 2 ^ LENGTH('a) then Some (a + b) else None)"
  "checked_mul a b = (if uint a * uint b < 2 ^ LENGTH('a) then Some (a * b) else None)"
  "saturating_add a b = (if uint a + uint b < 2 ^ LENGTH('a) then a + b else - 1)"
  "saturating_mul a b = (if uint a * uint b < 2 ^ LENGTH('a) then a * b else - 1)"
  by (simp_all add: checked_add_def checked_mul_def saturating_add_def saturating_mul_def
      unat_bound_int)

lemma u64_try_from_code [code]:
  "u64_try_from x = (if uint x < 2 ^ 64 then Some (ucast x) else None)"
  unfolding u64_try_from_def unat_bound_int ..

subsection \<open>Folding \<open>checked_add\<close> over a sequence\<close>

text \<open>\<open>iter.try_fold(0u128, |acc, value| acc.checked_add(value))\<close>\<close>

fun try_fold_add :: "u128 \<Rightarrow> u128 list \<Rightarrow> u128 option" where
  "try_fold_add acc [] = Some acc"
| "try_fold_add acc (x # xs) =
     (case checked_add acc x of None \<Rightarrow> None | Some acc' \<Rightarrow> try_fold_add acc' xs)"

lemma try_fold_add_Some:
  "try_fold_add acc xs = Some t \<longleftrightarrow> unat t = unat acc + sum_list (map unat xs)"
proof (induction xs arbitrary: acc)
  case Nil
  show ?case by (auto simp: word_unat_eq_iff)
next
  case (Cons x xs)
  show ?case
  proof (cases "checked_add acc x")
    case None
    then have "2 ^ 128 \<le> unat acc + unat x"
      by (simp add: checked_simps)
    moreover have "unat t < 2 ^ 128"
      using unsigned_less [of t] by simp
    ultimately show ?thesis
      using None by simp
  next
    case (Some a)
    then have "unat a = unat acc + unat x"
      by (simp add: checked_simps)
    with Some Cons show ?thesis by (simp add: add.assoc)
  qed
qed

section \<open>Strings\<close>

text \<open>The decimal printer behind \<open>to_string\<close> on an unsigned integer.\<close>

definition digit_char :: "nat \<Rightarrow> char" where
  "digit_char d = char_of (48 + d)"

fun nat_to_string :: "nat \<Rightarrow> string" where
  "nat_to_string n =
     (if n < 10 then [digit_char n] else nat_to_string (n div 10) @ [digit_char (n mod 10)])"

declare nat_to_string.simps [simp del]

definition u128_to_string :: "u128 \<Rightarrow> string" where
  "u128_to_string x = nat_to_string (unat x)"

text \<open>\<open>str::split\<close> on one separator character: the parts between separators, so the
  empty string has one (empty) part.\<close>

fun split_on :: "char \<Rightarrow> string \<Rightarrow> string list" where
  "split_on c [] = [[]]"
| "split_on c (x # xs) =
     (if x = c then [] # split_on c xs
      else case split_on c xs of [] \<Rightarrow> [[x]] | p # ps \<Rightarrow> (x # p) # ps)"

lemma split_on_nonempty: "split_on c s \<noteq> []"
  by (induction s) (auto split: list.splits)

lemma split_on_no_sep: "c \<notin> set s \<Longrightarrow> split_on c s = [s]"
  by (induction s) auto

lemma split_on_append:
  "c \<notin> set s \<Longrightarrow> split_on c (s @ c # t) = s # split_on c t"
  by (induction s) (auto split: list.splits)

lemma digit_char_not_colon: "d < 10 \<Longrightarrow> digit_char d \<noteq> CHR '':''"
proof -
  assume "d < 10"
  then have "d \<in> {0, 1, 2, 3, 4, 5, 6, 7, 8, 9}" by auto
  then show ?thesis by (auto simp: digit_char_def char_of_def bit_iff_odd)
qed

lemma nat_to_string_no_colon: "CHR '':'' \<notin> set (nat_to_string n)"
proof (induction n rule: nat_to_string.induct)
  case (1 n)
  then show ?case
    using digit_char_not_colon [of n] digit_char_not_colon [of "n mod 10"]
    by (subst nat_to_string.simps) auto
qed

section \<open>Ordered maps\<close>

declare sorted_list_of_fset.rep_eq [code]

text \<open>\<open>map.iter().filter_map(...)\<close> over the entries whose key satisfies a predicate,
  in key order.\<close>

definition values_where :: "('k::linorder \<Rightarrow> bool) \<Rightarrow> ('k, 'v) fmap \<Rightarrow> 'v list" where
  "values_where P m = map snd (filter (\<lambda>(k, v). P k) (sorted_list_of_fmap m))"

text \<open>The sum the code computes over such entries, as a sum over the map's domain.\<close>

definition fm_sum :: "('k \<Rightarrow> bool) \<Rightarrow> ('v \<Rightarrow> nat) \<Rightarrow> ('k, 'v) fmap \<Rightarrow> nat" where
  "fm_sum P f m = (\<Sum>k\<in>{k \<in> fset (fmdom m). P k}. f (the (fmlookup m k)))"

lemma finite_fm_dom [simp]: "finite {k \<in> fset (fmdom m). P k}"
  by (rule finite_subset [of _ "fset (fmdom m)"]) auto

lemma sum_values_where: "sum_list (map f (values_where P m)) = fm_sum P f m"
proof -
  let ?ks = "filter P (sorted_list_of_fset (fmdom m))"
  have "map f (values_where P m) = map (\<lambda>k. f (the (fmlookup m k))) ?ks"
    by (simp add: values_where_def sorted_list_of_fmap_def filter_map comp_def)
  moreover have "distinct ?ks"
    by (simp add: sorted_list_of_fset.rep_eq)
  moreover have "set ?ks = {k \<in> fset (fmdom m). P k}"
    by auto
  ultimately show ?thesis
    unfolding fm_sum_def by (metis sum_list_distinct_conv_sum_set)
qed

lemma in_values_where:
  "v \<in> set (values_where P m) \<longleftrightarrow> (\<exists>k. P k \<and> fmlookup m k = Some v)"
  by (force simp: values_where_def sorted_list_of_fmap_def fmlookup_dom_iff image_iff)

text \<open>Writing one entry exchanges that entry's share of the sum.\<close>

lemma fm_sum_upd_other [simp]: "\<not> P k \<Longrightarrow> fm_sum P f (fmupd k v m) = fm_sum P f m"
  unfolding fm_sum_def by (rule sum.cong) auto

lemma fm_sum_upd:
  assumes "P k"
  shows "fm_sum P f (fmupd k v m) + (case fmlookup m k of None \<Rightarrow> 0 | Some w \<Rightarrow> f w)
       = fm_sum P f m + f v"
proof -
  let ?A = "{x \<in> fset (fmdom m). P x}"
  have dom: "{x \<in> fset (fmdom (fmupd k v m)). P x} = insert k (?A - {k})"
    using assms by auto
  have new: "fm_sum P f (fmupd k v m) = f v + (\<Sum>x\<in>?A - {k}. f (the (fmlookup m x)))"
    unfolding fm_sum_def dom by (subst sum.insert) (auto intro!: sum.cong split: if_splits)
  show ?thesis
  proof (cases "fmlookup m k")
    case None
    then have "?A - {k} = ?A" by (auto simp: fmlookup_dom_iff)
    with None new show ?thesis by (simp add: fm_sum_def)
  next
    case (Some w)
    then have "k \<in> ?A" using assms by (auto simp: fmlookup_dom_iff)
    then have "fm_sum P f m = f w + (\<Sum>x\<in>?A - {k}. f (the (fmlookup m x)))"
      unfolding fm_sum_def using Some by (subst sum.remove [of _ k]) simp_all
    with Some new show ?thesis by simp
  qed
qed

lemma fm_sum_cong:
  assumes "\<And>k. P k \<Longrightarrow> fmlookup m k = fmlookup m' k"
  shows "fm_sum P f m = fm_sum P f m'"
proof -
  have "{k \<in> fset (fmdom m). P k} = {k \<in> fset (fmdom m'). P k}"
    using assms by (auto simp: fmlookup_dom_iff)
  then show ?thesis
    unfolding fm_sum_def using assms by (auto intro: sum.cong)
qed

lemma fm_sum_member:
  assumes "P k" and "fmlookup m k = Some v"
  shows "f v \<le> fm_sum P f m"
proof -
  have "k \<in> {k \<in> fset (fmdom m). P k}"
    using assms by (auto simp: fmlookup_dom_iff)
  then show ?thesis
    unfolding fm_sum_def using assms(2)
      member_le_sum [of k "{k \<in> fset (fmdom m). P k}" "\<lambda>k. f (the (fmlookup m k))"] by simp
qed

section \<open>Fallible iteration and string splitting\<close>

text \<open>\<open>iter.map(f).collect::<Result<Vec<_>, _>>()\<close>: the first error wins.\<close>

fun try_map :: "('a \<Rightarrow> 'e + 'b) \<Rightarrow> 'a list \<Rightarrow> 'e + 'b list" where
  "try_map f [] = Inr []"
| "try_map f (x # xs) =
     (case f x of Inl e \<Rightarrow> Inl e
      | Inr y \<Rightarrow> (case try_map f xs of Inl e \<Rightarrow> Inl e | Inr ys \<Rightarrow> Inr (y # ys)))"

lemma try_map_Inr: "try_map f xs = Inr ys \<longleftrightarrow> list_all2 (\<lambda>x y. f x = Inr y) xs ys"
proof (induction xs arbitrary: ys)
  case (Cons x xs)
  have "try_map f xs = Inl e \<Longrightarrow> \<not> list_all2 (\<lambda>x y. f x = Inr y) xs zs" for e zs
    by (simp flip: Cons)
  then show ?case
    by (cases "f x"; cases "try_map f xs") (auto simp: list_all2_Cons1 simp flip: Cons)
qed auto

text \<open>\<open>str::split_once\<close> with a nonempty pattern.\<close>

fun split_once :: "string \<Rightarrow> string \<Rightarrow> (string \<times> string) option" where
  "split_once pat [] = None"
| "split_once pat (c # cs) =
     (if take (length pat) (c # cs) = pat then Some ([], drop (length pat) (c # cs))
      else map_option (\<lambda>(a, b). (c # a, b)) (split_once pat cs))"

lemma split_once_Some:
  assumes "split_once pat s = Some (a, b)"
  shows "s = a @ pat @ b"
  using assms
proof (induction pat s arbitrary: a b rule: split_once.induct)
  case (2 pat c cs)
  show ?case
  proof (cases "take (length pat) (c # cs) = pat")
    case True
    with 2(2) have "a = []" "b = drop (length pat) (c # cs)" by auto
    with True show ?thesis by (metis append_Nil append_take_drop_id)
  next
    case False
    with 2 show ?thesis by auto
  qed
qed simp

end
