(* ===== verification/Aspect_Ir.thy ===== *)
theory Aspect_Ir
  imports Detta_Prelude
begin

text \<open>
  The data of the aspect language (\<open>detta-aspects\<close>): S-expressions, the intermediate
  representation of a module and the tables it is made of. Field names carry a short
  prefix for the struct they belong to.
\<close>

datatype expr = Atom string | List "expr list"

record aspect_def =
  ad_aspect :: string
  ad_is_abstract :: bool
  ad_extends :: "string fset"
  ad_conflicts :: "string fset"
  ad_provides :: "string fset"
  ad_requires :: "string fset"

record bundle_def =
  bd_bundle :: string
  bd_includes :: "string fset"
  bd_extends :: "string fset"
  bd_constraints :: "(string, expr) fmap"

record projection_def =
  pd_bundle :: string
  pd_projection :: string
  pd_expr :: expr

record action_def =
  act_aspect :: string
  act_action :: string
  act_declared :: bool
  act_body :: "expr option"

record state_schema =
  ss_aspect :: string
  ss_state :: string
  ss_type_expr :: expr

record registry_schema =
  rs_aspect :: string
  rs_registry :: string
  rs_type_expr :: expr

record invariant_def =
  ivd_aspect :: string
  ivd_invariant :: string
  ivd_expr :: expr

record method_abi_def =
  abi_bundle :: string
  abi_projection :: string
  abi_args :: expr
  abi_return_type :: expr

datatype contract_call_target = AnyTarget | ExactTarget string

record contract_call_pattern =
  ccp_target :: contract_call_target
  ccp_method :: string

record contract_state_read_pattern =
  csr_target :: contract_call_target
  csr_state :: string

datatype authority_kind =
    AkTxSender | AkMsgSender | AkRoleGrant | AkAllowance | AkPermitCertificate
  | AkOracleUpdaterGrant | AkBridgeCertificate | AkGovernanceAdminGrant | AkCustom string

datatype effect_kind =
    ReadState | WriteState | ReadRegistry | WriteRegistry | ConsumeRegistryGrant
  | EmitEvent | CallContract | DeployContract | EkScheduleUpgrade | EkExecuteUpgrade
  | EkCrossShardOutboxAppend | UsePermitCertificate | UseBridgeCertificate | EkAbort

record method_policy_ir =
  mpi_bundle :: string
  mpi_projection :: string
  mpi_authority :: authority_kind
  mpi_effects :: "effect_kind fset"
  mpi_invariants :: "string fset"
  mpi_call_allowlist :: "contract_call_pattern fset"
  mpi_read_allowlist :: "contract_state_read_pattern fset"

record aspect_module_ir =
  ir_taxonomy_version :: string
  ir_source_root :: string
  ir_types :: "(string, expr) fmap"
  ir_aspects :: "(string, aspect_def) fmap"
  ir_bundles :: "(string, bundle_def) fmap"
  ir_projections :: "(string, projection_def) fmap"
  ir_actions :: "(string, action_def) fmap"
  ir_storage_schema :: "(string, state_schema) fmap"
  ir_registry_schema :: "(string, registry_schema) fmap"
  ir_invariants :: "(string, invariant_def) fmap"
  ir_abi :: "(string, method_abi_def) fmap"
  ir_policies :: "(string, method_policy_ir) fmap"

record artifact_roots =
  ar_ir_root :: string
  ar_abi_root :: string
  ar_policy_root :: string
  ar_storage_schema_root :: string
  ar_registry_schema_root :: string
  ar_invariant_root :: string

record verified_aspect_module =
  vm_ir :: aspect_module_ir
  vm_bundle_aspect_closures :: "(string, string fset) fmap"
  vm_roots :: artifact_roots

text \<open>\<open>format!("\{namespace\}::\{name\}")\<close>\<close>

definition qualified_symbol :: "string \<Rightarrow> string \<Rightarrow> string" where
  "qualified_symbol namespace name = namespace @ ''::'' @ name"

section \<open>Values and host operations of the aspect runtime\<close>

datatype aspect_value = AvUnit | AvBool bool | AvAmount u128 | AvAtom string

datatype aspect_host_op =
    StateGet string "string list"
  | ContractStateGet string string "string list"
  | StateSet string "string list" aspect_value
  | RegistryGet string
  | RegistrySet string aspect_value
  | RegistryConsume string aspect_value
  | Emit string
  | OpCallContract string string "aspect_value list"
  | PermitVerify string string string u128 string
  | BridgeVerify string string string string u128 string
  | OpCrossShardOutboxAppend string string string string string u128

end
