(* ===== verification/Detta_Types.thy ===== *)
theory Detta_Types
  imports Aspect_Ir
begin

text \<open>
  The data of \<open>detta-core\<close>: identifiers, methods and arguments, storage keys and grants,
  contract records and their policies, transactions, events, receipts, blocks, proofs and
  the replicated state \<open>DeTTaState\<close>. Enumerations keep the source's constructor names
  and are used qualified (\<open>call_method.Transfer\<close> for \<open>Method::Transfer\<close>); struct fields carry
  a short prefix where the same field name occurs in several structs.

  The orders that \<open>#[derive(Ord)]\<close> gives (variant first, then the fields from left to
  right, strings bytewise) are those of an encoding into \<open>nat \<times> string list\<close>.
\<close>

type_synonym chain_id = string
type_synonym contract_id = string
type_synonym principal = string
type_synonym asset_id = string
type_synonym tx_hash = string
type_synonym nonce = u64
type_synonym amount = u128

section \<open>Methods and arguments\<close>

datatype call_method =
    Transfer | Approve | TransferFrom | Permit | AddLiquidity | Swap | SubmitPrice
  | QueueBridgeMessage | RedeemBridgeMessage | PauseContract | UnpauseContract
  | ScheduleUpgrade | ExecuteUpgrade | SchedulePolicyUpdate | ExecutePolicyUpdate
  | DepositCollateral | Borrow | Liquidate | Stake | Unstake | RequestUnstake
  | CompleteUnstake | ClaimStakingRewards | RouteTransferFrom | DeployToken | DeployAmmPool
  | SubmitAspectModule | DeployAspectContract | RegisterAccountKey | RevokeAccountKey
  | Other string

datatype argument =
    Principal principal | Asset asset_id | Amount amount | Text string | Certificate string

section \<open>Storage keys\<close>

datatype state_key =
    Balance contract_id principal asset_id
  | TotalSupply contract_id asset_id
  | Reserve contract_id asset_id
  | AmmFeeCollected contract_id asset_id
  | LpSupply contract_id
  | LpBalance contract_id principal
  | OraclePrice contract_id asset_id
  | OracleTimestamp contract_id asset_id
  | BridgeMessageConsumed contract_id string
  | Collateral contract_id principal asset_id
  | Debt contract_id principal asset_id
  | DebtLastAccrualHeight contract_id principal asset_id
  | BadDebt contract_id asset_id
  | StakeBalance contract_id principal asset_id
  | TotalStaked contract_id asset_id
  | PendingUnbond contract_id principal asset_id
  | TotalPendingUnbond contract_id asset_id
  | StakingPenaltyCollected contract_id asset_id
  | UnbondReadyHeight contract_id principal asset_id
  | StakingRewardBalance contract_id principal asset_id
  | StakingLastRewardHeight contract_id principal asset_id
  | AspectState contract_id string string "string list"

fun owner_contract :: "state_key \<Rightarrow> contract_id" where
  "owner_contract (Balance c _ _) = c"
| "owner_contract (TotalSupply c _) = c"
| "owner_contract (Reserve c _) = c"
| "owner_contract (AmmFeeCollected c _) = c"
| "owner_contract (LpSupply c) = c"
| "owner_contract (LpBalance c _) = c"
| "owner_contract (OraclePrice c _) = c"
| "owner_contract (OracleTimestamp c _) = c"
| "owner_contract (BridgeMessageConsumed c _) = c"
| "owner_contract (Collateral c _ _) = c"
| "owner_contract (Debt c _ _) = c"
| "owner_contract (DebtLastAccrualHeight c _ _) = c"
| "owner_contract (BadDebt c _) = c"
| "owner_contract (StakeBalance c _ _) = c"
| "owner_contract (TotalStaked c _) = c"
| "owner_contract (PendingUnbond c _ _) = c"
| "owner_contract (TotalPendingUnbond c _) = c"
| "owner_contract (StakingPenaltyCollected c _) = c"
| "owner_contract (UnbondReadyHeight c _ _) = c"
| "owner_contract (StakingRewardBalance c _ _) = c"
| "owner_contract (StakingLastRewardHeight c _ _) = c"
| "owner_contract (AspectState c _ _ _) = c"

fun state_key_code :: "state_key \<Rightarrow> nat \<times> string list" where
  "state_key_code (Balance c p a) = (0, [c, p, a])"
| "state_key_code (TotalSupply c a) = (1, [c, a])"
| "state_key_code (Reserve c a) = (2, [c, a])"
| "state_key_code (AmmFeeCollected c a) = (3, [c, a])"
| "state_key_code (LpSupply c) = (4, [c])"
| "state_key_code (LpBalance c p) = (5, [c, p])"
| "state_key_code (OraclePrice c a) = (6, [c, a])"
| "state_key_code (OracleTimestamp c a) = (7, [c, a])"
| "state_key_code (BridgeMessageConsumed c m) = (8, [c, m])"
| "state_key_code (Collateral c p a) = (9, [c, p, a])"
| "state_key_code (Debt c p a) = (10, [c, p, a])"
| "state_key_code (DebtLastAccrualHeight c p a) = (11, [c, p, a])"
| "state_key_code (BadDebt c a) = (12, [c, a])"
| "state_key_code (StakeBalance c p a) = (13, [c, p, a])"
| "state_key_code (TotalStaked c a) = (14, [c, a])"
| "state_key_code (PendingUnbond c p a) = (15, [c, p, a])"
| "state_key_code (TotalPendingUnbond c a) = (16, [c, a])"
| "state_key_code (StakingPenaltyCollected c a) = (17, [c, a])"
| "state_key_code (UnbondReadyHeight c p a) = (18, [c, p, a])"
| "state_key_code (StakingRewardBalance c p a) = (19, [c, p, a])"
| "state_key_code (StakingLastRewardHeight c p a) = (20, [c, p, a])"
| "state_key_code (AspectState c as st ks) = (21, c # as # st # ks)"

lemma state_key_code_inj: "state_key_code a = state_key_code b \<Longrightarrow> a = b"
  by (cases a; cases b) simp_all

instantiation state_key :: linorder
begin

definition less_eq_state_key :: "state_key \<Rightarrow> state_key \<Rightarrow> bool" where
  "a \<le> b \<longleftrightarrow> state_key_code a \<le> state_key_code b"

definition less_state_key :: "state_key \<Rightarrow> state_key \<Rightarrow> bool" where
  "a < b \<longleftrightarrow> state_key_code a < state_key_code b"

instance
  by standard
    (auto simp: less_eq_state_key_def less_state_key_def dest: state_key_code_inj intro: order.trans)

end

datatype state_value = UInt amount

fun as_uint :: "state_value \<Rightarrow> amount" where
  "as_uint (UInt v) = v"

section \<open>Grants\<close>

datatype grant_right = SpendAllowance | UpdateOracle | GovernanceAdmin | SubmitTransaction

datatype grant_key =
    AccountSigner principal string
  | Allowance contract_id principal principal asset_id
  | OracleUpdaterKey contract_id principal
  | GovernanceAdminKey contract_id principal

fun grant_key_code :: "grant_key \<Rightarrow> nat \<times> string list" where
  "grant_key_code (AccountSigner p k) = (0, [p, k])"
| "grant_key_code (Allowance c p q a) = (1, [c, p, q, a])"
| "grant_key_code (OracleUpdaterKey c p) = (2, [c, p])"
| "grant_key_code (GovernanceAdminKey c p) = (3, [c, p])"

lemma grant_key_code_inj: "grant_key_code a = grant_key_code b \<Longrightarrow> a = b"
  by (cases a; cases b) simp_all

instantiation grant_key :: linorder
begin

definition less_eq_grant_key :: "grant_key \<Rightarrow> grant_key \<Rightarrow> bool" where
  "a \<le> b \<longleftrightarrow> grant_key_code a \<le> grant_key_code b"

definition less_grant_key :: "grant_key \<Rightarrow> grant_key \<Rightarrow> bool" where
  "a < b \<longleftrightarrow> grant_key_code a < grant_key_code b"

instance
  by standard
    (auto simp: less_eq_grant_key_def less_grant_key_def dest: grant_key_code_inj intro: order.trans)

end

record grant =
  g_issuer :: principal
  g_subject :: principal
  g_rights :: "grant_right fset"
  g_limit :: "amount option"
  g_spent :: amount
  g_active :: bool
  g_revoked :: bool

definition grant_allowance :: "principal \<Rightarrow> principal \<Rightarrow> amount \<Rightarrow> grant" where
  "grant_allowance owner spender amt =
     \<lparr>g_issuer = owner, g_subject = spender, g_rights = {|SpendAllowance|}, g_limit = Some amt,
      g_spent = 0, g_active = True, g_revoked = False\<rparr>"

definition grant_oracle_updater :: "principal \<Rightarrow> grant" where
  "grant_oracle_updater subject =
     \<lparr>g_issuer = subject, g_subject = subject, g_rights = {|UpdateOracle|}, g_limit = None,
      g_spent = 0, g_active = True, g_revoked = False\<rparr>"

definition grant_governance_admin :: "principal \<Rightarrow> grant" where
  "grant_governance_admin subject =
     \<lparr>g_issuer = subject, g_subject = subject, g_rights = {|GovernanceAdmin|}, g_limit = None,
      g_spent = 0, g_active = True, g_revoked = False\<rparr>"

definition grant_account_signer :: "principal \<Rightarrow> grant" where
  "grant_account_signer account =
     \<lparr>g_issuer = account, g_subject = account, g_rights = {|SubmitTransaction|}, g_limit = None,
      g_spent = 0, g_active = True, g_revoked = False\<rparr>"

definition grant_remaining :: "grant \<Rightarrow> amount" where
  "grant_remaining g =
     (case g_limit g of None \<Rightarrow> - 1 | Some limit \<Rightarrow> saturating_sub limit (g_spent g))"

section \<open>Contract records and policies\<close>

record aspect_module_record =
  amr_module_id :: string
  amr_module_hash :: string
  amr_taxonomy_version :: string
  amr_source_root :: string
  amr_canonical_source :: "string option"
  amr_ir_root :: string
  amr_ir :: "aspect_module_ir option"
  amr_abi_root :: string
  amr_policy_root :: string
  amr_storage_schema_root :: string
  amr_registry_schema_root :: string
  amr_invariant_root :: string

record aspect_module_roots =
  mr_source_root :: string
  mr_ir_root :: string
  mr_abi_root :: string
  mr_policy_root :: string
  mr_storage_schema_root :: string
  mr_registry_schema_root :: string
  mr_invariant_root :: string

record scheduled_upgrade =
  su_upgrade_id :: string
  su_governance_contract :: contract_id
  su_target_contract :: contract_id
  su_new_code_hash :: string
  su_execute_after_height :: u64
  su_executed :: bool

datatype contract_kind =
    Token
  | AmmPool asset_id asset_id u64
  | Oracle asset_id u64
  | Bridge chain_id
  | Governance contract_id u64
  | LendingVault asset_id asset_id contract_id u64 u64 u64 u64
  | Staking asset_id u64 amount u64
  | Router contract_id
  | Factory
  | AccountRegistry
  | AspectModule string string string string string

datatype contract_invariant =
    TokenSupplyMatchesBalances | AmmPoolAssetsDistinct | AmmLpSupplyMatchesBalances
  | OracleUpdatesRequireLiveGrant | OracleFreshnessCheckedByConsumers
  | BridgeInboundMessagesConsumedOnce | BridgeOutboundMessageIdsUnique
  | GovernanceChangesRequireAdminGrant | GovernanceUpgradesRespectTimelock
  | LendingBorrowWithinCollateralLimit | StakingTotalMatchesBalances
  | StakingPendingUnbondingMatchesTotal | RouterDoesNotInheritCallerWriteScope
  | FactoryDeploymentsDeclarePolicies | AccountSignerKeysCanonical
  | AspectLocalInvariant string string string

datatype policy_authority =
    TxSender | LiveAllowanceGrant | PermitCertificate | OracleUpdaterGrant
  | BridgeCertificate | GovernanceAdminGrant

datatype policy_effect =
    StorageWrite | RegistryWrite | EventEmit | ModuleRegister | ContractPause
  | UpgradeSchedule | ContractCodeUpgrade | PolicyUpdateSchedule | MethodPolicyUpdate
  | CrossContractCall | CrossShardOutboxAppend | ContractDeploy

datatype reentrancy_mode = NonReentrant

record method_policy =
  pol_authority :: policy_authority
  pol_reentrancy :: reentrancy_mode
  pol_effects :: "policy_effect fset"
  pol_invariants :: "contract_invariant fset"

record scheduled_policy_update =
  spu_update_id :: string
  spu_governance_contract :: contract_id
  spu_target_contract :: contract_id
  spu_method :: call_method
  spu_effect :: policy_effect
  spu_execute_after_height :: u64
  spu_executed :: bool

record policy_key =
  pk_contract :: contract_id
  pk_method :: call_method

record contract_record =
  cr_contract_id :: contract_id
  cr_code_hash :: string
  cr_kind :: contract_kind
  cr_exported_methods :: "call_method fset"
  cr_method_policies :: "(call_method, method_policy) fmap"
  cr_declared_invariants :: "contract_invariant fset"

record invariant_failure =
  if_contract :: contract_id
  if_invariant :: contract_invariant

fun method_code :: "call_method \<Rightarrow> nat \<times> string list" where
  "method_code Transfer = (0, [])"
| "method_code Approve = (1, [])"
| "method_code TransferFrom = (2, [])"
| "method_code Permit = (3, [])"
| "method_code AddLiquidity = (4, [])"
| "method_code Swap = (5, [])"
| "method_code SubmitPrice = (6, [])"
| "method_code QueueBridgeMessage = (7, [])"
| "method_code RedeemBridgeMessage = (8, [])"
| "method_code PauseContract = (9, [])"
| "method_code UnpauseContract = (10, [])"
| "method_code ScheduleUpgrade = (11, [])"
| "method_code ExecuteUpgrade = (12, [])"
| "method_code SchedulePolicyUpdate = (13, [])"
| "method_code ExecutePolicyUpdate = (14, [])"
| "method_code DepositCollateral = (15, [])"
| "method_code Borrow = (16, [])"
| "method_code Liquidate = (17, [])"
| "method_code Stake = (18, [])"
| "method_code Unstake = (19, [])"
| "method_code RequestUnstake = (20, [])"
| "method_code CompleteUnstake = (21, [])"
| "method_code ClaimStakingRewards = (22, [])"
| "method_code RouteTransferFrom = (23, [])"
| "method_code DeployToken = (24, [])"
| "method_code DeployAmmPool = (25, [])"
| "method_code SubmitAspectModule = (26, [])"
| "method_code DeployAspectContract = (27, [])"
| "method_code RegisterAccountKey = (28, [])"
| "method_code RevokeAccountKey = (29, [])"
| "method_code (Other n) = (30, [n])"

lemma method_code_inj: "method_code a = method_code b \<Longrightarrow> a = b"
  by (cases a; cases b) simp_all

instantiation call_method :: linorder
begin

definition less_eq_call_method :: "call_method \<Rightarrow> call_method \<Rightarrow> bool" where
  "a \<le> b \<longleftrightarrow> method_code a \<le> method_code b"

definition less_call_method :: "call_method \<Rightarrow> call_method \<Rightarrow> bool" where
  "a < b \<longleftrightarrow> method_code a < method_code b"

instance
  by standard
    (auto simp: less_eq_call_method_def less_call_method_def dest: method_code_inj intro: order.trans)

end

fun contract_invariant_code :: "contract_invariant \<Rightarrow> nat \<times> string list" where
  "contract_invariant_code TokenSupplyMatchesBalances = (0, [])"
| "contract_invariant_code AmmPoolAssetsDistinct = (1, [])"
| "contract_invariant_code AmmLpSupplyMatchesBalances = (2, [])"
| "contract_invariant_code OracleUpdatesRequireLiveGrant = (3, [])"
| "contract_invariant_code OracleFreshnessCheckedByConsumers = (4, [])"
| "contract_invariant_code BridgeInboundMessagesConsumedOnce = (5, [])"
| "contract_invariant_code BridgeOutboundMessageIdsUnique = (6, [])"
| "contract_invariant_code GovernanceChangesRequireAdminGrant = (7, [])"
| "contract_invariant_code GovernanceUpgradesRespectTimelock = (8, [])"
| "contract_invariant_code LendingBorrowWithinCollateralLimit = (9, [])"
| "contract_invariant_code StakingTotalMatchesBalances = (10, [])"
| "contract_invariant_code StakingPendingUnbondingMatchesTotal = (11, [])"
| "contract_invariant_code RouterDoesNotInheritCallerWriteScope = (12, [])"
| "contract_invariant_code FactoryDeploymentsDeclarePolicies = (13, [])"
| "contract_invariant_code AccountSignerKeysCanonical = (14, [])"
| "contract_invariant_code (AspectLocalInvariant h a i) = (15, [h, a, i])"

lemma contract_invariant_code_inj:
  "contract_invariant_code a = contract_invariant_code b \<Longrightarrow> a = b"
  by (cases a; cases b) simp_all

instantiation contract_invariant :: linorder
begin

definition less_eq_contract_invariant :: "contract_invariant \<Rightarrow> contract_invariant \<Rightarrow> bool" where
  "a \<le> b \<longleftrightarrow> contract_invariant_code a \<le> contract_invariant_code b"

definition less_contract_invariant :: "contract_invariant \<Rightarrow> contract_invariant \<Rightarrow> bool" where
  "a < b \<longleftrightarrow> contract_invariant_code a < contract_invariant_code b"

instance
  by standard
    (auto simp: less_eq_contract_invariant_def less_contract_invariant_def
      dest: contract_invariant_code_inj intro: order.trans)

end

section \<open>Errors\<close>

datatype execution_error =
    ChainMismatch | InvalidSignature | NonceReplay | TransactionExpired | ContractNotFound
  | MethodNotExported | InvalidArguments | PolicyMissing | RegistryGrantMissing
  | RegistryGrantInactive | RegistryGrantRevoked | RegistryRightMissing | AllowanceExceeded
  | InsufficientBalance | InsufficientLiquidity | SlippageExceeded | InvalidPoolAsset
  | UnauthorizedOracleUpdater | StaleOraclePrice | InvalidBridgeMessage
  | BridgeMessageReplay | OutboundMessageReplay | UnauthorizedGovernance | ContractIsPaused
  | UpgradeAlreadyScheduled | UpgradeNotFound | UpgradeAlreadyExecuted | TimelockNotReady
  | MigrationInvariantViolation | PolicyUpdateAlreadyScheduled | PolicyUpdateNotFound
  | PolicyUpdateAlreadyExecuted | OutOfGas | InsufficientCollateral | InsufficientStake
  | ArithmeticOverflow | WriteScopeViolation | ContractIsolationViolation
  | ReentrancyViolation | InvariantViolation | InvalidCertificate | CertificateReplay
  | ForbiddenPrimitive | UnauthorizedContractCall | UnauthorizedContractStateRead

datatype block_error =
    BlockChainMismatch | PreviousBlockMismatch | TxRootMismatch | ReceiptRootMismatch
  | ReceiptMismatch | StorageRootMismatch | RegistryRootMismatch | PolicyRootMismatch
  | EventRootMismatch | NonceRootMismatch | OutboxRootMismatch | GlobalStateRootMismatch
  | ResourceLimitExceeded u64 u64

datatype mempool_error =
    MempoolChainMismatch | MempoolInvalidSignature | UnauthorizedSigner principal string
  | MempoolTransactionExpired u64 u64 | DuplicateTransaction | NonceAlreadyUsed
  | InsufficientBudget | TransactionTooLarge nat nat | PoolFull nat
  | SenderPendingLimitExceeded principal nat

datatype snapshot_error =
    SnapStorageRootMismatch | SnapRegistryRootMismatch | SnapPolicyRootMismatch
  | SnapEventRootMismatch | SnapNonceRootMismatch | SnapOutboxRootMismatch
  | SnapGlobalStateRootMismatch

section \<open>Transactions, events and receipts\<close>

record transaction =
  tx_chain_id :: chain_id
  tx_hash :: tx_hash
  tx_sender :: principal
  tx_nonce :: nonce
  tx_valid_until_height :: "u64 option"
  tx_target :: contract_id
  tx_method :: call_method
  tx_args :: "argument list"
  tx_signature_ok :: bool
  tx_budget :: u64

datatype event_payload =
    EvTransfer principal principal asset_id amount
  | EvApproval principal principal asset_id amount
  | EvLiquidityAdded principal asset_id amount asset_id amount amount
  | EvSwap principal asset_id asset_id amount amount amount
  | EvPriceUpdated principal asset_id amount u64
  | EvBridgeMessageRedeemed string principal asset_id amount
  | EvCrossShardMessageQueued string chain_id contract_id principal asset_id amount
  | EvContractPaused contract_id principal
  | EvContractUnpaused contract_id principal
  | EvUpgradeScheduled string contract_id string u64 principal
  | EvUpgradeExecuted string contract_id string string principal
  | EvPolicyUpdateScheduled string contract_id call_method policy_effect u64 principal
  | EvPolicyUpdateExecuted string contract_id call_method policy_effect string string principal
  | EvCollateralDeposited principal asset_id amount
  | EvBorrowed principal asset_id amount
  | EvLiquidated principal principal asset_id amount asset_id amount amount
  | EvStaked principal asset_id amount
  | EvUnstaked principal asset_id amount
  | EvUnstakeRequested principal asset_id amount u64
  | EvUnbondingCompleted principal asset_id amount
  | EvStakingRewardsClaimed principal asset_id amount
  | EvContractDeployed contract_id string string
  | EvAspectModuleSubmitted string string string
  | EvAspectEvent string string
  | EvAccountKeyRegistered principal string
  | EvAccountKeyRevoked principal string
  | EvStakingPenaltyApplied principal asset_id amount amount amount

record event =
  ev_contract :: contract_id
  ev_tx_hash :: tx_hash
  ev_index :: u64
  ev_payload :: event_payload

datatype tx_status = Committed | Reverted | Rejected

datatype return_value = RUnit | RUInt amount

record receipt =
  rc_tx_hash :: tx_hash
  rc_status :: tx_status
  rc_error :: "execution_error option"
  rc_return_value :: "return_value option"
  rc_resource_units_used :: u64
  rc_storage_root_after :: string
  rc_registry_root_after :: string
  rc_policy_root_after :: string
  rc_event_root_after :: string
  rc_nonce_root_after :: string
  rc_global_state_root_after :: string

section \<open>Blocks\<close>

record block_header =
  bh_chain_id :: chain_id
  bh_height :: u64
  bh_previous_block_hash :: string
  bh_tx_root :: string
  bh_receipt_root :: string
  bh_global_state_root :: string
  bh_storage_root :: string
  bh_registry_root :: string
  bh_policy_root :: string
  bh_event_root :: string
  bh_nonce_root :: string
  bh_outbox_root :: string
  bh_timestamp :: u64
  bh_proposer :: string
  bh_consensus_certificate :: string

record block =
  b_header :: block_header
  b_transactions :: "transaction list"
  b_receipts :: "receipt list"

section \<open>Messages, proofs and bridge certificates\<close>

record cross_shard_message =
  csm_source_chain :: chain_id
  csm_source_contract :: contract_id
  csm_source_height :: u64
  csm_destination_chain :: chain_id
  csm_destination_contract :: contract_id
  csm_message_id :: string
  csm_recipient :: principal
  csm_asset :: asset_id
  csm_amount :: amount

datatype sibling_side = LeftSide | RightSide

record merkle_step =
  ms_side :: sibling_side
  ms_hash :: string

record merkle_proof =
  mp_root :: string
  mp_leaf_hash :: string
  mp_index :: nat
  mp_leaf_count :: nat
  mp_path :: "merkle_step list"

record storage_proof =
  sp_key :: state_key
  sp_value :: state_value
  sp_proof :: merkle_proof

record storage_non_inclusion_proof =
  snp_key :: state_key
  snp_root :: string
  snp_leaf_count :: nat
  snp_predecessor :: "storage_proof option"
  snp_successor :: "storage_proof option"

record outbox_message_proof =
  omp_message :: cross_shard_message
  omp_proof :: merkle_proof

record cross_shard_finality_proof =
  cfp_source_chain :: chain_id
  cfp_source_height :: u64
  cfp_finalized_block_hash :: string
  cfp_outbox_root :: string
  cfp_quorum :: nat
  cfp_signers :: "principal list"
  cfp_message_proof :: outbox_message_proof

record bridge_validator_set =
  bvs_source_chain :: chain_id
  bvs_validators :: "principal fset"
  bvs_quorum :: nat

record expected_bridge_message =
  ebm_destination_chain :: chain_id
  ebm_destination_contract :: contract_id
  ebm_source_chain :: chain_id
  ebm_message_id :: string
  ebm_recipient :: principal
  ebm_asset :: asset_id
  ebm_amount :: amount

section \<open>The replicated state\<close>

record detta_state =
  chain_id :: chain_id
  height :: u64
  finalized_block_hash :: string
  contracts :: "(contract_id, contract_record) fmap"
  aspect_modules :: "(string, aspect_module_record) fmap"
  storage :: "(state_key, state_value) fmap"
  registry :: "(grant_key, grant) fmap"
  used_nonces :: "(principal \<times> nonce) fset"
  used_certificate_nonces :: "string fset"
  paused_contracts :: "contract_id fset"
  scheduled_upgrades :: "(string, scheduled_upgrade) fmap"
  scheduled_policy_updates :: "(string, scheduled_policy_update) fmap"
  trusted_bridge_validator_sets :: "(chain_id, bridge_validator_set) fmap"
  outbound_message_ids :: "string fset"
  cross_shard_outbox :: "cross_shard_message list"
  events :: "event list"

definition new_state :: "chain_id \<Rightarrow> detta_state" where
  "new_state chain =
     \<lparr>chain_id = chain, height = 0, finalized_block_hash = ''genesis'', contracts = fmempty,
      aspect_modules = fmempty, storage = fmempty, registry = fmempty, used_nonces = {||},
      used_certificate_nonces = {||}, paused_contracts = {||}, scheduled_upgrades = fmempty,
      scheduled_policy_updates = fmempty, trusted_bridge_validator_sets = fmempty,
      outbound_message_ids = {||}, cross_shard_outbox = [], events = []\<rparr>"

text \<open>The call context of one transaction travels with the state while it executes.\<close>

record call_frame =
  cf_tx_sender :: principal
  cf_msg_sender :: principal
  cf_contract :: contract_id
  cf_method :: call_method

record call_context =
  cc_tx_sender :: principal
  cc_stack :: "call_frame list"
  cc_active_nonreentrant_contracts :: "contract_id fset"

record exec_state = detta_state +
  call_ctx :: call_context

text \<open>The frame that authorises a handler's storage writes.\<close>

record authorized_frame =
  af_contract :: contract_id
  af_msg_sender :: principal
  af_write_scope :: "state_key fset"

end
