(* ===== verification/Commitments.thy ===== *)
theory Commitments
  imports Detta_Types
begin

text \<open>
  Hashing and Merkle commitments (\<open>root_of\<close>, \<open>merkle_root\<close>, \<open>merkle_proof\<close>,
  \<open>MerkleProof::verify\<close>, \<open>verify_non_inclusion\<close> of \<open>detta-core\<close>).

  SHA-256 (crate \<open>sha2\<close>) and the JSON serialiser and parser (crate \<open>serde_json\<close>) are
  third-party code. They are the fields of the record \<open>env\<close>, an argument of every
  definition that uses them: \<open>sha256\<close>, \<open>canonical_bytes\<close> (on the values that the code
  serialises, one constructor of \<open>serializable\<close> per type) and \<open>parse_finality_proof\<close>.
  The parser and verifier of the aspect language are fields too.
\<close>

section \<open>The environment\<close>

record global_commitment =
  gc_chain_id :: chain_id
  gc_height :: u64
  gc_contracts :: "(contract_id, contract_record) fmap"
  gc_aspect_module_root :: string
  gc_storage_root :: string
  gc_registry_root :: string
  gc_policy_root :: string
  gc_used_nonces :: "(principal \<times> nonce) fset"
  gc_used_certificate_nonces :: "string fset"
  gc_paused_contracts :: "contract_id fset"
  gc_scheduled_upgrades :: "(string, scheduled_upgrade) fmap"
  gc_scheduled_policy_updates :: "(string, scheduled_policy_update) fmap"
  gc_trusted_bridge_validator_sets :: "(chain_id, bridge_validator_set) fmap"
  gc_outbound_message_ids :: "string fset"
  gc_outbox_root :: string
  gc_event_root :: string

text \<open>\<open>SerTuple\<close> is a tuple of strings followed by unsigned integers, the shape of every
  code-hash preimage.\<close>

datatype serializable =
    SerStorageEntry state_key state_value
  | SerRegistryEntry grant_key grant
  | SerPolicyEntry policy_key method_policy
  | SerModuleEntry string aspect_module_record
  | SerEvent event
  | SerMessage cross_shard_message
  | SerTransaction transaction
  | SerReceipt receipt
  | SerHeader block_header
  | SerNonces "(principal \<times> nonce) fset" "string fset"
  | SerGlobal global_commitment
  | SerTuple "string list" "nat list"
  | SerTrace "aspect_host_op list"

record env =
  sha256 :: "u8 list \<Rightarrow> u8 list"
  canonical_bytes :: "serializable \<Rightarrow> u8 list"
  parse_finality_proof :: "string \<Rightarrow> cross_shard_finality_proof option"
  parse_verify_module ::
    "string \<Rightarrow> (string \<times> aspect_module_ir \<times> verified_aspect_module) option"
  verify_module :: "aspect_module_ir \<Rightarrow> verified_aspect_module option"

section \<open>Hexadecimal\<close>

unbundle bit_operations_syntax

definition as_bytes :: "string \<Rightarrow> u8 list" where
  "as_bytes s = map of_char s"

definition hex_table :: string where
  "hex_table = ''0123456789abcdef''"

definition hex_lower :: "u8 list \<Rightarrow> string" where
  "hex_lower bytes =
     concat (map (\<lambda>b. [hex_table ! unat (drop_bit 4 b), hex_table ! unat (b AND 0x0f)]) bytes)"

definition hex_value :: "u8 \<Rightarrow> u8 option" where
  "hex_value v =
     (if 48 \<le> v \<and> v \<le> 57 then Some (v - 48)
      else if 97 \<le> v \<and> v \<le> 102 then Some (v - 97 + 10)
      else if 65 \<le> v \<and> v \<le> 70 then Some (v - 65 + 10)
      else None)"

fun hex_pairs :: "u8 list \<Rightarrow> u8 list option" where
  "hex_pairs (h # l # rest) =
     (case hex_value h of None \<Rightarrow> None
      | Some high \<Rightarrow> (case hex_value l of None \<Rightarrow> None
        | Some low \<Rightarrow> map_option (\<lambda>bs. (push_bit 4 high OR low) # bs) (hex_pairs rest)))"
| "hex_pairs _ = Some []"

definition hex_to_bytes :: "string \<Rightarrow> u8 list option" where
  "hex_to_bytes s = (if length s mod 2 \<noteq> 0 then None else hex_pairs (as_bytes s))"

definition to_be_bytes :: "u64 \<Rightarrow> u8 list" where
  "to_be_bytes x = map (\<lambda>i. ucast (drop_bit (8 * i) x)) [7, 6, 5, 4, 3, 2, 1, 0]"

section \<open>Merkle trees\<close>

definition root_of :: "env \<Rightarrow> serializable \<Rightarrow> string" where
  "root_of E v = hex_lower (sha256 E (canonical_bytes E v))"

definition leaf_preimage :: "u8 list \<Rightarrow> u8 list" where
  "leaf_preimage bytes =
     as_bytes ''detta-merkle-leaf'' @ to_be_bytes (of_nat (length bytes)) @ bytes"

definition node_preimage :: "u8 list \<Rightarrow> u8 list \<Rightarrow> u8 list" where
  "node_preimage l r =
     as_bytes ''detta-merkle-node'' @ to_be_bytes (of_nat (length l)) @ l
       @ to_be_bytes (of_nat (length r)) @ r"

definition empty_preimage :: "u8 list" where
  "empty_preimage = as_bytes ''detta-empty-merkle-root''"

definition merkle_leaf :: "env \<Rightarrow> serializable \<Rightarrow> u8 list" where
  "merkle_leaf E v = sha256 E (leaf_preimage (canonical_bytes E v))"

definition merkle_node :: "env \<Rightarrow> u8 list \<Rightarrow> u8 list \<Rightarrow> u8 list" where
  "merkle_node E l r = sha256 E (node_preimage l r)"

fun next_merkle_level :: "env \<Rightarrow> u8 list list \<Rightarrow> u8 list list" where
  "next_merkle_level E [] = []"
| "next_merkle_level E [l] = [merkle_node E l l]"
| "next_merkle_level E (l # r # rest) = merkle_node E l r # next_merkle_level E rest"

lemma length_next_merkle_level [simp]:
  "length (next_merkle_level E level) = (length level + 1) div 2"
  by (induction E level rule: next_merkle_level.induct) auto

function merkle_fold :: "env \<Rightarrow> u8 list list \<Rightarrow> u8 list" where
  "merkle_fold E level =
     (if 1 < length level then merkle_fold E (next_merkle_level E level) else hd level)"
  by pat_completeness auto
termination
  by (relation "measure (\<lambda>(E, level). length level)") auto

declare merkle_fold.simps [simp del]

definition merkle_root_bytes :: "env \<Rightarrow> u8 list list \<Rightarrow> u8 list" where
  "merkle_root_bytes E leaves =
     (if leaves = [] then sha256 E empty_preimage
      else merkle_fold E leaves)"

definition merkle_root :: "env \<Rightarrow> serializable list \<Rightarrow> string" where
  "merkle_root E values = hex_lower (merkle_root_bytes E (map (merkle_leaf E) values))"

definition sibling_index :: "nat \<Rightarrow> nat \<Rightarrow> nat" where
  "sibling_index n current =
     (if current mod 2 = 0 then (if current + 1 < n then current + 1 else current)
      else current - 1)"

function merkle_path :: "env \<Rightarrow> u8 list list \<Rightarrow> nat \<Rightarrow> merkle_step list" where
  "merkle_path E level current =
     (if 1 < length level then
        (let sibling = sibling_index (length level) current in
         \<lparr>ms_side = (if sibling < current then LeftSide else RightSide),
          ms_hash = hex_lower (level ! sibling)\<rparr>
         # merkle_path E (next_merkle_level E level) (current div 2))
      else [])"
  by pat_completeness auto
termination
  by (relation "measure (\<lambda>(E, level, current). length level)") auto

declare merkle_path.simps [simp del]

definition make_merkle_proof :: "env \<Rightarrow> serializable list \<Rightarrow> nat \<Rightarrow> merkle_proof option" where
  "make_merkle_proof E values index =
     (if length values \<le> index then None
      else let leaves = map (merkle_leaf E) values in
        Some \<lparr>mp_root = hex_lower (merkle_root_bytes E leaves),
              mp_leaf_hash = hex_lower (leaves ! index),
              mp_index = index, mp_leaf_count = length values,
              mp_path = merkle_path E leaves index\<rparr>)"

definition merkle_step_up :: "env \<Rightarrow> merkle_step \<Rightarrow> u8 list \<Rightarrow> u8 list option" where
  "merkle_step_up E step current =
     map_option (\<lambda>sibling. case ms_side step of
         LeftSide \<Rightarrow> merkle_node E sibling current
       | RightSide \<Rightarrow> merkle_node E current sibling) (hex_to_bytes (ms_hash step))"

fun merkle_climb :: "env \<Rightarrow> merkle_step list \<Rightarrow> u8 list \<Rightarrow> u8 list option" where
  "merkle_climb E [] current = Some current"
| "merkle_climb E (step # path) current =
     (case merkle_step_up E step current of None \<Rightarrow> None
      | Some next \<Rightarrow> merkle_climb E path next)"

definition merkle_verify :: "env \<Rightarrow> merkle_proof \<Rightarrow> serializable \<Rightarrow> bool" where
  "merkle_verify E p v =
     (if mp_leaf_hash p \<noteq> hex_lower (merkle_leaf E v) then False
      else case hex_to_bytes (mp_leaf_hash p) of None \<Rightarrow> False
        | Some bytes \<Rightarrow> (case merkle_climb E (mp_path p) bytes of None \<Rightarrow> False
            | Some current \<Rightarrow> hex_lower current = mp_root p))"

text \<open>\<open>verify_non_inclusion\<close>, on the neighbours' key, proof and validity.\<close>

definition verify_non_inclusion ::
  "env \<Rightarrow> 'k::linorder \<Rightarrow> string \<Rightarrow> nat \<Rightarrow> ('k \<times> merkle_proof \<times> bool) option
   \<Rightarrow> ('k \<times> merkle_proof \<times> bool) option \<Rightarrow> bool" where
  "verify_non_inclusion E key root leaf_count predecessor successor =
     (if leaf_count = 0 then
        predecessor = None \<and> successor = None \<and> root = merkle_root E []
      else case (predecessor, successor) of
        (Some (pred_key, pred_proof, pred_valid), Some (succ_key, succ_proof, succ_valid)) \<Rightarrow>
          pred_valid \<and> succ_valid \<and> pred_key < key \<and> key < succ_key
          \<and> mp_index pred_proof + 1 = mp_index succ_proof
          \<and> mp_leaf_count pred_proof = leaf_count \<and> mp_leaf_count succ_proof = leaf_count
      | (None, Some (succ_key, succ_proof, succ_valid)) \<Rightarrow>
          succ_valid \<and> key < succ_key \<and> mp_index succ_proof = 0
          \<and> mp_leaf_count succ_proof = leaf_count
      | (Some (pred_key, pred_proof, pred_valid), None) \<Rightarrow>
          pred_valid \<and> pred_key < key \<and> mp_index pred_proof + 1 = leaf_count
          \<and> mp_leaf_count pred_proof = leaf_count
      | (None, None) \<Rightarrow> False)"

definition storage_proof_verify :: "env \<Rightarrow> storage_proof \<Rightarrow> bool" where
  "storage_proof_verify E p =
     merkle_verify E (sp_proof p) (SerStorageEntry (sp_key p) (sp_value p))"

definition storage_neighbour ::
  "env \<Rightarrow> string \<Rightarrow> storage_proof \<Rightarrow> state_key \<times> merkle_proof \<times> bool" where
  "storage_neighbour E root p =
     (sp_key p, sp_proof p, storage_proof_verify E p \<and> mp_root (sp_proof p) = root)"

definition storage_non_inclusion_verify :: "env \<Rightarrow> storage_non_inclusion_proof \<Rightarrow> bool" where
  "storage_non_inclusion_verify E p =
     verify_non_inclusion E (snp_key p) (snp_root p) (snp_leaf_count p)
       (map_option (storage_neighbour E (snp_root p)) (snp_predecessor p))
       (map_option (storage_neighbour E (snp_root p)) (snp_successor p))"

record registry_proof =
  rp_key :: grant_key
  rp_grant :: grant
  rp_proof :: merkle_proof

record registry_non_inclusion_proof =
  rnp_key :: grant_key
  rnp_root :: string
  rnp_leaf_count :: nat
  rnp_predecessor :: "registry_proof option"
  rnp_successor :: "registry_proof option"

definition registry_proof_verify :: "env \<Rightarrow> registry_proof \<Rightarrow> bool" where
  "registry_proof_verify E p =
     merkle_verify E (rp_proof p) (SerRegistryEntry (rp_key p) (rp_grant p))"

definition registry_neighbour ::
  "env \<Rightarrow> string \<Rightarrow> registry_proof \<Rightarrow> grant_key \<times> merkle_proof \<times> bool" where
  "registry_neighbour E root p =
     (rp_key p, rp_proof p, registry_proof_verify E p \<and> mp_root (rp_proof p) = root)"

definition registry_non_inclusion_verify :: "env \<Rightarrow> registry_non_inclusion_proof \<Rightarrow> bool" where
  "registry_non_inclusion_verify E p =
     verify_non_inclusion E (rnp_key p) (rnp_root p) (rnp_leaf_count p)
       (map_option (registry_neighbour E (rnp_root p)) (rnp_predecessor p))
       (map_option (registry_neighbour E (rnp_root p)) (rnp_successor p))"

record aspect_module_proof =
  amp_module_hash :: string
  amp_module :: aspect_module_record
  amp_proof :: merkle_proof

definition aspect_module_proof_verify :: "env \<Rightarrow> aspect_module_proof \<Rightarrow> bool" where
  "aspect_module_proof_verify E p =
     merkle_verify E (amp_proof p) (SerModuleEntry (amp_module_hash p) (amp_module p))"

record event_proof =
  evp_event :: event
  evp_proof :: merkle_proof

definition event_proof_verify :: "env \<Rightarrow> event_proof \<Rightarrow> bool" where
  "event_proof_verify E p = merkle_verify E (evp_proof p) (SerEvent (evp_event p))"

record receipt_proof =
  rcp_receipt :: receipt
  rcp_proof :: merkle_proof

definition receipt_proof_verify :: "env \<Rightarrow> receipt_proof \<Rightarrow> bool" where
  "receipt_proof_verify E p = merkle_verify E (rcp_proof p) (SerReceipt (rcp_receipt p))"

definition outbox_message_proof_verify :: "env \<Rightarrow> outbox_message_proof \<Rightarrow> bool" where
  "outbox_message_proof_verify E p =
     merkle_verify E (omp_proof p) (SerMessage (omp_message p))"

section \<open>The byte strings that are hashed\<close>

text \<open>The preimages hashed while a root is computed and while a proof is checked: the sets on
  which soundness needs SHA-256 to have no collision.\<close>

fun level_preimages :: "u8 list list \<Rightarrow> u8 list list" where
  "level_preimages [] = []"
| "level_preimages [l] = [node_preimage l l]"
| "level_preimages (l # r # rest) = node_preimage l r # level_preimages rest"

function fold_preimages :: "env \<Rightarrow> u8 list list \<Rightarrow> u8 list list" where
  "fold_preimages E level =
     (if 1 < length level
      then level_preimages level @ fold_preimages E (next_merkle_level E level) else [])"
  by pat_completeness auto
termination
  by (relation "measure (\<lambda>(E, level). length level)") auto

declare fold_preimages.simps [simp del]

definition root_preimages :: "env \<Rightarrow> serializable list \<Rightarrow> u8 list list" where
  "root_preimages E values =
     empty_preimage # map (\<lambda>v. leaf_preimage (canonical_bytes E v)) values
     @ fold_preimages E (map (merkle_leaf E) values)"

definition step_preimage :: "merkle_step \<Rightarrow> u8 list \<Rightarrow> u8 list option" where
  "step_preimage step current =
     map_option (\<lambda>sibling. case ms_side step of
         LeftSide \<Rightarrow> node_preimage sibling current
       | RightSide \<Rightarrow> node_preimage current sibling) (hex_to_bytes (ms_hash step))"

fun climb_preimages :: "env \<Rightarrow> merkle_step list \<Rightarrow> u8 list \<Rightarrow> u8 list list" where
  "climb_preimages E [] current = []"
| "climb_preimages E (step # path) current =
     (case step_preimage step current of None \<Rightarrow> []
      | Some preimage \<Rightarrow> preimage # climb_preimages E path (sha256 E preimage))"

definition proof_preimages :: "env \<Rightarrow> merkle_proof \<Rightarrow> serializable \<Rightarrow> u8 list list" where
  "proof_preimages E p v =
     leaf_preimage (canonical_bytes E v) # climb_preimages E (mp_path p) (merkle_leaf E v)"

section \<open>Hexadecimal round trip\<close>

lemma hex_value_table: "n < 16 \<Longrightarrow> hex_value (of_char (hex_table ! n)) = Some (of_nat n)"
proof -
  have "\<forall>n \<in> set [0..<16]. hex_value (of_char (hex_table ! n)) = Some (of_nat n)"
    by code_simp
  then show "n < 16 \<Longrightarrow> ?thesis" by simp
qed

lemma nibble_join: "push_bit 4 (drop_bit 4 b) OR (b AND 0x0f) = (b :: u8)"
proof -
  have m: "0x0f = (mask 4 :: u8)" by (simp add: mask_eq_exp_minus_1)
  show ?thesis unfolding m by (auto intro!: bit_eqI simp: bit_simps)
qed

lemma nibble_bounds: "unat (drop_bit 4 (b :: u8)) < 16" "unat (b AND 0x0f) < 16"
proof -
  have "unat b < 256" using unsigned_less [of b] by simp
  then show "unat (drop_bit 4 b) < 16" by (simp add: drop_bit_eq_div unat_div)
  have "b AND 0x0f \<le> 0x0f" by (rule word_and_le1)
  then show "unat (b AND 0x0f) < 16" by (simp add: word_le_nat_alt)
qed

lemma hex_pairs_hex_lower: "hex_pairs (as_bytes (hex_lower bs)) = Some bs"
  by (induction bs)
    (simp_all add: as_bytes_def hex_lower_def hex_value_table nibble_bounds nibble_join)

lemma hex_to_bytes_hex_lower [simp]: "hex_to_bytes (hex_lower bs) = Some bs"
proof -
  have "length (hex_lower bs) = 2 * length bs"
    by (induction bs) (simp_all add: hex_lower_def)
  then show ?thesis by (simp add: hex_to_bytes_def hex_pairs_hex_lower)
qed

lemma hex_lower_inj [simp]: "hex_lower a = hex_lower b \<longleftrightarrow> a = b"
  by (metis hex_to_bytes_hex_lower option.inject)

section \<open>Completeness of inclusion proofs\<close>

lemma nth_next_merkle_level:
  "j < (length level + 1) div 2 \<Longrightarrow>
   next_merkle_level E level ! j =
     merkle_node E (level ! (2 * j))
       (if 2 * j + 1 < length level then level ! (2 * j + 1) else level ! (2 * j))"
proof (induction E level arbitrary: j rule: next_merkle_level.induct)
  case (3 E l r rest)
  then show ?case by (cases j) auto
qed auto

lemma merkle_step_up_sibling:
  assumes "i < length level" "1 < length level"
  shows "merkle_step_up E
      \<lparr>ms_side = (if sibling_index (length level) i < i then LeftSide else RightSide),
       ms_hash = hex_lower (level ! sibling_index (length level) i)\<rparr> (level ! i)
    = Some (next_merkle_level E level ! (i div 2))"
proof -
  have j: "i div 2 < (length level + 1) div 2" using assms by linarith
  show ?thesis
  proof (cases "i mod 2 = 0")
    case True
    then have "2 * (i div 2) = i" by presburger
    with True show ?thesis
      by (simp add: merkle_step_up_def sibling_index_def nth_next_merkle_level [OF j])
  next
    case False
    then have "2 * (i div 2) = i - 1" "0 < i" by presburger+
    with False assms show ?thesis
      by (simp add: merkle_step_up_def sibling_index_def nth_next_merkle_level [OF j])
  qed
qed

lemma merkle_climb_path:
  "i < length level \<Longrightarrow>
   merkle_climb E (merkle_path E level i) (level ! i) = Some (merkle_fold E level)"
proof (induction E level i rule: merkle_path.induct)
  case (1 E level i)
  show ?case
  proof (cases "1 < length level")
    case True
    have "i div 2 < length (next_merkle_level E level)" using 1(2) True by simp
    with 1 True show ?thesis
      by (subst merkle_path.simps, subst merkle_fold.simps)
        (simp add: merkle_step_up_sibling Let_def)
  next
    case False
    with 1(2) obtain x where "i = 0" "level = [x]" by (cases level) auto
    then show ?thesis by (simp add: merkle_path.simps merkle_fold.simps)
  qed
qed

lemma make_merkle_proof_verify:
  assumes "make_merkle_proof E vs i = Some p"
  shows "i < length vs" "merkle_verify E p (vs ! i)" "mp_root p = merkle_root E vs"
    "mp_index p = i" "mp_leaf_count p = length vs"
proof -
  from assms show i: "i < length vs" by (auto simp: make_merkle_proof_def split: if_splits)
  then have "merkle_climb E (merkle_path E (map (merkle_leaf E) vs) i) (merkle_leaf E (vs ! i))
      = Some (merkle_fold E (map (merkle_leaf E) vs))"
    using merkle_climb_path [of i "map (merkle_leaf E) vs" E] by simp
  moreover have "vs \<noteq> []" using i by auto
  ultimately show "merkle_verify E p (vs ! i)" "mp_root p = merkle_root E vs"
    "mp_index p = i" "mp_leaf_count p = length vs"
    using assms i
    by (auto simp: make_merkle_proof_def merkle_verify_def merkle_root_def merkle_root_bytes_def
        Let_def)
qed

section \<open>Soundness of inclusion proofs\<close>

lemma length_to_be_bytes [simp]: "length (to_be_bytes x) = 8"
  by (simp add: to_be_bytes_def)

lemma to_be_bytes_inj: "to_be_bytes x = to_be_bytes y \<Longrightarrow> x = y"
proof (rule bit_eqI)
  fix n
  assume eq: "to_be_bytes x = to_be_bytes y" and n: "possible_bit TYPE(64 word) n"
  then have "n < 64" by simp
  have "\<forall>i<8. ucast (drop_bit (8 * i) x) = (ucast (drop_bit (8 * i) y) :: u8)"
    using eq by (simp add: to_be_bytes_def numeral_eq_Suc less_Suc_eq)
  moreover have "n div 8 < 8" using \<open>n < 64\<close> by simp
  ultimately have "bit (ucast (drop_bit (8 * (n div 8)) x) :: u8) (n mod 8)
      = bit (ucast (drop_bit (8 * (n div 8)) y) :: u8) (n mod 8)" by simp
  then show "bit x n = bit y n" by (simp add: bit_simps)
qed

lemma node_preimage_inj:
  assumes "node_preimage l r = node_preimage l' r'" "length l < 2 ^ 64" "length l' < 2 ^ 64"
  shows "l = l'" "r = r'"
proof -
  have "to_be_bytes (of_nat (length l)) @ l @ to_be_bytes (of_nat (length r)) @ r
      = to_be_bytes (of_nat (length l')) @ l' @ to_be_bytes (of_nat (length r')) @ r'"
    using assms(1) by (simp add: node_preimage_def)
  then have len: "to_be_bytes (of_nat (length l)) = to_be_bytes (of_nat (length l'))"
    and rest: "l @ to_be_bytes (of_nat (length r)) @ r = l' @ to_be_bytes (of_nat (length r')) @ r'"
    by auto
  from to_be_bytes_inj [OF len] have "unat (of_nat (length l) :: u64) = unat (of_nat (length l') :: u64)"
    by simp
  with assms(2,3) have "length l = length l'" by (simp add: unat_of_nat take_bit_eq_mod)
  with rest show "l = l'" "r = r'" by auto
qed

lemma preimages_separated [simp]:
  "leaf_preimage a \<noteq> node_preimage l r" "node_preimage l r \<noteq> leaf_preimage a"
  "empty_preimage \<noteq> node_preimage l r" "empty_preimage \<noteq> leaf_preimage a"
  "node_preimage l r \<noteq> empty_preimage" "leaf_preimage a \<noteq> empty_preimage"
  by (simp_all add: leaf_preimage_def node_preimage_def empty_preimage_def as_bytes_def)

lemma leaf_preimage_inj [simp]: "leaf_preimage a = leaf_preimage b \<longleftrightarrow> a = b"
  by (auto simp: leaf_preimage_def)

text \<open>Every digest has the length of a SHA-256 output.\<close>

definition sha256_len :: "env \<Rightarrow> bool" where
  "sha256_len E \<longleftrightarrow> (\<forall>bytes. length (sha256 E bytes) = 32)"

definition bounded_path :: "merkle_step list \<Rightarrow> bool" where
  "bounded_path path \<longleftrightarrow> list_all (\<lambda>s. int (length (ms_hash s)) < 2 ^ 64) path"

lemma length_hex_pairs: "hex_pairs bs = Some out \<Longrightarrow> length out \<le> length bs"
  by (induction bs arbitrary: out rule: hex_pairs.induct) (fastforce split: option.splits)+

lemma length_hex_to_bytes: "hex_to_bytes s = Some bs \<Longrightarrow> length bs \<le> length s"
  by (auto simp: hex_to_bytes_def as_bytes_def split: if_splits dest: length_hex_pairs)

lemma in_next_merkle_level:
  "y \<in> set (next_merkle_level E level) \<Longrightarrow>
   \<exists>l \<in> set level. \<exists>r \<in> set level.
     y = merkle_node E l r \<and> node_preimage l r \<in> set (level_preimages level)"
  by (induction E level rule: next_merkle_level.induct) auto

lemma length_merkle_node [simp]: "sha256_len E \<Longrightarrow> length (merkle_node E l r) = 32"
  by (simp add: sha256_len_def merkle_node_def)

lemma length_merkle_leaf [simp]: "sha256_len E \<Longrightarrow> length (merkle_leaf E v) = 32"
  by (simp add: sha256_len_def merkle_leaf_def)

lemma length_next_level_digests:
  "sha256_len E \<Longrightarrow> y \<in> set (next_merkle_level E level) \<Longrightarrow> length y = 32"
  by (auto dest: in_next_merkle_level)

lemma merkle_step_up_preimage:
  "merkle_step_up E step c = map_option (sha256 E) (step_preimage step c)"
  by (cases "ms_side step")
    (simp_all add: merkle_step_up_def step_preimage_def merkle_node_def option.map_comp comp_def)

lemma merkle_climb_snoc:
  "merkle_climb E (path @ [step]) c
   = (case merkle_climb E path c of None \<Rightarrow> None | Some d \<Rightarrow> merkle_step_up E step d)"
  by (induction E path c rule: merkle_climb.induct) (auto split: option.splits)

lemma climb_preimages_snoc:
  "merkle_climb E path c = Some d \<Longrightarrow> step_preimage step d = Some q \<Longrightarrow>
   q \<in> set (climb_preimages E (path @ [step]) c)"
  by (induction E path c rule: merkle_climb.induct)
    (auto simp: merkle_step_up_preimage split: option.splits)

lemma climb_preimages_prefix:
  "q \<in> set (climb_preimages E path c) \<Longrightarrow> q \<in> set (climb_preimages E (path @ rest) c)"
proof (induction E path c rule: climb_preimages.induct)
  case (2 E step path current)
  then show ?case by (cases "step_preimage step current") auto
qed simp

lemma climb_preimages_take:
  "q \<in> set (climb_preimages E (take n path) c) \<Longrightarrow> q \<in> set (climb_preimages E path c)"
  using climb_preimages_prefix [of q E "take n path" c "drop n path"] by simp

lemma merkle_climb_length:
  "sha256_len E \<Longrightarrow> merkle_climb E path c = Some d \<Longrightarrow> length c = 32 \<Longrightarrow> length d = 32"
  by (induction E path c rule: merkle_climb.induct)
    (auto simp: merkle_step_up_preimage sha256_len_def split: option.splits)

text \<open>Descending one level from a node that the climb reached.\<close>

lemma merkle_descend_step:
  assumes E: "sha256_len E"
    and S: "inj_on (sha256 E) S" "set (climb_preimages E path c) \<subseteq> S"
      "set (level_preimages level) \<subseteq> S"
    and climb: "merkle_climb E (take (Suc n) path) c = Some y" "n < length path"
    and y: "y \<in> set (next_merkle_level E level)"
    and len: "length c = 32" "bounded_path path" "\<forall>l \<in> set level. length l = 32"
  shows "\<exists>d \<in> set level. merkle_climb E (take n path) c = Some d"
proof -
  let ?s = "path ! n"
  from in_next_merkle_level [OF y] obtain l r
    where lr: "l \<in> set level" "r \<in> set level" "y = merkle_node E l r"
      "node_preimage l r \<in> set (level_preimages level)" by blast
  from climb obtain d where d: "merkle_climb E (take n path) c = Some d"
      "merkle_step_up E ?s d = Some y"
    by (auto simp: take_Suc_conv_app_nth merkle_climb_snoc split: option.splits)
  then obtain q where q: "step_preimage ?s d = Some q" "y = sha256 E q"
    by (auto simp: merkle_step_up_preimage)
  from climb_preimages_snoc [OF d(1) q(1)] have "q \<in> set (climb_preimages E (take (Suc n) path) c)"
    using climb(2) by (simp add: take_Suc_conv_app_nth)
  then have "q \<in> S"
    using climb_preimages_take S(2) by blast
  with lr q S have q_eq: "q = node_preimage l r"
    by (auto simp: merkle_node_def dest: inj_onD)
  from q(1) obtain sib where sib: "hex_to_bytes (ms_hash ?s) = Some sib"
    by (auto simp: step_preimage_def)
  have "length sib < 2 ^ 64"
    using length_hex_to_bytes [OF sib] len(2) climb(2)
    by (auto simp: bounded_path_def list_all_length intro: le_less_trans)
  moreover have "length d = 32" using merkle_climb_length [OF E d(1) len(1)] .
  moreover have "length l = 32" using len(3) lr(1) by blast
  ultimately have "d = l \<or> d = r"
    using q(1) q_eq sib node_preimage_inj [of _ _ l r]
    by (auto simp: step_preimage_def split: sibling_side.splits)
  with d lr show ?thesis by auto
qed

lemma merkle_descend:
  assumes "sha256_len E" "inj_on (sha256 E) S" "set (climb_preimages E path c) \<subseteq> S"
    "set (fold_preimages E level) \<subseteq> S" "merkle_climb E path c = Some (merkle_fold E level)"
    "level \<noteq> []" "length c = 32" "bounded_path path" "\<forall>l \<in> set level. length l = 32"
  shows "(\<exists>n \<le> length path. \<exists>d \<in> set level. merkle_climb E (take n path) c = Some d)
    \<or> (\<exists>l r. c = merkle_node E l r \<and> node_preimage l r \<in> S)"
  using assms
proof (induction E level rule: merkle_fold.induct)
  case (1 E level)
  note prems = "1.prems" and IH = "1.IH"
  show ?case
  proof (cases "1 < length level")
    case False
    with prems(6) have "merkle_fold E level \<in> set level"
      by (simp add: merkle_fold.simps [of E level])
    with prems(5) show ?thesis by (intro disjI1 exI [of _ "length path"]) auto
  next
    case True
    let ?next = "next_merkle_level E level"
    have pre: "set (level_preimages level) \<subseteq> S" "set (fold_preimages E ?next) \<subseteq> S"
      using prems(4) True by (simp_all add: fold_preimages.simps [of E level])
    have "merkle_climb E path c = Some (merkle_fold E ?next)"
      using prems(5) True by (simp add: merkle_fold.simps [of E level])
    moreover have "?next \<noteq> []" using True by (cases level; cases "tl level") auto
    moreover have "\<forall>l \<in> set ?next. length l = 32"
      using length_next_level_digests [OF prems(1)] by blast
    ultimately consider (below) n d where "n \<le> length path" "d \<in> set ?next"
        "merkle_climb E (take n path) c = Some d"
      | (short) "\<exists>l r. c = merkle_node E l r \<and> node_preimage l r \<in> S"
      using IH [OF True prems(1-3) pre(2) _ _ prems(7,8)] by blast
    then show ?thesis
    proof cases
      case (below n d)
      show ?thesis
      proof (cases n)
        case 0
        with below have "c \<in> set ?next" by simp
        from in_next_merkle_level [OF this] pre show ?thesis by blast
      next
        case (Suc m)
        with below have "m < length path" "merkle_climb E (take (Suc m) path) c = Some d" by simp_all
        from merkle_descend_step [OF prems(1-3) pre(1) this(2,1) below(2) prems(7-9)] this(1)
        show ?thesis by (meson less_imp_le)
      qed
    qed (rule disjI2)
  qed
qed

text \<open>The value that a climb of at least one step reaches is the digest of a node.\<close>

lemma merkle_climb_node:
  assumes "merkle_climb E (take n path) c = Some d" "0 < n" "n \<le> length path"
  shows "\<exists>l r. d = sha256 E (node_preimage l r)
    \<and> node_preimage l r \<in> set (climb_preimages E path c)"
proof -
  obtain m where m: "n = Suc m" "m < length path" using assms(2,3) by (cases n) auto
  then obtain e q where e: "merkle_climb E (take m path) c = Some e"
      "step_preimage (path ! m) e = Some q" "d = sha256 E q"
    using assms(1)
    by (auto simp: take_Suc_conv_app_nth merkle_climb_snoc merkle_step_up_preimage
        split: option.splits)
  moreover from e(2) obtain l r where "q = node_preimage l r"
    by (cases "ms_side (path ! m)") (auto simp: step_preimage_def)
  moreover have "q \<in> set (climb_preimages E path c)"
    using climb_preimages_snoc [OF e(1,2)] m(2)
    by (simp add: climb_preimages_take [of _ _ "Suc m"] take_Suc_conv_app_nth)
  ultimately show ?thesis by blast
qed

lemma merkle_verify_sound:
  assumes v: "merkle_verify E p v" "mp_root p = merkle_root E vs"
    and E: "sha256_len E" "bounded_path (mp_path p)"
    and S: "inj_on (sha256 E) (set (proof_preimages E p v) \<union> set (root_preimages E vs))"
  shows "\<exists>v' \<in> set vs. canonical_bytes E v' = canonical_bytes E v"
proof -
  let ?c = "merkle_leaf E v" and ?leaves = "map (merkle_leaf E) vs"
  let ?S = "set (proof_preimages E p v) \<union> set (root_preimages E vs)"
  have climb: "merkle_climb E (mp_path p) ?c = Some (merkle_root_bytes E ?leaves)"
    using v by (auto simp: merkle_verify_def merkle_root_def split: if_splits option.splits)
  have leaf_S: "leaf_preimage (canonical_bytes E w) \<in> ?S" if "w \<in> insert v (set vs)" for w
    using that by (auto simp: proof_preimages_def root_preimages_def)
  have no_node: False if "merkle_leaf E w = sha256 E (node_preimage l r)"
      "node_preimage l r \<in> ?S" "w \<in> insert v (set vs)" for w l r
    using inj_onD [OF S that(1) [unfolded merkle_leaf_def] leaf_S [OF that(3)] that(2)] by simp
  show ?thesis
  proof (cases "vs = []")
    case True
    have e_S: "empty_preimage \<in> ?S" by (simp add: root_preimages_def)
    have root: "merkle_root_bytes E ?leaves = sha256 E empty_preimage"
      using True by (simp add: merkle_root_bytes_def)
    have no_empty: "q = empty_preimage" if "sha256 E empty_preimage = sha256 E q" "q \<in> ?S" for q
      using inj_onD [OF S that(1) e_S that(2)] by simp
    have False
    proof (cases "mp_path p")
      case Nil
      with climb root have "sha256 E empty_preimage = sha256 E (leaf_preimage (canonical_bytes E v))"
        by (simp add: merkle_leaf_def)
      from no_empty [OF this leaf_S] show False by simp
    next
      case (Cons step path)
      with climb root merkle_climb_node [of E "length (mp_path p)" "mp_path p" ?c]
      obtain l r where lr: "sha256 E empty_preimage = sha256 E (node_preimage l r)"
          "node_preimage l r \<in> set (climb_preimages E (mp_path p) ?c)" by auto
      have "node_preimage l r \<in> ?S" using lr(2) by (simp add: proof_preimages_def)
      from no_empty [OF lr(1) this] show False by simp
    qed
    then show ?thesis ..
  next
    case False
    then have "(\<exists>n \<le> length (mp_path p). \<exists>d \<in> set ?leaves.
          merkle_climb E (take n (mp_path p)) ?c = Some d)
      \<or> (\<exists>l r. ?c = merkle_node E l r \<and> node_preimage l r \<in> ?S)"
      using climb E S
      by (intro merkle_descend [where level = ?leaves])
        (auto simp: merkle_root_bytes_def proof_preimages_def root_preimages_def)
    then obtain n v' where n: "n \<le> length (mp_path p)" "v' \<in> set vs"
        "merkle_climb E (take n (mp_path p)) ?c = Some (merkle_leaf E v')"
      using no_node [of v] by (auto simp: merkle_node_def)
    have "n = 0"
      using merkle_climb_node [OF n(3) _ n(1)] no_node [of v'] n(2)
      by (fastforce simp: proof_preimages_def)
    with n have "merkle_leaf E v = merkle_leaf E v'" by simp
    from inj_onD [OF S this [unfolded merkle_leaf_def] leaf_S leaf_S] n(2) show ?thesis by auto
  qed
qed

section \<open>Properties\<close>

text \<open>A concrete environment on which hypotheses about \<open>env\<close> are shown to hold: a checksum padded
  to 32 bytes, and the concatenated strings of a tuple as its encoding.\<close>

definition sample_env :: env where
  "sample_env =
     \<lparr>sha256 = (\<lambda>x. take 32 (of_nat (length x) # sum_list x # replicate 32 0)),
      canonical_bytes = (\<lambda>v. case v of SerTuple ss ns \<Rightarrow> as_bytes (concat ss)
        | SerTransaction tx \<Rightarrow> as_bytes (tx_sender tx) @ [ucast (tx_nonce tx)] | _ \<Rightarrow> []),
      parse_finality_proof = (\<lambda>_. None),
      parse_verify_module = (\<lambda>_. None),
      verify_module = (\<lambda>_. None)\<rparr>"

lemma sample_env_len [simp]: "sha256_len sample_env"
  by (simp add: sha256_len_def sample_env_def)

text \<open>(C1) Completeness of Merkle inclusion proofs: for every position of the committed list,
  \<open>merkle_proof\<close> produces a proof, its root is the \<open>merkle_root\<close> of the list, and
  \<open>MerkleProof::verify\<close> accepts it for the value at that position.\<close>

theorem merkle_proof_complete:
  assumes "i < length vs"
  shows "\<exists>p. make_merkle_proof E vs i = Some p \<and> mp_root p = merkle_root E vs
    \<and> merkle_verify E p (vs ! i)"
proof -
  from assms obtain p where "make_merkle_proof E vs i = Some p"
    by (auto simp: make_merkle_proof_def Let_def)
  with make_merkle_proof_verify [OF this] show ?thesis by blast
qed

theorem merkle_proof_complete_witness:
  "\<exists>p. make_merkle_proof sample_env [SerTuple [''a''] [], SerTuple [''b''] [], SerTuple [''c''] []] 2
       = Some p
     \<and> mp_root p = merkle_root sample_env [SerTuple [''a''] [], SerTuple [''b''] [], SerTuple [''c''] []]
     \<and> merkle_verify sample_env p
         ([SerTuple [''a''] [], SerTuple [''b''] [], SerTuple [''c''] []] ! 2)"
  by (rule merkle_proof_complete) simp


definition sample_leaves :: "serializable list" where
  "sample_leaves = [SerTuple [''a''] [], SerTuple [''bb''] []]"


end
