(* ===== verification/Exec_Monad.thy ===== *)
theory Exec_Monad
  imports Detta_Prelude
begin

text \<open>
  The execution monad. A handler of \<open>DeTTaState\<close> has the Rust type
  \<open>fn(&mut self, ...) -> Result<T, ExecutionError>\<close>: it may change the state and then
  fail, and the state it leaves behind on the error path is visible to its caller (which
  is why \<open>apply_transaction\<close> restores checkpoints). A computation therefore returns a
  result and a state in both cases.

  The locale \<open>exec_relation\<close> is the interface between the operations and the claims made
  of all of them: a relation between the state before and after, one for success and one
  for failure, closed under sequencing. Its rules lift a claim from the elementary writes
  to every composed operation.
\<close>

section \<open>Computations\<close>

type_synonym ('e, 's, 'a) exec = "'s \<Rightarrow> ('e + 'a) \<times> 's"

definition ret :: "'a \<Rightarrow> ('e, 's, 'a) exec" where
  "ret x = (\<lambda>s. (Inr x, s))"

definition throw :: "'e \<Rightarrow> ('e, 's, 'a) exec" where
  "throw e = (\<lambda>s. (Inl e, s))"

definition bind :: "('e, 's, 'a) exec \<Rightarrow> ('a \<Rightarrow> ('e, 's, 'b) exec) \<Rightarrow> ('e, 's, 'b) exec" where
  "bind m k = (\<lambda>s. case m s of (Inl e, s') \<Rightarrow> (Inl e, s') | (Inr x, s') \<Rightarrow> k x s')"

abbreviation andthen :: "('e, 's, 'a) exec \<Rightarrow> ('e, 's, 'b) exec \<Rightarrow> ('e, 's, 'b) exec" where
  "andthen m m' \<equiv> bind m (\<lambda>_. m')"

definition gets :: "('s \<Rightarrow> 'a) \<Rightarrow> ('e, 's, 'a) exec" where
  "gets f = (\<lambda>s. (Inr (f s), s))"

definition modify :: "('s \<Rightarrow> 's) \<Rightarrow> ('e, 's, unit) exec" where
  "modify f = (\<lambda>s. (Inr (), f s))"

text \<open>\<open>option.ok_or(e)?\<close>, \<open>result?\<close> and \<open>if cond \{ return Err(e) \}\<close>.\<close>

definition ok_or :: "'a option \<Rightarrow> 'e \<Rightarrow> ('e, 's, 'a) exec" where
  "ok_or x e = (case x of None \<Rightarrow> throw e | Some y \<Rightarrow> ret y)"

definition lift_result :: "'e + 'a \<Rightarrow> ('e, 's, 'a) exec" where
  "lift_result r = (case r of Inl e \<Rightarrow> throw e | Inr x \<Rightarrow> ret x)"

definition fail_if :: "bool \<Rightarrow> 'e \<Rightarrow> ('e, 's, unit) exec" where
  "fail_if c e = (if c then throw e else ret ())"

text \<open>\<open>for x in xs \{ f(x)?; \}\<close>\<close>

fun for_each :: "('a \<Rightarrow> ('e, 's, unit) exec) \<Rightarrow> 'a list \<Rightarrow> ('e, 's, unit) exec" where
  "for_each f [] = ret ()"
| "for_each f (x # xs) = andthen (f x) (for_each f xs)"

section \<open>Reasoning about results\<close>

named_theorems exec_simps "evaluation of computations at a state"

lemma ret_apply [exec_simps]: "ret x s = (Inr x, s)"
  by (simp add: ret_def)

lemma throw_apply [exec_simps]: "throw e s = (Inl e, s)"
  by (simp add: throw_def)

lemma gets_apply [exec_simps]: "gets f s = (Inr (f s), s)"
  by (simp add: gets_def)

lemma modify_apply [exec_simps]: "modify f s = (Inr (), f s)"
  by (simp add: modify_def)

lemma bind_ret [simp]: "bind (ret x) k = k x"
  by (simp add: bind_def ret_def)

lemma bind_throw [simp]: "bind (throw e) k = throw e"
  by (simp add: bind_def throw_def)

lemma bind_assoc: "bind (bind m k) h = bind m (\<lambda>x. bind (k x) h)"
  by (auto simp: bind_def fun_eq_iff split: prod.splits sum.splits)

lemma bind_gets [exec_simps]: "bind (gets f) k s = k (f s) s"
  by (simp add: bind_def gets_def)

lemma bind_modify [exec_simps]: "bind (modify f) k s = k () (f s)"
  by (simp add: bind_def modify_def)

lemma bind_fail_if [exec_simps]: "bind (fail_if c e) k s = (if c then (Inl e, s) else k () s)"
  by (simp add: bind_def fail_if_def ret_def throw_def)

lemma bind_ok_or [exec_simps]:
  "bind (ok_or x e) k s = (case x of None \<Rightarrow> (Inl e, s) | Some y \<Rightarrow> k y s)"
  by (cases x) (simp_all add: bind_def ok_or_def ret_def throw_def)

lemma bind_lift_result [exec_simps]:
  "bind (lift_result r) k s = (case r of Inl e \<Rightarrow> (Inl e, s) | Inr y \<Rightarrow> k y s)"
  by (cases r) (simp_all add: bind_def lift_result_def ret_def throw_def)

lemma fail_if_apply [exec_simps]: "fail_if c e s = (if c then (Inl e, s) else (Inr (), s))"
  by (simp add: fail_if_def ret_def throw_def)

lemma ok_or_apply [exec_simps]:
  "ok_or x e s = (case x of None \<Rightarrow> (Inl e, s) | Some y \<Rightarrow> (Inr y, s))"
  by (cases x) (simp_all add: ok_or_def ret_def throw_def)

lemma lift_result_apply [exec_simps]:
  "lift_result r s = (case r of Inl e \<Rightarrow> (Inl e, s) | Inr y \<Rightarrow> (Inr y, s))"
  by (cases r) (simp_all add: lift_result_def ret_def throw_def)

text \<open>Inversion of a successful run: each step succeeded.\<close>

lemma bind_Inr_iff:
  "bind m k s = (Inr y, t) \<longleftrightarrow> (\<exists>x u. m s = (Inr x, u) \<and> k x u = (Inr y, t))"
  by (auto simp: bind_def split: prod.splits sum.splits)

lemma bind_Inl_iff:
  "bind m k s = (Inl e, t) \<longleftrightarrow>
     m s = (Inl e, t) \<or> (\<exists>x u. m s = (Inr x, u) \<and> k x u = (Inl e, t))"
  by (auto simp: bind_def split: prod.splits sum.splits)

lemma ret_Inr_iff: "ret x s = (Inr y, t) \<longleftrightarrow> y = x \<and> t = s"
  by (auto simp: ret_def)

lemma throw_Inr_iff [simp]: "throw e s = (Inr y, t) \<longleftrightarrow> False"
  by (simp add: throw_def)

lemma gets_Inr_iff: "gets f s = (Inr y, t) \<longleftrightarrow> y = f s \<and> t = s"
  by (auto simp: gets_def)

lemma modify_Inr_iff: "modify f s = (Inr y, t) \<longleftrightarrow> t = f s"
  by (auto simp: modify_def)

lemma fail_if_Inr_iff: "fail_if c e s = (Inr y, t) \<longleftrightarrow> \<not> c \<and> t = s"
  by (auto simp: fail_if_def ret_def throw_def)

lemma ok_or_Inr_iff: "ok_or x e s = (Inr y, t) \<longleftrightarrow> x = Some y \<and> t = s"
  by (cases x) (auto simp: ok_or_def ret_def throw_def)

lemma lift_result_Inr_iff: "lift_result r s = (Inr y, t) \<longleftrightarrow> r = Inr y \<and> t = s"
  by (cases r) (auto simp: lift_result_def ret_def throw_def)

lemmas run_Inr = bind_Inr_iff ret_Inr_iff throw_Inr_iff gets_Inr_iff modify_Inr_iff
  fail_if_Inr_iff ok_or_Inr_iff lift_result_Inr_iff

section \<open>Relations every composed operation stays in\<close>

definition within :: "('s \<Rightarrow> 's \<Rightarrow> bool) \<Rightarrow> ('e \<Rightarrow> 's \<Rightarrow> 's \<Rightarrow> bool) \<Rightarrow> ('e, 's, 'a) exec \<Rightarrow> bool" where
  "within K F m \<longleftrightarrow> (\<forall>s. case m s of (Inr x, t) \<Rightarrow> K s t | (Inl e, t) \<Rightarrow> F e s t)"

definition within_at :: "('s \<Rightarrow> 's \<Rightarrow> bool) \<Rightarrow> ('e \<Rightarrow> 's \<Rightarrow> 's \<Rightarrow> bool) \<Rightarrow> 's \<Rightarrow> ('e, 's, 'a) exec \<Rightarrow> bool" where
  "within_at K F s m \<longleftrightarrow> (case m s of (Inr x, t) \<Rightarrow> K s t | (Inl e, t) \<Rightarrow> F e s t)"

lemma within_atI: "within K F m \<Longrightarrow> within_at K F s m"
  by (simp add: within_def within_at_def)

lemma within_iff_at: "within K F m \<longleftrightarrow> (\<forall>s. within_at K F s m)"
  by (simp add: within_def within_at_def)

lemma within_at_iff:
  "within_at K F s m \<longleftrightarrow>
     (\<forall>x t. m s = (Inr x, t) \<longrightarrow> K s t) \<and> (\<forall>e t. m s = (Inl e, t) \<longrightarrow> F e s t)"
  by (auto simp: within_at_def split: prod.splits sum.splits)

lemma withinI:
  assumes "\<And>s x t. m s = (Inr x, t) \<Longrightarrow> K s t"
    and "\<And>s e t. m s = (Inl e, t) \<Longrightarrow> F e s t"
  shows "within K F m"
  using assms by (auto simp: within_def split: prod.splits sum.splits)

lemma within_okD: "within K F m \<Longrightarrow> m s = (Inr x, t) \<Longrightarrow> K s t"
  by (auto simp: within_def split: prod.splits sum.splits)

lemma within_errD: "within K F m \<Longrightarrow> m s = (Inl e, t) \<Longrightarrow> F e s t"
  by (auto simp: within_def split: prod.splits sum.splits)

locale exec_relation =
  fixes K :: "'s \<Rightarrow> 's \<Rightarrow> bool"
    and F :: "'e \<Rightarrow> 's \<Rightarrow> 's \<Rightarrow> bool"
    and raises :: "'e \<Rightarrow> bool"
  assumes K_refl: "K s s"
    and K_trans: "K s t \<Longrightarrow> K t u \<Longrightarrow> K s u"
    and F_refl: "raises e \<Longrightarrow> F e s s"
    and K_F: "K s t \<Longrightarrow> F e t u \<Longrightarrow> F e s u"
begin

lemma within_ret: "within K F (ret x)"
  by (simp add: within_def ret_def K_refl)

lemma within_throw: "raises e \<Longrightarrow> within K F (throw e)"
  by (simp add: within_def throw_def F_refl)

lemma within_gets: "within K F (gets f)"
  by (simp add: within_def gets_def K_refl)

lemma within_modify: "(\<And>s. K s (f s)) \<Longrightarrow> within K F (modify f)"
  by (simp add: within_def modify_def)

lemma within_fail_if: "raises e \<Longrightarrow> within K F (fail_if c e)"
  by (simp add: fail_if_def within_ret within_throw)

lemma within_ok_or: "raises e \<Longrightarrow> within K F (ok_or x e)"
  by (cases x) (simp_all add: ok_or_def within_ret within_throw)

lemma within_lift_result: "(\<And>e. r = Inl e \<Longrightarrow> raises e) \<Longrightarrow> within K F (lift_result r)"
  by (cases r) (simp_all add: lift_result_def within_ret within_throw)

lemma within_bind_run:
  assumes "within K F m" and "\<And>s x t. m s = (Inr x, t) \<Longrightarrow> within K F (k x)"
  shows "within K F (bind m k)"
proof (rule withinI)
  fix s y t
  assume "bind m k s = (Inr y, t)"
  then obtain x u where "m s = (Inr x, u)" and "k x u = (Inr y, t)"
    by (auto simp: bind_Inr_iff)
  with assms show "K s t"
    by (blast intro: K_trans dest: within_okD)
next
  fix s e t
  assume "bind m k s = (Inl e, t)"
  then consider "m s = (Inl e, t)" | x u where "m s = (Inr x, u)" "k x u = (Inl e, t)"
    by (auto simp: bind_Inl_iff)
  then show "F e s t"
  proof cases
    case 1
    with assms(1) show ?thesis by (rule within_errD)
  next
    case 2
    with assms show ?thesis by (blast intro: K_F dest: within_okD within_errD)
  qed
qed

lemma within_bind: "within K F m \<Longrightarrow> (\<And>x. within K F (k x)) \<Longrightarrow> within K F (bind m k)"
  by (rule within_bind_run)

lemma within_if: "(c \<Longrightarrow> within K F m) \<Longrightarrow> (\<not> c \<Longrightarrow> within K F m') \<Longrightarrow> within K F (if c then m else m')"
  by simp

lemma within_case_option:
  "(x = None \<Longrightarrow> within K F m) \<Longrightarrow> (\<And>y. x = Some y \<Longrightarrow> within K F (k y)) \<Longrightarrow>
   within K F (case x of None \<Rightarrow> m | Some y \<Rightarrow> k y)"
  by (cases x) simp_all

lemma within_case_prod:
  "(\<And>a b. x = (a, b) \<Longrightarrow> within K F (k a b)) \<Longrightarrow> within K F (case x of (a, b) \<Rightarrow> k a b)"
  by (cases x) simp_all

lemma within_Let: "within K F (f x) \<Longrightarrow> within K F (let y = x in f y)"
  by simp

lemma within_for_each: "(\<And>x. x \<in> set xs \<Longrightarrow> within K F (f x)) \<Longrightarrow> within K F (for_each f xs)"
  by (induction xs) (auto intro: within_ret within_bind)

lemmas within_rules = within_ret within_throw within_gets within_fail_if within_ok_or
  within_lift_result within_bind within_if within_case_option within_case_prod within_Let
  within_for_each

end

end
