(* ===== verification/Aspect_Runtime.thy ===== *)
theory Aspect_Runtime
  imports Commitments Exec_Monad
begin

text \<open>
  The evaluator of aspect actions (\<open>detta-aspect-runtime\<close>). It is a pure interpreter: reads come
  from tables taken before the run, and writes, calls and events only extend a trace of host
  operations that \<open>detta-core\<close> applies afterwards.

  \<open>AspectEvalState\<close> is split by how the code uses it. The step counter and the trace are threaded
  (\<open>eval_state\<close>); the bindings and the stack depth, which the code saves and restores around a
  call, are arguments; the module, the context and the read tables never change (\<open>eval_env\<close>).
  The stack depth is counted down from its maximum, and the interpreter is defined by recursion
  on that number and, within one action, on the expression. It is total without fuel.

  The texts of the messages in \<open>InvalidActionBody\<close>, \<open>InvalidExpression\<close> and \<open>TypeMismatch\<close>
  are not modelled: the only caller discards them.
\<close>

section \<open>Data\<close>

record aspect_execution_context =
  ctx_tx_sender :: string
  ctx_msg_sender :: string
  ctx_current_contract :: string
  ctx_block_height :: u64
  ctx_block_timestamp :: u64

type_synonym aspect_state_reads = "(string \<times> string list, aspect_value) fmap"
type_synonym contract_aspect_state_reads = "(string \<times> string \<times> string list, aspect_value) fmap"
type_synonym bindings = "(string, aspect_value) fmap"

datatype aspect_eval_error =
    UnknownProjection string string
  | UnknownAction string string
  | MissingActionBody string string
  | InvalidActionBody
  | InvalidExpression
  | UnknownVariable string
  | StepBudgetExceeded
  | AspectArithmeticOverflow
  | DivisionByZero
  | RequireFailed string
  | TypeMismatch
  | StackDepthExceeded

record aspect_execution_report =
  rep_trace :: "aspect_host_op list"
  rep_return_value :: aspect_value
  rep_steps_used :: u64
  rep_trace_root :: string

record eval_state =
  es_steps_used :: u64
  es_trace :: "aspect_host_op list"

record eval_env =
  ee_module :: aspect_module_ir
  ee_max_steps :: u64
  ee_context :: aspect_execution_context
  ee_state_reads :: aspect_state_reads
  ee_contract_state_reads :: contract_aspect_state_reads

type_synonym 'a eval = "(aspect_eval_error, eval_state, 'a) exec"

definition max_stack_depth :: nat where
  "max_stack_depth = 64"

section \<open>Values\<close>

fun into_amount :: "aspect_value \<Rightarrow> aspect_eval_error + u128" where
  "into_amount (AvAmount v) = Inr v"
| "into_amount _ = Inl TypeMismatch"

fun into_bool :: "aspect_value \<Rightarrow> aspect_eval_error + bool" where
  "into_bool (AvBool v) = Inr v"
| "into_bool _ = Inl TypeMismatch"

definition bool_to_string :: "bool \<Rightarrow> string" where
  "bool_to_string b = (if b then ''true'' else ''false'')"

fun aspect_key_part :: "aspect_value \<Rightarrow> aspect_eval_error + string" where
  "aspect_key_part (AvAtom v) = Inr v"
| "aspect_key_part (AvAmount v) = Inr (u128_to_string v)"
| "aspect_key_part (AvBool v) = Inr (bool_to_string v)"
| "aspect_key_part AvUnit = Inl TypeMismatch"

fun aspect_value_source :: "aspect_value \<Rightarrow> string" where
  "aspect_value_source AvUnit = ''Unit''"
| "aspect_value_source (AvBool b) = (if b then ''True'' else ''False'')"
| "aspect_value_source (AvAmount v) = u128_to_string v"
| "aspect_value_source (AvAtom v) = v"

fun aspect_atom_value :: "aspect_value \<Rightarrow> aspect_eval_error + string" where
  "aspect_atom_value (AvAtom v) = Inr v"
| "aspect_atom_value _ = Inl TypeMismatch"

text \<open>\<open>[a, b, c].join(" ")\<close>\<close>

fun join_spaces :: "string list \<Rightarrow> string" where
  "join_spaces [] = []"
| "join_spaces [x] = x"
| "join_spaces (x # y # ys) = x @ '' '' @ join_spaces (y # ys)"

fun aspect_expr_source :: "expr \<Rightarrow> string" where
  "aspect_expr_source (Atom atom) = atom"
| "aspect_expr_source (List items) = ''('' @ join_spaces (map aspect_expr_source items) @ '')''"

text \<open>\<open>str::parse::<u128>\<close>: an optional plus sign, at least one decimal digit, in range.\<close>

definition char_digit :: "char \<Rightarrow> int option" where
  "char_digit c = (let n = (of_char c :: int) in if 48 \<le> n \<and> n \<le> 57 then Some (n - 48) else None)"

fun parse_digits :: "int \<Rightarrow> string \<Rightarrow> int option" where
  "parse_digits acc [] = Some acc"
| "parse_digits acc (c # cs) =
     (case char_digit c of None \<Rightarrow> None | Some d \<Rightarrow> parse_digits (10 * acc + d) cs)"

definition parse_u128 :: "string \<Rightarrow> u128 option" where
  "parse_u128 s =
     (let digits = (case s of [] \<Rightarrow> [] | c # cs \<Rightarrow> if c = CHR ''+'' then cs else s) in
      if digits = [] then None
      else case parse_digits 0 digits of None \<Rightarrow> None
        | Some n \<Rightarrow> if n < 2 ^ 128 then Some (word_of_int n) else None)"

section \<open>Bodies\<close>

fun strip_dollar :: "string \<Rightarrow> string option" where
  "strip_dollar [] = None"
| "strip_dollar (c # cs) = (if c = CHR ''$'' then Some cs else None)"

fun param_name :: "expr \<Rightarrow> aspect_eval_error + string" where
  "param_name (Atom p) = (case strip_dollar p of None \<Rightarrow> Inl InvalidActionBody | Some n \<Rightarrow> Inr n)"
| "param_name (List _) = Inl InvalidActionBody"

definition action_body_parts ::
  "string \<Rightarrow> expr \<Rightarrow> aspect_eval_error + string list \<times> expr" where
  "action_body_parts action body =
     (case body of
        List [Atom head, List (Atom name # params), rhs] \<Rightarrow>
          if head = ''='' \<and> name = action
          then map_sum id (\<lambda>ps. (ps, rhs)) (try_map param_name params)
          else Inl InvalidActionBody
      | _ \<Rightarrow> Inl InvalidActionBody)"

definition projection_body_parts :: "expr \<Rightarrow> aspect_eval_error + string list \<times> expr" where
  "projection_body_parts body =
     (case body of
        List [Atom head, List signature, rhs] \<Rightarrow>
          if head = ''=''
          then map_sum id (\<lambda>ps. (ps, rhs)) (try_map param_name (drop 1 signature))
          else Inl InvalidActionBody
      | _ \<Rightarrow> Inl InvalidActionBody)"

definition bind_params :: "string list \<Rightarrow> aspect_value list \<Rightarrow> bindings \<Rightarrow> bindings" where
  "bind_params params args b = fold (\<lambda>(p, v) acc. fmupd p v acc) (zip params args) b"

section \<open>Primitive steps\<close>

definition charge :: "eval_env \<Rightarrow> unit eval" where
  "charge V =
     (bind (gets es_steps_used) (\<lambda>used.
     andthen (fail_if (used \<ge> ee_max_steps V) StepBudgetExceeded) (
     modify (\<lambda>s. s\<lparr>es_steps_used := es_steps_used s + 1\<rparr>))))"

definition push_op :: "aspect_host_op \<Rightarrow> unit eval" where
  "push_op op = modify (\<lambda>s. s\<lparr>es_trace := es_trace s @ [op]\<rparr>)"

definition context_atom :: "aspect_execution_context \<Rightarrow> string \<Rightarrow> aspect_value option" where
  "context_atom c atom =
     (if atom = ''tx.sender'' then Some (AvAtom (ctx_tx_sender c))
      else if atom = ''msg.sender'' then Some (AvAtom (ctx_msg_sender c))
      else if atom = ''current-contract'' then Some (AvAtom (ctx_current_contract c))
      else if atom = ''block-height'' then Some (AvAmount (as_amount (ctx_block_height c)))
      else if atom = ''block-timestamp'' then Some (AvAmount (as_amount (ctx_block_timestamp c)))
      else None)"

definition eval_atom :: "eval_env \<Rightarrow> bindings \<Rightarrow> string \<Rightarrow> aspect_eval_error + aspect_value" where
  "eval_atom V b atom =
     (case strip_dollar atom of
        Some variable \<Rightarrow>
          (case fmlookup b variable of None \<Rightarrow> Inl (UnknownVariable variable) | Some v \<Rightarrow> Inr v)
      | None \<Rightarrow>
          if atom = ''True'' then Inr (AvBool True)
          else if atom = ''False'' then Inr (AvBool False)
          else case context_atom (ee_context V) atom of
            Some v \<Rightarrow> Inr v
          | None \<Rightarrow>
              (case parse_u128 atom of Some v \<Rightarrow> Inr (AvAmount v) | None \<Rightarrow> Inr (AvAtom atom)))"

definition atom_arg :: "expr list \<Rightarrow> nat \<Rightarrow> aspect_eval_error + string" where
  "atom_arg items index =
     (if index < length items
      then case items ! index of Atom a \<Rightarrow> Inr a | List _ \<Rightarrow> Inl InvalidExpression
      else Inl InvalidExpression)"

type_synonym action_call = "string \<Rightarrow> string \<Rightarrow> aspect_value list \<Rightarrow> bindings \<Rightarrow> aspect_value eval"
type_synonym evaluator = "expr \<Rightarrow> aspect_value eval"

section \<open>Forms\<close>

text \<open>One definition per \<open>eval_*\<close> method, with the recursive \<open>eval_expr\<close> as the argument \<open>ev\<close>.\<close>

definition eval_amount :: "evaluator \<Rightarrow> expr \<Rightarrow> u128 eval" where
  "eval_amount ev e = bind (ev e) (\<lambda>v. lift_result (into_amount v))"

definition eval_bool :: "evaluator \<Rightarrow> expr \<Rightarrow> bool eval" where
  "eval_bool ev e = bind (ev e) (\<lambda>v. lift_result (into_bool v))"

definition eval_name :: "evaluator \<Rightarrow> expr \<Rightarrow> string eval" where
  "eval_name ev e = bind (ev e) (\<lambda>v. lift_result (aspect_atom_value v))"

primrec eval_args :: "evaluator \<Rightarrow> expr list \<Rightarrow> aspect_value list eval" where
  "eval_args ev [] = ret []"
| "eval_args ev (x # xs) = bind (ev x) (\<lambda>v. bind (eval_args ev xs) (\<lambda>vs. ret (v # vs)))"

primrec eval_key_parts :: "evaluator \<Rightarrow> expr list \<Rightarrow> string list eval" where
  "eval_key_parts ev [] = ret []"
| "eval_key_parts ev (x # xs) =
     (bind (ev x) (\<lambda>v.
     bind (lift_result (aspect_key_part v)) (\<lambda>part.
     bind (eval_key_parts ev xs) (\<lambda>parts.
     ret (part # parts)))))"

primrec eval_event_items :: "evaluator \<Rightarrow> expr list \<Rightarrow> string list eval" where
  "eval_event_items ev [] = ret []"
| "eval_event_items ev (x # xs) =
     (bind (ev x) (\<lambda>v.
     bind (eval_event_items ev xs) (\<lambda>texts.
     ret (aspect_value_source v # texts))))"

definition eval_checked_binary_amount ::
  "evaluator \<Rightarrow> expr list \<Rightarrow> (u128 \<Rightarrow> u128 \<Rightarrow> u128 option) \<Rightarrow> aspect_value eval" where
  "eval_checked_binary_amount ev items operation =
     (if length items \<noteq> 3 then throw InvalidExpression
      else
        (bind (eval_amount ev (items ! 1)) (\<lambda>left.
        bind (eval_amount ev (items ! 2)) (\<lambda>right.
        bind (ok_or (operation left right) AspectArithmeticOverflow) (\<lambda>r.
        ret (AvAmount r))))))"

definition eval_div :: "evaluator \<Rightarrow> expr list \<Rightarrow> aspect_value eval" where
  "eval_div ev items =
     (if length items \<noteq> 3 then throw InvalidExpression
      else
        (bind (eval_amount ev (items ! 1)) (\<lambda>left.
        bind (eval_amount ev (items ! 2)) (\<lambda>right.
        andthen (fail_if (right = 0) DivisionByZero) (
        ret (AvAmount (left div right)))))))"

definition eval_require :: "evaluator \<Rightarrow> expr list \<Rightarrow> aspect_value eval" where
  "eval_require ev items =
     (if length items \<noteq> 3 then throw InvalidExpression
      else
        (bind (eval_bool ev (items ! 1)) (\<lambda>condition.
        andthen (fail_if (\<not> condition) (RequireFailed (aspect_expr_source (items ! 2)))) (
        ret AvUnit))))"

definition eval_if :: "evaluator \<Rightarrow> expr list \<Rightarrow> aspect_value eval" where
  "eval_if ev items =
     (if length items \<noteq> 4 then throw InvalidExpression
      else bind (eval_bool ev (items ! 1))
        (\<lambda>condition. if condition then ev (items ! 2) else ev (items ! 3)))"

definition eval_begin :: "evaluator \<Rightarrow> expr list \<Rightarrow> aspect_value eval" where
  "eval_begin ev items =
     (if length items < 2 then throw InvalidExpression
      else bind (eval_args ev (drop 1 items)) (\<lambda>vs. ret (last vs)))"

definition eval_and :: "evaluator \<Rightarrow> expr list \<Rightarrow> aspect_value eval" where
  "eval_and ev items =
     (if length items \<noteq> 3 then throw InvalidExpression
      else bind (eval_bool ev (items ! 1))
        (\<lambda>left. if \<not> left then ret (AvBool False)
          else bind (eval_bool ev (items ! 2)) (\<lambda>right. ret (AvBool right))))"

definition eval_or :: "evaluator \<Rightarrow> expr list \<Rightarrow> aspect_value eval" where
  "eval_or ev items =
     (if length items \<noteq> 3 then throw InvalidExpression
      else bind (eval_bool ev (items ! 1))
        (\<lambda>left. if left then ret (AvBool True)
          else bind (eval_bool ev (items ! 2)) (\<lambda>right. ret (AvBool right))))"

definition eval_not :: "evaluator \<Rightarrow> expr list \<Rightarrow> aspect_value eval" where
  "eval_not ev items =
     (if length items \<noteq> 2 then throw InvalidExpression
      else bind (eval_bool ev (items ! 1)) (\<lambda>v. ret (AvBool (\<not> v))))"

definition eval_eq :: "evaluator \<Rightarrow> expr list \<Rightarrow> aspect_value eval" where
  "eval_eq ev items =
     (if length items \<noteq> 3 then throw InvalidExpression
      else bind (ev (items ! 1)) (\<lambda>v. bind (ev (items ! 2)) (\<lambda>w. ret (AvBool (v = w)))))"

definition eval_cmp ::
  "evaluator \<Rightarrow> expr list \<Rightarrow> (u128 \<Rightarrow> u128 \<Rightarrow> bool) \<Rightarrow> aspect_value eval" where
  "eval_cmp ev items operation =
     (if length items \<noteq> 3 then throw InvalidExpression
      else
        (bind (eval_amount ev (items ! 1)) (\<lambda>left.
        bind (eval_amount ev (items ! 2)) (\<lambda>right.
        ret (AvBool (operation left right))))))"

definition eval_state_get :: "eval_env \<Rightarrow> evaluator \<Rightarrow> expr list \<Rightarrow> aspect_value eval" where
  "eval_state_get V ev items =
     (bind (lift_result (atom_arg items 1)) (\<lambda>state.
     bind (eval_key_parts ev (drop 2 items)) (\<lambda>key.
     andthen (push_op (StateGet state key)) (
     ret (case fmlookup (ee_state_reads V) (state, key) of None \<Rightarrow> AvAmount 0 | Some v \<Rightarrow> v)))))"

definition eval_contract_state_get :: "eval_env \<Rightarrow> evaluator \<Rightarrow> expr list \<Rightarrow> aspect_value eval" where
  "eval_contract_state_get V ev items =
     (if length items < 3 then throw InvalidExpression
      else
        (bind (eval_name ev (items ! 1)) (\<lambda>contract.
        bind (lift_result (atom_arg items 2)) (\<lambda>state.
        bind (eval_key_parts ev (drop 3 items)) (\<lambda>key.
        andthen (push_op (ContractStateGet contract state key)) (
        ret (case fmlookup (ee_contract_state_reads V) (contract, state, key) of
            None \<Rightarrow> AvAmount 0 | Some v \<Rightarrow> v)))))))"

definition eval_state_set :: "evaluator \<Rightarrow> expr list \<Rightarrow> aspect_value eval" where
  "eval_state_set ev items =
     (if length items < 3 then throw InvalidExpression
      else
        (bind (lift_result (atom_arg items 1)) (\<lambda>state.
        bind (eval_key_parts ev (butlast (drop 2 items))) (\<lambda>key.
        bind (ev (items ! (length items - 1))) (\<lambda>v.
        andthen (push_op (StateSet state key v)) (
        ret AvUnit))))))"

definition eval_registry_get :: "expr list \<Rightarrow> aspect_value eval" where
  "eval_registry_get items =
     (bind (lift_result (atom_arg items 1)) (\<lambda>registry.
     andthen (push_op (RegistryGet registry)) (
     ret AvUnit)))"

definition eval_registry_set :: "evaluator \<Rightarrow> expr list \<Rightarrow> aspect_value eval" where
  "eval_registry_set ev items =
     (if length items \<noteq> 3 then throw InvalidExpression
      else
        (bind (lift_result (atom_arg items 1)) (\<lambda>registry.
        bind (ev (items ! 2)) (\<lambda>v.
        andthen (push_op (RegistrySet registry v)) (
        ret AvUnit)))))"

definition eval_registry_consume :: "evaluator \<Rightarrow> expr list \<Rightarrow> aspect_value eval" where
  "eval_registry_consume ev items =
     (if length items \<noteq> 3 then throw InvalidExpression
      else
        (bind (lift_result (atom_arg items 1)) (\<lambda>registry.
        bind (ev (items ! 2)) (\<lambda>v.
        andthen (push_op (RegistryConsume registry v)) (
        ret AvUnit)))))"

text \<open>\<open>eval_event_expr\<close>: atoms are evaluated without a charge, the parts of a list are
  evaluated and joined. Evaluating an atom with \<open>ev\<close> is \<open>eval_atom\<close>, which charges nothing.\<close>

definition eval_event_expr ::
  "eval_env \<Rightarrow> bindings \<Rightarrow> evaluator \<Rightarrow> expr \<Rightarrow> string eval" where
  "eval_event_expr V b ev e =
     (case e of
        Atom atom \<Rightarrow> bind (lift_result (eval_atom V b atom)) (\<lambda>v. ret (aspect_value_source v))
      | List parts \<Rightarrow>
          bind (eval_event_items
              (\<lambda>part. case part of Atom atom \<Rightarrow> lift_result (eval_atom V b atom) | List _ \<Rightarrow> ev part)
              parts)
            (\<lambda>texts. ret (''('' @ join_spaces texts @ '')'')))"

definition eval_emit :: "eval_env \<Rightarrow> bindings \<Rightarrow> evaluator \<Rightarrow> expr list \<Rightarrow> aspect_value eval" where
  "eval_emit V b ev items =
     (if length items \<noteq> 2 then throw InvalidExpression
      else
        (bind (eval_event_expr V b ev (items ! 1)) (\<lambda>text.
        andthen (push_op (Emit text)) (
        ret AvUnit))))"

definition eval_call_contract :: "evaluator \<Rightarrow> expr list \<Rightarrow> aspect_value eval" where
  "eval_call_contract ev items =
     (if length items < 3 then throw InvalidExpression
      else
        (bind (eval_name ev (items ! 1)) (\<lambda>contract.
        bind (lift_result (atom_arg items 2)) (\<lambda>meth.
        bind (eval_args ev (drop 3 items)) (\<lambda>vs.
        andthen (push_op (OpCallContract contract meth vs)) (
        ret AvUnit))))))"

definition eval_permit_verify :: "evaluator \<Rightarrow> expr list \<Rightarrow> aspect_value eval" where
  "eval_permit_verify ev items =
     (if length items \<noteq> 6 then throw InvalidExpression
      else
        (bind (eval_name ev (items ! 1)) (\<lambda>owner.
        bind (eval_name ev (items ! 2)) (\<lambda>spender.
        bind (eval_name ev (items ! 3)) (\<lambda>asset.
        bind (eval_amount ev (items ! 4)) (\<lambda>amt.
        bind (eval_name ev (items ! 5)) (\<lambda>certificate.
        andthen (push_op (PermitVerify owner spender asset amt certificate)) (
        ret AvUnit))))))))"

definition eval_bridge_verify :: "evaluator \<Rightarrow> expr list \<Rightarrow> aspect_value eval" where
  "eval_bridge_verify ev items =
     (if length items \<noteq> 7 then throw InvalidExpression
      else
        (bind (eval_name ev (items ! 1)) (\<lambda>source_chain.
        bind (eval_name ev (items ! 2)) (\<lambda>message_id.
        bind (eval_name ev (items ! 3)) (\<lambda>recipient.
        bind (eval_name ev (items ! 4)) (\<lambda>asset.
        bind (eval_amount ev (items ! 5)) (\<lambda>amt.
        bind (eval_name ev (items ! 6)) (\<lambda>certificate.
        andthen (push_op (BridgeVerify source_chain message_id recipient asset amt certificate)) (
        ret AvUnit)))))))))"

definition eval_cross_shard_outbox_append :: "evaluator \<Rightarrow> expr list \<Rightarrow> aspect_value eval" where
  "eval_cross_shard_outbox_append ev items =
     (if length items \<noteq> 7 then throw InvalidExpression
      else
        (bind (eval_name ev (items ! 1)) (\<lambda>destination_chain.
        bind (eval_name ev (items ! 2)) (\<lambda>destination_contract.
        bind (eval_name ev (items ! 3)) (\<lambda>message_id.
        bind (eval_name ev (items ! 4)) (\<lambda>recipient.
        bind (eval_name ev (items ! 5)) (\<lambda>asset.
        bind (eval_amount ev (items ! 6)) (\<lambda>amt.
        andthen (push_op (OpCrossShardOutboxAppend destination_chain destination_contract message_id
          recipient asset amt)) (
        ret AvUnit)))))))))"

definition eval_action_call ::
  "eval_env \<Rightarrow> action_call \<Rightarrow> bindings \<Rightarrow> evaluator \<Rightarrow> string \<Rightarrow> expr list \<Rightarrow> aspect_value eval" where
  "eval_action_call V call b ev action_name items =
     (case filter (\<lambda>a. act_action a = action_name)
         (map snd (sorted_list_of_fmap (ir_actions (ee_module V)))) of
        [action] \<Rightarrow>
          bind (eval_args ev (drop 1 items))
            (\<lambda>vs. call (act_aspect action) (act_action action) vs b)
      | _ \<Rightarrow> throw InvalidExpression)"

definition eval_form ::
  "eval_env \<Rightarrow> action_call \<Rightarrow> bindings \<Rightarrow> evaluator \<Rightarrow> string \<Rightarrow> expr list \<Rightarrow> aspect_value eval" where
  "eval_form V call b ev head items =
     (if head = ''safe-add'' then eval_checked_binary_amount ev items checked_add
      else if head = ''safe-sub'' then eval_checked_binary_amount ev items checked_sub
      else if head = ''safe-mul'' then eval_checked_binary_amount ev items checked_mul
      else if head = ''safe-div'' then eval_div ev items
      else if head = ''require'' then eval_require ev items
      else if head = ''if'' then eval_if ev items
      else if head = ''begin'' then eval_begin ev items
      else if head = ''and'' then eval_and ev items
      else if head = ''or'' then eval_or ev items
      else if head = ''not'' then eval_not ev items
      else if head = ''='' then eval_eq ev items
      else if head = ''<'' then eval_cmp ev items (<)
      else if head = ''<='' then eval_cmp ev items (\<le>)
      else if head = ''>'' then eval_cmp ev items (>)
      else if head = ''>='' then eval_cmp ev items (\<ge>)
      else if head = ''state-get'' then eval_state_get V ev items
      else if head = ''contract-state-get'' then eval_contract_state_get V ev items
      else if head = ''state-set!'' then eval_state_set ev items
      else if head = ''registry-get'' then eval_registry_get items
      else if head = ''registry-set!'' then eval_registry_set ev items
      else if head = ''registry-consume!'' then eval_registry_consume ev items
      else if head = ''emit!'' then eval_emit V b ev items
      else if head = ''call-contract!'' then eval_call_contract ev items
      else if head = ''permit-verify!'' then eval_permit_verify ev items
      else if head = ''bridge-verify!'' then eval_bridge_verify ev items
      else if head = ''cross-shard-outbox-append!'' then eval_cross_shard_outbox_append ev items
      else eval_action_call V call b ev head items)"

definition eval_items ::
  "eval_env \<Rightarrow> action_call \<Rightarrow> bindings \<Rightarrow> evaluator \<Rightarrow> expr list \<Rightarrow> aspect_value eval" where
  "eval_items V call b ev items =
     (case items of
        Atom head # _ \<Rightarrow> eval_form V call b ev head items
      | _ \<Rightarrow> throw InvalidExpression)"

section \<open>The interpreter\<close>

text \<open>Every form evaluates members of its item list only, so the recursion is on the size of the
  expression.\<close>

lemmas eval_form_defs = eval_amount_def eval_bool_def eval_name_def eval_checked_binary_amount_def
  eval_div_def eval_require_def eval_if_def eval_begin_def eval_and_def eval_or_def eval_not_def
  eval_eq_def eval_cmp_def eval_state_get_def eval_contract_state_get_def eval_state_set_def
  eval_registry_get_def eval_registry_set_def eval_registry_consume_def eval_emit_def
  eval_call_contract_def eval_permit_verify_def eval_bridge_verify_def
  eval_cross_shard_outbox_append_def eval_action_call_def

fun subexprs :: "expr \<Rightarrow> expr set" where
  "subexprs (Atom _) = {}"
| "subexprs (List es) = set es"

lemma eval_args_cong: "(\<And>e. e \<in> set xs \<Longrightarrow> ev e = ev' e) \<Longrightarrow> eval_args ev xs = eval_args ev' xs"
  by (induction xs) auto

lemma eval_key_parts_cong:
  "(\<And>e. e \<in> set xs \<Longrightarrow> ev e = ev' e) \<Longrightarrow> eval_key_parts ev xs = eval_key_parts ev' xs"
  by (induction xs) auto

lemma eval_event_items_cong:
  "(\<And>e. e \<in> set xs \<Longrightarrow> ev e = ev' e) \<Longrightarrow> eval_event_items ev xs = eval_event_items ev' xs"
  by (induction xs) auto

lemma eval_event_expr_cong:
  assumes "\<And>e'. e' \<in> subexprs e \<Longrightarrow> ev e' = ev' e'"
  shows "eval_event_expr V b ev e = eval_event_expr V b ev' e"
proof (cases e)
  case (List parts)
  with assms have "eval_event_items
      (\<lambda>part. case part of Atom atom \<Rightarrow> lift_result (eval_atom V b atom) | List _ \<Rightarrow> ev part) parts
    = eval_event_items
      (\<lambda>part. case part of Atom atom \<Rightarrow> lift_result (eval_atom V b atom) | List _ \<Rightarrow> ev' part) parts"
    by (intro eval_event_items_cong) (auto split: expr.splits)
  with List show ?thesis by (simp add: eval_event_expr_def)
qed (simp add: eval_event_expr_def)

lemma in_butlast_drop: "e \<in> set (butlast (drop n xs)) \<Longrightarrow> e \<in> set xs"
  by (meson in_set_butlastD in_set_dropD)

text \<open>\<open>emit!\<close> evaluates the parts of its argument, one level deeper.\<close>

lemma eval_form_cong:
  assumes "\<And>e. e \<in> set items \<Longrightarrow> ev e = ev' e"
    and "\<And>e e'. e \<in> set items \<Longrightarrow> e' \<in> subexprs e \<Longrightarrow> ev e' = ev' e'"
  shows "eval_form V call b ev head items = eval_form V call b ev' head items"
proof -
  have nth: "i < length items \<Longrightarrow> ev (items ! i) = ev' (items ! i)" for i
    using assms(1) nth_mem by blast
  have args: "eval_args ev (drop n items) = eval_args ev' (drop n items)" for n
    using assms(1) by (intro eval_args_cong) (meson in_set_dropD)
  have keys: "eval_key_parts ev (drop n items) = eval_key_parts ev' (drop n items)" for n
    using assms(1) by (intro eval_key_parts_cong) (meson in_set_dropD)
  have set_keys: "eval_key_parts ev (butlast (drop n items))
      = eval_key_parts ev' (butlast (drop n items))" for n
    using assms(1) by (intro eval_key_parts_cong) (meson in_butlast_drop)
  have event: "i < length items \<Longrightarrow>
      eval_event_expr V b ev (items ! i) = eval_event_expr V b ev' (items ! i)" for i
    using assms(2) nth_mem by (intro eval_event_expr_cong) blast
  show ?thesis
    unfolding eval_form_def eval_form_defs
    by (simp add: nth args keys set_keys event cong: if_cong list.case_cong)
qed

lemma size_item: "e \<in> set items \<Longrightarrow> size e < size (List items)"
  by (simp add: size_list_estimation' less_Suc_eq_le)

lemma size_subexpr: "e' \<in> subexprs e \<Longrightarrow> size e' < size e"
  by (cases e) (simp_all only: subexprs.simps size_item empty_iff)

lemma eval_items_cong [fundef_cong]:
  assumes "items = items'"
    and "\<And>e. size e < size (List items') \<Longrightarrow> ev e = ev' e"
  shows "eval_items V call b ev items = eval_items V call b ev' items'"
proof -
  have "eval_form V call b ev head items' = eval_form V call b ev' head items'" for head
    using assms(2) size_item size_subexpr by (intro eval_form_cong) (meson less_trans)+
  with assms(1) show ?thesis
    by (simp add: eval_items_def split: list.split expr.split)
qed

function eval_expr :: "eval_env \<Rightarrow> action_call \<Rightarrow> bindings \<Rightarrow> evaluator" where
  "eval_expr V call b (Atom atom) = lift_result (eval_atom V b atom)"
| "eval_expr V call b (List items) =
     andthen (charge V) (eval_items V call b (\<lambda>e. eval_expr V call b e) items)"
  by pat_completeness auto
termination
  by (relation "measure (\<lambda>(V, call, b, e). size e)") auto

text \<open>\<open>execute_named_action\<close>, by recursion on the stack depth left.\<close>

primrec execute_named_action :: "eval_env \<Rightarrow> nat \<Rightarrow> action_call" where
  "execute_named_action V 0 aspect action args b = throw StackDepthExceeded"
| "execute_named_action V (Suc left) aspect action args b =
     (case fmlookup (ir_actions (ee_module V)) (qualified_symbol aspect action) of
        None \<Rightarrow> throw (UnknownAction aspect action)
      | Some def \<Rightarrow>
        (case act_body def of None \<Rightarrow> throw (MissingActionBody aspect action)
         | Some body \<Rightarrow>
           (bind (lift_result (action_body_parts action body)) (\<lambda>(params, rhs).
           andthen (fail_if (length params \<noteq> length args) InvalidActionBody) (
           eval_expr V (execute_named_action V left) (bind_params params args b) rhs)))))"

definition make_report ::
  "env \<Rightarrow> (aspect_eval_error + aspect_value) \<times> eval_state
   \<Rightarrow> aspect_eval_error + aspect_execution_report" where
  "make_report E run =
     (case run of
        (Inl e, _) \<Rightarrow> Inl e
      | (Inr v, s) \<Rightarrow>
          Inr \<lparr>rep_trace = es_trace s, rep_return_value = v, rep_steps_used = es_steps_used s,
            rep_trace_root = hex_lower (sha256 E (canonical_bytes E (SerTrace (es_trace s))))\<rparr>)"

definition initial_eval_state :: eval_state where
  "initial_eval_state = \<lparr>es_steps_used = 0, es_trace = []\<rparr>"

definition execute_projection ::
  "env \<Rightarrow> eval_env \<Rightarrow> string \<Rightarrow> string \<Rightarrow> aspect_value list
   \<Rightarrow> aspect_eval_error + aspect_execution_report" where
  "execute_projection E V bundle projection args =
     (case fmlookup (ir_projections (ee_module V)) (qualified_symbol bundle projection) of
        None \<Rightarrow> Inl (UnknownProjection bundle projection)
      | Some def \<Rightarrow>
        (case projection_body_parts (pd_expr def) of Inl e \<Rightarrow> Inl e
         | Inr (params, rhs) \<Rightarrow>
             if length params \<noteq> length args then Inl InvalidActionBody
             else make_report E
               (eval_expr V (execute_named_action V max_stack_depth)
                 (bind_params params args fmempty) rhs initial_eval_state)))"

definition evaluate_invariant_expr ::
  "env \<Rightarrow> eval_env \<Rightarrow> expr \<Rightarrow> aspect_eval_error + aspect_execution_report" where
  "evaluate_invariant_expr E V e =
     make_report E
       (eval_expr V (execute_named_action V max_stack_depth) fmempty e initial_eval_state)"

definition execute_action ::
  "env \<Rightarrow> eval_env \<Rightarrow> string \<Rightarrow> string \<Rightarrow> aspect_value list
   \<Rightarrow> aspect_eval_error + aspect_execution_report" where
  "execute_action E V aspect action args =
     make_report E (execute_named_action V max_stack_depth aspect action args fmempty
       initial_eval_state)"

end
