(* ===== verification/Manifests.thy ===== *)
theory Manifests
  imports Commitments
begin

text \<open>
  Contract records: the policy manifest of each native contract kind (\<open>ContractRecord::token\<close>
  and its siblings), the manifest derived from a verified aspect module, and aspect module
  records. \<open>aspect_bundle_aspect_closure\<close> walks the bundle and aspect hierarchies; its
  recursion ends because the set of nodes being visited grows within the finite tables.
\<close>

section \<open>Parameters\<close>

record amm_parameters =
  ap_swap_fee_bps :: u64

record lending_risk_parameters =
  lp_ltv_bps :: u64
  lp_max_oracle_age :: u64
  lp_interest_bps_per_block :: u64
  lp_liquidation_threshold_bps :: u64

record staking_parameters =
  stp_unbonding_delay :: u64
  stp_reward_per_block :: amount
  stp_unstake_penalty_bps :: u64

section \<open>Native manifests\<close>

definition make_policy ::
  "policy_authority \<Rightarrow> policy_effect list \<Rightarrow> contract_invariant list \<Rightarrow> method_policy" where
  "make_policy authority effects invariants =
     \<lparr>pol_authority = authority, pol_reentrancy = NonReentrant,
      pol_effects = fset_of_list effects, pol_invariants = fset_of_list invariants\<rparr>"

definition with_policy_manifest ::
  "contract_id \<Rightarrow> string \<Rightarrow> contract_kind \<Rightarrow> (call_method, method_policy) fmap
   \<Rightarrow> contract_invariant fset \<Rightarrow> contract_record" where
  "with_policy_manifest contract code_hash kind policies invariants =
     \<lparr>cr_contract_id = contract, cr_code_hash = code_hash, cr_kind = kind,
      cr_exported_methods = fmdom policies, cr_method_policies = policies,
      cr_declared_invariants = invariants\<rparr>"

definition token_record :: "contract_id \<Rightarrow> string \<Rightarrow> contract_record" where
  "token_record contract code_hash =
     with_policy_manifest contract code_hash Token
       (fmap_of_list
         [(Transfer, make_policy TxSender [StorageWrite, EventEmit] [TokenSupplyMatchesBalances]),
          (Approve, make_policy TxSender [RegistryWrite, EventEmit] []),
          (TransferFrom,
            make_policy LiveAllowanceGrant [StorageWrite, RegistryWrite, EventEmit]
              [TokenSupplyMatchesBalances]),
          (Permit, make_policy PermitCertificate [RegistryWrite, EventEmit] [])])
       {|TokenSupplyMatchesBalances|}"

definition amm_pool_record ::
  "contract_id \<Rightarrow> string \<Rightarrow> asset_id \<Rightarrow> asset_id \<Rightarrow> amm_parameters \<Rightarrow> contract_record" where
  "amm_pool_record contract code_hash asset_a asset_b parameters =
     with_policy_manifest contract code_hash (AmmPool asset_a asset_b (ap_swap_fee_bps parameters))
       (fmap_of_list
         [(AddLiquidity,
            make_policy TxSender [StorageWrite, EventEmit] [AmmLpSupplyMatchesBalances]),
          (Swap, make_policy TxSender [StorageWrite, EventEmit] [AmmLpSupplyMatchesBalances])])
       {|AmmPoolAssetsDistinct, AmmLpSupplyMatchesBalances|}"

definition oracle_record ::
  "contract_id \<Rightarrow> string \<Rightarrow> asset_id \<Rightarrow> u64 \<Rightarrow> contract_record" where
  "oracle_record contract code_hash asset max_age =
     with_policy_manifest contract code_hash (Oracle asset max_age)
       (fmap_of_list
         [(SubmitPrice,
            make_policy OracleUpdaterGrant [StorageWrite, EventEmit]
              [OracleUpdatesRequireLiveGrant])])
       {|OracleUpdatesRequireLiveGrant, OracleFreshnessCheckedByConsumers|}"

definition bridge_record :: "contract_id \<Rightarrow> string \<Rightarrow> chain_id \<Rightarrow> contract_record" where
  "bridge_record contract code_hash source_chain =
     with_policy_manifest contract code_hash (Bridge source_chain)
       (fmap_of_list
         [(QueueBridgeMessage,
            make_policy TxSender [CrossShardOutboxAppend, EventEmit]
              [BridgeOutboundMessageIdsUnique]),
          (RedeemBridgeMessage,
            make_policy BridgeCertificate [StorageWrite, EventEmit]
              [BridgeInboundMessagesConsumedOnce])])
       {|BridgeInboundMessagesConsumedOnce, BridgeOutboundMessageIdsUnique|}"

definition governance_record ::
  "contract_id \<Rightarrow> string \<Rightarrow> contract_id \<Rightarrow> u64 \<Rightarrow> contract_record" where
  "governance_record contract code_hash governed_contract timelock_delay =
     with_policy_manifest contract code_hash (Governance governed_contract timelock_delay)
       (fmap_of_list
         [(PauseContract,
            make_policy GovernanceAdminGrant [ContractPause, EventEmit]
              [GovernanceChangesRequireAdminGrant]),
          (UnpauseContract,
            make_policy GovernanceAdminGrant [ContractPause, EventEmit]
              [GovernanceChangesRequireAdminGrant]),
          (ScheduleUpgrade,
            make_policy GovernanceAdminGrant [UpgradeSchedule, EventEmit]
              [GovernanceChangesRequireAdminGrant, GovernanceUpgradesRespectTimelock]),
          (ExecuteUpgrade,
            make_policy GovernanceAdminGrant [ContractCodeUpgrade, EventEmit]
              [GovernanceChangesRequireAdminGrant, GovernanceUpgradesRespectTimelock]),
          (SchedulePolicyUpdate,
            make_policy GovernanceAdminGrant [PolicyUpdateSchedule, EventEmit]
              [GovernanceChangesRequireAdminGrant, GovernanceUpgradesRespectTimelock]),
          (ExecutePolicyUpdate,
            make_policy GovernanceAdminGrant [MethodPolicyUpdate, EventEmit]
              [GovernanceChangesRequireAdminGrant, GovernanceUpgradesRespectTimelock])])
       {|GovernanceChangesRequireAdminGrant, GovernanceUpgradesRespectTimelock|}"

definition lending_vault_record ::
  "contract_id \<Rightarrow> string \<Rightarrow> asset_id \<Rightarrow> asset_id \<Rightarrow> contract_id \<Rightarrow> lending_risk_parameters
   \<Rightarrow> contract_record" where
  "lending_vault_record contract code_hash collateral_asset debt_asset oracle_contract risk =
     with_policy_manifest contract code_hash
       (LendingVault collateral_asset debt_asset oracle_contract (lp_ltv_bps risk)
         (lp_max_oracle_age risk) (lp_interest_bps_per_block risk)
         (lp_liquidation_threshold_bps risk))
       (fmap_of_list
         [(DepositCollateral, make_policy TxSender [StorageWrite, EventEmit] []),
          (Borrow,
            make_policy TxSender [StorageWrite, EventEmit] [LendingBorrowWithinCollateralLimit]),
          (Liquidate,
            make_policy TxSender [StorageWrite, EventEmit] [LendingBorrowWithinCollateralLimit])])
       {|LendingBorrowWithinCollateralLimit|}"

definition staking_record ::
  "contract_id \<Rightarrow> string \<Rightarrow> asset_id \<Rightarrow> staking_parameters \<Rightarrow> contract_record" where
  "staking_record contract code_hash asset parameters =
     with_policy_manifest contract code_hash
       (Staking asset (stp_unbonding_delay parameters) (stp_reward_per_block parameters)
         (stp_unstake_penalty_bps parameters))
       (fmap_of_list
         [(Stake, make_policy TxSender [StorageWrite, EventEmit] [StakingTotalMatchesBalances]),
          (Unstake, make_policy TxSender [StorageWrite, EventEmit] [StakingTotalMatchesBalances]),
          (RequestUnstake,
            make_policy TxSender [StorageWrite, EventEmit]
              [StakingTotalMatchesBalances, StakingPendingUnbondingMatchesTotal]),
          (CompleteUnstake,
            make_policy TxSender [StorageWrite, EventEmit] [StakingPendingUnbondingMatchesTotal]),
          (ClaimStakingRewards, make_policy TxSender [StorageWrite, EventEmit] [])])
       {|StakingTotalMatchesBalances, StakingPendingUnbondingMatchesTotal|}"

definition router_record :: "contract_id \<Rightarrow> string \<Rightarrow> contract_id \<Rightarrow> contract_record" where
  "router_record contract code_hash token_contract =
     with_policy_manifest contract code_hash (Router token_contract)
       (fmap_of_list
         [(RouteTransferFrom,
            make_policy TxSender [CrossContractCall] [RouterDoesNotInheritCallerWriteScope])])
       {|RouterDoesNotInheritCallerWriteScope|}"

definition factory_record :: "contract_id \<Rightarrow> string \<Rightarrow> contract_record" where
  "factory_record contract code_hash =
     with_policy_manifest contract code_hash Factory
       (fmap_of_list
         [(DeployToken,
            make_policy TxSender [ContractDeploy, StorageWrite, EventEmit]
              [FactoryDeploymentsDeclarePolicies]),
          (DeployAmmPool,
            make_policy TxSender [ContractDeploy, StorageWrite, EventEmit]
              [FactoryDeploymentsDeclarePolicies]),
          (SubmitAspectModule,
            make_policy TxSender [ModuleRegister, EventEmit] [FactoryDeploymentsDeclarePolicies]),
          (DeployAspectContract,
            make_policy TxSender [ContractDeploy, EventEmit] [FactoryDeploymentsDeclarePolicies])])
       {|FactoryDeploymentsDeclarePolicies|}"

definition account_registry_record :: "contract_id \<Rightarrow> string \<Rightarrow> contract_record" where
  "account_registry_record contract code_hash =
     with_policy_manifest contract code_hash AccountRegistry
       (fmap_of_list
         [(RegisterAccountKey,
            make_policy TxSender [RegistryWrite, EventEmit] [AccountSignerKeysCanonical]),
          (RevokeAccountKey,
            make_policy TxSender [RegistryWrite, EventEmit] [AccountSignerKeysCanonical])])
       {|AccountSignerKeysCanonical|}"

section \<open>Aspect manifests\<close>

lemma visiting_decreases:
  assumes "fmlookup m x = Some d" and "x |\<notin>| visiting"
  shows "fcard (fmdom m |-| finsert x visiting) < fcard (fmdom m |-| visiting)"
proof (rule pfsubset_fcard_mono)
  have "x |\<in>| fmdom m |-| visiting" using assms by (simp add: fmdomI)
  then show "fmdom m |-| finsert x visiting |\<subset>| fmdom m |-| visiting" by auto
qed

text \<open>\<open>collect_aspect_with_parents\<close> removes the node from \<open>visiting_aspects\<close> on the way out, so
  the set is passed down by value; the accumulated closure is threaded.\<close>

function collect_aspect_with_parents ::
    "aspect_module_ir \<Rightarrow> string fset \<Rightarrow> string \<Rightarrow> string fset \<Rightarrow> execution_error + string fset"
  and collect_aspect_parents ::
    "aspect_module_ir \<Rightarrow> string fset \<Rightarrow> string list \<Rightarrow> string fset \<Rightarrow> execution_error + string fset"
  where
  "collect_aspect_with_parents ir visiting aspect closure =
     (if aspect |\<in>| visiting then Inr closure
      else case fmlookup (ir_aspects ir) aspect of None \<Rightarrow> Inl InvalidArguments
      | Some def \<Rightarrow>
          (case collect_aspect_parents ir (finsert aspect visiting)
              (sorted_list_of_fset (ad_extends def)) closure of
            Inl e \<Rightarrow> Inl e
          | Inr closure' \<Rightarrow> Inr (finsert aspect closure')))"
| "collect_aspect_parents ir visiting [] closure = Inr closure"
| "collect_aspect_parents ir visiting (parent # parents) closure =
     (case collect_aspect_with_parents ir visiting parent closure of
        Inl e \<Rightarrow> Inl e
      | Inr closure' \<Rightarrow> collect_aspect_parents ir visiting parents closure')"
  by pat_completeness auto

termination
  by (relation "measures
      [\<lambda>p. case p of Inl (ir, visiting, _) \<Rightarrow> fcard (fmdom (ir_aspects ir) |-| visiting)
        | Inr (ir, visiting, _) \<Rightarrow> fcard (fmdom (ir_aspects ir) |-| visiting),
       \<lambda>p. case p of Inl _ \<Rightarrow> 0 | Inr (_, _, parents, _) \<Rightarrow> Suc (length parents)]")
    (auto intro: visiting_decreases)

function collect_bundle_aspects ::
    "aspect_module_ir \<Rightarrow> string fset \<Rightarrow> string \<Rightarrow> string fset \<Rightarrow> execution_error + string fset"
  and collect_bundle_parents ::
    "aspect_module_ir \<Rightarrow> string fset \<Rightarrow> string list \<Rightarrow> string fset \<Rightarrow> execution_error + string fset"
  where
  "collect_bundle_aspects ir visiting bundle_id closure =
     (if bundle_id |\<in>| visiting then Inr closure
      else case fmlookup (ir_bundles ir) bundle_id of None \<Rightarrow> Inl InvalidArguments
      | Some bundle \<Rightarrow>
          (case collect_bundle_parents ir (finsert bundle_id visiting)
              (sorted_list_of_fset (bd_extends bundle)) closure of
            Inl e \<Rightarrow> Inl e
          | Inr closure' \<Rightarrow>
              collect_aspect_parents ir {||} (sorted_list_of_fset (bd_includes bundle)) closure'))"
| "collect_bundle_parents ir visiting [] closure = Inr closure"
| "collect_bundle_parents ir visiting (parent # parents) closure =
     (case collect_bundle_aspects ir visiting parent closure of
        Inl e \<Rightarrow> Inl e
      | Inr closure' \<Rightarrow> collect_bundle_parents ir visiting parents closure')"
  by pat_completeness auto
termination
  by (relation "measures
      [\<lambda>p. case p of Inl (ir, visiting, _) \<Rightarrow> fcard (fmdom (ir_bundles ir) |-| visiting)
        | Inr (ir, visiting, _) \<Rightarrow> fcard (fmdom (ir_bundles ir) |-| visiting),
       \<lambda>p. case p of Inl _ \<Rightarrow> 0 | Inr (_, _, parents, _) \<Rightarrow> Suc (length parents)]")
    (auto intro: visiting_decreases)

declare collect_aspect_with_parents.simps [simp del] collect_aspect_parents.simps [simp del]
  collect_bundle_aspects.simps [simp del] collect_bundle_parents.simps [simp del]

definition aspect_bundle_aspect_closure ::
  "aspect_module_ir \<Rightarrow> string \<Rightarrow> execution_error + string fset" where
  "aspect_bundle_aspect_closure ir bundle_id = collect_bundle_aspects ir {||} bundle_id {||}"

definition exact_invariant_key :: "aspect_module_ir \<Rightarrow> string \<Rightarrow> string option" where
  "exact_invariant_key ir invariant_ref =
     (if fmlookup (ir_invariants ir) invariant_ref \<noteq> None then Some invariant_ref
      else case split_once ''::'' invariant_ref of
        Some (aspect, invariant) \<Rightarrow> Some (qualified_symbol aspect invariant)
      | None \<Rightarrow> map_option (\<lambda>(aspect, invariant). qualified_symbol aspect invariant)
          (split_once ''.'' invariant_ref))"

definition resolve_aspect_invariant ::
  "aspect_module_ir \<Rightarrow> string \<Rightarrow> string \<Rightarrow> execution_error + invariant_def" where
  "resolve_aspect_invariant ir bundle_id invariant_ref =
     (case aspect_bundle_aspect_closure ir bundle_id of Inl e \<Rightarrow> Inl e
      | Inr closure \<Rightarrow>
        (case exact_invariant_key ir invariant_ref of
          Some exact_key \<Rightarrow>
            (case fmlookup (ir_invariants ir) exact_key of None \<Rightarrow> Inl InvalidArguments
             | Some invariant \<Rightarrow>
                 if ivd_aspect invariant |\<in>| closure then Inr invariant
                 else Inl InvalidArguments)
        | None \<Rightarrow>
            (case filter (\<lambda>invariant. ivd_invariant invariant = invariant_ref
                  \<and> ivd_aspect invariant |\<in>| closure)
                (map snd (sorted_list_of_fmap (ir_invariants ir))) of
              [] \<Rightarrow> Inl InvalidArguments
            | [invariant] \<Rightarrow> Inr invariant
            | _ \<Rightarrow> Inl InvalidArguments)))"

definition aspect_policy_invariant_refs ::
  "aspect_module_record \<Rightarrow> string \<Rightarrow> method_policy_ir \<Rightarrow> execution_error + contract_invariant fset" where
  "aspect_policy_invariant_refs module bundle_id policy =
     (case amr_ir module of None \<Rightarrow> Inl PolicyMissing
      | Some ir \<Rightarrow>
        map_sum id fset_of_list
          (try_map (\<lambda>invariant_ref.
              map_sum id (\<lambda>invariant. AspectLocalInvariant (amr_module_hash module)
                  (ivd_aspect invariant) (ivd_invariant invariant))
                (resolve_aspect_invariant ir bundle_id invariant_ref))
            (sorted_list_of_fset (mpi_invariants policy))))"

fun core_authority :: "authority_kind \<Rightarrow> execution_error + policy_authority" where
  "core_authority AkTxSender = Inr TxSender"
| "core_authority AkPermitCertificate = Inr PermitCertificate"
| "core_authority AkBridgeCertificate = Inr BridgeCertificate"
| "core_authority AkOracleUpdaterGrant = Inr OracleUpdaterGrant"
| "core_authority AkGovernanceAdminGrant = Inr GovernanceAdminGrant"
| "core_authority _ = Inl InvalidArguments"

fun core_effect :: "effect_kind \<Rightarrow> policy_effect option" where
  "core_effect WriteState = Some StorageWrite"
| "core_effect WriteRegistry = Some RegistryWrite"
| "core_effect ConsumeRegistryGrant = Some RegistryWrite"
| "core_effect EmitEvent = Some EventEmit"
| "core_effect CallContract = Some CrossContractCall"
| "core_effect DeployContract = Some ContractDeploy"
| "core_effect EkScheduleUpgrade = Some UpgradeSchedule"
| "core_effect EkExecuteUpgrade = Some ContractCodeUpgrade"
| "core_effect EkCrossShardOutboxAppend = Some CrossShardOutboxAppend"
| "core_effect UsePermitCertificate = Some RegistryWrite"
| "core_effect UseBridgeCertificate = Some StorageWrite"
| "core_effect _ = None"

definition core_method_policy_from_aspect ::
  "aspect_module_record \<Rightarrow> string \<Rightarrow> method_policy_ir \<Rightarrow> execution_error + method_policy" where
  "core_method_policy_from_aspect module bundle_id policy =
     (case core_authority (mpi_authority policy) of Inl e \<Rightarrow> Inl e
      | Inr authority \<Rightarrow>
        (case aspect_policy_invariant_refs module bundle_id policy of Inl e \<Rightarrow> Inl e
         | Inr invariants \<Rightarrow>
           Inr \<lparr>pol_authority = authority, pol_reentrancy = NonReentrant,
             pol_effects = (\<lambda>e. the (core_effect e))
               |`| ffilter (\<lambda>e. core_effect e \<noteq> None) (mpi_effects policy),
             pol_invariants = invariants\<rparr>))"

definition projection_policy_entry ::
  "aspect_module_record \<Rightarrow> aspect_module_ir \<Rightarrow> string \<Rightarrow> projection_def
   \<Rightarrow> execution_error + call_method \<times> method_policy" where
  "projection_policy_entry module ir bundle_id projection =
     (case fmlookup (ir_policies ir)
         (qualified_symbol (pd_bundle projection) (pd_projection projection)) of
       None \<Rightarrow> Inl InvalidArguments
     | Some policy \<Rightarrow>
         map_sum id (\<lambda>p. (Other (pd_projection projection), p))
           (core_method_policy_from_aspect module bundle_id policy))"

definition aspect_module_method_policies ::
  "aspect_module_record \<Rightarrow> string \<Rightarrow> execution_error + (call_method, method_policy) fmap" where
  "aspect_module_method_policies module bundle_id =
     (case amr_ir module of None \<Rightarrow> Inr fmempty
      | Some ir \<Rightarrow>
        if fmlookup (ir_bundles ir) bundle_id = None then Inl InvalidArguments
        else
          (case try_map (projection_policy_entry module ir bundle_id)
              (filter (\<lambda>projection. pd_bundle projection = bundle_id)
                (map snd (sorted_list_of_fmap (ir_projections ir)))) of
            Inl e \<Rightarrow> Inl e
          | Inr entries \<Rightarrow>
              if entries = [] then Inl InvalidArguments
              else Inr (fold (\<lambda>(m, p) acc. fmupd m p acc) entries fmempty)))"

definition aspect_module_contract_record ::
  "contract_id \<Rightarrow> aspect_module_record \<Rightarrow> string \<Rightarrow> execution_error + contract_record" where
  "aspect_module_contract_record contract module bundle_id =
     map_sum id (\<lambda>policies.
         with_policy_manifest contract (amr_module_hash module)
           (AspectModule (amr_module_hash module) bundle_id (amr_abi_root module)
             (amr_policy_root module) (amr_invariant_root module))
           policies {||})
       (aspect_module_method_policies module bundle_id)"

section \<open>Aspect module records\<close>

definition computed_hash :: "env \<Rightarrow> aspect_module_record \<Rightarrow> string" where
  "computed_hash E m =
     root_of E (SerTuple [amr_module_id m, amr_taxonomy_version m, amr_source_root m,
       amr_ir_root m, amr_abi_root m, amr_policy_root m, amr_storage_schema_root m,
       amr_registry_schema_root m, amr_invariant_root m] [])"

definition new_aspect_module_record ::
  "env \<Rightarrow> string \<Rightarrow> string \<Rightarrow> aspect_module_roots \<Rightarrow> aspect_module_record" where
  "new_aspect_module_record E module_id taxonomy_version roots =
     (let record =
        \<lparr>amr_module_id = module_id, amr_module_hash = [], amr_taxonomy_version = taxonomy_version,
         amr_source_root = mr_source_root roots, amr_canonical_source = None,
         amr_ir_root = mr_ir_root roots, amr_ir = None, amr_abi_root = mr_abi_root roots,
         amr_policy_root = mr_policy_root roots,
         amr_storage_schema_root = mr_storage_schema_root roots,
         amr_registry_schema_root = mr_registry_schema_root roots,
         amr_invariant_root = mr_invariant_root roots\<rparr>
      in record\<lparr>amr_module_hash := computed_hash E record\<rparr>)"

definition module_from_verified_source ::
  "env \<Rightarrow> string \<Rightarrow> string \<Rightarrow> execution_error + aspect_module_record" where
  "module_from_verified_source E module_id source =
     (if module_id = [] then Inl InvalidArguments
      else case parse_verify_module E source of None \<Rightarrow> Inl InvalidArguments
      | Some (canonical_source, ir, verified) \<Rightarrow>
        if fmlookup (ir_bundles (vm_ir verified)) module_id = None then Inl InvalidArguments
        else
          (let roots =
             \<lparr>mr_source_root = ir_source_root (vm_ir verified),
              mr_ir_root = ar_ir_root (vm_roots verified),
              mr_abi_root = ar_abi_root (vm_roots verified),
              mr_policy_root = ar_policy_root (vm_roots verified),
              mr_storage_schema_root = ar_storage_schema_root (vm_roots verified),
              mr_registry_schema_root = ar_registry_schema_root (vm_roots verified),
              mr_invariant_root = ar_invariant_root (vm_roots verified)\<rparr>;
             record = new_aspect_module_record E module_id
               (ir_taxonomy_version (vm_ir verified)) roots
           in Inr (record\<lparr>amr_canonical_source := Some canonical_source, amr_ir := Some ir\<rparr>)))"

definition roots_are_complete :: "aspect_module_record \<Rightarrow> bool" where
  "roots_are_complete m \<longleftrightarrow>
     amr_module_id m \<noteq> [] \<and> amr_taxonomy_version m \<noteq> [] \<and> amr_source_root m \<noteq> []
     \<and> amr_ir_root m \<noteq> [] \<and> amr_abi_root m \<noteq> [] \<and> amr_policy_root m \<noteq> []
     \<and> amr_storage_schema_root m \<noteq> [] \<and> amr_registry_schema_root m \<noteq> []
     \<and> amr_invariant_root m \<noteq> []"

section \<open>Manifests are consistent\<close>

lemma with_policy_manifest_exports:
  "m |\<in>| cr_exported_methods (with_policy_manifest c h k ps is) \<longleftrightarrow> fmlookup ps m \<noteq> None"
  by (auto simp: with_policy_manifest_def fmdom'I fmlookup_dom_iff)

lemma with_policy_manifest_sel [simp]:
  "cr_contract_id (with_policy_manifest c h k ps is) = c"
  "cr_kind (with_policy_manifest c h k ps is) = k"
  "cr_method_policies (with_policy_manifest c h k ps is) = ps"
  "cr_declared_invariants (with_policy_manifest c h k ps is) = is"
  by (simp_all add: with_policy_manifest_def)

text \<open>The manifest of an aspect contract exports only \<open>Method::Other\<close> entries.\<close>

lemma fold_fmupd_dom:
  "fmlookup (fold (\<lambda>(m, p) acc. fmupd m p acc) entries acc) k = Some v \<Longrightarrow>
   (k, v) \<in> set entries \<or> fmlookup acc k = Some v"
  by (induction entries arbitrary: acc) (fastforce split: if_splits)+

lemma aspect_module_policies_other:
  assumes "aspect_module_method_policies module bundle_id = Inr policies"
    and "fmlookup policies m = Some p"
  shows "\<exists>n. m = Other n"
proof -
  from assms obtain ir entries xs where entries:
      "try_map (projection_policy_entry module ir bundle_id) xs = Inr entries"
      "fmlookup (fold (\<lambda>(m, p) acc. fmupd m p acc) entries fmempty) m = Some p"
    by (auto simp: aspect_module_method_policies_def split: option.splits if_splits sum.splits)
  from fold_fmupd_dom [OF entries(2)] have "(m, p) \<in> set entries" by simp
  then obtain x where "projection_policy_entry module ir bundle_id x = Inr (m, p)"
    using entries(1) by (auto simp: try_map_Inr list_all2_conv_all_nth in_set_conv_nth)
  then show ?thesis
    by (auto simp: projection_policy_entry_def map_sum_def split: option.splits sum.splits)
qed

end
