(* ===== verification/State_Ops.thy ===== *)
theory State_Ops
  imports Manifests Exec_Monad
begin

text \<open>
  The elementary operations of \<open>DeTTaState\<close>: reads, the scoped write \<open>state_set\<close>, \<open>emit\<close>, the
  registry checks, the declared invariants, the state commitments and the receipts.

  A handler is an \<open>op\<close>: a computation over the state that may fail with \<open>Err e\<close>, the
  \<open>Result::Err\<close> of the source, or with \<open>Diverge\<close>, which only the bound on nested calls
  raises. Handlers are polymorphic in the record extension, so that they run both on the plain
  state (genesis deployment) and on the state with the call context of a transaction.
\<close>

section \<open>Operations\<close>

datatype fault = Err execution_error | Diverge

type_synonym 'z state_of = "'z detta_state_scheme"
type_synonym ('z, 'a) op = "(fault, 'z detta_state_scheme, 'a) exec"

abbreviation fail :: "execution_error \<Rightarrow> ('z, 'a) op" where
  "fail e \<equiv> throw (Err e)"

abbreviation reject_if :: "bool \<Rightarrow> execution_error \<Rightarrow> ('z, unit) op" where
  "reject_if c e \<equiv> fail_if c (Err e)"

abbreviation or_err :: "'a option \<Rightarrow> execution_error \<Rightarrow> ('z, 'a) op" where
  "or_err x e \<equiv> ok_or x (Err e)"

abbreviation try_res :: "execution_error + 'a \<Rightarrow> ('z, 'a) op" where
  "try_res r \<equiv> lift_result (map_sum Err id r)"

section \<open>Arguments\<close>

definition expect_args :: "nat \<Rightarrow> argument list \<Rightarrow> execution_error + argument list" where
  "expect_args n args = (if length args = n then Inr args else Inl InvalidArguments)"

fun expect_principal :: "argument \<Rightarrow> execution_error + principal" where
  "expect_principal (Principal v) = Inr v"
| "expect_principal _ = Inl InvalidArguments"

fun expect_asset :: "argument \<Rightarrow> execution_error + asset_id" where
  "expect_asset (Asset v) = Inr v"
| "expect_asset _ = Inl InvalidArguments"

fun expect_amount :: "argument \<Rightarrow> execution_error + amount" where
  "expect_amount (Amount v) = Inr v"
| "expect_amount _ = Inl InvalidArguments"

fun expect_text :: "argument \<Rightarrow> execution_error + string" where
  "expect_text (Text v) = Inr v"
| "expect_text _ = Inl InvalidArguments"

fun expect_certificate :: "argument \<Rightarrow> execution_error + string" where
  "expect_certificate (Certificate v) = Inr v"
| "expect_certificate _ = Inl InvalidArguments"

definition is_canonical_public_key_hex :: "string \<Rightarrow> bool" where
  "is_canonical_public_key_hex v \<longleftrightarrow>
     length v = 64
     \<and> list_all (\<lambda>b. (48 \<le> b \<and> b \<le> 57) \<or> (97 \<le> b \<and> b \<le> 102)) (as_bytes v)"

section \<open>Reads\<close>

definition uint_at :: "'z state_of \<Rightarrow> state_key \<Rightarrow> amount" where
  "uint_at s key = (case fmlookup (storage s) key of None \<Rightarrow> 0 | Some v \<Rightarrow> as_uint v)"

definition balance :: "'z state_of \<Rightarrow> contract_id \<Rightarrow> principal \<Rightarrow> asset_id \<Rightarrow> amount" where
  "balance s contract owner asset = uint_at s (Balance contract owner asset)"

definition total_supply :: "'z state_of \<Rightarrow> contract_id \<Rightarrow> asset_id \<Rightarrow> amount" where
  "total_supply s contract asset = uint_at s (TotalSupply contract asset)"

definition reserve :: "'z state_of \<Rightarrow> contract_id \<Rightarrow> asset_id \<Rightarrow> amount" where
  "reserve s contract asset = uint_at s (Reserve contract asset)"

definition lp_supply :: "'z state_of \<Rightarrow> contract_id \<Rightarrow> amount" where
  "lp_supply s contract = uint_at s (LpSupply contract)"

definition lp_balance :: "'z state_of \<Rightarrow> contract_id \<Rightarrow> principal \<Rightarrow> amount" where
  "lp_balance s contract owner = uint_at s (LpBalance contract owner)"

definition oracle_price :: "'z state_of \<Rightarrow> contract_id \<Rightarrow> asset_id \<Rightarrow> amount" where
  "oracle_price s contract asset = uint_at s (OraclePrice contract asset)"

definition oracle_timestamp :: "'z state_of \<Rightarrow> contract_id \<Rightarrow> asset_id \<Rightarrow> u64" where
  "oracle_timestamp s contract asset =
     (case u64_try_from (uint_at s (OracleTimestamp contract asset)) of None \<Rightarrow> 0 | Some t \<Rightarrow> t)"

definition collateral_of :: "'z state_of \<Rightarrow> contract_id \<Rightarrow> principal \<Rightarrow> asset_id \<Rightarrow> amount" where
  "collateral_of s contract borrower asset = uint_at s (Collateral contract borrower asset)"

definition debt_of :: "'z state_of \<Rightarrow> contract_id \<Rightarrow> principal \<Rightarrow> asset_id \<Rightarrow> amount" where
  "debt_of s contract borrower asset = uint_at s (Debt contract borrower asset)"

definition stake_balance :: "'z state_of \<Rightarrow> contract_id \<Rightarrow> principal \<Rightarrow> asset_id \<Rightarrow> amount" where
  "stake_balance s contract staker asset = uint_at s (StakeBalance contract staker asset)"

definition total_staked :: "'z state_of \<Rightarrow> contract_id \<Rightarrow> asset_id \<Rightarrow> amount" where
  "total_staked s contract asset = uint_at s (TotalStaked contract asset)"

definition pending_unbond :: "'z state_of \<Rightarrow> contract_id \<Rightarrow> principal \<Rightarrow> asset_id \<Rightarrow> amount" where
  "pending_unbond s contract staker asset = uint_at s (PendingUnbond contract staker asset)"

definition total_pending_unbond :: "'z state_of \<Rightarrow> contract_id \<Rightarrow> asset_id \<Rightarrow> amount" where
  "total_pending_unbond s contract asset = uint_at s (TotalPendingUnbond contract asset)"

definition allowance_remaining ::
  "'z state_of \<Rightarrow> contract_id \<Rightarrow> principal \<Rightarrow> principal \<Rightarrow> asset_id \<Rightarrow> amount" where
  "allowance_remaining s contract owner spender asset =
     (case fmlookup (registry s) (Allowance contract owner spender asset) of
        None \<Rightarrow> 0 | Some g \<Rightarrow> grant_remaining g)"

definition has_active_account_key :: "'z state_of \<Rightarrow> principal \<Rightarrow> string \<Rightarrow> bool" where
  "has_active_account_key s account public_key_hex \<longleftrightarrow>
     is_canonical_public_key_hex public_key_hex
     \<and> (case fmlookup (registry s) (AccountSigner account public_key_hex) of
          None \<Rightarrow> False
        | Some g \<Rightarrow> g_subject g = account \<and> g_active g \<and> \<not> g_revoked g
            \<and> SubmitTransaction |\<in>| g_rights g)"

section \<open>Elementary writes\<close>

fun write_scope_contains :: "state_key fset \<Rightarrow> state_key \<Rightarrow> bool" where
  "write_scope_contains scope (AspectState contract aspect state key) =
     (AspectState contract aspect state key |\<in>| scope
      \<or> key \<noteq> [] \<and> AspectState contract aspect state [] |\<in>| scope)"
| "write_scope_contains scope key = (key |\<in>| scope)"

definition storage_insert :: "state_key \<Rightarrow> state_value \<Rightarrow> ('z, unit) op" where
  "storage_insert key v = modify (\<lambda>s. s\<lparr>storage := fmupd key v (storage s)\<rparr>)"

definition registry_insert :: "grant_key \<Rightarrow> grant \<Rightarrow> ('z, unit) op" where
  "registry_insert key g = modify (\<lambda>s. s\<lparr>registry := fmupd key g (registry s)\<rparr>)"

definition contracts_insert :: "contract_id \<Rightarrow> contract_record \<Rightarrow> ('z, unit) op" where
  "contracts_insert c r = modify (\<lambda>s. s\<lparr>contracts := fmupd c r (contracts s)\<rparr>)"

definition state_set :: "authorized_frame \<Rightarrow> state_key \<Rightarrow> state_value \<Rightarrow> ('z, unit) op" where
  "state_set frame key v =
     (andthen (reject_if (owner_contract key \<noteq> af_contract frame) ContractIsolationViolation) (
     andthen (reject_if (\<not> write_scope_contains (af_write_scope frame) key) WriteScopeViolation) (
     storage_insert key v)))"

definition emit :: "contract_id \<Rightarrow> tx_hash \<Rightarrow> event_payload \<Rightarrow> ('z, unit) op" where
  "emit contract hash payload =
     modify (\<lambda>s. s\<lparr>events := events s @
       [\<lparr>ev_contract = contract, ev_tx_hash = hash, ev_index = of_nat (length (events s)),
         ev_payload = payload\<rparr>]\<rparr>)"

section \<open>Registry checks\<close>

definition consume_allowance ::
  "contract_id \<Rightarrow> principal \<Rightarrow> principal \<Rightarrow> asset_id \<Rightarrow> amount \<Rightarrow> ('z, unit) op" where
  "consume_allowance contract owner spender asset amt =
     ((let key = Allowance contract owner spender asset in
     bind (gets (\<lambda>s. fmlookup (registry s) key)) (\<lambda>found.
     bind (or_err found RegistryGrantMissing) (\<lambda>grant.
     andthen (reject_if (\<not> g_active grant) RegistryGrantInactive) (
     andthen (reject_if (g_revoked grant) RegistryGrantRevoked) (
     andthen (reject_if (g_subject grant \<noteq> spender) RegistryGrantMissing) (
     andthen (reject_if (SpendAllowance |\<notin>| g_rights grant) RegistryRightMissing) (
     andthen (reject_if (grant_remaining grant < amt) AllowanceExceeded) (
     bind (or_err (checked_add (g_spent grant) amt) ArithmeticOverflow) (\<lambda>spent.
     registry_insert key (grant\<lparr>g_spent := spent\<rparr>)))))))))))"

definition require_oracle_updater :: "contract_id \<Rightarrow> principal \<Rightarrow> ('z, unit) op" where
  "require_oracle_updater contract updater =
     (bind (gets (\<lambda>s. fmlookup (registry s) (OracleUpdaterKey contract updater))) (\<lambda>found.
     bind (or_err found UnauthorizedOracleUpdater) (\<lambda>grant.
     andthen (reject_if (\<not> g_active grant \<or> g_revoked grant \<or> g_subject grant \<noteq> updater)
       UnauthorizedOracleUpdater) (
     reject_if (UpdateOracle |\<notin>| g_rights grant) UnauthorizedOracleUpdater))))"

definition require_governance_admin :: "contract_id \<Rightarrow> principal \<Rightarrow> ('z, unit) op" where
  "require_governance_admin contract admin =
     (bind (gets (\<lambda>s. fmlookup (registry s) (GovernanceAdminKey contract admin))) (\<lambda>found.
     bind (or_err found UnauthorizedGovernance) (\<lambda>grant.
     andthen (reject_if (\<not> g_active grant \<or> g_revoked grant \<or> g_subject grant \<noteq> admin)
       UnauthorizedGovernance) (
     reject_if (GovernanceAdmin |\<notin>| g_rights grant) UnauthorizedGovernance))))"

section \<open>Declared invariants\<close>

fun is_balance_of :: "contract_id \<Rightarrow> asset_id \<Rightarrow> state_key \<Rightarrow> bool" where
  "is_balance_of contract asset (Balance c p a) \<longleftrightarrow> c = contract \<and> a = asset"
| "is_balance_of contract asset _ \<longleftrightarrow> False"

fun is_lp_balance_of :: "contract_id \<Rightarrow> state_key \<Rightarrow> bool" where
  "is_lp_balance_of contract (LpBalance c p) \<longleftrightarrow> c = contract"
| "is_lp_balance_of contract _ \<longleftrightarrow> False"

fun is_stake_of :: "contract_id \<Rightarrow> asset_id \<Rightarrow> state_key \<Rightarrow> bool" where
  "is_stake_of contract asset (StakeBalance c p a) \<longleftrightarrow> c = contract \<and> a = asset"
| "is_stake_of contract asset _ \<longleftrightarrow> False"

fun is_pending_of :: "contract_id \<Rightarrow> asset_id \<Rightarrow> state_key \<Rightarrow> bool" where
  "is_pending_of contract asset (PendingUnbond c p a) \<longleftrightarrow> c = contract \<and> a = asset"
| "is_pending_of contract asset _ \<longleftrightarrow> False"

definition checked_sum :: "(state_key \<Rightarrow> bool) \<Rightarrow> 'z state_of \<Rightarrow> amount option" where
  "checked_sum P s = try_fold_add 0 (map as_uint (values_where P (storage s)))"

definition token_invariants_hold :: "'z state_of \<Rightarrow> contract_id \<Rightarrow> asset_id \<Rightarrow> bool" where
  "token_invariants_hold s contract asset \<longleftrightarrow>
     checked_sum (is_balance_of contract asset) s = Some (total_supply s contract asset)"

definition amm_invariants_hold :: "'z state_of \<Rightarrow> contract_id \<Rightarrow> bool" where
  "amm_invariants_hold s contract \<longleftrightarrow>
     checked_sum (is_lp_balance_of contract) s = Some (lp_supply s contract)"

definition staking_invariants_hold :: "'z state_of \<Rightarrow> contract_id \<Rightarrow> asset_id \<Rightarrow> bool" where
  "staking_invariants_hold s contract asset \<longleftrightarrow>
     checked_sum (is_stake_of contract asset) s = Some (total_staked s contract asset)"

definition staking_pending_unbonding_invariants_hold ::
  "'z state_of \<Rightarrow> contract_id \<Rightarrow> asset_id \<Rightarrow> bool" where
  "staking_pending_unbonding_invariants_hold s contract asset \<longleftrightarrow>
     checked_sum (is_pending_of contract asset) s = Some (total_pending_unbond s contract asset)"

fun supply_asset :: "contract_id \<Rightarrow> state_key \<Rightarrow> asset_id option" where
  "supply_asset contract (TotalSupply c a) = (if c = contract then Some a else None)"
| "supply_asset contract _ = None"

definition token_total_supply_assets :: "'z state_of \<Rightarrow> contract_id \<Rightarrow> asset_id fset" where
  "token_total_supply_assets s contract =
     fset_of_list (List.map_filter (supply_asset contract)
       (sorted_list_of_fset (fmdom (storage s))))"

fun is_oracle_updater_key :: "contract_id \<Rightarrow> grant_key \<Rightarrow> bool" where
  "is_oracle_updater_key contract (OracleUpdaterKey c p) \<longleftrightarrow> c = contract"
| "is_oracle_updater_key contract _ \<longleftrightarrow> False"

fun is_governance_admin_key :: "contract_id \<Rightarrow> grant_key \<Rightarrow> bool" where
  "is_governance_admin_key contract (GovernanceAdminKey c p) \<longleftrightarrow> c = contract"
| "is_governance_admin_key contract _ \<longleftrightarrow> False"

definition has_active_oracle_updater :: "'z state_of \<Rightarrow> contract_id \<Rightarrow> bool" where
  "has_active_oracle_updater s contract \<longleftrightarrow>
     list_ex (\<lambda>(key, g). is_oracle_updater_key contract key \<and> g_active g \<and> \<not> g_revoked g
         \<and> UpdateOracle |\<in>| g_rights g) (sorted_list_of_fmap (registry s))"

definition has_active_governance_admin :: "'z state_of \<Rightarrow> contract_id \<Rightarrow> bool" where
  "has_active_governance_admin s contract \<longleftrightarrow>
     list_ex (\<lambda>(key, g). is_governance_admin_key contract key \<and> g_active g \<and> \<not> g_revoked g
         \<and> GovernanceAdmin |\<in>| g_rights g) (sorted_list_of_fmap (registry s))"

fun signer_grant_canonical :: "grant_key \<Rightarrow> grant \<Rightarrow> bool" where
  "signer_grant_canonical (AccountSigner account public_key_hex) g \<longleftrightarrow>
     account \<noteq> [] \<and> is_canonical_public_key_hex public_key_hex \<and> g_issuer g = account
     \<and> g_subject g = account \<and> g_limit g = None \<and> g_spent g = 0
     \<and> SubmitTransaction |\<in>| g_rights g \<and> \<not> (g_active g \<and> g_revoked g)"
| "signer_grant_canonical _ g \<longleftrightarrow> True"

definition account_signer_keys_canonical :: "'z state_of \<Rightarrow> bool" where
  "account_signer_keys_canonical s \<longleftrightarrow>
     list_all (\<lambda>(key, g). signer_grant_canonical key g) (sorted_list_of_fmap (registry s))"

definition outbound_messages_are_unique :: "'z state_of \<Rightarrow> bool" where
  "outbound_messages_are_unique s \<longleftrightarrow> distinct (map csm_message_id (cross_shard_outbox s))"

definition lending_position_ok ::
  "'z state_of \<Rightarrow> asset_id \<Rightarrow> contract_id \<Rightarrow> u64 \<Rightarrow> contract_id \<Rightarrow> principal \<Rightarrow> amount \<Rightarrow> bool" where
  "lending_position_ok s collateral_asset oracle_contract ltv_bps contract borrower debt \<longleftrightarrow>
     debt = 0 \<or>
     (let price = oracle_price s oracle_contract collateral_asset;
          collateral = collateral_of s contract borrower collateral_asset in
      price \<noteq> 0 \<and>
      (case checked_mul collateral price of None \<Rightarrow> False
       | Some collateral_value \<Rightarrow>
           (case checked_mul collateral_value (as_amount ltv_bps) of None \<Rightarrow> False
            | Some max_debt \<Rightarrow> debt \<le> max_debt div 10000)))"

fun debt_borrower :: "contract_id \<Rightarrow> asset_id \<Rightarrow> state_key \<Rightarrow> principal option" where
  "debt_borrower contract debt_asset (Debt c p a) =
     (if c = contract \<and> a = debt_asset then Some p else None)"
| "debt_borrower contract debt_asset _ = None"

definition lending_invariants_hold :: "'z state_of \<Rightarrow> contract_record \<Rightarrow> bool" where
  "lending_invariants_hold s record =
     (case cr_kind record of
        LendingVault collateral_asset debt_asset oracle_contract ltv_bps _ _ _ \<Rightarrow>
          list_all (\<lambda>(key, v). case debt_borrower (cr_contract_id record) debt_asset key of
              None \<Rightarrow> True
            | Some borrower \<Rightarrow> lending_position_ok s collateral_asset oracle_contract ltv_bps
                (cr_contract_id record) borrower (as_uint v))
            (sorted_list_of_fmap (storage s))
      | _ \<Rightarrow> False)"

definition record_declares_policies :: "contract_record \<Rightarrow> bool" where
  "record_declares_policies record =
     (case cr_kind record of
        AspectModule _ _ abi_root policy_root invariant_root \<Rightarrow>
          abi_root \<noteq> [] \<and> policy_root \<noteq> [] \<and> invariant_root \<noteq> []
      | _ \<Rightarrow> cr_exported_methods record \<noteq> {||} \<and> cr_declared_invariants record \<noteq> {||}
          \<and> fBall (cr_exported_methods record)
              (\<lambda>m. fmlookup (cr_method_policies record) m \<noteq> None))"

fun declared_invariant_holds ::
  "'z state_of \<Rightarrow> contract_record \<Rightarrow> contract_invariant \<Rightarrow> bool" where
  "declared_invariant_holds s record TokenSupplyMatchesBalances =
     fBall (token_total_supply_assets s (cr_contract_id record))
       (token_invariants_hold s (cr_contract_id record))"
| "declared_invariant_holds s record AmmPoolAssetsDistinct =
     (case cr_kind record of AmmPool asset_a asset_b _ \<Rightarrow> asset_a \<noteq> asset_b | _ \<Rightarrow> False)"
| "declared_invariant_holds s record AmmLpSupplyMatchesBalances =
     amm_invariants_hold s (cr_contract_id record)"
| "declared_invariant_holds s record OracleUpdatesRequireLiveGrant =
     has_active_oracle_updater s (cr_contract_id record)"
| "declared_invariant_holds s record OracleFreshnessCheckedByConsumers = True"
| "declared_invariant_holds s record BridgeInboundMessagesConsumedOnce = True"
| "declared_invariant_holds s record BridgeOutboundMessageIdsUnique =
     outbound_messages_are_unique s"
| "declared_invariant_holds s record GovernanceChangesRequireAdminGrant =
     has_active_governance_admin s (cr_contract_id record)"
| "declared_invariant_holds s record GovernanceUpgradesRespectTimelock =
     (case cr_kind record of Governance _ timelock_delay \<Rightarrow> timelock_delay > 0 | _ \<Rightarrow> False)"
| "declared_invariant_holds s record LendingBorrowWithinCollateralLimit =
     lending_invariants_hold s record"
| "declared_invariant_holds s record StakingTotalMatchesBalances =
     (case cr_kind record of
        Staking asset _ _ _ \<Rightarrow> staking_invariants_hold s (cr_contract_id record) asset
      | _ \<Rightarrow> False)"
| "declared_invariant_holds s record StakingPendingUnbondingMatchesTotal =
     (case cr_kind record of
        Staking asset _ _ _ \<Rightarrow>
          staking_pending_unbonding_invariants_hold s (cr_contract_id record) asset
      | _ \<Rightarrow> False)"
| "declared_invariant_holds s record RouterDoesNotInheritCallerWriteScope = True"
| "declared_invariant_holds s record FactoryDeploymentsDeclarePolicies =
     list_all (\<lambda>(c, r). record_declares_policies r) (sorted_list_of_fmap (contracts s))"
| "declared_invariant_holds s record AccountSignerKeysCanonical =
     account_signer_keys_canonical s"
| "declared_invariant_holds s record (AspectLocalInvariant _ _ _) = False"

definition check_declared_invariants :: "'z state_of \<Rightarrow> invariant_failure list" where
  "check_declared_invariants s =
     concat (map (\<lambda>(c, record).
         map (\<lambda>inv. \<lparr>if_contract = cr_contract_id record, if_invariant = inv\<rparr>)
           (filter (\<lambda>inv. \<not> declared_invariant_holds s record inv)
             (sorted_list_of_fset (cr_declared_invariants record))))
       (sorted_list_of_fmap (contracts s)))"

section \<open>State commitments\<close>

definition storage_leaves :: "'z state_of \<Rightarrow> serializable list" where
  "storage_leaves s = map (\<lambda>(k, v). SerStorageEntry k v) (sorted_list_of_fmap (storage s))"

definition registry_leaves :: "'z state_of \<Rightarrow> serializable list" where
  "registry_leaves s = map (\<lambda>(k, g). SerRegistryEntry k g) (sorted_list_of_fmap (registry s))"

definition module_leaves :: "'z state_of \<Rightarrow> serializable list" where
  "module_leaves s = map (\<lambda>(h, m). SerModuleEntry h m) (sorted_list_of_fmap (aspect_modules s))"

definition policy_leaves :: "'z state_of \<Rightarrow> serializable list" where
  "policy_leaves s =
     concat (map (\<lambda>(contract, record).
         map (\<lambda>(m, policy). SerPolicyEntry \<lparr>pk_contract = contract, pk_method = m\<rparr> policy)
           (sorted_list_of_fmap (cr_method_policies record)))
       (sorted_list_of_fmap (contracts s)))"

definition storage_root :: "env \<Rightarrow> 'z state_of \<Rightarrow> string" where
  "storage_root E s = merkle_root E (storage_leaves s)"

definition registry_root :: "env \<Rightarrow> 'z state_of \<Rightarrow> string" where
  "registry_root E s = merkle_root E (registry_leaves s)"

definition aspect_module_root :: "env \<Rightarrow> 'z state_of \<Rightarrow> string" where
  "aspect_module_root E s = merkle_root E (module_leaves s)"

definition policy_root :: "env \<Rightarrow> 'z state_of \<Rightarrow> string" where
  "policy_root E s = merkle_root E (policy_leaves s)"

definition event_root :: "env \<Rightarrow> 'z state_of \<Rightarrow> string" where
  "event_root E s = merkle_root E (map SerEvent (events s))"

definition outbox_root :: "env \<Rightarrow> 'z state_of \<Rightarrow> string" where
  "outbox_root E s = merkle_root E (map SerMessage (cross_shard_outbox s))"

definition nonce_root :: "env \<Rightarrow> 'z state_of \<Rightarrow> string" where
  "nonce_root E s = root_of E (SerNonces (used_nonces s) (used_certificate_nonces s))"

definition global_state_root :: "env \<Rightarrow> 'z state_of \<Rightarrow> string" where
  "global_state_root E s =
     root_of E (SerGlobal
       \<lparr>gc_chain_id = chain_id s, gc_height = height s, gc_contracts = contracts s,
        gc_aspect_module_root = aspect_module_root E s, gc_storage_root = storage_root E s,
        gc_registry_root = registry_root E s, gc_policy_root = policy_root E s,
        gc_used_nonces = used_nonces s, gc_used_certificate_nonces = used_certificate_nonces s,
        gc_paused_contracts = paused_contracts s, gc_scheduled_upgrades = scheduled_upgrades s,
        gc_scheduled_policy_updates = scheduled_policy_updates s,
        gc_trusted_bridge_validator_sets = trusted_bridge_validator_sets s,
        gc_outbound_message_ids = outbound_message_ids s, gc_outbox_root = outbox_root E s,
        gc_event_root = event_root E s\<rparr>)"

section \<open>Receipts\<close>

definition make_receipt ::
  "env \<Rightarrow> 'z state_of \<Rightarrow> tx_hash \<Rightarrow> tx_status \<Rightarrow> execution_error option
   \<Rightarrow> return_value option \<Rightarrow> u64 \<Rightarrow> receipt" where
  "make_receipt E s hash status err val units =
     \<lparr>rc_tx_hash = hash, rc_status = status, rc_error = err, rc_return_value = val,
      rc_resource_units_used = units, rc_storage_root_after = storage_root E s,
      rc_registry_root_after = registry_root E s, rc_policy_root_after = policy_root E s,
      rc_event_root_after = event_root E s, rc_nonce_root_after = nonce_root E s,
      rc_global_state_root_after = global_state_root E s\<rparr>"

definition committed_receipt :: "env \<Rightarrow> 'z state_of \<Rightarrow> tx_hash \<Rightarrow> return_value \<Rightarrow> u64 \<Rightarrow> receipt" where
  "committed_receipt E s hash val units = make_receipt E s hash Committed None (Some val) units"

definition reverted_receipt :: "env \<Rightarrow> 'z state_of \<Rightarrow> tx_hash \<Rightarrow> execution_error \<Rightarrow> u64 \<Rightarrow> receipt" where
  "reverted_receipt E s hash err units = make_receipt E s hash Reverted (Some err) None units"

definition rejected_receipt :: "env \<Rightarrow> 'z state_of \<Rightarrow> tx_hash \<Rightarrow> execution_error \<Rightarrow> receipt" where
  "rejected_receipt E s hash err = make_receipt E s hash Rejected (Some err) None 0"

section \<open>Proof production\<close>

fun position :: "('a \<Rightarrow> bool) \<Rightarrow> 'a list \<Rightarrow> nat option" where
  "position P [] = None"
| "position P (x # xs) = (if P x then Some 0 else map_option Suc (position P xs))"

definition storage_proof_of :: "env \<Rightarrow> 'z state_of \<Rightarrow> state_key \<Rightarrow> storage_proof option" where
  "storage_proof_of E s key =
     (let entries = sorted_list_of_fmap (storage s) in
      case position (\<lambda>(k, v). k = key) entries of None \<Rightarrow> None
      | Some index \<Rightarrow>
          map_option (\<lambda>p. \<lparr>sp_key = key, sp_value = snd (entries ! index), sp_proof = p\<rparr>)
            (make_merkle_proof E (storage_leaves s) index))"

definition storage_non_inclusion_proof_of ::
  "env \<Rightarrow> 'z state_of \<Rightarrow> state_key \<Rightarrow> storage_non_inclusion_proof option" where
  "storage_non_inclusion_proof_of E s key =
     (if fmlookup (storage s) key \<noteq> None then None
      else
        let entries = sorted_list_of_fmap (storage s);
            insertion_index = length (takeWhile (\<lambda>(k, v). k < key) entries) in
        Some \<lparr>snp_key = key, snp_root = storage_root E s, snp_leaf_count = length entries,
          snp_predecessor =
            (if insertion_index = 0 then None
             else storage_proof_of E s (fst (entries ! (insertion_index - 1)))),
          snp_successor =
            (if insertion_index < length entries
             then storage_proof_of E s (fst (entries ! insertion_index)) else None)\<rparr>)"

definition registry_proof_of :: "env \<Rightarrow> 'z state_of \<Rightarrow> grant_key \<Rightarrow> registry_proof option" where
  "registry_proof_of E s key =
     (let entries = sorted_list_of_fmap (registry s) in
      case position (\<lambda>(k, v). k = key) entries of None \<Rightarrow> None
      | Some index \<Rightarrow>
          map_option (\<lambda>p. \<lparr>rp_key = key, rp_grant = snd (entries ! index), rp_proof = p\<rparr>)
            (make_merkle_proof E (registry_leaves s) index))"

definition registry_non_inclusion_proof_of ::
  "env \<Rightarrow> 'z state_of \<Rightarrow> grant_key \<Rightarrow> registry_non_inclusion_proof option" where
  "registry_non_inclusion_proof_of E s key =
     (if fmlookup (registry s) key \<noteq> None then None
      else
        let entries = sorted_list_of_fmap (registry s);
            insertion_index = length (takeWhile (\<lambda>(k, v). k < key) entries) in
        Some \<lparr>rnp_key = key, rnp_root = registry_root E s, rnp_leaf_count = length entries,
          rnp_predecessor =
            (if insertion_index = 0 then None
             else registry_proof_of E s (fst (entries ! (insertion_index - 1)))),
          rnp_successor =
            (if insertion_index < length entries
             then registry_proof_of E s (fst (entries ! insertion_index)) else None)\<rparr>)"

definition event_proof_of :: "env \<Rightarrow> 'z state_of \<Rightarrow> nat \<Rightarrow> event_proof option" where
  "event_proof_of E s index =
     (if index < length (events s) then
        map_option (\<lambda>p. \<lparr>evp_event = events s ! index, evp_proof = p\<rparr>)
          (make_merkle_proof E (map SerEvent (events s)) index)
      else None)"

definition outbox_message_proof_of :: "env \<Rightarrow> 'z state_of \<Rightarrow> nat \<Rightarrow> outbox_message_proof option" where
  "outbox_message_proof_of E s index =
     (if index < length (cross_shard_outbox s) then
        map_option (\<lambda>p. \<lparr>omp_message = cross_shard_outbox s ! index, omp_proof = p\<rparr>)
          (make_merkle_proof E (map SerMessage (cross_shard_outbox s)) index)
      else None)"

definition aspect_module_proof_of :: "env \<Rightarrow> 'z state_of \<Rightarrow> string \<Rightarrow> aspect_module_proof option" where
  "aspect_module_proof_of E s module_hash =
     (let entries = sorted_list_of_fmap (aspect_modules s) in
      case position (\<lambda>(h, m). h = module_hash) entries of None \<Rightarrow> None
      | Some index \<Rightarrow>
          map_option (\<lambda>p. \<lparr>amp_module_hash = module_hash, amp_module = snd (entries ! index),
              amp_proof = p\<rparr>)
            (make_merkle_proof E (module_leaves s) index))"

end
