(* ===== verification/Assets.thy ===== *)
theory Assets
  imports State_Ops
begin

text \<open>
  Asset ledgers: \<open>resolve_asset_ledger\<close> finds the ledger of an asset (a native token contract or
  an aspect contract exporting \<open>ERC20-transfer\<close>), and the transfer and mint operations move or
  create balances on it. A transfer on an aspect ledger is a nested call, so the operation takes
  \<open>execute_call\<close> as its argument \<open>call\<close>.
\<close>

datatype asset_ledger = NativeToken contract_id | AspectToken contract_id

type_synonym 'z call_op = "transaction \<Rightarrow> principal \<Rightarrow> ('z, return_value) op"

record asset_transfer =
  at_ledger :: asset_ledger
  at_from :: principal
  at_to :: principal
  at_asset :: asset_id
  at_amount :: amount

abbreviation query :: "('z state_of \<Rightarrow> execution_error + 'a) \<Rightarrow> ('z, 'a) op" where
  "query f \<equiv> bind (gets f) (\<lambda>r. try_res r)"

abbreviation ensure :: "('z state_of \<Rightarrow> bool) \<Rightarrow> execution_error \<Rightarrow> ('z, unit) op" where
  "ensure P e \<equiv> bind (gets P) (\<lambda>holds. reject_if (\<not> holds) e)"

abbreviation read_uint :: "state_key \<Rightarrow> ('z, amount) op" where
  "read_uint key \<equiv> gets (\<lambda>s. uint_at s key)"

definition make_frame :: "contract_id \<Rightarrow> principal \<Rightarrow> state_key list \<Rightarrow> authorized_frame" where
  "make_frame contract sender keys =
     \<lparr>af_contract = contract, af_msg_sender = sender, af_write_scope = fset_of_list keys\<rparr>"

section \<open>Ledgers\<close>

fun native_supply_contract :: "'z state_of \<Rightarrow> asset_id \<Rightarrow> state_key \<Rightarrow> contract_id option" where
  "native_supply_contract s asset (TotalSupply contract a) =
     (if a = asset
         \<and> (case fmlookup (contracts s) contract of None \<Rightarrow> False | Some r \<Rightarrow> cr_kind r = Token)
      then Some contract else None)"
| "native_supply_contract s asset _ = None"

definition native_contracts :: "'z state_of \<Rightarrow> asset_id \<Rightarrow> contract_id list" where
  "native_contracts s asset =
     sorted_list_of_fset (fset_of_list
       (List.map_filter (native_supply_contract s asset)
         (sorted_list_of_fset (fmdom (storage s)))))"

definition erc20_transfer :: call_method where
  "erc20_transfer = Other ''ERC20-transfer''"

definition is_aspect_kind :: "contract_kind \<Rightarrow> bool" where
  "is_aspect_kind k = (case k of AspectModule _ _ _ _ _ \<Rightarrow> True | _ \<Rightarrow> False)"

definition aspect_ledger_contract :: "'z state_of \<Rightarrow> asset_id \<Rightarrow> contract_id option" where
  "aspect_ledger_contract s asset =
     (case fmlookup (contracts s) asset of None \<Rightarrow> None
      | Some record \<Rightarrow>
          if is_aspect_kind (cr_kind record) \<and> erc20_transfer |\<in>| cr_exported_methods record
          then Some asset else None)"

definition resolve_asset_ledger :: "'z state_of \<Rightarrow> asset_id \<Rightarrow> execution_error + asset_ledger" where
  "resolve_asset_ledger s asset =
     (case native_contracts s asset of
        c # c' # _ \<Rightarrow> Inl InvalidPoolAsset
      | [contract] \<Rightarrow>
          (case aspect_ledger_contract s asset of
             Some _ \<Rightarrow> Inl InvalidPoolAsset
           | None \<Rightarrow> Inr (NativeToken contract))
      | [] \<Rightarrow>
          (case aspect_ledger_contract s asset of
             Some contract \<Rightarrow> Inr (AspectToken contract)
           | None \<Rightarrow> Inl InvalidPoolAsset))"

section \<open>Transfers and mints\<close>

definition transfer_native_asset_balance ::
  "contract_id \<Rightarrow> principal \<Rightarrow> principal \<Rightarrow> asset_id \<Rightarrow> amount \<Rightarrow> ('z, unit) op" where
  "transfer_native_asset_balance token_contract from_p to_p asset amt =
     ((let from_key = Balance token_contract from_p asset in
     (let to_key = Balance token_contract to_p asset in
     (let frame = make_frame token_contract from_p [from_key, to_key] in
     bind (read_uint from_key) (\<lambda>from_balance.
     andthen (reject_if (from_balance < amt) InsufficientBalance) (
     bind (read_uint to_key) (\<lambda>to_balance.
     bind (or_err (checked_add to_balance amt) ArithmeticOverflow) (\<lambda>new_to.
     andthen (state_set frame from_key (UInt (from_balance - amt))) (
     andthen (state_set frame to_key (UInt new_to)) (
     ensure (\<lambda>s. token_invariants_hold s token_contract asset) InvariantViolation))))))))))"

definition mint_native_asset_balance ::
  "contract_id \<Rightarrow> principal \<Rightarrow> asset_id \<Rightarrow> amount \<Rightarrow> ('z, unit) op" where
  "mint_native_asset_balance token_contract to_p asset amt =
     ((let total_key = TotalSupply token_contract asset in
     (let to_key = Balance token_contract to_p asset in
     (let frame = make_frame token_contract to_p [total_key, to_key] in
     bind (read_uint total_key) (\<lambda>supply.
     bind (read_uint to_key) (\<lambda>to_balance.
     bind (or_err (checked_add supply amt) ArithmeticOverflow) (\<lambda>new_total_supply.
     bind (or_err (checked_add to_balance amt) ArithmeticOverflow) (\<lambda>new_to.
     andthen (state_set frame total_key (UInt new_total_supply)) (
     andthen (state_set frame to_key (UInt new_to)) (
     ensure (\<lambda>s. token_invariants_hold s token_contract asset) InvariantViolation))))))))))"

definition asset_transfer_tx ::
  "transaction \<Rightarrow> contract_id \<Rightarrow> principal \<Rightarrow> principal \<Rightarrow> amount \<Rightarrow> transaction" where
  "asset_transfer_tx tx aspect_contract from_p to_p amt =
     \<lparr>tx_chain_id = tx_chain_id tx,
      tx_hash = tx_hash tx @ '':asset-transfer:'' @ aspect_contract @ '':'' @ from_p @ '':'' @ to_p,
      tx_sender = from_p, tx_nonce = tx_nonce tx,
      tx_valid_until_height = tx_valid_until_height tx, tx_target = aspect_contract,
      tx_method = erc20_transfer, tx_args = [Principal to_p, Amount amt],
      tx_signature_ok = True, tx_budget = tx_budget tx\<rparr>"

definition transfer_aspect_asset_balance ::
  "'z call_op \<Rightarrow> transaction \<Rightarrow> contract_id \<Rightarrow> principal \<Rightarrow> principal \<Rightarrow> amount \<Rightarrow> ('z, unit) op" where
  "transfer_aspect_asset_balance call tx aspect_contract from_p to_p amt =
     (bind (gets (\<lambda>s. fmlookup (contracts s) aspect_contract)) (\<lambda>found.
     bind (or_err found ContractNotFound) (\<lambda>contract.
     andthen (reject_if (\<not> is_aspect_kind (cr_kind contract)) InvalidPoolAsset) (
     andthen (reject_if (erc20_transfer |\<notin>| cr_exported_methods contract) MethodNotExported) (
     andthen (call (asset_transfer_tx tx aspect_contract from_p to_p amt) from_p) (
     ret ()))))))"

definition transfer_asset_balance ::
  "'z call_op \<Rightarrow> transaction \<Rightarrow> asset_transfer \<Rightarrow> ('z, unit) op" where
  "transfer_asset_balance call tx t =
     (case at_ledger t of
        NativeToken contract \<Rightarrow>
          transfer_native_asset_balance contract (at_from t) (at_to t) (at_asset t) (at_amount t)
      | AspectToken contract \<Rightarrow>
          transfer_aspect_asset_balance call tx contract (at_from t) (at_to t) (at_amount t))"

definition mint_asset_balance ::
  "asset_ledger \<Rightarrow> principal \<Rightarrow> asset_id \<Rightarrow> amount \<Rightarrow> ('z, unit) op" where
  "mint_asset_balance ledger to_p asset amt =
     (case ledger of
        NativeToken contract \<Rightarrow> mint_native_asset_balance contract to_p asset amt
      | AspectToken _ \<Rightarrow> fail InvalidPoolAsset)"

definition mint_bridge_asset_balance ::
  "asset_ledger \<Rightarrow> principal \<Rightarrow> asset_id \<Rightarrow> amount \<Rightarrow> ('z, unit) op" where
  "mint_bridge_asset_balance ledger to_p asset amt =
     (case ledger of
        NativeToken contract \<Rightarrow> mint_native_asset_balance contract to_p asset amt
      | AspectToken _ \<Rightarrow> fail InvalidBridgeMessage)"

end
