(* ===== verification/Token_Contract.thy ===== *)
theory Token_Contract
  imports Assets
begin

text \<open>
  The native token contract: \<open>transfer\<close>, \<open>approve\<close>, \<open>transfer_from\<close> and \<open>permit\<close>.
\<close>

definition transfer :: "transaction \<Rightarrow> principal \<Rightarrow> ('z, return_value) op" where
  "transfer tx msg_sender =
     (bind (try_res (expect_args 3 (tx_args tx))) (\<lambda>args.
     bind (try_res (expect_principal (args ! 0))) (\<lambda>to_p.
     bind (try_res (expect_asset (args ! 1))) (\<lambda>asset.
     bind (try_res (expect_amount (args ! 2))) (\<lambda>amt.
     (let from_key = Balance (tx_target tx) msg_sender asset in
     (let to_key = Balance (tx_target tx) to_p asset in
     (let frame = make_frame (tx_target tx) msg_sender [from_key, to_key] in
     bind (read_uint from_key) (\<lambda>from_balance.
     andthen (reject_if (from_balance < amt) InsufficientBalance) (
     bind (read_uint to_key) (\<lambda>to_balance.
     bind (or_err (checked_add to_balance amt) ArithmeticOverflow) (\<lambda>new_to.
     andthen (state_set frame from_key (UInt (from_balance - amt))) (
     andthen (state_set frame to_key (UInt new_to)) (
     andthen (ensure (\<lambda>s. token_invariants_hold s (tx_target tx) asset) InvariantViolation) (
     andthen (emit (tx_target tx) (tx_hash tx) (EvTransfer msg_sender to_p asset amt)) (
     ret RUnit))))))))))))))))"

definition approve :: "transaction \<Rightarrow> principal \<Rightarrow> ('z, return_value) op" where
  "approve tx msg_sender =
     (bind (try_res (expect_args 3 (tx_args tx))) (\<lambda>args.
     bind (try_res (expect_principal (args ! 0))) (\<lambda>spender.
     bind (try_res (expect_asset (args ! 1))) (\<lambda>asset.
     bind (try_res (expect_amount (args ! 2))) (\<lambda>amt.
     andthen (registry_insert (Allowance (tx_target tx) msg_sender spender asset)
       (grant_allowance msg_sender spender amt)) (
     andthen (emit (tx_target tx) (tx_hash tx) (EvApproval msg_sender spender asset amt)) (
     ret RUnit)))))))"

definition transfer_from :: "transaction \<Rightarrow> principal \<Rightarrow> ('z, return_value) op" where
  "transfer_from tx msg_sender =
     (bind (try_res (expect_args 4 (tx_args tx))) (\<lambda>args.
     bind (try_res (expect_principal (args ! 0))) (\<lambda>owner.
     bind (try_res (expect_principal (args ! 1))) (\<lambda>to_p.
     bind (try_res (expect_asset (args ! 2))) (\<lambda>asset.
     bind (try_res (expect_amount (args ! 3))) (\<lambda>amt.
     andthen (consume_allowance (tx_target tx) owner msg_sender asset amt) (
     (let owner_key = Balance (tx_target tx) owner asset in
     (let to_key = Balance (tx_target tx) to_p asset in
     (let frame = make_frame (tx_target tx) msg_sender [owner_key, to_key] in
     bind (read_uint owner_key) (\<lambda>owner_balance.
     andthen (reject_if (owner_balance < amt) InsufficientBalance) (
     bind (read_uint to_key) (\<lambda>to_balance.
     bind (or_err (checked_add to_balance amt) ArithmeticOverflow) (\<lambda>new_to.
     andthen (state_set frame owner_key (UInt (owner_balance - amt))) (
     andthen (state_set frame to_key (UInt new_to)) (
     andthen (ensure (\<lambda>s. token_invariants_hold s (tx_target tx) asset) InvariantViolation) (
     andthen (emit (tx_target tx) (tx_hash tx) (EvTransfer owner to_p asset amt)) (
     ret RUnit))))))))))))))))))"

definition verify_permit_certificate ::
  "string \<Rightarrow> chain_id \<Rightarrow> contract_id \<Rightarrow> principal \<Rightarrow> principal \<Rightarrow> asset_id \<Rightarrow> amount
   \<Rightarrow> execution_error + string" where
  "verify_permit_certificate certificate chain contract owner spender asset amt =
     (let parts = split_on (CHR '':'') certificate in
      if length parts \<noteq> 8 then Inl InvalidCertificate
      else if take 7 parts \<noteq> [''permit'', chain, contract, owner, spender, asset, u128_to_string amt]
      then Inl InvalidCertificate
      else Inr (parts ! 7))"

definition certificate_nonce_insert :: "string \<Rightarrow> ('z, unit) op" where
  "certificate_nonce_insert nonce =
     modify (\<lambda>s. s\<lparr>used_certificate_nonces := finsert nonce (used_certificate_nonces s)\<rparr>)"

definition permit :: "transaction \<Rightarrow> ('z, return_value) op" where
  "permit tx =
     (bind (try_res (expect_args 5 (tx_args tx))) (\<lambda>args.
     bind (try_res (expect_principal (args ! 0))) (\<lambda>owner.
     bind (try_res (expect_principal (args ! 1))) (\<lambda>spender.
     bind (try_res (expect_asset (args ! 2))) (\<lambda>asset.
     bind (try_res (expect_amount (args ! 3))) (\<lambda>amt.
     bind (try_res (expect_certificate (args ! 4))) (\<lambda>certificate.
     bind (gets chain_id) (\<lambda>chain.
     bind (try_res (verify_permit_certificate certificate chain (tx_target tx) owner spender
         asset amt)) (\<lambda>nonce.
     bind (gets used_certificate_nonces) (\<lambda>used.
     andthen (reject_if (nonce |\<in>| used) CertificateReplay) (
     andthen (certificate_nonce_insert nonce) (
     andthen (registry_insert (Allowance (tx_target tx) owner spender asset)
       (grant_allowance owner spender amt)) (
     andthen (emit (tx_target tx) (tx_hash tx) (EvApproval owner spender asset amt)) (
     ret RUnit))))))))))))))"

end
