(* ===== verification/Bridge_Contract.thy ===== *)
theory Bridge_Contract
  imports Assets
begin

text \<open>
  The bridge: validator sets, finality proofs, \<open>queue_bridge_message\<close> and
  \<open>redeem_bridge_message\<close>. A certificate is the text of a \<open>CrossShardFinalityProof\<close>; its parser
  is the field \<open>parse_finality_proof\<close> of the environment.
\<close>

section \<open>Validator sets and finality proofs\<close>

fun insert_unique_validators :: "principal fset \<Rightarrow> principal list \<Rightarrow> principal fset option" where
  "insert_unique_validators acc [] = Some acc"
| "insert_unique_validators acc (v # vs) =
     (if v = [] \<or> v |\<in>| acc then None else insert_unique_validators (finsert v acc) vs)"

definition new_bridge_validator_set ::
  "chain_id \<Rightarrow> principal list \<Rightarrow> nat \<Rightarrow> execution_error + bridge_validator_set" where
  "new_bridge_validator_set source_chain validators quorum =
     (case insert_unique_validators {||} validators of None \<Rightarrow> Inl InvalidArguments
      | Some unique_validators \<Rightarrow>
          if source_chain = [] \<or> unique_validators = {||} \<or> quorum = 0
             \<or> quorum > fcard unique_validators
          then Inl InvalidArguments
          else Inr \<lparr>bvs_source_chain = source_chain, bvs_validators = unique_validators,
                 bvs_quorum = quorum\<rparr>)"

fun count_known_signers :: "principal fset \<Rightarrow> principal fset \<Rightarrow> principal list \<Rightarrow> nat option" where
  "count_known_signers validators acc [] = Some (fcard acc)"
| "count_known_signers validators acc (p # ps) =
     (if p |\<notin>| validators \<or> p |\<in>| acc then None
      else count_known_signers validators (finsert p acc) ps)"

definition verifies_finality :: "bridge_validator_set \<Rightarrow> cross_shard_finality_proof \<Rightarrow> bool" where
  "verifies_finality vset proof_data =
     (if bvs_source_chain vset = [] \<or> bvs_validators vset = {||} \<or> bvs_quorum vset = 0
         \<or> bvs_quorum vset > fcard (bvs_validators vset)
      then False
      else if cfp_source_chain proof_data \<noteq> bvs_source_chain vset
         \<or> cfp_quorum proof_data \<noteq> bvs_quorum vset
      then False
      else case count_known_signers (bvs_validators vset) {||} (cfp_signers proof_data) of
          None \<Rightarrow> False
        | Some n \<Rightarrow> n \<ge> bvs_quorum vset)"

definition verify_message ::
  "env \<Rightarrow> cross_shard_finality_proof \<Rightarrow> expected_bridge_message \<Rightarrow> bool" where
  "verify_message E p expected =
     (if cfp_quorum p = 0 \<or> length (cfp_signers p) < cfp_quorum p then False
      else if fcard (fset_of_list (cfp_signers p)) \<noteq> length (cfp_signers p) then False
      else if cfp_finalized_block_hash p = [] then False
      else if \<not> outbox_message_proof_verify E (cfp_message_proof p)
         \<or> mp_root (omp_proof (cfp_message_proof p)) \<noteq> cfp_outbox_root p then False
      else
        (let message = omp_message (cfp_message_proof p) in
         cfp_source_chain p = ebm_source_chain expected
         \<and> csm_source_chain message = cfp_source_chain p
         \<and> csm_source_height message = cfp_source_height p
         \<and> csm_destination_chain message = ebm_destination_chain expected
         \<and> csm_destination_contract message = ebm_destination_contract expected
         \<and> csm_message_id message = ebm_message_id expected
         \<and> csm_recipient message = ebm_recipient expected
         \<and> csm_asset message = ebm_asset expected
         \<and> csm_amount message = ebm_amount expected))"

definition verify_message_with_validator_set ::
  "env \<Rightarrow> cross_shard_finality_proof \<Rightarrow> expected_bridge_message \<Rightarrow> bridge_validator_set \<Rightarrow> bool" where
  "verify_message_with_validator_set E p expected vset \<longleftrightarrow>
     verify_message E p expected \<and> verifies_finality vset p"

definition verify_bridge_finality_proof ::
  "env \<Rightarrow> string \<Rightarrow> expected_bridge_message \<Rightarrow> bridge_validator_set \<Rightarrow> execution_error + unit" where
  "verify_bridge_finality_proof E certificate expected vset =
     (case parse_finality_proof E certificate of None \<Rightarrow> Inl InvalidBridgeMessage
      | Some p \<Rightarrow>
          if \<not> verify_message_with_validator_set E p expected vset then Inl InvalidBridgeMessage
          else Inr ())"

definition set_trusted_bridge_validator_set :: "bridge_validator_set \<Rightarrow> ('z, unit) op" where
  "set_trusted_bridge_validator_set vset =
     (bind (try_res (new_bridge_validator_set (bvs_source_chain vset)
         (sorted_list_of_fset (bvs_validators vset)) (bvs_quorum vset))) (\<lambda>checked.
     bind (gets (\<lambda>s. fmlookup (trusted_bridge_validator_sets s) (bvs_source_chain checked))) (\<lambda>existing.
     (if existing = Some checked then ret ()
      else modify (\<lambda>s. s\<lparr>trusted_bridge_validator_sets :=
         fmupd (bvs_source_chain checked) checked (trusted_bridge_validator_sets s)\<rparr>)))))"

section \<open>Messages\<close>

definition outbox_append :: "cross_shard_message \<Rightarrow> ('z, unit) op" where
  "outbox_append message =
     modify (\<lambda>s. s\<lparr>outbound_message_ids := finsert (csm_message_id message) (outbound_message_ids s),
       cross_shard_outbox := cross_shard_outbox s @ [message]\<rparr>)"

definition queue_bridge_message ::
  "'z call_op \<Rightarrow> transaction \<Rightarrow> principal \<Rightarrow> ('z, return_value) op" where
  "queue_bridge_message call tx msg_sender =
     (bind (try_res (expect_args 6 (tx_args tx))) (\<lambda>args.
     bind (try_res (expect_text (args ! 0))) (\<lambda>destination_chain.
     bind (try_res (expect_text (args ! 1))) (\<lambda>destination_contract.
     bind (try_res (expect_text (args ! 2))) (\<lambda>message_id.
     bind (try_res (expect_principal (args ! 3))) (\<lambda>recipient.
     bind (try_res (expect_asset (args ! 4))) (\<lambda>asset.
     bind (try_res (expect_amount (args ! 5))) (\<lambda>amt.
     andthen (reject_if (amt = 0) InvalidArguments) (
     bind (gets outbound_message_ids) (\<lambda>ids.
     andthen (reject_if (message_id |\<in>| ids) OutboundMessageReplay) (
     bind (query (\<lambda>s. resolve_asset_ledger s asset)) (\<lambda>asset_ledger.
     bind (gets chain_id) (\<lambda>chain.
     bind (gets height) (\<lambda>now.
     (let message =
       \<lparr>csm_source_chain = chain, csm_source_contract = tx_target tx, csm_source_height = now,
        csm_destination_chain = destination_chain,
        csm_destination_contract = destination_contract, csm_message_id = message_id,
        csm_recipient = recipient, csm_asset = asset, csm_amount = amt\<rparr> in
     andthen (transfer_asset_balance call tx
       \<lparr>at_ledger = asset_ledger, at_from = msg_sender, at_to = tx_target tx,
        at_asset = asset, at_amount = amt\<rparr>) (
     andthen (outbox_append message) (
     andthen (emit (tx_target tx) (tx_hash tx)
       (EvCrossShardMessageQueued message_id destination_chain destination_contract recipient
         asset amt)) (
     ret RUnit))))))))))))))))))"

definition redeem_bridge_message ::
  "env \<Rightarrow> transaction \<Rightarrow> principal \<Rightarrow> chain_id \<Rightarrow> ('z, return_value) op" where
  "redeem_bridge_message E tx msg_sender source_chain =
     (bind (try_res (expect_args 5 (tx_args tx))) (\<lambda>args.
     bind (try_res (expect_text (args ! 0))) (\<lambda>message_id.
     bind (try_res (expect_principal (args ! 1))) (\<lambda>recipient.
     bind (try_res (expect_asset (args ! 2))) (\<lambda>asset.
     bind (try_res (expect_amount (args ! 3))) (\<lambda>amt.
     bind (try_res (expect_certificate (args ! 4))) (\<lambda>certificate.
     andthen (reject_if (amt = 0) InvalidArguments) (
     bind (gets chain_id) (\<lambda>chain.
     (let expected =
       \<lparr>ebm_destination_chain = chain, ebm_destination_contract = tx_target tx,
        ebm_source_chain = source_chain, ebm_message_id = message_id,
        ebm_recipient = recipient, ebm_asset = asset, ebm_amount = amt\<rparr> in
     bind (gets (\<lambda>s. fmlookup (trusted_bridge_validator_sets s) source_chain)) (\<lambda>found.
     bind (or_err found InvalidBridgeMessage) (\<lambda>vset.
     andthen (try_res (verify_bridge_finality_proof E certificate expected vset)) (
     (let consumed_key = BridgeMessageConsumed (tx_target tx) message_id in
     bind (read_uint consumed_key) (\<lambda>consumed.
     andthen (reject_if (consumed \<noteq> 0) BridgeMessageReplay) (
     bind (query (\<lambda>s. resolve_asset_ledger s asset)) (\<lambda>asset_ledger.
     (let frame = make_frame (tx_target tx) msg_sender [consumed_key] in
     andthen (mint_bridge_asset_balance asset_ledger recipient asset amt) (
     andthen (state_set frame consumed_key (UInt 1)) (
     andthen (emit (tx_target tx) (tx_hash tx) (EvBridgeMessageRedeemed message_id recipient asset amt)) (
     ret RUnit)))))))))))))))))))))"

end
