(* ===== verification/Governance_Contract.thy ===== *)
theory Governance_Contract
  imports Assets
begin

text \<open>
  Governance: pausing, timelocked code upgrades and timelocked policy updates of the governed
  contract.
\<close>

section \<open>Names of methods and effects\<close>

definition policy_method_names :: "(string \<times> call_method) list" where
  "policy_method_names =
     [(''transfer'', Transfer), (''approve'', Approve), (''transferFrom'', TransferFrom),
      (''permit'', Permit), (''addLiquidity'', AddLiquidity), (''swap'', Swap),
      (''submitPrice'', SubmitPrice), (''queueBridgeMessage'', QueueBridgeMessage),
      (''redeemBridgeMessage'', RedeemBridgeMessage), (''pauseContract'', PauseContract),
      (''unpauseContract'', UnpauseContract), (''scheduleUpgrade'', ScheduleUpgrade),
      (''executeUpgrade'', ExecuteUpgrade), (''schedulePolicyUpdate'', SchedulePolicyUpdate),
      (''executePolicyUpdate'', ExecutePolicyUpdate),
      (''depositCollateral'', DepositCollateral), (''borrow'', Borrow),
      (''liquidate'', Liquidate), (''stake'', Stake), (''unstake'', Unstake),
      (''requestUnstake'', RequestUnstake), (''completeUnstake'', CompleteUnstake),
      (''claimStakingRewards'', ClaimStakingRewards),
      (''routeTransferFrom'', RouteTransferFrom), (''deployToken'', DeployToken),
      (''deployAmmPool'', DeployAmmPool), (''submitAspectModule'', SubmitAspectModule),
      (''deployAspectContract'', DeployAspectContract),
      (''registerAccountKey'', RegisterAccountKey), (''revokeAccountKey'', RevokeAccountKey)]"

definition parse_policy_method :: "string \<Rightarrow> execution_error + call_method" where
  "parse_policy_method v =
     (case map_of policy_method_names v of None \<Rightarrow> Inl InvalidArguments | Some m \<Rightarrow> Inr m)"

definition policy_effect_names :: "(string \<times> policy_effect) list" where
  "policy_effect_names =
     [(''storageWrite'', StorageWrite), (''registryWrite'', RegistryWrite),
      (''eventEmit'', EventEmit), (''moduleRegister'', ModuleRegister),
      (''contractPause'', ContractPause), (''upgradeSchedule'', UpgradeSchedule),
      (''contractCodeUpgrade'', ContractCodeUpgrade),
      (''policyUpdateSchedule'', PolicyUpdateSchedule),
      (''methodPolicyUpdate'', MethodPolicyUpdate),
      (''crossContractCall'', CrossContractCall),
      (''crossShardOutboxAppend'', CrossShardOutboxAppend),
      (''contractDeploy'', ContractDeploy)]"

definition parse_policy_effect :: "string \<Rightarrow> execution_error + policy_effect" where
  "parse_policy_effect v =
     (case map_of policy_effect_names v of None \<Rightarrow> Inl InvalidArguments | Some e \<Rightarrow> Inr e)"

section \<open>Pausing\<close>

definition pause_insert :: "contract_id \<Rightarrow> ('z, unit) op" where
  "pause_insert c = modify (\<lambda>s. s\<lparr>paused_contracts := finsert c (paused_contracts s)\<rparr>)"

definition pause_remove :: "contract_id \<Rightarrow> ('z, unit) op" where
  "pause_remove c = modify (\<lambda>s. s\<lparr>paused_contracts := paused_contracts s |-| {|c|}\<rparr>)"

definition pause_contract ::
  "transaction \<Rightarrow> principal \<Rightarrow> contract_id \<Rightarrow> ('z, return_value) op" where
  "pause_contract tx msg_sender governed_contract =
     (andthen (require_governance_admin (tx_target tx) msg_sender) (
     andthen (pause_insert governed_contract) (
     andthen (emit (tx_target tx) (tx_hash tx) (EvContractPaused governed_contract msg_sender)) (
     ret RUnit))))"

definition unpause_contract ::
  "transaction \<Rightarrow> principal \<Rightarrow> contract_id \<Rightarrow> ('z, return_value) op" where
  "unpause_contract tx msg_sender governed_contract =
     (andthen (require_governance_admin (tx_target tx) msg_sender) (
     andthen (pause_remove governed_contract) (
     andthen (emit (tx_target tx) (tx_hash tx) (EvContractUnpaused governed_contract msg_sender)) (
     ret RUnit))))"

section \<open>Upgrades\<close>

definition upgrade_insert :: "string \<Rightarrow> scheduled_upgrade \<Rightarrow> ('z, unit) op" where
  "upgrade_insert i u =
     modify (\<lambda>s. s\<lparr>scheduled_upgrades := fmupd i u (scheduled_upgrades s)\<rparr>)"

text \<open>\<open>if let Some(record) = contracts.get_mut(c) \{ *record = f(record) \}\<close>\<close>

definition update_contract ::
  "contract_id \<Rightarrow> (contract_record \<Rightarrow> contract_record) \<Rightarrow> ('z, unit) op" where
  "update_contract c f =
     modify (\<lambda>s. case fmlookup (contracts s) c of None \<Rightarrow> s
       | Some r \<Rightarrow> s\<lparr>contracts := fmupd c (f r) (contracts s)\<rparr>)"

definition policy_update_insert :: "string \<Rightarrow> scheduled_policy_update \<Rightarrow> ('z, unit) op" where
  "policy_update_insert i u =
     modify (\<lambda>s. s\<lparr>scheduled_policy_updates := fmupd i u (scheduled_policy_updates s)\<rparr>)"

definition schedule_upgrade ::
  "transaction \<Rightarrow> principal \<Rightarrow> contract_id \<Rightarrow> u64 \<Rightarrow> ('z, return_value) op" where
  "schedule_upgrade tx msg_sender governed_contract timelock_delay =
     (bind (try_res (expect_args 2 (tx_args tx))) (\<lambda>args.
     bind (try_res (expect_text (args ! 0))) (\<lambda>upgrade_id.
     bind (try_res (expect_text (args ! 1))) (\<lambda>new_code_hash.
     andthen (require_governance_admin (tx_target tx) msg_sender) (
     bind (gets (\<lambda>s. fmlookup (scheduled_upgrades s) upgrade_id)) (\<lambda>existing.
     andthen (reject_if (existing \<noteq> None) UpgradeAlreadyScheduled) (
     bind (gets height) (\<lambda>now.
     bind (or_err (checked_add now timelock_delay) ArithmeticOverflow) (\<lambda>execute_after_height.
     andthen (upgrade_insert upgrade_id
       \<lparr>su_upgrade_id = upgrade_id, su_governance_contract = tx_target tx,
        su_target_contract = governed_contract, su_new_code_hash = new_code_hash,
        su_execute_after_height = execute_after_height, su_executed = False\<rparr>) (
     andthen (emit (tx_target tx) (tx_hash tx)
       (EvUpgradeScheduled upgrade_id governed_contract new_code_hash execute_after_height
         msg_sender)) (
     ret RUnit)))))))))))"

definition execute_upgrade ::
  "env \<Rightarrow> transaction \<Rightarrow> principal \<Rightarrow> contract_id \<Rightarrow> ('z, return_value) op" where
  "execute_upgrade E tx msg_sender governed_contract =
     (bind (try_res (expect_args 1 (tx_args tx))) (\<lambda>args.
     bind (try_res (expect_text (args ! 0))) (\<lambda>upgrade_id.
     andthen (require_governance_admin (tx_target tx) msg_sender) (
     bind (gets (storage_root E)) (\<lambda>storage_root_before.
     bind (gets (registry_root E)) (\<lambda>registry_root_before.
     bind (gets (\<lambda>s. fmlookup (scheduled_upgrades s) upgrade_id)) (\<lambda>found.
     bind (or_err found UpgradeNotFound) (\<lambda>upgrade.
     andthen (reject_if (su_executed upgrade) UpgradeAlreadyExecuted) (
     andthen (reject_if (su_governance_contract upgrade \<noteq> tx_target tx
         \<or> su_target_contract upgrade \<noteq> governed_contract) UpgradeNotFound) (
     bind (gets height) (\<lambda>now.
     andthen (reject_if (now < su_execute_after_height upgrade) TimelockNotReady) (
     bind (gets (\<lambda>s. fmlookup (contracts s) governed_contract)) (\<lambda>found_target.
     bind (or_err found_target ContractNotFound) (\<lambda>target.
     (let old_code_hash = cr_code_hash target in
     (let new_code_hash = su_new_code_hash upgrade in
     andthen (update_contract governed_contract (\<lambda>r. r\<lparr>cr_code_hash := new_code_hash\<rparr>)) (
     andthen (upgrade_insert upgrade_id (upgrade\<lparr>su_executed := True\<rparr>)) (
     bind (gets (storage_root E)) (\<lambda>storage_root_after.
     bind (gets (registry_root E)) (\<lambda>registry_root_after.
     andthen (reject_if (storage_root_after \<noteq> storage_root_before
         \<or> registry_root_after \<noteq> registry_root_before) MigrationInvariantViolation) (
     andthen (emit (tx_target tx) (tx_hash tx)
       (EvUpgradeExecuted upgrade_id governed_contract old_code_hash new_code_hash msg_sender)) (
     ret RUnit))))))))))))))))))))))"

section \<open>Policy updates\<close>

definition schedule_policy_update ::
  "transaction \<Rightarrow> principal \<Rightarrow> contract_id \<Rightarrow> u64 \<Rightarrow> ('z, return_value) op" where
  "schedule_policy_update tx msg_sender governed_contract timelock_delay =
     (bind (try_res (expect_args 3 (tx_args tx))) (\<lambda>args.
     bind (try_res (expect_text (args ! 0))) (\<lambda>update_id.
     bind (try_res (expect_text (args ! 1))) (\<lambda>method_text.
     bind (try_res (parse_policy_method method_text)) (\<lambda>m.
     bind (try_res (expect_text (args ! 2))) (\<lambda>effect_text.
     bind (try_res (parse_policy_effect effect_text)) (\<lambda>effect.
     andthen (require_governance_admin (tx_target tx) msg_sender) (
     bind (gets (\<lambda>s. fmlookup (scheduled_policy_updates s) update_id)) (\<lambda>existing.
     andthen (reject_if (existing \<noteq> None) PolicyUpdateAlreadyScheduled) (
     bind (gets (\<lambda>s. fmlookup (contracts s) governed_contract)) (\<lambda>found.
     bind (or_err found ContractNotFound) (\<lambda>target.
     andthen (reject_if (fmlookup (cr_method_policies target) m = None) PolicyMissing) (
     bind (gets height) (\<lambda>now.
     bind (or_err (checked_add now timelock_delay) ArithmeticOverflow) (\<lambda>execute_after_height.
     andthen (policy_update_insert update_id
       \<lparr>spu_update_id = update_id, spu_governance_contract = tx_target tx,
        spu_target_contract = governed_contract, spu_method = m, spu_effect = effect,
        spu_execute_after_height = execute_after_height, spu_executed = False\<rparr>) (
     andthen (emit (tx_target tx) (tx_hash tx)
       (EvPolicyUpdateScheduled update_id governed_contract m effect execute_after_height
         msg_sender)) (
     ret RUnit)))))))))))))))))"

definition execute_policy_update ::
  "env \<Rightarrow> transaction \<Rightarrow> principal \<Rightarrow> contract_id \<Rightarrow> ('z, return_value) op" where
  "execute_policy_update E tx msg_sender governed_contract =
     (bind (try_res (expect_args 1 (tx_args tx))) (\<lambda>args.
     bind (try_res (expect_text (args ! 0))) (\<lambda>update_id.
     andthen (require_governance_admin (tx_target tx) msg_sender) (
     bind (gets (storage_root E)) (\<lambda>storage_root_before.
     bind (gets (registry_root E)) (\<lambda>registry_root_before.
     bind (gets (policy_root E)) (\<lambda>old_policy_root.
     bind (gets (\<lambda>s. fmlookup (scheduled_policy_updates s) update_id)) (\<lambda>found.
     bind (or_err found PolicyUpdateNotFound) (\<lambda>update.
     andthen (reject_if (spu_executed update) PolicyUpdateAlreadyExecuted) (
     andthen (reject_if (spu_governance_contract update \<noteq> tx_target tx
         \<or> spu_target_contract update \<noteq> governed_contract) PolicyUpdateNotFound) (
     bind (gets height) (\<lambda>now.
     andthen (reject_if (now < spu_execute_after_height update) TimelockNotReady) (
     bind (gets (\<lambda>s. fmlookup (contracts s) governed_contract)) (\<lambda>found_target.
     bind (or_err found_target ContractNotFound) (\<lambda>target.
     bind (or_err (fmlookup (cr_method_policies target) (spu_method update)) PolicyMissing) (\<lambda>policy.
     andthen (update_contract governed_contract
       (\<lambda>r. r\<lparr>cr_method_policies :=
         fmupd (spu_method update)
           (policy\<lparr>pol_effects := finsert (spu_effect update) (pol_effects policy)\<rparr>)
           (cr_method_policies r)\<rparr>)) (
     andthen (policy_update_insert update_id (update\<lparr>spu_executed := True\<rparr>)) (
     bind (gets (storage_root E)) (\<lambda>storage_root_after.
     bind (gets (registry_root E)) (\<lambda>registry_root_after.
     andthen (reject_if (storage_root_after \<noteq> storage_root_before
         \<or> registry_root_after \<noteq> registry_root_before) MigrationInvariantViolation) (
     bind (gets (policy_root E)) (\<lambda>new_policy_root.
     andthen (emit (tx_target tx) (tx_hash tx)
       (EvPolicyUpdateExecuted update_id governed_contract (spu_method update)
         (spu_effect update) old_policy_root new_policy_root msg_sender)) (
     ret RUnit)))))))))))))))))))))))"

end
