(* ===== verification/Aspect_Host.thy ===== *)
theory Aspect_Host
  imports Aspect_Runtime Token_Contract Bridge_Contract Governance_Contract
begin

text \<open>
  How \<open>detta-core\<close> runs an aspect method: the read tables and the write scope taken from the
  state, the evaluation of the projection, the application of the host operations of its trace
  in order, and the check of the method's invariants on the resulting state.
\<close>

section \<open>Values\<close>

fun aspect_value_from_argument :: "argument \<Rightarrow> aspect_value" where
  "aspect_value_from_argument (Principal v) = AvAtom v"
| "aspect_value_from_argument (Asset v) = AvAtom v"
| "aspect_value_from_argument (Text v) = AvAtom v"
| "aspect_value_from_argument (Certificate v) = AvAtom v"
| "aspect_value_from_argument (Amount v) = AvAmount v"

fun aspect_value_to_return :: "aspect_value \<Rightarrow> execution_error + return_value" where
  "aspect_value_to_return AvUnit = Inr RUnit"
| "aspect_value_to_return (AvAmount v) = Inr (RUInt v)"
| "aspect_value_to_return (AvBool b) = Inr (RUInt (if b then 1 else 0))"
| "aspect_value_to_return (AvAtom _) = Inl InvalidArguments"

datatype abi_arg_kind = PrincipalArg | AssetArg | AmountArg | TextArg | CertificateArg

fun native_method_arg_kinds :: "call_method \<Rightarrow> abi_arg_kind list option" where
  "native_method_arg_kinds Transfer = Some [PrincipalArg, AssetArg, AmountArg]"
| "native_method_arg_kinds Approve = Some [PrincipalArg, AssetArg, AmountArg]"
| "native_method_arg_kinds TransferFrom = Some [PrincipalArg, PrincipalArg, AssetArg, AmountArg]"
| "native_method_arg_kinds Permit =
     Some [PrincipalArg, PrincipalArg, AssetArg, AmountArg, CertificateArg]"
| "native_method_arg_kinds AddLiquidity = Some [AmountArg, AmountArg]"
| "native_method_arg_kinds Swap = Some [AssetArg, AmountArg, AmountArg]"
| "native_method_arg_kinds SubmitPrice = Some [AssetArg, AmountArg, AmountArg]"
| "native_method_arg_kinds QueueBridgeMessage =
     Some [TextArg, TextArg, TextArg, PrincipalArg, AssetArg, AmountArg]"
| "native_method_arg_kinds RedeemBridgeMessage =
     Some [TextArg, PrincipalArg, AssetArg, AmountArg, CertificateArg]"
| "native_method_arg_kinds PauseContract = Some []"
| "native_method_arg_kinds UnpauseContract = Some []"
| "native_method_arg_kinds ScheduleUpgrade = Some [TextArg, TextArg]"
| "native_method_arg_kinds ExecuteUpgrade = Some [TextArg]"
| "native_method_arg_kinds SchedulePolicyUpdate = Some [TextArg, TextArg, TextArg]"
| "native_method_arg_kinds ExecutePolicyUpdate = Some [TextArg]"
| "native_method_arg_kinds DepositCollateral = Some [AssetArg, AmountArg]"
| "native_method_arg_kinds Borrow = Some [AssetArg, AmountArg]"
| "native_method_arg_kinds Liquidate = Some [PrincipalArg, AssetArg, AmountArg]"
| "native_method_arg_kinds Stake = Some [AssetArg, AmountArg]"
| "native_method_arg_kinds Unstake = Some [AssetArg, AmountArg]"
| "native_method_arg_kinds RequestUnstake = Some [AssetArg, AmountArg]"
| "native_method_arg_kinds CompleteUnstake = Some [AssetArg, AmountArg]"
| "native_method_arg_kinds ClaimStakingRewards = Some [AssetArg]"
| "native_method_arg_kinds RouteTransferFrom =
     Some [PrincipalArg, PrincipalArg, AssetArg, AmountArg]"
| "native_method_arg_kinds DeployToken = Some [TextArg, AssetArg, PrincipalArg, AmountArg]"
| "native_method_arg_kinds DeployAmmPool = Some [TextArg, AssetArg, AssetArg]"
| "native_method_arg_kinds RegisterAccountKey = Some [TextArg]"
| "native_method_arg_kinds RevokeAccountKey = Some [TextArg]"
| "native_method_arg_kinds _ = None"

definition abi_arg_kind_of :: "expr \<Rightarrow> execution_error + abi_arg_kind" where
  "abi_arg_kind_of type_expr =
     (case type_expr of
        List _ \<Rightarrow> Inl InvalidArguments
      | Atom n \<Rightarrow>
          if n = ''Address'' \<or> n = ''Principal'' then Inr PrincipalArg
          else if n = ''Asset'' then Inr AssetArg
          else if n = ''Amount'' then Inr AmountArg
          else if n = ''Text'' then Inr TextArg
          else if n = ''Bytes'' \<or> n = ''Certificate'' then Inr CertificateArg
          else Inl InvalidArguments)"

definition abi_arg_kinds :: "expr \<Rightarrow> execution_error + abi_arg_kind list" where
  "abi_arg_kinds args_expr =
     (case args_expr of
        List (Atom head # items) \<Rightarrow>
          if head = ''args''
          then try_map (\<lambda>item. case item of
              List [_, type_expr] \<Rightarrow> abi_arg_kind_of type_expr
            | _ \<Rightarrow> Inl InvalidArguments) items
          else Inl InvalidArguments
      | _ \<Rightarrow> Inl InvalidArguments)"

fun expect_aspect_atom :: "aspect_value \<Rightarrow> execution_error + string" where
  "expect_aspect_atom (AvAtom v) = (if v \<noteq> [] then Inr v else Inl InvalidArguments)"
| "expect_aspect_atom _ = Inl InvalidArguments"

fun expect_aspect_amount :: "aspect_value \<Rightarrow> execution_error + amount" where
  "expect_aspect_amount (AvAmount v) = Inr v"
| "expect_aspect_amount _ = Inl InvalidArguments"

fun aspect_value_to_argument :: "abi_arg_kind \<Rightarrow> aspect_value \<Rightarrow> execution_error + argument" where
  "aspect_value_to_argument PrincipalArg v = map_sum id Principal (expect_aspect_atom v)"
| "aspect_value_to_argument AssetArg v = map_sum id Asset (expect_aspect_atom v)"
| "aspect_value_to_argument AmountArg v = map_sum id Amount (expect_aspect_amount v)"
| "aspect_value_to_argument TextArg v = map_sum id Text (expect_aspect_atom v)"
| "aspect_value_to_argument CertificateArg v = map_sum id Certificate (expect_aspect_atom v)"

definition aspect_values_to_arg_kinds ::
  "abi_arg_kind list \<Rightarrow> aspect_value list \<Rightarrow> execution_error + argument list" where
  "aspect_values_to_arg_kinds kinds args =
     (if length kinds \<noteq> length args then Inl InvalidArguments
      else try_map (\<lambda>(kind, v). aspect_value_to_argument kind v) (zip kinds args))"

definition aspect_values_to_abi_args ::
  "expr \<Rightarrow> aspect_value list \<Rightarrow> execution_error + argument list" where
  "aspect_values_to_abi_args args_expr args =
     (case abi_arg_kinds args_expr of Inl e \<Rightarrow> Inl e
      | Inr kinds \<Rightarrow> aspect_values_to_arg_kinds kinds args)"

fun state_value_from_aspect :: "aspect_value \<Rightarrow> execution_error + state_value" where
  "state_value_from_aspect (AvAmount v) = Inr (UInt v)"
| "state_value_from_aspect (AvBool b) = Inr (UInt (if b then 1 else 0))"
| "state_value_from_aspect _ = Inl InvalidArguments"

fun aspect_value_from_state_value :: "state_value \<Rightarrow> aspect_value" where
  "aspect_value_from_state_value (UInt v) = AvAmount v"

section \<open>Allow lists\<close>

definition target_allows :: "contract_call_target \<Rightarrow> string \<Rightarrow> bool" where
  "target_allows t contract = (case t of AnyTarget \<Rightarrow> True | ExactTarget c \<Rightarrow> c = contract)"

definition aspect_policy_allows_contract_call ::
  "method_policy_ir \<Rightarrow> string \<Rightarrow> string \<Rightarrow> bool" where
  "aspect_policy_allows_contract_call policy contract meth \<longleftrightarrow>
     fBex (mpi_call_allowlist policy)
       (\<lambda>allowed. ccp_method allowed = meth \<and> target_allows (ccp_target allowed) contract)"

definition aspect_policy_allows_contract_state_read ::
  "method_policy_ir \<Rightarrow> string \<Rightarrow> string \<Rightarrow> bool" where
  "aspect_policy_allows_contract_state_read policy contract state \<longleftrightarrow>
     fBex (mpi_read_allowlist policy)
       (\<lambda>allowed. csr_state allowed = state \<and> target_allows (csr_target allowed) contract)"

fun aspect_invariant_op_is_allowed :: "method_policy_ir \<Rightarrow> aspect_host_op \<Rightarrow> bool" where
  "aspect_invariant_op_is_allowed policy (StateGet _ _) = True"
| "aspect_invariant_op_is_allowed policy (RegistryGet _) = True"
| "aspect_invariant_op_is_allowed policy (ContractStateGet contract state _) =
     aspect_policy_allows_contract_state_read policy contract state"
| "aspect_invariant_op_is_allowed policy _ = False"

definition host_call_method_for_target ::
  "contract_record \<Rightarrow> string \<Rightarrow> execution_error + call_method" where
  "host_call_method_for_target target_record meth =
     (if is_aspect_kind (cr_kind target_record) then Inr (Other meth)
      else parse_policy_method meth)"

section \<open>Scopes and reads\<close>

definition module_closure ::
  "string \<Rightarrow> aspect_module_record \<Rightarrow> execution_error + aspect_module_ir \<times> string fset" where
  "module_closure bundle_id module =
     (case amr_ir module of None \<Rightarrow> Inl PolicyMissing
      | Some ir \<Rightarrow> map_sum id (\<lambda>closure. (ir, closure)) (aspect_bundle_aspect_closure ir bundle_id))"

definition aspect_write_scope ::
  "contract_id \<Rightarrow> string \<Rightarrow> aspect_module_record \<Rightarrow> execution_error + state_key fset" where
  "aspect_write_scope contract bundle_id module =
     map_sum id (\<lambda>(ir, closure).
         fset_of_list (map (\<lambda>schema. AspectState contract (ss_aspect schema) (ss_state schema) [])
           (filter (\<lambda>schema. ss_aspect schema |\<in>| closure)
             (map snd (sorted_list_of_fmap (ir_storage_schema ir))))))
       (module_closure bundle_id module)"

definition aspect_state_key ::
  "contract_id \<Rightarrow> string \<Rightarrow> aspect_module_record \<Rightarrow> string \<Rightarrow> string list
   \<Rightarrow> execution_error + state_key" where
  "aspect_state_key contract bundle_id module state key =
     (case module_closure bundle_id module of Inl e \<Rightarrow> Inl e
      | Inr (ir, closure) \<Rightarrow>
        (case filter (\<lambda>schema. ss_state schema = state \<and> ss_aspect schema |\<in>| closure)
            (map snd (sorted_list_of_fmap (ir_storage_schema ir))) of
          [] \<Rightarrow> Inl WriteScopeViolation
        | [schema] \<Rightarrow> Inr (AspectState contract (ss_aspect schema) (ss_state schema) key)
        | _ \<Rightarrow> Inl InvalidArguments))"

fun aspect_read_entry ::
  "contract_id \<Rightarrow> string fset \<Rightarrow> state_key \<times> state_value
   \<Rightarrow> ((string \<times> string list) \<times> aspect_value) option" where
  "aspect_read_entry contract closure (AspectState c aspect state key, v) =
     (if c = contract \<and> aspect |\<in>| closure
      then Some ((state, key), aspect_value_from_state_value v) else None)"
| "aspect_read_entry contract closure _ = None"

definition aspect_state_reads ::
  "'z state_of \<Rightarrow> contract_id \<Rightarrow> string \<Rightarrow> aspect_module_record
   \<Rightarrow> execution_error + aspect_state_reads" where
  "aspect_state_reads s contract bundle_id module =
     map_sum id (\<lambda>(ir, closure).
         fold (\<lambda>(k, v) acc. fmupd k v acc)
           (List.map_filter (aspect_read_entry contract closure) (sorted_list_of_fmap (storage s)))
           fmempty)
       (module_closure bundle_id module)"

fun contract_read_entry ::
  "state_key \<times> state_value \<Rightarrow> ((string \<times> string \<times> string list) \<times> aspect_value) option" where
  "contract_read_entry (AspectState c aspect state key, v) =
     Some ((c, state, key), aspect_value_from_state_value v)"
| "contract_read_entry _ = None"

definition aspect_contract_state_reads :: "'z state_of \<Rightarrow> contract_aspect_state_reads" where
  "aspect_contract_state_reads s =
     fold (\<lambda>(k, v) acc. fmupd k v acc)
       (List.map_filter contract_read_entry (sorted_list_of_fmap (storage s))) fmempty"

section \<open>Host operations\<close>

record aspect_host_context =
  hc_module :: aspect_module_record
  hc_bundle_id :: string
  hc_policy :: method_policy_ir
  hc_frame :: authorized_frame

definition aspect_values_to_host_call_args ::
  "'z state_of \<Rightarrow> contract_record \<Rightarrow> call_method \<Rightarrow> aspect_value list
   \<Rightarrow> execution_error + argument list" where
  "aspect_values_to_host_call_args s target_record m args =
     (case cr_kind target_record of
        AspectModule module_hash bundle_id _ _ _ \<Rightarrow>
          (case m of
             Other projection \<Rightarrow>
               (case fmlookup (aspect_modules s) module_hash of None \<Rightarrow> Inl InvalidArguments
                | Some module \<Rightarrow>
                  (case amr_ir module of None \<Rightarrow> Inl PolicyMissing
                   | Some ir \<Rightarrow>
                     (case fmlookup (ir_abi ir) (qualified_symbol bundle_id projection) of
                        None \<Rightarrow> Inl InvalidArguments
                      | Some abi \<Rightarrow> aspect_values_to_abi_args (abi_args abi) args)))
           | _ \<Rightarrow> Inl InvalidArguments)
      | _ \<Rightarrow>
          (case native_method_arg_kinds m of None \<Rightarrow> Inl InvalidArguments
           | Some kinds \<Rightarrow> aspect_values_to_arg_kinds kinds args))"

definition nested_tx ::
  "transaction \<Rightarrow> contract_id \<Rightarrow> call_method \<Rightarrow> argument list \<Rightarrow> transaction" where
  "nested_tx tx contract m args = tx\<lparr>tx_target := contract, tx_method := m, tx_args := args\<rparr>"

definition apply_aspect_call_contract ::
  "'z call_op \<Rightarrow> transaction \<Rightarrow> aspect_host_context \<Rightarrow> contract_id \<Rightarrow> string
   \<Rightarrow> aspect_value list \<Rightarrow> ('z, unit) op" where
  "apply_aspect_call_contract call tx hc contract meth args =
     (andthen (reject_if (contract = []) InvalidArguments) (
     andthen (reject_if (\<not> aspect_policy_allows_contract_call (hc_policy hc) contract meth)
       UnauthorizedContractCall) (
     bind (gets (\<lambda>s. fmlookup (contracts s) contract)) (\<lambda>found.
     bind (or_err found ContractNotFound) (\<lambda>target_record.
     bind (try_res (host_call_method_for_target target_record meth)) (\<lambda>m.
     bind (query (\<lambda>s. aspect_values_to_host_call_args s target_record m args)) (\<lambda>call_args.
     andthen (call (nested_tx tx contract m call_args) (af_contract (hc_frame hc))) (
     ret ()))))))))"

definition apply_aspect_cross_shard_outbox_append ::
  "transaction \<Rightarrow> chain_id \<Rightarrow> contract_id \<Rightarrow> string \<Rightarrow> principal \<Rightarrow> asset_id \<Rightarrow> amount
   \<Rightarrow> ('z, unit) op" where
  "apply_aspect_cross_shard_outbox_append tx destination_chain destination_contract message_id
       recipient asset amt =
     (andthen (reject_if (destination_chain = [] \<or> destination_contract = [] \<or> message_id = []
         \<or> recipient = [] \<or> asset = [] \<or> amt = 0) InvalidArguments) (
     bind (gets outbound_message_ids) (\<lambda>ids.
     andthen (reject_if (message_id |\<in>| ids) OutboundMessageReplay) (
     bind (gets chain_id) (\<lambda>chain.
     bind (gets height) (\<lambda>now.
     andthen (outbox_append
       \<lparr>csm_source_chain = chain, csm_source_contract = tx_target tx, csm_source_height = now,
        csm_destination_chain = destination_chain,
        csm_destination_contract = destination_contract, csm_message_id = message_id,
        csm_recipient = recipient, csm_asset = asset, csm_amount = amt\<rparr>) (
     emit (tx_target tx) (tx_hash tx)
       (EvCrossShardMessageQueued message_id destination_chain destination_contract recipient
         asset amt))))))))"

definition apply_aspect_permit_verify ::
  "transaction \<Rightarrow> principal \<Rightarrow> principal \<Rightarrow> asset_id \<Rightarrow> amount \<Rightarrow> string \<Rightarrow> ('z, unit) op" where
  "apply_aspect_permit_verify tx owner spender asset amt certificate =
     (bind (gets chain_id) (\<lambda>chain.
     bind (try_res (verify_permit_certificate certificate chain (tx_target tx) owner spender
         asset amt)) (\<lambda>nonce.
     bind (gets used_certificate_nonces) (\<lambda>used.
     andthen (reject_if (nonce |\<in>| used) CertificateReplay) (
     certificate_nonce_insert nonce)))))"

definition apply_aspect_bridge_verify ::
  "env \<Rightarrow> transaction \<Rightarrow> chain_id \<Rightarrow> string \<Rightarrow> principal \<Rightarrow> asset_id \<Rightarrow> amount \<Rightarrow> string
   \<Rightarrow> ('z, unit) op" where
  "apply_aspect_bridge_verify E tx source_chain message_id recipient asset amt certificate =
     (bind (gets chain_id) (\<lambda>chain.
     (let expected = \<lparr>ebm_destination_chain = chain, ebm_destination_contract = tx_target tx,
        ebm_source_chain = source_chain, ebm_message_id = message_id,
        ebm_recipient = recipient, ebm_asset = asset, ebm_amount = amt\<rparr> in
     bind (gets (\<lambda>s. fmlookup (trusted_bridge_validator_sets s) source_chain)) (\<lambda>found.
     bind (or_err found InvalidBridgeMessage) (\<lambda>vset.
     try_res (verify_bridge_finality_proof E certificate expected vset))))))"

fun apply_aspect_host_op ::
  "env \<Rightarrow> 'z call_op \<Rightarrow> transaction \<Rightarrow> aspect_host_context \<Rightarrow> aspect_host_op \<Rightarrow> ('z, unit) op" where
  "apply_aspect_host_op E call tx hc (StateGet _ _) = ret ()"
| "apply_aspect_host_op E call tx hc (ContractStateGet contract state _) =
     (if aspect_policy_allows_contract_state_read (hc_policy hc) contract state then ret ()
      else fail UnauthorizedContractStateRead)"
| "apply_aspect_host_op E call tx hc (StateSet state key v) =
     (bind (try_res (aspect_state_key (tx_target tx) (hc_bundle_id hc) (hc_module hc)
         state key)) (\<lambda>storage_key.
     bind (try_res (state_value_from_aspect v)) (\<lambda>value.
     state_set (hc_frame hc) storage_key value)))"
| "apply_aspect_host_op E call tx hc (Emit event) =
     emit (tx_target tx) (tx_hash tx) (EvAspectEvent (amr_module_hash (hc_module hc)) event)"
| "apply_aspect_host_op E call tx hc (RegistryGet _) = fail InvalidArguments"
| "apply_aspect_host_op E call tx hc (RegistrySet _ _) = fail InvalidArguments"
| "apply_aspect_host_op E call tx hc (RegistryConsume _ _) = fail InvalidArguments"
| "apply_aspect_host_op E call tx hc (OpCallContract contract meth args) =
     apply_aspect_call_contract call tx hc contract meth args"
| "apply_aspect_host_op E call tx hc (PermitVerify owner spender asset amt certificate) =
     apply_aspect_permit_verify tx owner spender asset amt certificate"
| "apply_aspect_host_op E call tx hc
       (BridgeVerify source_chain message_id recipient asset amt certificate) =
     apply_aspect_bridge_verify E tx source_chain message_id recipient asset amt certificate"
| "apply_aspect_host_op E call tx hc
       (OpCrossShardOutboxAppend destination_chain destination_contract message_id recipient
         asset amt) =
     apply_aspect_cross_shard_outbox_append tx destination_chain destination_contract message_id
       recipient asset amt"

section \<open>Aspect methods\<close>

definition make_eval_env ::
  "aspect_module_ir \<Rightarrow> u64 \<Rightarrow> aspect_execution_context \<Rightarrow> aspect_state_reads
   \<Rightarrow> contract_aspect_state_reads \<Rightarrow> eval_env" where
  "make_eval_env ir budget context reads contract_reads =
     \<lparr>ee_module = ir, ee_max_steps = budget, ee_context = context, ee_state_reads = reads,
      ee_contract_state_reads = contract_reads\<rparr>"

definition aspect_invariant_holds ::
  "env \<Rightarrow> eval_env \<Rightarrow> string \<Rightarrow> method_policy_ir \<Rightarrow> string \<Rightarrow> execution_error + unit" where
  "aspect_invariant_holds E V bundle_id policy invariant_ref =
     (case resolve_aspect_invariant (ee_module V) bundle_id invariant_ref of Inl e \<Rightarrow> Inl e
      | Inr invariant \<Rightarrow>
        (case evaluate_invariant_expr E V (ivd_expr invariant) of Inl _ \<Rightarrow> Inl InvariantViolation
         | Inr report \<Rightarrow>
             if rep_return_value report \<noteq> AvBool True
                \<or> list_ex (\<lambda>op. \<not> aspect_invariant_op_is_allowed policy op) (rep_trace report)
             then Inl InvariantViolation else Inr ()))"

definition check_aspect_method_invariants ::
  "env \<Rightarrow> 'z state_of \<Rightarrow> aspect_module_record \<Rightarrow> string \<Rightarrow> string \<Rightarrow> u64
   \<Rightarrow> aspect_execution_context \<Rightarrow> execution_error + unit" where
  "check_aspect_method_invariants E s module bundle_id projection budget context =
     (case amr_ir module of None \<Rightarrow> Inl PolicyMissing
      | Some ir \<Rightarrow>
        (case fmlookup (ir_policies ir) (qualified_symbol bundle_id projection) of
           None \<Rightarrow> Inl PolicyMissing
         | Some policy \<Rightarrow>
           (case aspect_state_reads s (ctx_current_contract context) bundle_id module of
              Inl e \<Rightarrow> Inl e
            | Inr reads \<Rightarrow>
                map_sum id (\<lambda>_. ())
                  (try_map
                    (aspect_invariant_holds E
                      (make_eval_env ir budget context reads (aspect_contract_state_reads s))
                      bundle_id policy)
                    (sorted_list_of_fset (mpi_invariants policy))))))"

definition other_name :: "call_method \<Rightarrow> string option" where
  "other_name m = (case m of Other n \<Rightarrow> Some n | _ \<Rightarrow> None)"

definition execute_aspect_module_method ::
  "env \<Rightarrow> 'z call_op \<Rightarrow> transaction \<Rightarrow> principal \<Rightarrow> string \<Rightarrow> string \<Rightarrow> ('z, return_value) op" where
  "execute_aspect_module_method E call tx msg_sender module_hash bundle_id =
     (bind (or_err (other_name (tx_method tx)) MethodNotExported) (\<lambda>projection.
     bind (gets (\<lambda>s. fmlookup (aspect_modules s) module_hash)) (\<lambda>found.
     bind (or_err found InvalidArguments) (\<lambda>module.
     bind (or_err (amr_ir module) PolicyMissing) (\<lambda>ir.
     bind (or_err (fmlookup (ir_policies ir) (qualified_symbol bundle_id projection))
         PolicyMissing) (\<lambda>aspect_policy.
     bind (gets height) (\<lambda>now.
     (let context = \<lparr>ctx_tx_sender = tx_sender tx, ctx_msg_sender = msg_sender,
        ctx_current_contract = tx_target tx, ctx_block_height = now, ctx_block_timestamp = 0\<rparr> in
     bind (query (\<lambda>s. aspect_state_reads s (tx_target tx) bundle_id module)) (\<lambda>reads.
     bind (gets aspect_contract_state_reads) (\<lambda>contract_reads.
     bind (try_res (map_sum (\<lambda>_. InvalidArguments) id
         (execute_projection E (make_eval_env ir (tx_budget tx) context reads contract_reads)
           bundle_id projection (map aspect_value_from_argument (tx_args tx))))) (\<lambda>report.
     bind (try_res (aspect_write_scope (tx_target tx) bundle_id module)) (\<lambda>scope.
     (let frame = \<lparr>af_contract = tx_target tx, af_msg_sender = msg_sender, af_write_scope = scope\<rparr> in
     (let hc = \<lparr>hc_module = module, hc_bundle_id = bundle_id, hc_policy = aspect_policy,
        hc_frame = frame\<rparr> in
     andthen (for_each (apply_aspect_host_op E call tx hc) (rep_trace report)) (
     andthen (query (\<lambda>s. check_aspect_method_invariants E s module bundle_id projection (tx_budget tx)
         context)) (
     try_res (aspect_value_to_return (rep_return_value report))))))))))))))))))"

end
