(* ===== verification/Amm_Pool.thy ===== *)
theory Amm_Pool
  imports Assets
begin

text \<open>
  The constant-product pool: \<open>add_liquidity\<close> and \<open>swap\<close>, with \<open>amount_after_fee\<close>.
\<close>

definition amount_after_fee :: "amount \<Rightarrow> u64 \<Rightarrow> execution_error + amount" where
  "amount_after_fee amt fee_bps =
     (if fee_bps > 10000 then Inl InvalidArguments
      else case checked_mul amt (10000 - as_amount fee_bps) of
        None \<Rightarrow> Inl ArithmeticOverflow
      | Some v \<Rightarrow> Inr (v div 10000))"

definition add_liquidity ::
  "'z call_op \<Rightarrow> transaction \<Rightarrow> principal \<Rightarrow> asset_id \<Rightarrow> asset_id \<Rightarrow> ('z, return_value) op" where
  "add_liquidity call tx msg_sender asset_a asset_b =
     (bind (try_res (expect_args 2 (tx_args tx))) (\<lambda>args.
     bind (try_res (expect_amount (args ! 0))) (\<lambda>amount_a.
     bind (try_res (expect_amount (args ! 1))) (\<lambda>amount_b.
     andthen (reject_if (amount_a = 0 \<or> amount_b = 0) InvalidArguments) (
     bind (or_err (checked_add amount_a amount_b) ArithmeticOverflow) (\<lambda>minted_lp.
     (let reserve_a_key = Reserve (tx_target tx) asset_a in
     (let reserve_b_key = Reserve (tx_target tx) asset_b in
     (let supply_key = LpSupply (tx_target tx) in
     (let lp_key = LpBalance (tx_target tx) msg_sender in
     bind (query (\<lambda>s. resolve_asset_ledger s asset_a)) (\<lambda>asset_a_ledger.
     bind (query (\<lambda>s. resolve_asset_ledger s asset_b)) (\<lambda>asset_b_ledger.
     (let frame = make_frame (tx_target tx) msg_sender
         [reserve_a_key, reserve_b_key, supply_key, lp_key] in
     bind (read_uint reserve_a_key) (\<lambda>reserve_a.
     bind (read_uint reserve_b_key) (\<lambda>reserve_b.
     bind (read_uint supply_key) (\<lambda>supply.
     bind (read_uint lp_key) (\<lambda>lp.
     andthen (transfer_asset_balance call tx
       \<lparr>at_ledger = asset_a_ledger, at_from = msg_sender, at_to = tx_target tx,
        at_asset = asset_a, at_amount = amount_a\<rparr>) (
     andthen (transfer_asset_balance call tx
       \<lparr>at_ledger = asset_b_ledger, at_from = msg_sender, at_to = tx_target tx,
        at_asset = asset_b, at_amount = amount_b\<rparr>) (
     bind (or_err (checked_add reserve_a amount_a) ArithmeticOverflow) (\<lambda>new_a.
     andthen (state_set frame reserve_a_key (UInt new_a)) (
     bind (or_err (checked_add reserve_b amount_b) ArithmeticOverflow) (\<lambda>new_b.
     andthen (state_set frame reserve_b_key (UInt new_b)) (
     bind (or_err (checked_add supply minted_lp) ArithmeticOverflow) (\<lambda>new_supply.
     andthen (state_set frame supply_key (UInt new_supply)) (
     bind (or_err (checked_add lp minted_lp) ArithmeticOverflow) (\<lambda>new_lp.
     andthen (state_set frame lp_key (UInt new_lp)) (
     andthen (ensure (\<lambda>s. amm_invariants_hold s (tx_target tx)) InvariantViolation) (
     andthen (emit (tx_target tx) (tx_hash tx)
       (EvLiquidityAdded msg_sender asset_a amount_a asset_b amount_b minted_lp)) (
     ret (RUInt minted_lp))))))))))))))))))))))))))))))"

text \<open>The quote of a swap: the amount net of the fee, the fee and the output.\<close>

definition swap_quote ::
  "amount \<Rightarrow> amount \<Rightarrow> amount \<Rightarrow> u64 \<Rightarrow> execution_error + amount \<times> amount" where
  "swap_quote reserve_in reserve_out amount_in swap_fee_bps =
     (case amount_after_fee amount_in swap_fee_bps of Inl e \<Rightarrow> Inl e
      | Inr amount_in_with_fee \<Rightarrow>
        (case checked_mul reserve_out amount_in_with_fee of None \<Rightarrow> Inl ArithmeticOverflow
         | Some numerator \<Rightarrow>
           (case checked_add reserve_in amount_in_with_fee of None \<Rightarrow> Inl ArithmeticOverflow
            | Some denominator \<Rightarrow>
                Inr (amount_in - amount_in_with_fee, numerator div denominator))))"

definition output_asset_of ::
  "asset_id \<Rightarrow> asset_id \<Rightarrow> asset_id \<Rightarrow> execution_error + asset_id" where
  "output_asset_of input_asset asset_a asset_b =
     (if input_asset = asset_a then Inr asset_b
      else if input_asset = asset_b then Inr asset_a
      else Inl InvalidPoolAsset)"

definition swap ::
  "'z call_op \<Rightarrow> transaction \<Rightarrow> principal \<Rightarrow> asset_id \<Rightarrow> asset_id \<Rightarrow> u64
   \<Rightarrow> ('z, return_value) op" where
  "swap call tx msg_sender asset_a asset_b swap_fee_bps =
     (bind (try_res (expect_args 3 (tx_args tx))) (\<lambda>args.
     bind (try_res (expect_asset (args ! 0))) (\<lambda>input_asset.
     bind (try_res (expect_amount (args ! 1))) (\<lambda>amount_in.
     bind (try_res (expect_amount (args ! 2))) (\<lambda>min_output.
     andthen (reject_if (amount_in = 0) InvalidArguments) (
     bind (try_res (output_asset_of input_asset asset_a asset_b)) (\<lambda>output_asset.
     (let input_key = Reserve (tx_target tx) input_asset in
     (let output_key = Reserve (tx_target tx) output_asset in
     (let fee_key = AmmFeeCollected (tx_target tx) input_asset in
     bind (query (\<lambda>s. resolve_asset_ledger s input_asset)) (\<lambda>input_ledger.
     bind (query (\<lambda>s. resolve_asset_ledger s output_asset)) (\<lambda>output_ledger.
     (let frame = make_frame (tx_target tx) (tx_sender tx) [input_key, output_key, fee_key] in
     bind (read_uint input_key) (\<lambda>reserve_in.
     bind (read_uint output_key) (\<lambda>reserve_out.
     andthen (reject_if (reserve_in = 0 \<or> reserve_out = 0) InsufficientLiquidity) (
     bind (try_res (swap_quote reserve_in reserve_out amount_in swap_fee_bps)) (\<lambda>(fee_amount, amount_out).
     andthen (reject_if (amount_out = 0 \<or> amount_out > reserve_out) InsufficientLiquidity) (
     andthen (reject_if (amount_out < min_output) SlippageExceeded) (
     andthen (transfer_asset_balance call tx
       \<lparr>at_ledger = input_ledger, at_from = msg_sender, at_to = tx_target tx,
        at_asset = input_asset, at_amount = amount_in\<rparr>) (
     andthen (transfer_asset_balance call tx
       \<lparr>at_ledger = output_ledger, at_from = tx_target tx, at_to = msg_sender,
        at_asset = output_asset, at_amount = amount_out\<rparr>) (
     bind (or_err (checked_add reserve_in amount_in) ArithmeticOverflow) (\<lambda>new_in.
     andthen (state_set frame input_key (UInt new_in)) (
     andthen ((if fee_amount \<noteq> 0 then
        (bind (read_uint fee_key) (\<lambda>current_fee.
        bind (or_err (checked_add current_fee fee_amount) ArithmeticOverflow) (\<lambda>new_fee.
        state_set frame fee_key (UInt new_fee))))
      else ret ())) (
     andthen (state_set frame output_key (UInt (reserve_out - amount_out))) (
     andthen (ensure (\<lambda>s. amm_invariants_hold s (tx_target tx)) InvariantViolation) (
     andthen (emit (tx_target tx) (tx_hash tx)
       (EvSwap msg_sender input_asset output_asset amount_in fee_amount amount_out)) (
     ret (RUInt amount_out))))))))))))))))))))))))))))"

end
