(* ===== verification/Oracle_Contract.thy ===== *)
theory Oracle_Contract
  imports Assets
begin

text \<open>
  The price oracle: \<open>submit_price\<close>.
\<close>

definition submit_price ::
  "transaction \<Rightarrow> principal \<Rightarrow> asset_id \<Rightarrow> u64 \<Rightarrow> ('z, return_value) op" where
  "submit_price tx msg_sender oracle_asset max_age =
     (bind (try_res (expect_args 3 (tx_args tx))) (\<lambda>args.
     bind (try_res (expect_asset (args ! 0))) (\<lambda>asset.
     bind (try_res (expect_amount (args ! 1))) (\<lambda>price.
     bind (try_res (expect_amount (args ! 2))) (\<lambda>timestamp_arg.
     bind (or_err (u64_try_from timestamp_arg) ArithmeticOverflow) (\<lambda>timestamp.
     andthen (reject_if (asset \<noteq> oracle_asset) InvalidPoolAsset) (
     andthen (reject_if (price = 0) InvariantViolation) (
     bind (gets height) (\<lambda>now.
     andthen (reject_if (saturating_add timestamp max_age < now) StaleOraclePrice) (
     andthen (require_oracle_updater (tx_target tx) msg_sender) (
     (let price_key = OraclePrice (tx_target tx) asset in
     (let timestamp_key = OracleTimestamp (tx_target tx) asset in
     (let frame = make_frame (tx_target tx) msg_sender [price_key, timestamp_key] in
     andthen (state_set frame price_key (UInt price)) (
     andthen (state_set frame timestamp_key (UInt (as_amount timestamp))) (
     andthen (emit (tx_target tx) (tx_hash tx) (EvPriceUpdated msg_sender asset price timestamp)) (
     ret RUnit)))))))))))))))))"

end
