(* ===== verification/Lending_Vault.thy ===== *)
theory Lending_Vault
  imports Assets
begin

text \<open>
  The lending vault: collateral deposits, borrowing against the oracle price, interest accrual
  and liquidation.
\<close>

record lending_config =
  lc_collateral_asset :: asset_id
  lc_debt_asset :: asset_id
  lc_oracle_contract :: contract_id
  lc_ltv_bps :: u64
  lc_max_oracle_age :: u64
  lc_interest_bps_per_block :: u64
  lc_liquidation_threshold_bps :: u64

section \<open>Arithmetic\<close>

definition lending_debt_limit :: "amount \<Rightarrow> amount \<Rightarrow> u64 \<Rightarrow> execution_error + amount" where
  "lending_debt_limit collateral price bps =
     (case checked_mul collateral price of None \<Rightarrow> Inl ArithmeticOverflow
      | Some v \<Rightarrow>
        (case checked_mul v (as_amount bps) of None \<Rightarrow> Inl ArithmeticOverflow
         | Some w \<Rightarrow> Inr (w div 10000)))"

definition div_ceil :: "amount \<Rightarrow> amount \<Rightarrow> execution_error + amount" where
  "div_ceil numerator denominator =
     (if denominator = 0 then Inl ArithmeticOverflow
      else case checked_add numerator (denominator - 1) of None \<Rightarrow> Inl ArithmeticOverflow
        | Some v \<Rightarrow> Inr (v div denominator))"

definition accrued_interest :: "amount \<Rightarrow> u64 \<Rightarrow> u64 \<Rightarrow> execution_error + amount" where
  "accrued_interest current_debt interest_bps elapsed =
     (case checked_mul current_debt (as_amount interest_bps) of None \<Rightarrow> Inl ArithmeticOverflow
      | Some v \<Rightarrow>
        (case checked_mul v (as_amount elapsed) of None \<Rightarrow> Inl ArithmeticOverflow
         | Some w \<Rightarrow> Inr (w div 10000)))"

section \<open>Prices and interest\<close>

definition fresh_lending_collateral_price ::
  "'z state_of \<Rightarrow> lending_config \<Rightarrow> execution_error + amount" where
  "fresh_lending_collateral_price s config =
     (let timestamp = oracle_timestamp s (lc_oracle_contract config) (lc_collateral_asset config) in
      if saturating_add timestamp (lc_max_oracle_age config) < height s then Inl StaleOraclePrice
      else
        (let price = oracle_price s (lc_oracle_contract config) (lc_collateral_asset config) in
         if price = 0 then Inl StaleOraclePrice else Inr price))"

definition accrue_lending_debt ::
  "authorized_frame \<Rightarrow> contract_id \<Rightarrow> principal \<Rightarrow> lending_config \<Rightarrow> ('z, amount) op" where
  "accrue_lending_debt frame contract borrower config =
     ((let debt_key = Debt contract borrower (lc_debt_asset config) in
     (let accrual_key = DebtLastAccrualHeight contract borrower (lc_debt_asset config) in
     bind (read_uint debt_key) (\<lambda>current_debt.
     bind (read_uint accrual_key) (\<lambda>accrual.
     bind (or_err (u64_try_from accrual) ArithmeticOverflow) (\<lambda>last_height.
     bind (gets height) (\<lambda>now.
     (let elapsed = saturating_sub now last_height in
     bind (try_res (accrued_interest current_debt (lc_interest_bps_per_block config) elapsed)) (\<lambda>interest.
     bind (or_err (checked_add current_debt interest) ArithmeticOverflow) (\<lambda>next_debt.
     andthen ((if next_debt \<noteq> current_debt then state_set frame debt_key (UInt next_debt) else ret ())) (
     andthen (state_set frame accrual_key (UInt (as_amount now))) (
     ret next_debt))))))))))))"

section \<open>Operations\<close>

definition deposit_collateral ::
  "'z call_op \<Rightarrow> transaction \<Rightarrow> asset_id \<Rightarrow> ('z, return_value) op" where
  "deposit_collateral call tx collateral_asset =
     (bind (try_res (expect_args 2 (tx_args tx))) (\<lambda>args.
     bind (try_res (expect_asset (args ! 0))) (\<lambda>asset.
     bind (try_res (expect_amount (args ! 1))) (\<lambda>amt.
     andthen (reject_if (asset \<noteq> collateral_asset) InvalidPoolAsset) (
     andthen (reject_if (amt = 0) InvalidArguments) (
     (let borrower = tx_sender tx in
     bind (query (\<lambda>s. resolve_asset_ledger s asset)) (\<lambda>collateral_ledger.
     (let collateral_key = Collateral (tx_target tx) borrower asset in
     (let frame = make_frame (tx_target tx) borrower [collateral_key] in
     bind (read_uint collateral_key) (\<lambda>current.
     andthen (transfer_asset_balance call tx
       \<lparr>at_ledger = collateral_ledger, at_from = borrower, at_to = tx_target tx,
        at_asset = asset, at_amount = amt\<rparr>) (
     bind (or_err (checked_add current amt) ArithmeticOverflow) (\<lambda>new_collateral.
     andthen (state_set frame collateral_key (UInt new_collateral)) (
     andthen (emit (tx_target tx) (tx_hash tx) (EvCollateralDeposited borrower asset amt)) (
     ret RUnit)))))))))))))))"

definition borrow ::
  "'z call_op \<Rightarrow> transaction \<Rightarrow> principal \<Rightarrow> lending_config \<Rightarrow> ('z, return_value) op" where
  "borrow call tx borrower config =
     (bind (try_res (expect_args 2 (tx_args tx))) (\<lambda>args.
     bind (try_res (expect_asset (args ! 0))) (\<lambda>asset.
     bind (try_res (expect_amount (args ! 1))) (\<lambda>amt.
     andthen (reject_if (asset \<noteq> lc_debt_asset config) InvalidPoolAsset) (
     andthen (reject_if (amt = 0) InvalidArguments) (
     bind (query (\<lambda>s. fresh_lending_collateral_price s config)) (\<lambda>price.
     bind (gets (\<lambda>s. collateral_of s (tx_target tx) borrower (lc_collateral_asset config))) (\<lambda>collateral.
     (let debt_key = Debt (tx_target tx) borrower (lc_debt_asset config) in
     (let accrual_key = DebtLastAccrualHeight (tx_target tx) borrower (lc_debt_asset config) in
     (let frame = make_frame (tx_target tx) borrower [debt_key, accrual_key] in
     bind (accrue_lending_debt frame (tx_target tx) borrower config) (\<lambda>current_debt.
     bind (or_err (checked_add current_debt amt) ArithmeticOverflow) (\<lambda>next_debt.
     bind (try_res (lending_debt_limit collateral price (lc_ltv_bps config))) (\<lambda>max_debt.
     andthen (reject_if (next_debt > max_debt) InsufficientCollateral) (
     bind (query (\<lambda>s. resolve_asset_ledger s (lc_debt_asset config))) (\<lambda>debt_ledger.
     andthen (transfer_asset_balance call tx
       \<lparr>at_ledger = debt_ledger, at_from = tx_target tx, at_to = borrower,
        at_asset = lc_debt_asset config, at_amount = amt\<rparr>) (
     andthen (state_set frame debt_key (UInt next_debt)) (
     andthen (emit (tx_target tx) (tx_hash tx) (EvBorrowed borrower asset amt)) (
     ret RUnit)))))))))))))))))))"

text \<open>The split of a liquidation: debt repaid, collateral seized, and what remains of both.\<close>

record liquidation_split =
  ls_repaid_debt :: amount
  ls_seized_collateral :: amount
  ls_collateral_after :: amount
  ls_debt_after :: amount

definition split_liquidation ::
  "amount \<Rightarrow> amount \<Rightarrow> amount \<Rightarrow> amount \<Rightarrow> execution_error + liquidation_split" where
  "split_liquidation debt collateral price repay_amount =
     (let repaid_debt = min repay_amount debt in
      case div_ceil repaid_debt price of Inl e \<Rightarrow> Inl e
      | Inr requested_seize \<Rightarrow>
        (let seized_collateral = min requested_seize collateral in
         Inr \<lparr>ls_repaid_debt = repaid_debt, ls_seized_collateral = seized_collateral,
           ls_collateral_after = collateral - seized_collateral,
           ls_debt_after = debt - repaid_debt\<rparr>))"

text \<open>Debt left without collateral is written off to \<open>BadDebt\<close>; otherwise the position left
  must be within the loan-to-value limit. Returns the debt left and the debt written off.\<close>

definition settle_remaining_debt ::
  "authorized_frame \<Rightarrow> state_key \<Rightarrow> lending_config \<Rightarrow> amount \<Rightarrow> liquidation_split
   \<Rightarrow> ('z, amount \<times> amount) op" where
  "settle_remaining_debt frame bad_debt_key config price split =
     (if ls_collateral_after split = 0 \<and> ls_debt_after split \<noteq> 0 then
        (bind (read_uint bad_debt_key) (\<lambda>current_bad_debt.
        bind (or_err (checked_add current_bad_debt (ls_debt_after split))
          ArithmeticOverflow) (\<lambda>new_bad_debt.
        andthen (state_set frame bad_debt_key (UInt new_bad_debt)) (
        ret (0, ls_debt_after split)))))
      else
        (bind (try_res (lending_debt_limit (ls_collateral_after split) price
          (lc_ltv_bps config))) (\<lambda>max_debt_after.
        andthen (reject_if (ls_debt_after split > max_debt_after) InsufficientCollateral) (
        ret (ls_debt_after split, 0)))))"

definition liquidate ::
  "'z call_op \<Rightarrow> transaction \<Rightarrow> principal \<Rightarrow> lending_config \<Rightarrow> ('z, return_value) op" where
  "liquidate call tx msg_sender config =
     (bind (try_res (expect_args 3 (tx_args tx))) (\<lambda>args.
     bind (try_res (expect_principal (args ! 0))) (\<lambda>borrower.
     bind (try_res (expect_asset (args ! 1))) (\<lambda>asset.
     bind (try_res (expect_amount (args ! 2))) (\<lambda>repay_amount.
     andthen (reject_if (asset \<noteq> lc_debt_asset config \<or> repay_amount = 0) InvalidArguments) (
     bind (query (\<lambda>s. fresh_lending_collateral_price s config)) (\<lambda>price.
     (let debt_key = Debt (tx_target tx) borrower (lc_debt_asset config) in
     (let accrual_key = DebtLastAccrualHeight (tx_target tx) borrower (lc_debt_asset config) in
     (let collateral_key = Collateral (tx_target tx) borrower (lc_collateral_asset config) in
     (let bad_debt_key = BadDebt (tx_target tx) (lc_debt_asset config) in
     (let frame = make_frame (tx_target tx) msg_sender
         [debt_key, accrual_key, collateral_key, bad_debt_key] in
     bind (accrue_lending_debt frame (tx_target tx) borrower config) (\<lambda>debt.
     andthen (reject_if (debt = 0) InsufficientCollateral) (
     bind (read_uint collateral_key) (\<lambda>collateral.
     bind (try_res (lending_debt_limit collateral price
         (lc_liquidation_threshold_bps config))) (\<lambda>liquidation_threshold.
     andthen (reject_if (debt \<le> liquidation_threshold) InsufficientCollateral) (
     bind (try_res (split_liquidation debt collateral price repay_amount)) (\<lambda>split.
     bind (settle_remaining_debt frame bad_debt_key config price split) (\<lambda>(debt_after, remaining_bad_debt).
     bind (query (\<lambda>s. resolve_asset_ledger s (lc_debt_asset config))) (\<lambda>debt_ledger.
     bind (query (\<lambda>s. resolve_asset_ledger s (lc_collateral_asset config))) (\<lambda>collateral_ledger.
     andthen (transfer_asset_balance call tx
       \<lparr>at_ledger = debt_ledger, at_from = msg_sender, at_to = tx_target tx,
        at_asset = lc_debt_asset config, at_amount = ls_repaid_debt split\<rparr>) (
     andthen ((if ls_seized_collateral split \<noteq> 0 then
        transfer_asset_balance call tx
          \<lparr>at_ledger = collateral_ledger, at_from = tx_target tx, at_to = msg_sender,
           at_asset = lc_collateral_asset config, at_amount = ls_seized_collateral split\<rparr>
      else ret ())) (
     andthen (state_set frame debt_key (UInt debt_after)) (
     andthen (state_set frame collateral_key (UInt (ls_collateral_after split))) (
     bind (gets (\<lambda>s. fmlookup (contracts s) (tx_target tx))) (\<lambda>found.
     bind (or_err found ContractNotFound) (\<lambda>record.
     andthen (ensure (\<lambda>s. lending_invariants_hold s record) InvariantViolation) (
     andthen (emit (tx_target tx) (tx_hash tx)
       (EvLiquidated borrower msg_sender asset (ls_repaid_debt split)
         (lc_collateral_asset config) (ls_seized_collateral split) remaining_bad_debt)) (
     ret (RUInt (ls_repaid_debt split)))))))))))))))))))))))))))))))"

end
