(* ===== verification/Staking_Contract.thy ===== *)
theory Staking_Contract
  imports Assets
begin

text \<open>
  Staking: stake, immediate and delayed unstaking with an optional penalty, and rewards.
\<close>

section \<open>Arithmetic\<close>

definition apply_staking_penalty :: "amount \<Rightarrow> u64 \<Rightarrow> execution_error + amount \<times> amount" where
  "apply_staking_penalty amt penalty_bps =
     (if penalty_bps > 10000 then Inl InvalidArguments
      else case checked_mul amt (as_amount penalty_bps) of None \<Rightarrow> Inl ArithmeticOverflow
        | Some v \<Rightarrow> Inr (amt - v div 10000, v div 10000))"

definition accrued_reward :: "amount \<Rightarrow> amount \<Rightarrow> u64 \<Rightarrow> execution_error + amount" where
  "accrued_reward active_stake reward_per_block elapsed =
     (case checked_mul active_stake reward_per_block of None \<Rightarrow> Inl ArithmeticOverflow
      | Some v \<Rightarrow>
        (case checked_mul v (as_amount elapsed) of None \<Rightarrow> Inl ArithmeticOverflow
         | Some w \<Rightarrow> Inr w))"

section \<open>Operations\<close>

definition accrue_staking_rewards ::
  "authorized_frame \<Rightarrow> contract_id \<Rightarrow> principal \<Rightarrow> asset_id \<Rightarrow> amount \<Rightarrow> ('z, amount) op" where
  "accrue_staking_rewards frame contract staker asset reward_per_block =
     ((let last_reward_key = StakingLastRewardHeight contract staker asset in
     (let reward_key = StakingRewardBalance contract staker asset in
     bind (read_uint last_reward_key) (\<lambda>last.
     bind (or_err (u64_try_from last) ArithmeticOverflow) (\<lambda>last_height.
     bind (gets height) (\<lambda>now.
     (let elapsed = saturating_sub now last_height in
     bind (gets (\<lambda>s. stake_balance s contract staker asset)) (\<lambda>active_stake.
     bind (try_res (accrued_reward active_stake reward_per_block elapsed)) (\<lambda>accrued.
     andthen ((if accrued \<noteq> 0 then
        (bind (read_uint reward_key) (\<lambda>current_reward.
        bind (or_err (checked_add current_reward accrued) ArithmeticOverflow) (\<lambda>new_reward.
        state_set frame reward_key (UInt new_reward))))
      else ret ())) (
     andthen (state_set frame last_reward_key (UInt (as_amount now))) (
     ret accrued)))))))))))"

definition stake ::
  "'z call_op \<Rightarrow> transaction \<Rightarrow> principal \<Rightarrow> asset_id \<Rightarrow> amount \<Rightarrow> ('z, return_value) op" where
  "stake call tx staker staking_asset reward_per_block =
     (bind (try_res (expect_args 2 (tx_args tx))) (\<lambda>args.
     bind (try_res (expect_asset (args ! 0))) (\<lambda>asset.
     bind (try_res (expect_amount (args ! 1))) (\<lambda>amt.
     andthen (reject_if (asset \<noteq> staking_asset) InvalidPoolAsset) (
     andthen (reject_if (amt = 0) InvalidArguments) (
     (let stake_key = StakeBalance (tx_target tx) staker asset in
     (let total_key = TotalStaked (tx_target tx) asset in
     (let reward_key = StakingRewardBalance (tx_target tx) staker asset in
     (let last_reward_key = StakingLastRewardHeight (tx_target tx) staker asset in
     (let frame = make_frame (tx_target tx) staker
         [stake_key, total_key, reward_key, last_reward_key] in
     andthen (accrue_staking_rewards frame (tx_target tx) staker asset reward_per_block) (
     bind (read_uint stake_key) (\<lambda>current_stake.
     bind (read_uint total_key) (\<lambda>total.
     bind (query (\<lambda>s. resolve_asset_ledger s asset)) (\<lambda>staking_ledger.
     andthen (transfer_asset_balance call tx
       \<lparr>at_ledger = staking_ledger, at_from = staker, at_to = tx_target tx,
        at_asset = asset, at_amount = amt\<rparr>) (
     bind (or_err (checked_add current_stake amt) ArithmeticOverflow) (\<lambda>new_stake.
     andthen (state_set frame stake_key (UInt new_stake)) (
     bind (or_err (checked_add total amt) ArithmeticOverflow) (\<lambda>new_total.
     andthen (state_set frame total_key (UInt new_total)) (
     andthen (ensure (\<lambda>s. staking_invariants_hold s (tx_target tx) asset) InvariantViolation) (
     andthen (ensure (\<lambda>s. staking_pending_unbonding_invariants_hold s (tx_target tx) asset)
       InvariantViolation) (
     andthen (emit (tx_target tx) (tx_hash tx) (EvStaked staker asset amt)) (
     ret RUnit)))))))))))))))))))))))"

definition collect_penalty :: "authorized_frame \<Rightarrow> state_key \<Rightarrow> amount \<Rightarrow> ('z, unit) op" where
  "collect_penalty frame penalty_key penalty_amount =
     (if penalty_amount \<noteq> 0 then
        (bind (read_uint penalty_key) (\<lambda>current_penalty.
        bind (or_err (checked_add current_penalty penalty_amount) ArithmeticOverflow) (\<lambda>new_penalty.
        state_set frame penalty_key (UInt new_penalty))))
      else ret ())"

definition emit_penalty ::
  "transaction \<Rightarrow> principal \<Rightarrow> asset_id \<Rightarrow> amount \<Rightarrow> amount \<Rightarrow> amount \<Rightarrow> ('z, unit) op" where
  "emit_penalty tx staker asset amt penalty_amount released_amount =
     (if penalty_amount \<noteq> 0 then
        emit (tx_target tx) (tx_hash tx)
          (EvStakingPenaltyApplied staker asset amt penalty_amount released_amount)
      else ret ())"

definition unstake ::
  "'z call_op \<Rightarrow> transaction \<Rightarrow> principal \<Rightarrow> asset_id \<Rightarrow> staking_parameters
   \<Rightarrow> ('z, return_value) op" where
  "unstake call tx staker staking_asset parameters =
     (andthen (reject_if (stp_unbonding_delay parameters > 0) TimelockNotReady) (
     bind (try_res (expect_args 2 (tx_args tx))) (\<lambda>args.
     bind (try_res (expect_asset (args ! 0))) (\<lambda>asset.
     bind (try_res (expect_amount (args ! 1))) (\<lambda>amt.
     andthen (reject_if (asset \<noteq> staking_asset) InvalidPoolAsset) (
     andthen (reject_if (amt = 0) InvalidArguments) (
     (let stake_key = StakeBalance (tx_target tx) staker asset in
     (let total_key = TotalStaked (tx_target tx) asset in
     (let penalty_key = StakingPenaltyCollected (tx_target tx) asset in
     (let reward_key = StakingRewardBalance (tx_target tx) staker asset in
     (let last_reward_key = StakingLastRewardHeight (tx_target tx) staker asset in
     (let frame = make_frame (tx_target tx) staker
         [stake_key, total_key, penalty_key, reward_key, last_reward_key] in
     andthen (accrue_staking_rewards frame (tx_target tx) staker asset (stp_reward_per_block parameters)) (
     bind (read_uint stake_key) (\<lambda>current_stake.
     andthen (reject_if (current_stake < amt) InsufficientStake) (
     bind (read_uint total_key) (\<lambda>total.
     andthen (reject_if (total < amt) InvariantViolation) (
     bind (try_res (apply_staking_penalty amt
         (stp_unstake_penalty_bps parameters))) (\<lambda>(released_amount, penalty_amount).
     bind (query (\<lambda>s. resolve_asset_ledger s asset)) (\<lambda>staking_ledger.
     andthen (state_set frame stake_key (UInt (current_stake - amt))) (
     andthen (state_set frame total_key (UInt (total - amt))) (
     andthen (collect_penalty frame penalty_key penalty_amount) (
     andthen ((if released_amount \<noteq> 0 then
        transfer_asset_balance call tx
          \<lparr>at_ledger = staking_ledger, at_from = tx_target tx, at_to = staker,
           at_asset = asset, at_amount = released_amount\<rparr>
      else ret ())) (
     andthen (ensure (\<lambda>s. staking_invariants_hold s (tx_target tx) asset) InvariantViolation) (
     andthen (ensure (\<lambda>s. staking_pending_unbonding_invariants_hold s (tx_target tx) asset)
       InvariantViolation) (
     andthen (emit_penalty tx staker asset amt penalty_amount released_amount) (
     andthen (emit (tx_target tx) (tx_hash tx) (EvUnstaked staker asset released_amount)) (
     ret RUnit))))))))))))))))))))))))))))"

definition request_unstake ::
  "transaction \<Rightarrow> principal \<Rightarrow> asset_id \<Rightarrow> amount \<Rightarrow> u64 \<Rightarrow> u64 \<Rightarrow> ('z, return_value) op" where
  "request_unstake tx staker staking_asset reward_per_block unbonding_delay unstake_penalty_bps =
     (bind (try_res (expect_args 2 (tx_args tx))) (\<lambda>args.
     bind (try_res (expect_asset (args ! 0))) (\<lambda>asset.
     bind (try_res (expect_amount (args ! 1))) (\<lambda>amt.
     andthen (reject_if (asset \<noteq> staking_asset) InvalidPoolAsset) (
     andthen (reject_if (amt = 0) InvalidArguments) (
     (let stake_key = StakeBalance (tx_target tx) staker asset in
     (let total_key = TotalStaked (tx_target tx) asset in
     (let pending_key = PendingUnbond (tx_target tx) staker asset in
     (let total_pending_key = TotalPendingUnbond (tx_target tx) asset in
     (let penalty_key = StakingPenaltyCollected (tx_target tx) asset in
     (let ready_key = UnbondReadyHeight (tx_target tx) staker asset in
     (let reward_key = StakingRewardBalance (tx_target tx) staker asset in
     (let last_reward_key = StakingLastRewardHeight (tx_target tx) staker asset in
     (let frame = make_frame (tx_target tx) staker
         [stake_key, total_key, pending_key, total_pending_key, penalty_key, ready_key,
          reward_key, last_reward_key] in
     andthen (accrue_staking_rewards frame (tx_target tx) staker asset reward_per_block) (
     bind (read_uint stake_key) (\<lambda>current_stake.
     andthen (reject_if (current_stake < amt) InsufficientStake) (
     bind (read_uint total_key) (\<lambda>total.
     andthen (reject_if (total < amt) InvariantViolation) (
     bind (read_uint pending_key) (\<lambda>current_pending.
     bind (read_uint total_pending_key) (\<lambda>total_pending.
     bind (gets height) (\<lambda>now.
     bind (or_err (checked_add now unbonding_delay) ArithmeticOverflow) (\<lambda>ready_height.
     bind (try_res (apply_staking_penalty amt unstake_penalty_bps)) (\<lambda>(released_amount, penalty_amount).
     andthen (state_set frame stake_key (UInt (current_stake - amt))) (
     andthen (state_set frame total_key (UInt (total - amt))) (
     bind (or_err (checked_add current_pending released_amount) ArithmeticOverflow) (\<lambda>new_pending.
     andthen (state_set frame pending_key (UInt new_pending)) (
     bind (or_err (checked_add total_pending released_amount) ArithmeticOverflow) (\<lambda>new_total_pending.
     andthen (state_set frame total_pending_key (UInt new_total_pending)) (
     andthen (collect_penalty frame penalty_key penalty_amount) (
     andthen (state_set frame ready_key (UInt (as_amount ready_height))) (
     andthen (ensure (\<lambda>s. staking_invariants_hold s (tx_target tx) asset) InvariantViolation) (
     andthen (ensure (\<lambda>s. staking_pending_unbonding_invariants_hold s (tx_target tx) asset)
       InvariantViolation) (
     andthen (emit_penalty tx staker asset amt penalty_amount released_amount) (
     andthen (emit (tx_target tx) (tx_hash tx)
       (EvUnstakeRequested staker asset released_amount ready_height)) (
     ret RUnit)))))))))))))))))))))))))))))))))))))"

definition complete_unstake ::
  "'z call_op \<Rightarrow> transaction \<Rightarrow> principal \<Rightarrow> asset_id \<Rightarrow> ('z, return_value) op" where
  "complete_unstake call tx staker staking_asset =
     (bind (try_res (expect_args 2 (tx_args tx))) (\<lambda>args.
     bind (try_res (expect_asset (args ! 0))) (\<lambda>asset.
     bind (try_res (expect_amount (args ! 1))) (\<lambda>amt.
     andthen (reject_if (asset \<noteq> staking_asset) InvalidPoolAsset) (
     andthen (reject_if (amt = 0) InvalidArguments) (
     (let pending_key = PendingUnbond (tx_target tx) staker asset in
     (let total_pending_key = TotalPendingUnbond (tx_target tx) asset in
     (let ready_key = UnbondReadyHeight (tx_target tx) staker asset in
     bind (read_uint ready_key) (\<lambda>ready.
     bind (or_err (u64_try_from ready) ArithmeticOverflow) (\<lambda>ready_height.
     bind (gets height) (\<lambda>now.
     andthen (reject_if (now < ready_height) TimelockNotReady) (
     bind (read_uint pending_key) (\<lambda>pending.
     andthen (reject_if (pending < amt) InsufficientStake) (
     bind (read_uint total_pending_key) (\<lambda>total_pending.
     andthen (reject_if (total_pending < amt) InvariantViolation) (
     (let frame = make_frame (tx_target tx) staker [pending_key, total_pending_key] in
     andthen (state_set frame pending_key (UInt (pending - amt))) (
     andthen (state_set frame total_pending_key (UInt (total_pending - amt))) (
     bind (query (\<lambda>s. resolve_asset_ledger s asset)) (\<lambda>staking_ledger.
     andthen (transfer_asset_balance call tx
       \<lparr>at_ledger = staking_ledger, at_from = tx_target tx, at_to = staker,
        at_asset = asset, at_amount = amt\<rparr>) (
     andthen (ensure (\<lambda>s. staking_pending_unbonding_invariants_hold s (tx_target tx) asset)
       InvariantViolation) (
     andthen (emit (tx_target tx) (tx_hash tx) (EvUnbondingCompleted staker asset amt)) (
     ret RUnit))))))))))))))))))))))))"

definition claim_staking_rewards ::
  "transaction \<Rightarrow> principal \<Rightarrow> asset_id \<Rightarrow> amount \<Rightarrow> ('z, return_value) op" where
  "claim_staking_rewards tx staker staking_asset reward_per_block =
     (bind (try_res (expect_args 1 (tx_args tx))) (\<lambda>args.
     bind (try_res (expect_asset (args ! 0))) (\<lambda>asset.
     andthen (reject_if (asset \<noteq> staking_asset) InvalidPoolAsset) (
     (let reward_key = StakingRewardBalance (tx_target tx) staker asset in
     (let last_reward_key = StakingLastRewardHeight (tx_target tx) staker asset in
     (let frame = make_frame (tx_target tx) staker [reward_key, last_reward_key] in
     andthen (accrue_staking_rewards frame (tx_target tx) staker asset reward_per_block) (
     bind (read_uint reward_key) (\<lambda>claimed.
     andthen (state_set frame reward_key (UInt 0)) (
     andthen ((if claimed \<noteq> 0 then
        (bind (query (\<lambda>s. resolve_asset_ledger s asset)) (\<lambda>reward_ledger.
        mint_asset_balance reward_ledger staker asset claimed))
      else ret ())) (
     andthen (emit (tx_target tx) (tx_hash tx) (EvStakingRewardsClaimed staker asset claimed)) (
     ret (RUInt claimed)))))))))))))"

end
