(* ===== verification/Deployment.thy ===== *)
theory Deployment
  imports Bridge_Contract
begin

text \<open>
  Deployment and the contracts that create or register things: the \<open>deploy_*\<close> functions of
  \<open>DeTTaState\<close>, aspect modules, the factory, the router and the account registry.
\<close>

section \<open>Validation\<close>

definition validate_new_contract_id :: "contract_id \<Rightarrow> ('z, unit) op" where
  "validate_new_contract_id contract =
     (bind (gets (\<lambda>s. fmlookup (contracts s) contract)) (\<lambda>found.
     reject_if (contract = [] \<or> found \<noteq> None) InvalidArguments))"

abbreviation validate_nonempty :: "string \<Rightarrow> ('z, unit) op" where
  "validate_nonempty v \<equiv> reject_if (v = []) InvalidArguments"

section \<open>Native contracts\<close>

text \<open>The validation loop of \<open>deploy_token\<close>: owners nonempty and distinct, the total in range.\<close>

fun sum_initial_balances ::
  "principal fset \<Rightarrow> amount \<Rightarrow> (principal \<times> amount) list \<Rightarrow> execution_error + amount" where
  "sum_initial_balances seen acc [] = Inr acc"
| "sum_initial_balances seen acc ((owner, amt) # balances) =
     (if owner = [] then Inl InvalidArguments
      else if owner |\<in>| seen then Inl InvalidArguments
      else case checked_add acc amt of None \<Rightarrow> Inl ArithmeticOverflow
        | Some acc' \<Rightarrow> sum_initial_balances (finsert owner seen) acc' balances)"

fun is_foreign_supply :: "contract_id \<Rightarrow> asset_id \<Rightarrow> state_key \<Rightarrow> bool" where
  "is_foreign_supply contract asset (TotalSupply c a) \<longleftrightarrow> c \<noteq> contract \<and> a = asset"
| "is_foreign_supply contract asset _ \<longleftrightarrow> False"

definition deploy_token ::
  "env \<Rightarrow> contract_id \<Rightarrow> asset_id \<Rightarrow> (principal \<times> amount) list \<Rightarrow> ('z, unit) op" where
  "deploy_token E contract asset balances =
     ((let code_hash = root_of E (SerTuple [''detta-token-v1'', contract] []) in
     andthen (validate_new_contract_id contract) (
     andthen (validate_nonempty asset) (
     bind (try_res (sum_initial_balances {||} 0 balances)) (\<lambda>total.
     bind (gets (\<lambda>s. list_ex (is_foreign_supply contract asset)
         (sorted_list_of_fset (fmdom (storage s))))) (\<lambda>foreign.
     andthen (reject_if foreign InvalidArguments) (
     andthen (contracts_insert contract (token_record contract code_hash)) (
     andthen (for_each (\<lambda>(owner, amt). storage_insert (Balance contract owner asset) (UInt amt)) balances) (
     andthen (storage_insert (TotalSupply contract asset) (UInt total)) (
     ensure (\<lambda>s. token_invariants_hold s contract asset) InvariantViolation))))))))))"

definition deploy_amm_pool_with_parameters ::
  "env \<Rightarrow> contract_id \<Rightarrow> asset_id \<Rightarrow> asset_id \<Rightarrow> amm_parameters \<Rightarrow> ('z, unit) op" where
  "deploy_amm_pool_with_parameters E contract asset_a asset_b parameters =
     (andthen (validate_new_contract_id contract) (
     andthen (validate_nonempty asset_a) (
     andthen (validate_nonempty asset_b) (
     andthen (reject_if (asset_a = asset_b) InvalidPoolAsset) (
     andthen (reject_if (ap_swap_fee_bps parameters > 10000) InvalidArguments) (
     andthen (query (\<lambda>s. resolve_asset_ledger s asset_a)) (
     andthen (query (\<lambda>s. resolve_asset_ledger s asset_b)) (
     (let code_hash = root_of E (SerTuple [''detta-amm-v2'', contract, asset_a, asset_b]
         [unat (ap_swap_fee_bps parameters)]) in
     andthen (contracts_insert contract (amm_pool_record contract code_hash asset_a asset_b parameters)) (
     andthen (storage_insert (Reserve contract asset_a) (UInt 0)) (
     andthen (storage_insert (Reserve contract asset_b) (UInt 0)) (
     andthen (storage_insert (AmmFeeCollected contract asset_a) (UInt 0)) (
     andthen (storage_insert (AmmFeeCollected contract asset_b) (UInt 0)) (
     andthen (storage_insert (LpSupply contract) (UInt 0)) (
     ensure (\<lambda>s. amm_invariants_hold s contract) InvariantViolation)))))))))))))))"

definition deploy_amm_pool :: "env \<Rightarrow> contract_id \<Rightarrow> asset_id \<Rightarrow> asset_id \<Rightarrow> ('z, unit) op" where
  "deploy_amm_pool E contract asset_a asset_b =
     deploy_amm_pool_with_parameters E contract asset_a asset_b \<lparr>ap_swap_fee_bps = 30\<rparr>"

definition deploy_oracle ::
  "env \<Rightarrow> contract_id \<Rightarrow> asset_id \<Rightarrow> principal \<Rightarrow> u64 \<Rightarrow> ('z, unit) op" where
  "deploy_oracle E contract asset updater max_age =
     (andthen (validate_new_contract_id contract) (
     andthen (validate_nonempty asset) (
     andthen (validate_nonempty updater) (
     (let code_hash = root_of E (SerTuple [''detta-oracle-v1'', contract, asset] [unat max_age]) in
     andthen (contracts_insert contract (oracle_record contract code_hash asset max_age)) (
     andthen (storage_insert (OraclePrice contract asset) (UInt 0)) (
     andthen (storage_insert (OracleTimestamp contract asset) (UInt 0)) (
     registry_insert (OracleUpdaterKey contract updater) (grant_oracle_updater updater)))))))))"

definition insert_bridge_contract :: "env \<Rightarrow> contract_id \<Rightarrow> chain_id \<Rightarrow> ('z, unit) op" where
  "insert_bridge_contract E contract source_chain =
     contracts_insert contract
       (bridge_record contract
         (root_of E (SerTuple [''detta-bridge-v1'', contract, source_chain] [])) source_chain)"

definition deploy_bridge :: "env \<Rightarrow> contract_id \<Rightarrow> chain_id \<Rightarrow> ('z, unit) op" where
  "deploy_bridge E contract source_chain =
     (andthen (validate_new_contract_id contract) (
     andthen (validate_nonempty source_chain) (
     insert_bridge_contract E contract source_chain)))"

definition deploy_bridge_with_validator_set ::
  "env \<Rightarrow> contract_id \<Rightarrow> chain_id \<Rightarrow> principal list \<Rightarrow> nat \<Rightarrow> ('z, unit) op" where
  "deploy_bridge_with_validator_set E contract source_chain validators quorum =
     (andthen (validate_new_contract_id contract) (
     andthen (validate_nonempty source_chain) (
     bind (try_res (new_bridge_validator_set source_chain validators quorum)) (\<lambda>vset.
     andthen (set_trusted_bridge_validator_set vset) (
     insert_bridge_contract E contract source_chain)))))"

definition deploy_governance_with_timelock ::
  "env \<Rightarrow> contract_id \<Rightarrow> contract_id \<Rightarrow> principal \<Rightarrow> u64 \<Rightarrow> ('z, unit) op" where
  "deploy_governance_with_timelock E contract governed_contract admin timelock_delay =
     (andthen (validate_new_contract_id contract) (
     andthen (validate_nonempty governed_contract) (
     andthen (validate_nonempty admin) (
     (let code_hash = root_of E (SerTuple [''detta-governance-v1'', contract, governed_contract]
         [unat timelock_delay]) in
     andthen (contracts_insert contract
       (governance_record contract code_hash governed_contract timelock_delay)) (
     registry_insert (GovernanceAdminKey contract admin) (grant_governance_admin admin)))))))"

definition deploy_governance ::
  "env \<Rightarrow> contract_id \<Rightarrow> contract_id \<Rightarrow> principal \<Rightarrow> ('z, unit) op" where
  "deploy_governance E contract governed_contract admin =
     deploy_governance_with_timelock E contract governed_contract admin 1"

definition deploy_lending_vault_with_risk ::
  "env \<Rightarrow> contract_id \<Rightarrow> asset_id \<Rightarrow> asset_id \<Rightarrow> contract_id \<Rightarrow> lending_risk_parameters
   \<Rightarrow> ('z, unit) op" where
  "deploy_lending_vault_with_risk E contract collateral_asset debt_asset oracle_contract risk =
     (andthen (validate_new_contract_id contract) (
     andthen (validate_nonempty collateral_asset) (
     andthen (validate_nonempty debt_asset) (
     andthen (reject_if (oracle_contract = [] \<or> collateral_asset = debt_asset) InvalidArguments) (
     andthen (reject_if (lp_ltv_bps risk > 10000 \<or> lp_liquidation_threshold_bps risk > 10000
         \<or> lp_liquidation_threshold_bps risk < lp_ltv_bps risk) InvalidArguments) (
     (let code_hash = root_of E (SerTuple
         [''detta-lending-vault-v1'', contract, collateral_asset, debt_asset, oracle_contract]
         [unat (lp_ltv_bps risk), unat (lp_max_oracle_age risk),
          unat (lp_interest_bps_per_block risk), unat (lp_liquidation_threshold_bps risk)]) in
     contracts_insert contract
       (lending_vault_record contract code_hash collateral_asset debt_asset oracle_contract risk))))))))"

definition deploy_lending_vault ::
  "env \<Rightarrow> contract_id \<Rightarrow> asset_id \<Rightarrow> asset_id \<Rightarrow> contract_id \<Rightarrow> u64 \<Rightarrow> u64 \<Rightarrow> ('z, unit) op" where
  "deploy_lending_vault E contract collateral_asset debt_asset oracle_contract ltv_bps max_oracle_age =
     deploy_lending_vault_with_risk E contract collateral_asset debt_asset oracle_contract
       \<lparr>lp_ltv_bps = ltv_bps, lp_max_oracle_age = max_oracle_age,
        lp_interest_bps_per_block = 0, lp_liquidation_threshold_bps = ltv_bps\<rparr>"

definition deploy_staking_with_parameters ::
  "env \<Rightarrow> contract_id \<Rightarrow> asset_id \<Rightarrow> staking_parameters \<Rightarrow> ('z, unit) op" where
  "deploy_staking_with_parameters E contract asset parameters =
     (andthen (reject_if (stp_unstake_penalty_bps parameters > 10000) InvalidArguments) (
     andthen (validate_new_contract_id contract) (
     andthen (validate_nonempty asset) (
     (let code_hash = root_of E (SerTuple [''detta-staking-v2'', contract, asset]
         [unat (stp_unbonding_delay parameters), unat (stp_reward_per_block parameters),
          unat (stp_unstake_penalty_bps parameters)]) in
     andthen (contracts_insert contract (staking_record contract code_hash asset parameters)) (
     andthen (storage_insert (TotalStaked contract asset) (UInt 0)) (
     andthen (storage_insert (TotalPendingUnbond contract asset) (UInt 0)) (
     storage_insert (StakingPenaltyCollected contract asset) (UInt 0)))))))))"

definition deploy_staking_with_rewards ::
  "env \<Rightarrow> contract_id \<Rightarrow> asset_id \<Rightarrow> u64 \<Rightarrow> amount \<Rightarrow> ('z, unit) op" where
  "deploy_staking_with_rewards E contract asset unbonding_delay reward_per_block =
     deploy_staking_with_parameters E contract asset
       \<lparr>stp_unbonding_delay = unbonding_delay, stp_reward_per_block = reward_per_block,
        stp_unstake_penalty_bps = 0\<rparr>"

definition deploy_staking :: "env \<Rightarrow> contract_id \<Rightarrow> asset_id \<Rightarrow> ('z, unit) op" where
  "deploy_staking E contract asset =
     deploy_staking_with_parameters E contract asset
       \<lparr>stp_unbonding_delay = 0, stp_reward_per_block = 0, stp_unstake_penalty_bps = 0\<rparr>"

definition deploy_router :: "env \<Rightarrow> contract_id \<Rightarrow> contract_id \<Rightarrow> ('z, unit) op" where
  "deploy_router E contract token_contract =
     (andthen (validate_new_contract_id contract) (
     andthen (validate_nonempty token_contract) (
     (let code_hash = root_of E (SerTuple [''detta-router-v1'', contract, token_contract] []) in
     contracts_insert contract (router_record contract code_hash token_contract)))))"

definition deploy_factory :: "env \<Rightarrow> contract_id \<Rightarrow> ('z, unit) op" where
  "deploy_factory E contract =
     (andthen (validate_new_contract_id contract) (
     (let code_hash = root_of E (SerTuple [''detta-factory-v1'', contract] []) in
     contracts_insert contract (factory_record contract code_hash))))"

definition deploy_account_registry :: "env \<Rightarrow> contract_id \<Rightarrow> ('z, unit) op" where
  "deploy_account_registry E contract =
     (andthen (validate_new_contract_id contract) (
     (let code_hash = root_of E (SerTuple [''detta-account-registry-v1'', contract] []) in
     contracts_insert contract (account_registry_record contract code_hash))))"

section \<open>Aspect modules and aspect contracts\<close>

definition module_roots_match ::
  "aspect_module_record \<Rightarrow> aspect_module_ir \<Rightarrow> verified_aspect_module \<Rightarrow> bool" where
  "module_roots_match module ir verified \<longleftrightarrow>
     amr_source_root module = ir_source_root ir
     \<and> amr_ir_root module = ar_ir_root (vm_roots verified)
     \<and> amr_abi_root module = ar_abi_root (vm_roots verified)
     \<and> amr_policy_root module = ar_policy_root (vm_roots verified)
     \<and> amr_storage_schema_root module = ar_storage_schema_root (vm_roots verified)
     \<and> amr_registry_schema_root module = ar_registry_schema_root (vm_roots verified)
     \<and> amr_invariant_root module = ar_invariant_root (vm_roots verified)"

definition module_insert :: "string \<Rightarrow> aspect_module_record \<Rightarrow> ('z, unit) op" where
  "module_insert h m = modify (\<lambda>s. s\<lparr>aspect_modules := fmupd h m (aspect_modules s)\<rparr>)"

definition register_aspect_module :: "env \<Rightarrow> aspect_module_record \<Rightarrow> ('z, string) op" where
  "register_aspect_module E module =
     (andthen (reject_if (\<not> roots_are_complete module) InvalidArguments) (
     andthen (reject_if (amr_module_hash module \<noteq> computed_hash E module) InvalidArguments) (
     andthen ((case amr_ir module of None \<Rightarrow> ret ()
      | Some ir \<Rightarrow>
        (bind (or_err (verify_module E ir) InvalidArguments) (\<lambda>verified.
        reject_if (\<not> module_roots_match module ir verified) InvalidArguments)))) (
     bind (gets (\<lambda>s. fmlookup (aspect_modules s) (amr_module_hash module))) (\<lambda>existing.
     andthen (reject_if (existing \<noteq> None) InvalidArguments) (
     andthen (module_insert (amr_module_hash module) module) (
     ret (amr_module_hash module))))))))"

definition deploy_aspect_contract :: "contract_id \<Rightarrow> string \<Rightarrow> string \<Rightarrow> ('z, unit) op" where
  "deploy_aspect_contract contract module_hash bundle_id =
     (andthen (validate_new_contract_id contract) (
     andthen (reject_if (module_hash = [] \<or> bundle_id = []) InvalidArguments) (
     bind (gets (\<lambda>s. fmlookup (aspect_modules s) module_hash)) (\<lambda>found.
     bind (or_err found InvalidArguments) (\<lambda>module.
     bind (try_res (aspect_module_contract_record contract module bundle_id)) (\<lambda>record.
     contracts_insert contract record))))))"

section \<open>Factory\<close>

definition deploy_token_from_factory :: "env \<Rightarrow> transaction \<Rightarrow> ('z, return_value) op" where
  "deploy_token_from_factory E tx =
     (bind (try_res (expect_args 4 (tx_args tx))) (\<lambda>args.
     bind (try_res (expect_text (args ! 0))) (\<lambda>contract.
     bind (try_res (expect_asset (args ! 1))) (\<lambda>asset.
     bind (try_res (expect_principal (args ! 2))) (\<lambda>owner.
     bind (try_res (expect_amount (args ! 3))) (\<lambda>supply.
     andthen (reject_if (contract = [] \<or> asset = [] \<or> owner = []) InvalidArguments) (
     bind (gets (\<lambda>s. fmlookup (contracts s) contract)) (\<lambda>existing.
     andthen (reject_if (existing \<noteq> None) InvalidArguments) (
     andthen (deploy_token E contract asset [(owner, supply)]) (
     bind (gets (\<lambda>s. fmlookup (contracts s) contract)) (\<lambda>found.
     bind (or_err found ContractNotFound) (\<lambda>record.
     andthen (emit (tx_target tx) (tx_hash tx)
       (EvContractDeployed contract ''token'' (cr_code_hash record))) (
     ret RUnit)))))))))))))"

definition deploy_amm_pool_from_factory :: "env \<Rightarrow> transaction \<Rightarrow> ('z, return_value) op" where
  "deploy_amm_pool_from_factory E tx =
     (bind (try_res (expect_args 3 (tx_args tx))) (\<lambda>args.
     bind (try_res (expect_text (args ! 0))) (\<lambda>contract.
     bind (try_res (expect_asset (args ! 1))) (\<lambda>asset_a.
     bind (try_res (expect_asset (args ! 2))) (\<lambda>asset_b.
     andthen (reject_if (contract = [] \<or> asset_a = [] \<or> asset_b = []) InvalidArguments) (
     bind (gets (\<lambda>s. fmlookup (contracts s) contract)) (\<lambda>existing.
     andthen (reject_if (existing \<noteq> None) InvalidArguments) (
     andthen (deploy_amm_pool E contract asset_a asset_b) (
     bind (gets (\<lambda>s. fmlookup (contracts s) contract)) (\<lambda>found.
     bind (or_err found ContractNotFound) (\<lambda>record.
     andthen (emit (tx_target tx) (tx_hash tx)
       (EvContractDeployed contract ''amm_pool'' (cr_code_hash record))) (
     ret RUnit))))))))))))"

definition module_from_roots ::
  "env \<Rightarrow> argument list \<Rightarrow> execution_error + aspect_module_record" where
  "module_from_roots E args =
     (case try_map expect_text args of Inl e \<Rightarrow> Inl e
      | Inr t \<Rightarrow>
          Inr (new_aspect_module_record E (t ! 0) (t ! 1)
            \<lparr>mr_source_root = t ! 2, mr_ir_root = t ! 3, mr_abi_root = t ! 4,
             mr_policy_root = t ! 5, mr_storage_schema_root = t ! 6,
             mr_registry_schema_root = t ! 7, mr_invariant_root = t ! 8\<rparr>))"

definition submitted_module ::
  "env \<Rightarrow> argument list \<Rightarrow> execution_error + aspect_module_record" where
  "submitted_module E args =
     (if length args = 2 then
        (case expect_text (args ! 0) of Inl e \<Rightarrow> Inl e
         | Inr module_id \<Rightarrow>
           (case expect_text (args ! 1) of Inl e \<Rightarrow> Inl e
            | Inr source \<Rightarrow> module_from_verified_source E module_id source))
      else if length args = 9 then module_from_roots E args
      else Inl InvalidArguments)"

definition submit_aspect_module_from_factory :: "env \<Rightarrow> transaction \<Rightarrow> ('z, return_value) op" where
  "submit_aspect_module_from_factory E tx =
     (bind (try_res (submitted_module E (tx_args tx))) (\<lambda>module.
     bind (register_aspect_module E module) (\<lambda>module_hash.
     andthen (emit (tx_target tx) (tx_hash tx)
       (EvAspectModuleSubmitted (amr_module_id module) module_hash (amr_taxonomy_version module))) (
     ret RUnit))))"

definition init_tx :: "transaction \<Rightarrow> contract_id \<Rightarrow> string \<Rightarrow> transaction" where
  "init_tx tx contract initializer =
     \<lparr>tx_chain_id = tx_chain_id tx, tx_hash = tx_hash tx @ '':init'', tx_sender = tx_sender tx,
      tx_nonce = tx_nonce tx, tx_valid_until_height = tx_valid_until_height tx,
      tx_target = contract, tx_method = Other initializer, tx_args = drop 4 (tx_args tx),
      tx_signature_ok = True, tx_budget = tx_budget tx\<rparr>"

definition deploy_aspect_contract_from_factory ::
  "'z call_op \<Rightarrow> transaction \<Rightarrow> ('z, return_value) op" where
  "deploy_aspect_contract_from_factory call tx =
     ((let args = tx_args tx in
     andthen (reject_if (length args < 3) InvalidArguments) (
     bind (try_res (expect_text (args ! 0))) (\<lambda>contract.
     bind (try_res (expect_text (args ! 1))) (\<lambda>module_hash.
     bind (try_res (expect_text (args ! 2))) (\<lambda>bundle_id.
     andthen (deploy_aspect_contract contract module_hash bundle_id) (
     andthen (registry_insert (GovernanceAdminKey contract (tx_sender tx))
       (grant_governance_admin (tx_sender tx))) (
     bind (gets (\<lambda>s. fmlookup (contracts s) contract)) (\<lambda>found.
     bind (or_err found ContractNotFound) (\<lambda>record.
     andthen (emit (tx_target tx) (tx_hash tx)
       (EvContractDeployed contract ''aspect_module'' (cr_code_hash record))) (
     andthen ((if 3 < length args then
        (bind (try_res (expect_text (args ! 3))) (\<lambda>initializer.
        andthen (call (init_tx tx contract initializer) (tx_sender tx)) (
        ret ())))
      else ret ())) (
     ret RUnit))))))))))))"

section \<open>Router\<close>

definition route_tx :: "transaction \<Rightarrow> contract_id \<Rightarrow> transaction" where
  "route_tx tx token_contract =
     \<lparr>tx_chain_id = tx_chain_id tx, tx_hash = tx_hash tx, tx_sender = tx_sender tx,
      tx_nonce = tx_nonce tx, tx_valid_until_height = tx_valid_until_height tx,
      tx_target = token_contract, tx_method = TransferFrom, tx_args = tx_args tx,
      tx_signature_ok = True, tx_budget = tx_budget tx\<rparr>"

definition route_transfer_from ::
  "'z call_op \<Rightarrow> transaction \<Rightarrow> contract_id \<Rightarrow> ('z, return_value) op" where
  "route_transfer_from call tx token_contract =
     (bind (try_res (expect_args 4 (tx_args tx))) (\<lambda>args.
     call (route_tx tx token_contract) (tx_target tx)))"

section \<open>Account registry\<close>

definition register_account_key :: "principal \<Rightarrow> string \<Rightarrow> ('z, unit) op" where
  "register_account_key account public_key_hex =
     (andthen (reject_if (account = [] \<or> \<not> is_canonical_public_key_hex public_key_hex) InvalidArguments) (
     registry_insert (AccountSigner account public_key_hex) (grant_account_signer account)))"

definition register_account_key_from_contract ::
  "transaction \<Rightarrow> principal \<Rightarrow> ('z, return_value) op" where
  "register_account_key_from_contract tx msg_sender =
     (bind (try_res (expect_args 1 (tx_args tx))) (\<lambda>args.
     bind (try_res (expect_text (args ! 0))) (\<lambda>public_key_hex.
     andthen (register_account_key msg_sender public_key_hex) (
     andthen (ensure account_signer_keys_canonical InvariantViolation) (
     andthen (emit (tx_target tx) (tx_hash tx) (EvAccountKeyRegistered msg_sender public_key_hex)) (
     ret RUnit))))))"

definition revoke_account_key_from_contract ::
  "transaction \<Rightarrow> principal \<Rightarrow> ('z, return_value) op" where
  "revoke_account_key_from_contract tx msg_sender =
     (bind (try_res (expect_args 1 (tx_args tx))) (\<lambda>args.
     bind (try_res (expect_text (args ! 0))) (\<lambda>public_key_hex.
     andthen (reject_if (\<not> is_canonical_public_key_hex public_key_hex) InvalidArguments) (
     (let key = AccountSigner msg_sender public_key_hex in
     bind (gets (\<lambda>s. fmlookup (registry s) key)) (\<lambda>found.
     bind (or_err found RegistryGrantMissing) (\<lambda>grant.
     andthen (reject_if (g_subject grant \<noteq> msg_sender \<or> SubmitTransaction |\<notin>| g_rights grant)
       RegistryGrantMissing) (
     andthen (registry_insert key (grant\<lparr>g_active := False, g_revoked := True\<rparr>)) (
     andthen (ensure account_signer_keys_canonical InvariantViolation) (
     andthen (emit (tx_target tx) (tx_hash tx) (EvAccountKeyRevoked msg_sender public_key_hex)) (
     ret RUnit)))))))))))"

end
