(* ===== verification/Executor.thy ===== *)
theory Executor
  imports Aspect_Host Amm_Pool Oracle_Contract Lending_Vault Staking_Contract Deployment
begin

text \<open>
  The executor: the call context with its reentrancy guard, the dispatch of \<open>execute_call\<close> on
  contract kind and method, and \<open>apply_transaction\<close> with its checkpoints.

  Nested calls make \<open>execute_call\<close> recursive through the handlers. It is defined by recursion on
  a bound \<open>fuel\<close> on the nesting depth; running out of it is the fault \<open>Diverge\<close>, which no
  branch of the source produces. \<open>apply_transaction\<close> supplies \<open>call_fuel\<close>, a bound computed from
  the number of aspect contracts, and the theory \<open>Call_Depth\<close> shows that it always suffices.
\<close>

section \<open>Call context\<close>

definition new_call_context :: "principal \<Rightarrow> call_context" where
  "new_call_context sender =
     \<lparr>cc_tx_sender = sender, cc_stack = [], cc_active_nonreentrant_contracts = {||}\<rparr>"

definition enter_frame ::
  "contract_id \<Rightarrow> call_method \<Rightarrow> principal \<Rightarrow> call_context \<Rightarrow> call_context" where
  "enter_frame contract m msg_sender ctx =
     ctx\<lparr>cc_active_nonreentrant_contracts :=
           finsert contract (cc_active_nonreentrant_contracts ctx),
         cc_stack := cc_stack ctx @
           [\<lparr>cf_tx_sender = cc_tx_sender ctx, cf_msg_sender = msg_sender,
             cf_contract = contract, cf_method = m\<rparr>]\<rparr>"

definition exit_frame :: "call_context \<Rightarrow> call_context" where
  "exit_frame ctx =
     (if cc_stack ctx = [] then ctx
      else ctx\<lparr>cc_stack := butlast (cc_stack ctx),
        cc_active_nonreentrant_contracts :=
          cc_active_nonreentrant_contracts ctx |-| {|cf_contract (last (cc_stack ctx))|}\<rparr>)"

type_synonym 'a xop = "(fault, exec_state, 'a) exec"

definition enter :: "contract_id \<Rightarrow> call_method \<Rightarrow> principal \<Rightarrow> unit xop" where
  "enter contract m msg_sender =
     (bind (gets call_ctx) (\<lambda>ctx.
     andthen (reject_if (contract |\<in>| cc_active_nonreentrant_contracts ctx) ReentrancyViolation) (
     modify (\<lambda>s. s\<lparr>call_ctx := enter_frame contract m msg_sender (call_ctx s)\<rparr>))))"

definition exit_call :: "exec_state \<Rightarrow> exec_state" where
  "exit_call s = s\<lparr>call_ctx := exit_frame (call_ctx s)\<rparr>"

text \<open>Run \<open>m\<close>, then \<open>h\<close> on the state it leaves, whether or not it succeeded.\<close>

definition finally_do :: "('e, 's, 'a) exec \<Rightarrow> ('s \<Rightarrow> 's) \<Rightarrow> ('e, 's, 'a) exec" where
  "finally_do m h = (\<lambda>s. case m s of (r, t) \<Rightarrow> (r, h t))"

section \<open>Dispatch\<close>

definition enforce_method_authority ::
  "transaction \<Rightarrow> principal \<Rightarrow> method_policy \<Rightarrow> ('z, unit) op" where
  "enforce_method_authority tx msg_sender policy =
     (case pol_authority policy of
        OracleUpdaterGrant \<Rightarrow> require_oracle_updater (tx_target tx) msg_sender
      | GovernanceAdminGrant \<Rightarrow> require_governance_admin (tx_target tx) msg_sender
      | _ \<Rightarrow> ret ())"

definition dispatch_token :: "transaction \<Rightarrow> principal \<Rightarrow> ('z, return_value) op" where
  "dispatch_token tx msg_sender =
     (if tx_method tx = Transfer then transfer tx msg_sender
      else if tx_method tx = Approve then approve tx msg_sender
      else if tx_method tx = TransferFrom then transfer_from tx msg_sender
      else if tx_method tx = Permit then permit tx
      else fail PolicyMissing)"

definition dispatch_amm ::
  "'z call_op \<Rightarrow> transaction \<Rightarrow> principal \<Rightarrow> asset_id \<Rightarrow> asset_id \<Rightarrow> u64 \<Rightarrow> ('z, return_value) op" where
  "dispatch_amm call tx msg_sender asset_a asset_b swap_fee_bps =
     (if tx_method tx = AddLiquidity then add_liquidity call tx msg_sender asset_a asset_b
      else if tx_method tx = Swap then swap call tx msg_sender asset_a asset_b swap_fee_bps
      else fail PolicyMissing)"

definition dispatch_oracle ::
  "transaction \<Rightarrow> principal \<Rightarrow> asset_id \<Rightarrow> u64 \<Rightarrow> ('z, return_value) op" where
  "dispatch_oracle tx msg_sender asset max_age =
     (if tx_method tx = SubmitPrice then submit_price tx msg_sender asset max_age
      else fail PolicyMissing)"

definition dispatch_bridge ::
  "env \<Rightarrow> 'z call_op \<Rightarrow> transaction \<Rightarrow> principal \<Rightarrow> chain_id \<Rightarrow> ('z, return_value) op" where
  "dispatch_bridge E call tx msg_sender source_chain =
     (if tx_method tx = QueueBridgeMessage then queue_bridge_message call tx msg_sender
      else if tx_method tx = RedeemBridgeMessage
      then redeem_bridge_message E tx msg_sender source_chain
      else fail PolicyMissing)"

definition dispatch_governance ::
  "env \<Rightarrow> transaction \<Rightarrow> principal \<Rightarrow> contract_id \<Rightarrow> u64 \<Rightarrow> ('z, return_value) op" where
  "dispatch_governance E tx msg_sender governed_contract timelock_delay =
     (if tx_method tx = PauseContract then pause_contract tx msg_sender governed_contract
      else if tx_method tx = UnpauseContract then unpause_contract tx msg_sender governed_contract
      else if tx_method tx = ScheduleUpgrade
      then schedule_upgrade tx msg_sender governed_contract timelock_delay
      else if tx_method tx = ExecuteUpgrade then execute_upgrade E tx msg_sender governed_contract
      else if tx_method tx = SchedulePolicyUpdate
      then schedule_policy_update tx msg_sender governed_contract timelock_delay
      else if tx_method tx = ExecutePolicyUpdate
      then execute_policy_update E tx msg_sender governed_contract
      else fail PolicyMissing)"

definition dispatch_lending ::
  "'z call_op \<Rightarrow> transaction \<Rightarrow> principal \<Rightarrow> lending_config \<Rightarrow> ('z, return_value) op" where
  "dispatch_lending call tx msg_sender config =
     (if tx_method tx = DepositCollateral
      then deposit_collateral call tx (lc_collateral_asset config)
      else if tx_method tx = Borrow then borrow call tx msg_sender config
      else if tx_method tx = Liquidate then liquidate call tx msg_sender config
      else fail PolicyMissing)"

definition dispatch_staking ::
  "'z call_op \<Rightarrow> transaction \<Rightarrow> principal \<Rightarrow> asset_id \<Rightarrow> staking_parameters \<Rightarrow> ('z, return_value) op" where
  "dispatch_staking call tx msg_sender asset parameters =
     (if tx_method tx = Stake
      then stake call tx msg_sender asset (stp_reward_per_block parameters)
      else if tx_method tx = Unstake then unstake call tx msg_sender asset parameters
      else if tx_method tx = RequestUnstake
      then request_unstake tx msg_sender asset (stp_reward_per_block parameters)
        (stp_unbonding_delay parameters) (stp_unstake_penalty_bps parameters)
      else if tx_method tx = CompleteUnstake then complete_unstake call tx msg_sender asset
      else if tx_method tx = ClaimStakingRewards
      then claim_staking_rewards tx msg_sender asset (stp_reward_per_block parameters)
      else fail PolicyMissing)"

definition dispatch_router ::
  "'z call_op \<Rightarrow> transaction \<Rightarrow> contract_id \<Rightarrow> ('z, return_value) op" where
  "dispatch_router call tx token_contract =
     (if tx_method tx = RouteTransferFrom then route_transfer_from call tx token_contract
      else fail PolicyMissing)"

definition dispatch_factory ::
  "env \<Rightarrow> 'z call_op \<Rightarrow> transaction \<Rightarrow> ('z, return_value) op" where
  "dispatch_factory E call tx =
     (if tx_method tx = DeployToken then deploy_token_from_factory E tx
      else if tx_method tx = DeployAmmPool then deploy_amm_pool_from_factory E tx
      else if tx_method tx = SubmitAspectModule then submit_aspect_module_from_factory E tx
      else if tx_method tx = DeployAspectContract then deploy_aspect_contract_from_factory call tx
      else fail PolicyMissing)"

definition dispatch_account_registry :: "transaction \<Rightarrow> principal \<Rightarrow> ('z, return_value) op" where
  "dispatch_account_registry tx msg_sender =
     (if tx_method tx = RegisterAccountKey then register_account_key_from_contract tx msg_sender
      else if tx_method tx = RevokeAccountKey then revoke_account_key_from_contract tx msg_sender
      else fail PolicyMissing)"

definition dispatch_kind ::
  "env \<Rightarrow> 'z call_op \<Rightarrow> transaction \<Rightarrow> principal \<Rightarrow> contract_kind \<Rightarrow> ('z, return_value) op" where
  "dispatch_kind E call tx msg_sender kind =
     (case kind of
        Token \<Rightarrow> dispatch_token tx msg_sender
      | AmmPool asset_a asset_b swap_fee_bps \<Rightarrow>
          dispatch_amm call tx msg_sender asset_a asset_b swap_fee_bps
      | Oracle asset max_age \<Rightarrow> dispatch_oracle tx msg_sender asset max_age
      | Bridge source_chain \<Rightarrow> dispatch_bridge E call tx msg_sender source_chain
      | Governance governed_contract timelock_delay \<Rightarrow>
          dispatch_governance E tx msg_sender governed_contract timelock_delay
      | LendingVault collateral_asset debt_asset oracle_contract ltv_bps max_oracle_age
          interest_bps_per_block liquidation_threshold_bps \<Rightarrow>
          dispatch_lending call tx msg_sender
            \<lparr>lc_collateral_asset = collateral_asset, lc_debt_asset = debt_asset,
             lc_oracle_contract = oracle_contract, lc_ltv_bps = ltv_bps,
             lc_max_oracle_age = max_oracle_age,
             lc_interest_bps_per_block = interest_bps_per_block,
             lc_liquidation_threshold_bps = liquidation_threshold_bps\<rparr>
      | Staking asset unbonding_delay reward_per_block unstake_penalty_bps \<Rightarrow>
          dispatch_staking call tx msg_sender asset
            \<lparr>stp_unbonding_delay = unbonding_delay, stp_reward_per_block = reward_per_block,
             stp_unstake_penalty_bps = unstake_penalty_bps\<rparr>
      | Router token_contract \<Rightarrow> dispatch_router call tx token_contract
      | Factory \<Rightarrow> dispatch_factory E call tx
      | AccountRegistry \<Rightarrow> dispatch_account_registry tx msg_sender
      | AspectModule module_hash bundle_id _ _ _ \<Rightarrow>
          execute_aspect_module_method E call tx msg_sender module_hash bundle_id)"

text \<open>The closure in \<open>execute_call\<close>, between \<open>enter\<close> and \<open>exit\<close>.\<close>

definition call_body ::
  "env \<Rightarrow> 'z call_op \<Rightarrow> transaction \<Rightarrow> principal \<Rightarrow> ('z, return_value) op" where
  "call_body E call tx msg_sender =
     (bind (gets (\<lambda>s. fmlookup (contracts s) (tx_target tx))) (\<lambda>found.
     bind (or_err found ContractNotFound) (\<lambda>contract.
     andthen (reject_if (tx_method tx |\<notin>| cr_exported_methods contract) MethodNotExported) (
     bind (or_err (fmlookup (cr_method_policies contract) (tx_method tx)) PolicyMissing) (\<lambda>policy.
     andthen (enforce_method_authority tx msg_sender policy) (
     bind (gets paused_contracts) (\<lambda>paused.
     andthen (reject_if (tx_target tx |\<in>| paused) ContractIsPaused) (
     dispatch_kind E call tx msg_sender (cr_kind contract)))))))))"

primrec execute_call :: "env \<Rightarrow> nat \<Rightarrow> transaction \<Rightarrow> principal \<Rightarrow> return_value xop" where
  "execute_call E 0 tx msg_sender = throw Diverge"
| "execute_call E (Suc fuel) tx msg_sender =
     andthen (enter (tx_target tx) (tx_method tx) msg_sender)
       (finally_do (call_body E (execute_call E fuel) tx msg_sender) exit_call)"

section \<open>Resource units\<close>

definition default_block_resource_limit :: u64 where
  "default_block_resource_limit = 10000000"

fun method_resource_units :: "call_method \<Rightarrow> u64" where
  "method_resource_units Transfer = 20"
| "method_resource_units Approve = 18"
| "method_resource_units TransferFrom = 32"
| "method_resource_units Permit = 50"
| "method_resource_units AddLiquidity = 42"
| "method_resource_units Swap = 45"
| "method_resource_units SubmitPrice = 28"
| "method_resource_units QueueBridgeMessage = 34"
| "method_resource_units RedeemBridgeMessage = 48"
| "method_resource_units PauseContract = 20"
| "method_resource_units UnpauseContract = 20"
| "method_resource_units ScheduleUpgrade = 30"
| "method_resource_units SchedulePolicyUpdate = 30"
| "method_resource_units ExecuteUpgrade = 40"
| "method_resource_units ExecutePolicyUpdate = 40"
| "method_resource_units DepositCollateral = 22"
| "method_resource_units Stake = 22"
| "method_resource_units Unstake = 22"
| "method_resource_units RequestUnstake = 26"
| "method_resource_units CompleteUnstake = 26"
| "method_resource_units ClaimStakingRewards = 26"
| "method_resource_units Borrow = 38"
| "method_resource_units Liquidate = 46"
| "method_resource_units RouteTransferFrom = 55"
| "method_resource_units DeployToken = 60"
| "method_resource_units DeployAmmPool = 60"
| "method_resource_units SubmitAspectModule = 80"
| "method_resource_units DeployAspectContract = 64"
| "method_resource_units RegisterAccountKey = 24"
| "method_resource_units RevokeAccountKey = 24"
| "method_resource_units (Other _) = 10"

definition transaction_resource_units :: "transaction \<Rightarrow> u64" where
  "transaction_resource_units tx =
     saturating_add (saturating_add 10 (saturating_mul (of_nat (length (tx_args tx))) 2))
       (method_resource_units (tx_method tx))"

definition block_resource_units :: "transaction list \<Rightarrow> u64" where
  "block_resource_units txs = fold (\<lambda>tx acc. saturating_add acc (transaction_resource_units tx)) txs 0"

section \<open>Transactions\<close>

definition with_call_ctx :: "detta_state \<Rightarrow> call_context \<Rightarrow> exec_state" where
  "with_call_ctx s ctx = detta_state.extend s (exec_state.fields ctx)"

definition aspect_contracts :: "'z state_of \<Rightarrow> contract_id fset" where
  "aspect_contracts s =
     ffilter (\<lambda>c. is_aspect_kind (cr_kind (the (fmlookup (contracts s) c)))) (fmdom (contracts s))"

definition call_fuel :: "'z state_of \<Rightarrow> nat" where
  "call_fuel s = 2 * fcard (aspect_contracts s) + 5"

text \<open>The fields that \<open>apply_transaction\<close> restores from its checkpoints on an error: every field
  the executor can reach except the nonces, which were consumed before.\<close>

definition restore_checkpoints :: "detta_state \<Rightarrow> detta_state \<Rightarrow> detta_state" where
  "restore_checkpoints checkpoint s =
     s\<lparr>contracts := contracts checkpoint, aspect_modules := aspect_modules checkpoint,
       storage := storage checkpoint, registry := registry checkpoint,
       events := events checkpoint,
       used_certificate_nonces := used_certificate_nonces checkpoint,
       paused_contracts := paused_contracts checkpoint,
       scheduled_upgrades := scheduled_upgrades checkpoint,
       scheduled_policy_updates := scheduled_policy_updates checkpoint,
       outbound_message_ids := outbound_message_ids checkpoint,
       cross_shard_outbox := cross_shard_outbox checkpoint\<rparr>"

definition expired :: "transaction \<Rightarrow> u64 \<Rightarrow> bool" where
  "expired tx now = (case tx_valid_until_height tx of None \<Rightarrow> False | Some h \<Rightarrow> h < now)"

text \<open>The outcome of \<open>execute_call\<close> on a fresh call context. \<open>None\<close> is running out of fuel.\<close>

definition run_call ::
  "env \<Rightarrow> transaction \<Rightarrow> detta_state \<Rightarrow> ((execution_error + return_value) \<times> detta_state) option" where
  "run_call E tx s =
     (case execute_call E (call_fuel s) tx (tx_sender tx)
         (with_call_ctx s (new_call_context (tx_sender tx))) of
        (Inr v, t) \<Rightarrow> Some (Inr v, detta_state.truncate t)
      | (Inl (Err e), t) \<Rightarrow> Some (Inl e, detta_state.truncate t)
      | (Inl Diverge, t) \<Rightarrow> None)"

definition apply_transaction :: "env \<Rightarrow> transaction \<Rightarrow> detta_state \<Rightarrow> (receipt \<times> detta_state) option" where
  "apply_transaction E tx s =
     (if tx_chain_id tx \<noteq> chain_id s then
        Some (rejected_receipt E s (tx_hash tx) ChainMismatch, s)
      else if \<not> tx_signature_ok tx then
        Some (rejected_receipt E s (tx_hash tx) InvalidSignature, s)
      else if expired tx (height s) then
        Some (rejected_receipt E s (tx_hash tx) TransactionExpired, s)
      else if (tx_sender tx, tx_nonce tx) |\<in>| used_nonces s then
        Some (rejected_receipt E s (tx_hash tx) NonceReplay, s)
      else
        let units = transaction_resource_units tx;
            s1 = s\<lparr>used_nonces := finsert (tx_sender tx, tx_nonce tx) (used_nonces s)\<rparr> in
        if tx_budget tx < units then
          Some (reverted_receipt E s1 (tx_hash tx) OutOfGas units, s1)
        else
          (case run_call E tx s1 of
             None \<Rightarrow> None
           | Some (Inr v, t) \<Rightarrow> Some (committed_receipt E t (tx_hash tx) v units, t)
           | Some (Inl e, t) \<Rightarrow>
               let r = restore_checkpoints s1 t in
               Some (reverted_receipt E r (tx_hash tx) e units, r)))"

end
