(* ===== verification/Call_Relation.thy ===== *)
theory Call_Relation
  imports Executor
begin

text \<open>
  The interface between the executor and the claims made of every transaction: the locale
  \<open>handler_relation\<close>. Its parameters are a relation \<open>K\<close> for success, a relation \<open>F\<close> for failure
  and the callee \<open>call\<close> of nested calls; its assumptions say that the elementary writes, the
  token and deployment operations and the four operations that make nested calls stay within
  them. Its lemmas show once, handler by handler, that every method of every contract kind does,
  and so that \<open>execute_call\<close> does. A relation that depends on what the handlers of one kind write
  together names that kind as \<open>special\<close> and treats its handlers as a whole.
\<close>

fun plain_write :: "state_key \<Rightarrow> state_value \<Rightarrow> bool" where
  "plain_write (Balance _ _ _) v = False"
| "plain_write (TotalSupply _ _) v = False"
| "plain_write (BridgeMessageConsumed _ _) v = (v = UInt 1)"
| "plain_write _ v = True"

text \<open>The part of the system a storage entry and a contract kind belong to: the handlers of a kind
  write the entries of its part through their frame.\<close>

datatype part = TokenPart | AmmPart | OraclePart | BridgePart | LendingPart | StakingPart
  | AspectPart | ControlPart

primrec key_part :: "state_key \<Rightarrow> part" where
  "key_part (Balance _ _ _) = TokenPart"
| "key_part (TotalSupply _ _) = TokenPart"
| "key_part (Reserve _ _) = AmmPart"
| "key_part (AmmFeeCollected _ _) = AmmPart"
| "key_part (LpSupply _) = AmmPart"
| "key_part (LpBalance _ _) = AmmPart"
| "key_part (OraclePrice _ _) = OraclePart"
| "key_part (OracleTimestamp _ _) = OraclePart"
| "key_part (BridgeMessageConsumed _ _) = BridgePart"
| "key_part (Collateral _ _ _) = LendingPart"
| "key_part (Debt _ _ _) = LendingPart"
| "key_part (DebtLastAccrualHeight _ _ _) = LendingPart"
| "key_part (BadDebt _ _) = LendingPart"
| "key_part (StakeBalance _ _ _) = StakingPart"
| "key_part (TotalStaked _ _) = StakingPart"
| "key_part (PendingUnbond _ _ _) = StakingPart"
| "key_part (TotalPendingUnbond _ _) = StakingPart"
| "key_part (StakingPenaltyCollected _ _) = StakingPart"
| "key_part (UnbondReadyHeight _ _ _) = StakingPart"
| "key_part (StakingRewardBalance _ _ _) = StakingPart"
| "key_part (StakingLastRewardHeight _ _ _) = StakingPart"
| "key_part (AspectState _ _ _ _) = AspectPart"

primrec kind_part :: "contract_kind \<Rightarrow> part" where
  "kind_part Token = TokenPart"
| "kind_part (AmmPool _ _ _) = AmmPart"
| "kind_part (Oracle _ _) = OraclePart"
| "kind_part (Bridge _) = BridgePart"
| "kind_part (Governance _ _) = ControlPart"
| "kind_part (LendingVault _ _ _ _ _ _ _) = LendingPart"
| "kind_part (Staking _ _ _ _) = StakingPart"
| "kind_part (Router _) = ControlPart"
| "kind_part Factory = ControlPart"
| "kind_part AccountRegistry = ControlPart"
| "kind_part (AspectModule _ _ _ _ _) = AspectPart"

text \<open>The registry entries written outside deployment and the account registry.\<close>

fun plain_grant :: "grant_key \<Rightarrow> grant \<Rightarrow> bool" where
  "plain_grant (Allowance _ _ _ _) g = True"
| "plain_grant (GovernanceAdminKey _ p) g = (g = grant_governance_admin p)"
| "plain_grant _ g = False"

definition keeps_manifest :: "(contract_record \<Rightarrow> contract_record) \<Rightarrow> bool" where
  "keeps_manifest f \<longleftrightarrow>
     (\<forall>r. cr_kind (f r) = cr_kind r \<and> cr_contract_id (f r) = cr_contract_id r
        \<and> cr_exported_methods (f r) = cr_exported_methods r
        \<and> cr_declared_invariants (f r) = cr_declared_invariants r
        \<and> fmdom (cr_method_policies r) |\<subseteq>| fmdom (cr_method_policies (f r)))"

lemma keeps_manifest_code_hash [simp]: "keeps_manifest (cr_code_hash_update f)"
  by (simp add: keeps_manifest_def)

lemma keeps_manifest_policies [simp]:
  "keeps_manifest (\<lambda>r. r\<lparr>cr_method_policies := fmupd m policy (cr_method_policies r)\<rparr>)"
  by (auto simp: keeps_manifest_def)

lemma try_res_Inr_iff: "try_res r s = (Inr y, t) \<longleftrightarrow> r = Inr y \<and> t = s"
  by (cases r) (auto simp: run_Inr)

locale leaf_relation = exec_relation K F raises
  for K :: "'z state_of \<Rightarrow> 'z state_of \<Rightarrow> bool"
    and F :: "fault \<Rightarrow> 'z state_of \<Rightarrow> 'z state_of \<Rightarrow> bool"
    and raises :: "fault \<Rightarrow> bool" +
  fixes E :: env
    and may_deploy_aspects :: bool
    and special :: "part \<Rightarrow> bool"
  assumes raises_Err [simp]: "raises (Err e)"
    and state_set_within: "plain_write key v \<Longrightarrow> \<not> special (key_part key) \<Longrightarrow>
      within K F (state_set frame key v)"
    and emit_within: "within K F (emit c h payload)"
    and registry_insert_within: "plain_grant k g \<Longrightarrow> within K F (registry_insert k g)"
    and account_key_within: "within K F (register_account_key_from_contract tx p)"
    and revoke_key_within: "within K F (revoke_account_key_from_contract tx p)"
    and certificate_nonce_within: "within K F (certificate_nonce_insert nonce)"
    and outbox_append_within: "within K F (outbox_append msg)"
    and pause_insert_within: "within K F (pause_insert c)"
    and pause_remove_within: "within K F (pause_remove c)"
    and upgrade_insert_within: "within K F (upgrade_insert i u)"
    and policy_update_insert_within: "within K F (policy_update_insert i pu)"
    and update_contract_within: "keeps_manifest f \<Longrightarrow> within K F (update_contract c f)"
    and register_module_within: "within K F (register_aspect_module E module)"
    and transfer_native_within: "within K F (transfer_native_asset_balance c p q a n)"
    and mint_native_within: "within K F (mint_native_asset_balance c p a n)"
    and transfer_within: "within K F (transfer tx p)"
    and transfer_from_within: "within K F (transfer_from tx p)"
    and deploy_token_within: "within K F (deploy_token E c a bs)"
    and deploy_amm_pool_within: "within K F (deploy_amm_pool_with_parameters E c a b ap)"
    and deploy_aspect_contract_within:
      "may_deploy_aspects \<Longrightarrow> within K F (deploy_aspect_contract c h b)"
begin

lemma try_within: "within K F (try_res r)"
  by (rule within_lift_result) (cases r; auto)

lemma fail_within: "within K F (fail e)"
  by (rule within_throw) simp

lemma reject_if_within: "within K F (reject_if c e)"
  by (rule within_fail_if) simp

lemma or_err_within: "within K F (or_err x e)"
  by (rule within_ok_or) simp

lemmas op_within = within_ret within_gets within_bind within_Let within_if within_case_prod
  within_case_option within_for_each try_within fail_within reject_if_within or_err_within
  emit_within certificate_nonce_within outbox_append_within
  pause_insert_within pause_remove_within upgrade_insert_within policy_update_insert_within
  register_module_within transfer_native_within mint_native_within transfer_within
  transfer_from_within deploy_token_within deploy_amm_pool_within account_key_within
  revoke_key_within

lemma mint_asset_within: "within K F (mint_asset_balance l p a n)"
  by (simp add: mint_asset_balance_def mint_native_within fail_within split: asset_ledger.split)

lemma mint_bridge_within: "within K F (mint_bridge_asset_balance l p a n)"
  by (simp add: mint_bridge_asset_balance_def mint_native_within fail_within
      split: asset_ledger.split)

lemma consume_allowance_within: "within K F (consume_allowance c p q a n)"
  unfolding consume_allowance_def by (intro op_within registry_insert_within; simp)

lemma require_oracle_updater_within: "within K F (require_oracle_updater c p)"
  unfolding require_oracle_updater_def by (intro op_within)

lemma require_governance_admin_within: "within K F (require_governance_admin c p)"
  unfolding require_governance_admin_def by (intro op_within)

text \<open>A native method an aspect module can call is in the table of argument kinds, which leaves
  out the deployment of aspect contracts.\<close>

lemma host_call_not_deploy:
  "aspect_values_to_host_call_args s r m vs = Inr args \<Longrightarrow>
   host_call_method_for_target r meth = Inr m \<Longrightarrow> m \<noteq> DeployAspectContract"
  by (auto simp: aspect_values_to_host_call_args_def host_call_method_for_target_def
      split: if_splits contract_kind.splits)

lemma call_units_within:
  assumes "\<And>tx p. tx_method tx \<noteq> DeployAspectContract \<Longrightarrow> within K F (call tx p)"
  shows "within K F (transfer_aspect_asset_balance call tx c p q n)"
    and "within K F (route_transfer_from call tx c)"
    and "within K F (apply_aspect_call_contract call tx hc c meth vs)"
    and "may_deploy_aspects \<Longrightarrow> within K F (deploy_aspect_contract_from_factory call tx)"
proof -
  show "within K F (transfer_aspect_asset_balance call tx c p q n)"
    unfolding transfer_aspect_asset_balance_def
    by (intro op_within assms) (simp add: asset_transfer_tx_def erc20_transfer_def)
  show "within K F (route_transfer_from call tx c)"
    unfolding route_transfer_from_def by (intro op_within assms) (simp add: route_tx_def)
  show "within K F (apply_aspect_call_contract call tx hc c meth vs)"
    unfolding apply_aspect_call_contract_def
  proof (intro within_bind_run [where m = "try_res _"] within_bind_run [where m = "query _"]
      within_bind reject_if_within within_gets or_err_within within_ret try_within assms)
    fix r s m t s' args t'
    assume "try_res (host_call_method_for_target r meth) s = (Inr m, t)"
      and "query (\<lambda>s. aspect_values_to_host_call_args s r m vs) s' = (Inr args, t')"
    then show "tx_method (nested_tx tx c m args) \<noteq> DeployAspectContract"
      by (auto simp: bind_Inr_iff gets_Inr_iff try_res_Inr_iff nested_tx_def
          dest: host_call_not_deploy)
  qed
  show "within K F (deploy_aspect_contract_from_factory call tx)" if may_deploy_aspects
    unfolding deploy_aspect_contract_from_factory_def
    by (intro op_within registry_insert_within deploy_aspect_contract_within that assms;
        simp add: init_tx_def)
qed

lemma enforce_method_authority_within: "within K F (enforce_method_authority tx p policy)"
  by (simp add: enforce_method_authority_def within_ret require_oracle_updater_within
      require_governance_admin_within split: policy_authority.split)

text \<open>The guards of a call, given the handlers of the kind its target has.\<close>

lemma authority_cases:
  obtains "enforce_method_authority tx p policy s = (Inr (), s)"
  | e where "enforce_method_authority tx p policy s = (Inl (Err e), s)"
proof -
  have "enforce_method_authority tx p policy s = (Inr (), s)
      \<or> (\<exists>e. enforce_method_authority tx p policy s = (Inl (Err e), s))"
    by (cases "pol_authority policy")
      (simp_all add: enforce_method_authority_def require_oracle_updater_def
        require_governance_admin_def exec_simps Let_def split: option.split)
  with that show thesis by blast
qed

lemma call_body_at:
  assumes "\<And>r. fmlookup (contracts s) (tx_target tx) = Some r \<Longrightarrow>
    within_at K F s (dispatch_kind E call tx p (cr_kind r))"
  shows "within_at K F s (call_body E call tx p)"
proof (cases "fmlookup (contracts s) (tx_target tx)")
  case None
  then show ?thesis by (simp add: within_at_def call_body_def exec_simps F_refl)
next
  case (Some r)
  show ?thesis
  proof (cases "fmlookup (cr_method_policies r) (tx_method tx)")
    case None
    with Some show ?thesis by (simp add: within_at_def call_body_def exec_simps F_refl)
  next
    case policy: (Some policy)
    show ?thesis
      using Some policy assms [OF Some]
      by (cases rule: authority_cases [of tx p policy s])
        (simp_all add: within_at_def call_body_def exec_simps bind_def [of "enforce_method_authority _ _ _"] F_refl)
  qed
qed

end

locale handler_relation = leaf_relation K F raises E may_deploy_aspects special
  for K :: "'z state_of \<Rightarrow> 'z state_of \<Rightarrow> bool"
    and F :: "fault \<Rightarrow> 'z state_of \<Rightarrow> 'z state_of \<Rightarrow> bool"
    and raises :: "fault \<Rightarrow> bool" and E :: env and may_deploy_aspects :: bool
    and special :: "part \<Rightarrow> bool" +
  fixes call :: "'z call_op" and may_host_call :: bool
  assumes transfer_aspect_within: "within K F (transfer_aspect_asset_balance call tx c p q n)"
    and route_within: "within K F (route_transfer_from call tx c)"
    and call_contract_within:
      "may_host_call \<Longrightarrow> within K F (apply_aspect_call_contract call tx hc c meth vs)"
    and deploy_aspect_within:
      "may_deploy_aspects \<Longrightarrow> within K F (deploy_aspect_contract_from_factory call tx)"
begin

lemma transfer_asset_within: "within K F (transfer_asset_balance call tx t)"
  by (simp add: transfer_asset_balance_def transfer_native_within transfer_aspect_within
      split: asset_ledger.split)

lemmas handler_within = op_within transfer_aspect_within route_within
  transfer_asset_within mint_asset_within mint_bridge_within
  consume_allowance_within require_oracle_updater_within require_governance_admin_within

lemma dispatch_token_within: "within K F (dispatch_token tx p)"
  unfolding dispatch_token_def approve_def permit_def
  by (intro handler_within registry_insert_within; simp)

lemma dispatch_amm_within:
  "\<not> special AmmPart \<Longrightarrow> within K F (dispatch_amm call tx p a b fee)"
  unfolding dispatch_amm_def add_liquidity_def swap_def
  by (intro handler_within state_set_within; simp)

lemma dispatch_oracle_within:
  "\<not> special OraclePart \<Longrightarrow> within K F (dispatch_oracle tx p a age)"
  unfolding dispatch_oracle_def submit_price_def
  by (intro handler_within state_set_within; simp)

lemma dispatch_bridge_within:
  "\<not> special BridgePart \<Longrightarrow> within K F (dispatch_bridge E call tx p chain)"
  unfolding dispatch_bridge_def queue_bridge_message_def redeem_bridge_message_def
  by (intro handler_within state_set_within; simp)

lemma dispatch_governance_within: "within K F (dispatch_governance E tx p c delay)"
  unfolding dispatch_governance_def pause_contract_def unpause_contract_def schedule_upgrade_def
    execute_upgrade_def schedule_policy_update_def execute_policy_update_def
  by (intro handler_within update_contract_within; simp)

lemma accrue_lending_debt_within:
  "\<not> special LendingPart \<Longrightarrow> within K F (accrue_lending_debt frame c p config)"
  unfolding accrue_lending_debt_def
  by (intro handler_within state_set_within; simp)

lemma settle_remaining_debt_within:
  "\<not> special LendingPart \<Longrightarrow>
   within K F (settle_remaining_debt frame (BadDebt c a) config price split)"
  unfolding settle_remaining_debt_def
  by (intro handler_within state_set_within; simp)

lemma dispatch_lending_within:
  "\<not> special LendingPart \<Longrightarrow> within K F (dispatch_lending call tx p config)"
  unfolding dispatch_lending_def deposit_collateral_def borrow_def liquidate_def
  by (intro handler_within accrue_lending_debt_within settle_remaining_debt_within
      state_set_within; simp add: settle_remaining_debt_within)

lemma accrue_staking_rewards_within:
  "\<not> special StakingPart \<Longrightarrow>
   within K F (accrue_staking_rewards frame c p a n)"
  unfolding accrue_staking_rewards_def
  by (intro handler_within state_set_within; simp)

lemma collect_penalty_within:
  "\<not> special StakingPart \<Longrightarrow>
   within K F (collect_penalty frame (StakingPenaltyCollected c a) n)"
  unfolding collect_penalty_def by (intro handler_within state_set_within; simp)

lemma emit_penalty_within: "within K F (emit_penalty tx p a x y z)"
  unfolding emit_penalty_def by (intro handler_within)

lemma dispatch_staking_within:
  "\<not> special StakingPart \<Longrightarrow> within K F (dispatch_staking call tx p a params)"
  unfolding dispatch_staking_def stake_def unstake_def request_unstake_def complete_unstake_def
    claim_staking_rewards_def
  by (intro handler_within accrue_staking_rewards_within
      emit_penalty_within state_set_within;
      simp add: collect_penalty_within)

lemma dispatch_router_within: "within K F (dispatch_router call tx c)"
  unfolding dispatch_router_def by (intro handler_within)

lemma dispatch_factory_within:
  "(tx_method tx = DeployAspectContract \<Longrightarrow> may_deploy_aspects) \<Longrightarrow>
   within K F (dispatch_factory E call tx)"
  unfolding dispatch_factory_def deploy_token_from_factory_def deploy_amm_pool_from_factory_def
    deploy_amm_pool_def submit_aspect_module_from_factory_def
  by (intro handler_within deploy_aspect_within; simp)

lemma dispatch_account_registry_within: "within K F (dispatch_account_registry tx p)"
  unfolding dispatch_account_registry_def by (intro handler_within)

lemma aspect_state_key_plain:
  "aspect_state_key c b m st ks = Inr key \<Longrightarrow>
   plain_write key v \<and> key_part key = AspectPart"
  by (auto simp: aspect_state_key_def split: sum.splits list.splits)

lemma state_set_op_within:
  assumes "\<not> special AspectPart"
  shows "within K F (bind (try_res (aspect_state_key c b m st ks)) (\<lambda>key.
     bind (try_res (state_value_from_aspect v)) (\<lambda>value. state_set frame key value)))"
proof (cases "aspect_state_key c b m st ks")
  case (Inl e)
  then show ?thesis by (simp add: lift_result_def fail_within)
next
  case (Inr key)
  then have "within K F (state_set frame key w)" for w
    using aspect_state_key_plain [OF Inr] assms by (intro state_set_within) auto
  then have "within K F (bind (try_res (state_value_from_aspect v)) (state_set frame key))"
    by (intro within_bind try_within)
  then show ?thesis by (simp add: Inr lift_result_def)
qed

lemma host_op_within:
  "may_host_call \<Longrightarrow> \<not> special AspectPart \<Longrightarrow>
   within K F (apply_aspect_host_op E call tx hc op)"
  by (cases op; simp add: state_set_op_within call_contract_within apply_aspect_permit_verify_def
      apply_aspect_bridge_verify_def apply_aspect_cross_shard_outbox_append_def;
      (intro handler_within conjI impI)?)

lemma aspect_method_within:
  "may_host_call \<Longrightarrow> \<not> special AspectPart \<Longrightarrow>
   within K F (execute_aspect_module_method E call tx p h b)"
  unfolding execute_aspect_module_method_def by (intro handler_within host_op_within)

theorem dispatch_kind_within:
  assumes "kind = Factory \<Longrightarrow> tx_method tx = DeployAspectContract \<Longrightarrow> may_deploy_aspects"
    and "is_aspect_kind kind \<Longrightarrow> may_host_call" and "\<not> special (kind_part kind)"
  shows "within K F (dispatch_kind E call tx p kind)"
  using assms
  by (cases kind)
    (simp_all add: dispatch_kind_def dispatch_token_within dispatch_amm_within
      dispatch_oracle_within dispatch_bridge_within dispatch_governance_within
      dispatch_lending_within dispatch_staking_within dispatch_router_within
      dispatch_factory_within dispatch_account_registry_within aspect_method_within is_aspect_kind_def)

end

text \<open>The same for a relation on the whole executor state: it must also survive entering and
  leaving a call frame, and running out of fuel. The handlers of a special kind are met from a
  state in which the target has that kind.\<close>

locale call_relation = leaf_relation K F raises E True special
  for K :: "exec_state \<Rightarrow> exec_state \<Rightarrow> bool"
    and F :: "fault \<Rightarrow> exec_state \<Rightarrow> exec_state \<Rightarrow> bool"
    and raises :: "fault \<Rightarrow> bool" and E :: env and special :: "part \<Rightarrow> bool" +
  assumes raises_Diverge: "raises Diverge"
    and frame_within: "within K F body \<Longrightarrow>
      within K F (andthen (enter c m p) (finally_do body exit_call) :: return_value xop)"
    and special_within: "special (kind_part (cr_kind r)) \<Longrightarrow> fmlookup (contracts s) (tx_target tx) = Some r \<Longrightarrow>
      (\<And>t. within K F (transfer_asset_balance call tx t)) \<Longrightarrow>
      within_at K F s (dispatch_kind E call tx p (cr_kind r))"
begin

theorem execute_call_within: "within K F (execute_call E fuel tx p)"
proof (induction fuel arbitrary: tx p)
  case 0
  show ?case by (simp add: within_throw raises_Diverge)
next
  case (Suc fuel)
  have calls: "handler_relation K F raises E True special (execute_call E fuel) True"
    by unfold_locales (simp_all add: call_units_within Suc.IH)
  have "within_at K F s (dispatch_kind E (execute_call E fuel) tx p (cr_kind r))"
    if "fmlookup (contracts s) (tx_target tx) = Some r" for s r
    using that special_within [OF _ that handler_relation.transfer_asset_within [OF calls]]
      handler_relation.dispatch_kind_within [OF calls]
    by (cases "special (kind_part (cr_kind r))") (auto intro: within_atI)
  then have "within K F (call_body E (execute_call E fuel) tx p)"
    unfolding within_iff_at by (blast intro: call_body_at)
  then show ?case by (simp add: frame_within)
qed

end

sublocale call_relation \<subseteq>
  nested: handler_relation K F raises E True special "execute_call E fuel" True for fuel
  by unfold_locales (simp_all add: call_units_within execute_call_within)

end
