(* ===== verification/Executor_Frame.thy ===== *)
theory Executor_Frame
  imports Call_Relation "HOL-Library.Sublist"
begin

text \<open>
  What execution never changes, whatever the transaction and whether or not it succeeds: the
  chain id, the height, the finalised block hash, the used nonces, the trusted validator sets
  and, once the call returns, the call context. The logs (events, outbox, consumed certificate
  nonces and outbound ids) only grow, and a consumed bridge message stays consumed.
\<close>

lemmas write_defs = storage_insert_def registry_insert_def contracts_insert_def emit_def
  certificate_nonce_insert_def outbox_append_def pause_insert_def pause_remove_def
  upgrade_insert_def policy_update_insert_def update_contract_def module_insert_def

section \<open>Quiet writers\<close>

text \<open>The interface of the writes outside storage and contracts to a relation that is about these
  two only.\<close>

locale quiet_relation = exec_relation K F raises
  for K :: "'z state_of \<Rightarrow> 'z state_of \<Rightarrow> bool"
    and F :: "fault \<Rightarrow> 'z state_of \<Rightarrow> 'z state_of \<Rightarrow> bool"
    and raises :: "fault \<Rightarrow> bool" +
  assumes quiet_raises: "raises (Err e)"
    and quiet: "storage t = storage s \<Longrightarrow> contracts t = contracts s \<Longrightarrow> K s t"
begin

lemma quiet_writes:
  "within K F (emit c h payload)"
  "within K F (registry_insert k g)"
  "within K F (certificate_nonce_insert nonce)"
  "within K F (outbox_append msg)"
  "within K F (pause_insert c)"
  "within K F (pause_remove c)"
  "within K F (upgrade_insert i u)"
  "within K F (policy_update_insert i pu)"
  "within K F (module_insert h module)"
  unfolding write_defs by (auto intro!: within_modify quiet)

lemma quiet_try: "within K F (try_res r)"
  by (rule within_lift_result) (cases r; auto simp: quiet_raises)

lemma quiet_account_keys:
  "within K F (register_account_key_from_contract tx p)"
  "within K F (revoke_account_key_from_contract tx p)"
  unfolding register_account_key_from_contract_def register_account_key_def
    revoke_account_key_from_contract_def
  by (intro within_ret within_gets within_bind within_Let within_fail_if within_ok_or quiet_raises
      quiet_try quiet_writes)+

lemma quiet_modules: "within K F (register_aspect_module E module)"
  unfolding register_aspect_module_def
  by (intro within_ret within_gets within_bind within_Let within_fail_if within_ok_or
      within_case_option quiet_raises quiet_writes)

lemmas quiet_within = quiet_writes quiet_account_keys quiet_modules

end

section \<open>Storage writers\<close>

text \<open>The interface of the token operations, the deployments and the frames of the handlers to a
  relation that allows a set of storage writes, those of token entries among them, and the
  registry writes for allowances.\<close>

locale token_relation = exec_relation K F raises
  for K :: "'z state_of \<Rightarrow> 'z state_of \<Rightarrow> bool"
    and F :: "fault \<Rightarrow> 'z state_of \<Rightarrow> 'z state_of \<Rightarrow> bool"
    and raises :: "fault \<Rightarrow> bool" +
  fixes allows :: "state_key \<Rightarrow> state_value \<Rightarrow> bool"
  assumes raises_Err: "raises (Err e)"
    and allows_token: "key_part key = TokenPart \<Longrightarrow> allows key v"
    and storage_insert_within: "allows key v \<Longrightarrow> within K F (storage_insert key v)"
    and allowance_within: "plain_grant k g \<Longrightarrow> within K F (registry_insert k g)"
    and emit_within: "within K F (emit c h payload)"
begin

lemma try_res_within: "within K F (try_res r)"
  by (rule within_lift_result) (cases r; auto simp: raises_Err)

lemma state_set_any_within: "allows key v \<Longrightarrow> within K F (state_set frame key v)"
  unfolding state_set_def by (intro within_rules storage_insert_within raises_Err)

lemmas writer_within = within_ret within_gets within_bind within_Let within_if within_case_prod
  within_case_option within_for_each within_fail_if within_ok_or raises_Err try_res_within
  allowance_within emit_within

lemmas token_writer_within = writer_within state_set_any_within storage_insert_within allows_token

lemma transfer_native_any_within: "within K F (transfer_native_asset_balance c p q a n)"
  unfolding transfer_native_asset_balance_def by (intro token_writer_within; simp)

lemma mint_native_any_within: "within K F (mint_native_asset_balance c p a n)"
  unfolding mint_native_asset_balance_def by (intro token_writer_within; simp)

lemma transfer_any_within: "within K F (transfer tx p)"
  unfolding transfer_def by (intro token_writer_within; simp)

lemma transfer_from_any_within: "within K F (transfer_from tx p)"
  unfolding transfer_from_def consume_allowance_def by (intro token_writer_within; simp)

lemma deploy_token_any_within:
  "(\<And>r. within K F (contracts_insert c r)) \<Longrightarrow> within K F (deploy_token E c a bs)"
  unfolding deploy_token_def validate_new_contract_id_def by (intro token_writer_within; simp)

lemma deploy_amm_pool_any_within:
  assumes "\<And>r. within K F (contracts_insert c r)"
    and "\<And>key v. key_part key = AmmPart \<Longrightarrow> owner_contract key = c \<Longrightarrow> allows key v"
  shows "within K F (deploy_amm_pool_with_parameters E c a b ap)"
  unfolding deploy_amm_pool_with_parameters_def validate_new_contract_id_def
  by (intro writer_within storage_insert_within assms; simp)

lemma deploy_aspect_contract_any_within:
  "(\<And>r. within K F (contracts_insert c r)) \<Longrightarrow> within K F (deploy_aspect_contract c h b)"
  unfolding deploy_aspect_contract_def validate_new_contract_id_def
  by (intro writer_within; simp)

lemma register_module_any_within:
  "(\<And>h. within K F (module_insert h module)) \<Longrightarrow> within K F (register_aspect_module E module)"
  unfolding register_aspect_module_def by (intro writer_within; simp)

lemmas any_within = state_set_any_within transfer_native_any_within mint_native_any_within
  transfer_any_within transfer_from_any_within deploy_token_any_within deploy_amm_pool_any_within
  deploy_aspect_contract_any_within register_module_any_within

end

text \<open>The same for a relation that allows every registry write.\<close>

locale storage_relation = token_relation K F raises allows
  for K :: "'z state_of \<Rightarrow> 'z state_of \<Rightarrow> bool"
    and F :: "fault \<Rightarrow> 'z state_of \<Rightarrow> 'z state_of \<Rightarrow> bool"
    and raises :: "fault \<Rightarrow> bool" and allows :: "state_key \<Rightarrow> state_value \<Rightarrow> bool" +
  assumes registry_insert_within: "within K F (registry_insert k g)"
begin

lemma account_key_any_within: "within K F (register_account_key_from_contract tx p)"
  unfolding register_account_key_from_contract_def register_account_key_def
  by (intro writer_within registry_insert_within)

lemma revoke_key_any_within: "within K F (revoke_account_key_from_contract tx p)"
  unfolding revoke_account_key_from_contract_def by (intro writer_within registry_insert_within)

lemmas registry_within = registry_insert_within account_key_any_within revoke_key_any_within

end

text \<open>The writes that no contract of the code can use to clear the mark of a consumed message.\<close>

definition plain_value :: "state_key \<Rightarrow> state_value \<Rightarrow> bool" where
  "plain_value key v \<longleftrightarrow> (key_part key = BridgePart \<longrightarrow> v = UInt 1)"

lemma plain_value_simps [simp]:
  "plain_write key v \<Longrightarrow> plain_value key v"
  "key_part key \<noteq> BridgePart \<Longrightarrow> plain_value key v"
  by (cases key; simp add: plain_value_def)+

section \<open>The frame\<close>

definition same_frame :: "exec_state \<Rightarrow> exec_state \<Rightarrow> bool" where
  "same_frame s t \<longleftrightarrow>
     chain_id t = chain_id s \<and> height t = height s
     \<and> finalized_block_hash t = finalized_block_hash s \<and> used_nonces t = used_nonces s
     \<and> trusted_bridge_validator_sets t = trusted_bridge_validator_sets s
     \<and> call_ctx t = call_ctx s"

interpretation frame_writes: storage_relation same_frame "\<lambda>_. same_frame" "\<lambda>_. True" plain_value
  by unfold_locales
    (auto simp: same_frame_def write_defs within_def modify_def)

lemma exit_enter_frame:
  "c |\<notin>| cc_active_nonreentrant_contracts ctx \<Longrightarrow> exit_frame (enter_frame c m p ctx) = ctx"
  by (simp add: exit_frame_def enter_frame_def)

lemma enter_run:
  "enter c m p s =
     (if c |\<in>| cc_active_nonreentrant_contracts (call_ctx s) then (Inl (Err ReentrancyViolation), s)
      else (Inr (), s\<lparr>call_ctx := enter_frame c m p (call_ctx s)\<rparr>))"
  by (simp add: enter_def exec_simps)

definition entered :: "contract_id \<Rightarrow> call_method \<Rightarrow> principal \<Rightarrow> exec_state \<Rightarrow> exec_state" where
  "entered c m p s = s\<lparr>call_ctx := enter_frame c m p (call_ctx s)\<rparr>"

lemma framed_run:
  "andthen (enter c m p) (finally_do body exit_call) s =
     (if c |\<in>| cc_active_nonreentrant_contracts (call_ctx s) then (Inl (Err ReentrancyViolation), s)
      else case body (entered c m p s) of (r, t) \<Rightarrow> (r, exit_call t))"
  by (simp add: bind_def enter_run finally_do_def entered_def split: prod.split)

lemma framed_withinI:
  assumes "within K F body"
    and "\<And>s. F (Err ReentrancyViolation) s s"
    and "\<And>s t. c |\<notin>| cc_active_nonreentrant_contracts (call_ctx s) \<Longrightarrow>
      K (entered c m p s) t \<Longrightarrow> K s (exit_call t)"
    and "\<And>s t e. c |\<notin>| cc_active_nonreentrant_contracts (call_ctx s) \<Longrightarrow>
      F e (entered c m p s) t \<Longrightarrow> F e s (exit_call t)"
  shows "within K F (andthen (enter c m p) (finally_do body exit_call))"
proof (rule withinI)
  fix s x t
  assume "andthen (enter c m p) (finally_do body exit_call) s = (Inr x, t)"
  then show "K s t"
    using assms(1,3) by (auto simp: framed_run split: if_splits prod.splits dest: within_okD)
next
  fix s e t
  assume "andthen (enter c m p) (finally_do body exit_call) s = (Inl e, t)"
  then show "F e s t"
    using assms(1,2,4) by (auto simp: framed_run split: if_splits prod.splits dest: within_errD)
qed

lemma same_frame_framed:
  "c |\<notin>| cc_active_nonreentrant_contracts (call_ctx s) \<Longrightarrow> same_frame (entered c m p s) t \<Longrightarrow>
   same_frame s (exit_call t)"
  by (simp add: same_frame_def entered_def exit_call_def exit_enter_frame)

lemma same_frame_refl [simp]: "same_frame s s"
  by (simp add: same_frame_def)

lemma frame_leaf:
  "within same_frame (\<lambda>_. same_frame) (contracts_insert c r)"
  "within same_frame (\<lambda>_. same_frame) (certificate_nonce_insert n)"
  "within same_frame (\<lambda>_. same_frame) (outbox_append msg)"
  "within same_frame (\<lambda>_. same_frame) (pause_insert c)"
  "within same_frame (\<lambda>_. same_frame) (pause_remove c)"
  "within same_frame (\<lambda>_. same_frame) (upgrade_insert i u)"
  "within same_frame (\<lambda>_. same_frame) (policy_update_insert i pu)"
  "within same_frame (\<lambda>_. same_frame) (update_contract c f)"
  "within same_frame (\<lambda>_. same_frame) (module_insert h module)"
  by (simp_all add: same_frame_def write_defs within_def modify_def split: option.split)

interpretation frame: call_relation same_frame "\<lambda>_. same_frame" "\<lambda>_. True" E "\<lambda>_. False" for E
  by unfold_locales
    (simp_all add: frame_writes.any_within frame_writes.registry_within
      frame_writes.emit_within frame_leaf framed_withinI same_frame_framed)

section \<open>Logs only grow\<close>

definition logs_extend :: "exec_state \<Rightarrow> exec_state \<Rightarrow> bool" where
  "logs_extend s t \<longleftrightarrow>
     prefix (events s) (events t) \<and> prefix (cross_shard_outbox s) (cross_shard_outbox t)
     \<and> used_certificate_nonces s |\<subseteq>| used_certificate_nonces t
     \<and> outbound_message_ids s |\<subseteq>| outbound_message_ids t"

interpretation log_writes: storage_relation logs_extend "\<lambda>_. logs_extend" "\<lambda>_. True" plain_value
  by unfold_locales (auto simp: logs_extend_def write_defs within_def modify_def)

lemma log_leaf:
  "within logs_extend (\<lambda>_. logs_extend) (contracts_insert c r)"
  "within logs_extend (\<lambda>_. logs_extend) (certificate_nonce_insert n)"
  "within logs_extend (\<lambda>_. logs_extend) (outbox_append msg)"
  "within logs_extend (\<lambda>_. logs_extend) (pause_insert c)"
  "within logs_extend (\<lambda>_. logs_extend) (pause_remove c)"
  "within logs_extend (\<lambda>_. logs_extend) (upgrade_insert i u)"
  "within logs_extend (\<lambda>_. logs_extend) (policy_update_insert i pu)"
  "within logs_extend (\<lambda>_. logs_extend) (update_contract c f)"
  "within logs_extend (\<lambda>_. logs_extend) (module_insert h module)"
  by (auto simp: logs_extend_def write_defs within_def modify_def split: option.split)

lemma logs_extend_refl [simp]: "logs_extend s s"
  by (simp add: logs_extend_def)

lemma logs_extend_framed:
  "logs_extend (entered c m p s) t \<Longrightarrow> logs_extend s (exit_call t)"
  by (simp add: logs_extend_def entered_def exit_call_def)

interpretation logs: call_relation logs_extend "\<lambda>_. logs_extend" "\<lambda>_. True" E "\<lambda>_. False" for E
  by unfold_locales
    (simp_all add: log_writes.any_within log_writes.registry_within
      log_writes.emit_within log_leaf framed_withinI logs_extend_framed)

section \<open>Consumed bridge messages stay consumed\<close>

definition consumed :: "'z state_of \<Rightarrow> contract_id \<Rightarrow> string \<Rightarrow> bool" where
  "consumed s c m \<longleftrightarrow> uint_at s (BridgeMessageConsumed c m) \<noteq> 0"

definition keeps_consumed :: "exec_state \<Rightarrow> exec_state \<Rightarrow> bool" where
  "keeps_consumed s t \<longleftrightarrow> (\<forall>c m. consumed s c m \<longrightarrow> consumed t c m)"

lemma keeps_consumed_same_storage: "storage t = storage s \<Longrightarrow> keeps_consumed s t"
  by (simp add: keeps_consumed_def consumed_def uint_at_def)

lemma keeps_consumed_insert:
  "plain_value key v \<Longrightarrow> within keeps_consumed (\<lambda>_. keeps_consumed) (storage_insert key v)"
  by (auto simp: keeps_consumed_def consumed_def uint_at_def storage_insert_def within_def
      modify_def plain_value_def)

interpretation consumed_writes: storage_relation keeps_consumed "\<lambda>_. keeps_consumed" "\<lambda>_. True" plain_value
proof unfold_locales
  fix s t u :: exec_state and e :: fault
  show "keeps_consumed s t \<Longrightarrow> keeps_consumed t u \<Longrightarrow> keeps_consumed s u"
    by (auto simp: keeps_consumed_def)
  then show "keeps_consumed s t \<Longrightarrow> keeps_consumed t u \<Longrightarrow> keeps_consumed s u" .
qed (simp_all add: keeps_consumed_insert,
    auto simp: write_defs within_def modify_def keeps_consumed_same_storage)

lemma consumed_leaf:
  "within keeps_consumed (\<lambda>_. keeps_consumed) (contracts_insert c r)"
  "within keeps_consumed (\<lambda>_. keeps_consumed) (certificate_nonce_insert n)"
  "within keeps_consumed (\<lambda>_. keeps_consumed) (outbox_append msg)"
  "within keeps_consumed (\<lambda>_. keeps_consumed) (pause_insert c)"
  "within keeps_consumed (\<lambda>_. keeps_consumed) (pause_remove c)"
  "within keeps_consumed (\<lambda>_. keeps_consumed) (upgrade_insert i u)"
  "within keeps_consumed (\<lambda>_. keeps_consumed) (policy_update_insert i pu)"
  "within keeps_consumed (\<lambda>_. keeps_consumed) (update_contract c f)"
  "within keeps_consumed (\<lambda>_. keeps_consumed) (module_insert h module)"
  by (auto simp: keeps_consumed_same_storage write_defs within_def modify_def
      split: option.split)

lemma keeps_consumed_framed:
  "keeps_consumed (entered c m p s) t \<Longrightarrow> keeps_consumed s (exit_call t)"
  by (simp add: keeps_consumed_def consumed_def uint_at_def entered_def exit_call_def)

interpretation consumption: call_relation keeps_consumed "\<lambda>_. keeps_consumed" "\<lambda>_. True" E "\<lambda>_. False" for E
  by unfold_locales
    (simp_all add: consumed_writes.any_within consumed_writes.registry_within
      consumed_writes.emit_within consumed_leaf framed_withinI keeps_consumed_framed
      keeps_consumed_same_storage)

end
