(* ===== verification/Call_Depth.thy ===== *)
theory Call_Depth
  imports Executor_Frame
begin

text \<open>
  The nesting depth of calls is bounded, so \<open>apply_transaction\<close> always returns. A native handler
  only calls aspect contracts (to move an aspect token) or \<open>transferFrom\<close>, which calls nothing
  further on a native contract; an aspect contract may call anything, but the reentrancy guard
  stops it from being entered again. With \<open>k\<close> aspect contracts not yet on the stack, a call of an
  aspect contract needs \<open>2 k + 1\<close> units of fuel and a call of a native one \<open>2 k + 2\<close>. The factory
  method that deploys an aspect contract and runs its initialiser needs two more and its own unit.
\<close>

section \<open>What a call leaves alone\<close>

text \<open>The aspect contracts are \<open>A\<close> and the call context is \<open>ctx\<close>; while that holds, success keeps
  it and a failure is not divergence.\<close>

definition at_depth :: "contract_id fset \<Rightarrow> call_context \<Rightarrow> exec_state \<Rightarrow> bool" where
  "at_depth A ctx s \<longleftrightarrow> aspect_contracts s = A \<and> call_ctx s = ctx"

definition keeps_depth :: "contract_id fset \<Rightarrow> call_context \<Rightarrow> exec_state \<Rightarrow> exec_state \<Rightarrow> bool" where
  "keeps_depth A ctx s t \<longleftrightarrow> (at_depth A ctx s \<longrightarrow> at_depth A ctx t)"

definition no_divergence ::
  "contract_id fset \<Rightarrow> call_context \<Rightarrow> fault \<Rightarrow> exec_state \<Rightarrow> exec_state \<Rightarrow> bool" where
  "no_divergence A ctx e s t \<longleftrightarrow> (at_depth A ctx s \<longrightarrow> e \<noteq> Diverge)"

lemma aspect_contracts_iff:
  "c |\<in>| aspect_contracts s \<longleftrightarrow>
     (\<exists>r. fmlookup (contracts s) c = Some r \<and> is_aspect_kind (cr_kind r))"
  by (auto simp: aspect_contracts_def fmlookup_dom_iff)

lemma keeps_depth_same:
  "contracts t = contracts s \<Longrightarrow> call_ctx t = call_ctx s \<Longrightarrow> keeps_depth A ctx s t"
  by (simp add: keeps_depth_def at_depth_def aspect_contracts_def)

interpretation depth_writes:
  storage_relation "keeps_depth A ctx" "no_divergence A ctx" "\<lambda>e. e \<noteq> Diverge" plain_value for A ctx
  by unfold_locales
    (simp_all add: keeps_depth_same write_defs within_def modify_def,
     simp_all add: keeps_depth_def no_divergence_def)

text \<open>A deployment adds one contract, of a native kind, at a fresh identifier.\<close>

definition adds_native :: "contract_id \<Rightarrow> exec_state \<Rightarrow> exec_state \<Rightarrow> bool" where
  "adds_native c s t \<longleftrightarrow> call_ctx t = call_ctx s
     \<and> (contracts t = contracts s \<or>
        (\<exists>r. \<not> is_aspect_kind (cr_kind r) \<and> contracts t = fmupd c r (contracts s)))"

interpretation adding: exec_relation "adds_native c" "\<lambda>e _ _. e \<noteq> Diverge" "\<lambda>e. e \<noteq> Diverge" for c
  by unfold_locales (auto simp: adds_native_def)

lemma adding_leaf:
  "within (adds_native c) (\<lambda>e _ _. e \<noteq> Diverge) (storage_insert key v)"
  "\<not> is_aspect_kind (cr_kind r) \<Longrightarrow>
   within (adds_native c) (\<lambda>e _ _. e \<noteq> Diverge) (contracts_insert c r)"
  by (auto simp: adds_native_def write_defs within_def modify_def)

lemma adding_try_res: "within (adds_native c) (\<lambda>e _ _. e \<noteq> Diverge) (try_res r)"
  by (rule adding.within_lift_result) (cases r; auto)

lemmas adding_within = adding.within_ret adding.within_gets adding.within_fail_if
  adding.within_bind adding.within_Let adding.within_for_each adding.within_case_prod
  adding_try_res adding_leaf

lemma native_records [simp]:
  "\<not> is_aspect_kind (cr_kind (token_record c h))"
  "\<not> is_aspect_kind (cr_kind (amm_pool_record c h a b ap))"
  by (simp_all add: token_record_def amm_pool_record_def is_aspect_kind_def)

lemma deploy_adding:
  "within (adds_native c) (\<lambda>e _ _. e \<noteq> Diverge) (deploy_token E c a bs)"
  "within (adds_native c) (\<lambda>e _ _. e \<noteq> Diverge) (deploy_amm_pool_with_parameters E c a b ap)"
  unfolding deploy_token_def deploy_amm_pool_with_parameters_def validate_new_contract_id_def
  by (intro adding_within; simp)+

lemma adds_native_depth:
  assumes "within (adds_native c) (\<lambda>e _ _. e \<noteq> Diverge) m"
    and "\<And>s x t. m s = (Inr x, t) \<Longrightarrow> fmlookup (contracts s) c = None"
  shows "within (keeps_depth A ctx) (no_divergence A ctx) m"
proof (rule withinI)
  fix s x t
  assume run: "m s = (Inr x, t)"
  have "aspect_contracts t = aspect_contracts s"
    using within_okD [OF assms(1) run] assms(2) [OF run]
    by (intro fset_eqI) (auto simp: adds_native_def aspect_contracts_iff split: if_splits)
  with within_okD [OF assms(1) run] show "keeps_depth A ctx s t"
    by (auto simp: keeps_depth_def at_depth_def adds_native_def)
next
  fix s e t
  assume "m s = (Inl e, t)"
  with within_errD [OF assms(1)] show "no_divergence A ctx e s t"
    by (auto simp: no_divergence_def)
qed

lemma bind_first: "bind m k s = (Inr y, t) \<Longrightarrow> \<exists>x u. m s = (Inr x, u)"
  by (auto simp: bind_Inr_iff)

lemma validate_new_run:
  "validate_new_contract_id c s = (Inr x, t) \<longleftrightarrow> c \<noteq> [] \<and> fmlookup (contracts s) c = None \<and> t = s"
  by (auto simp: validate_new_contract_id_def run_Inr)

lemma deploy_fresh:
  "deploy_token E c a bs s = (Inr x, t) \<Longrightarrow> fmlookup (contracts s) c = None"
  "deploy_amm_pool_with_parameters E c a b ap s = (Inr x, t) \<Longrightarrow> fmlookup (contracts s) c = None"
  "deploy_aspect_contract c h i s = (Inr x, t) \<Longrightarrow> fmlookup (contracts s) c = None"
  unfolding deploy_token_def deploy_amm_pool_with_parameters_def deploy_aspect_contract_def Let_def
  by (drule bind_first, simp add: validate_new_run)+

lemma deploy_depth:
  "within (keeps_depth A ctx) (no_divergence A ctx) (deploy_token E c a bs)"
  "within (keeps_depth A ctx) (no_divergence A ctx) (deploy_amm_pool_with_parameters E c a b ap)"
  by (rule adds_native_depth, rule deploy_adding, erule deploy_fresh)+

lemma update_contract_depth:
  "keeps_manifest f \<Longrightarrow> within (keeps_depth A ctx) (no_divergence A ctx) (update_contract c f)"
proof -
  assume "keeps_manifest f"
  then have "aspect_contracts (s\<lparr>contracts := fmupd c (f r) (contracts s)\<rparr>) = aspect_contracts s"
    if "fmlookup (contracts s) c = Some r" for s :: exec_state and r
    using that by (intro fset_eqI) (auto simp: aspect_contracts_iff keeps_manifest_def)
  then show ?thesis
    by (auto simp: update_contract_def within_def modify_def keeps_depth_def at_depth_def
        split: option.split)
qed

lemma depth_leaf:
  "within (keeps_depth A ctx) (no_divergence A ctx) (certificate_nonce_insert n)"
  "within (keeps_depth A ctx) (no_divergence A ctx) (outbox_append msg)"
  "within (keeps_depth A ctx) (no_divergence A ctx) (pause_insert c)"
  "within (keeps_depth A ctx) (no_divergence A ctx) (pause_remove c)"
  "within (keeps_depth A ctx) (no_divergence A ctx) (upgrade_insert i u)"
  "within (keeps_depth A ctx) (no_divergence A ctx) (policy_update_insert i pu)"
  "within (keeps_depth A ctx) (no_divergence A ctx) (module_insert h module)"
  by (auto simp: keeps_depth_same write_defs within_def modify_def)

interpretation depth:
  leaf_relation "keeps_depth A ctx" "no_divergence A ctx" "\<lambda>e. e \<noteq> Diverge" E False "\<lambda>_. False" for A ctx E
  by unfold_locales
    (simp_all add: depth_writes.any_within depth_writes.registry_within
      depth_writes.emit_within depth_leaf deploy_depth update_contract_depth)

section \<open>Fuel suffices\<close>

text \<open>The aspect contracts a call at \<open>ctx\<close> could still enter.\<close>

definition inactive :: "contract_id fset \<Rightarrow> call_context \<Rightarrow> nat" where
  "inactive A ctx = fcard (A |-| cc_active_nonreentrant_contracts ctx)"

definition call_within ::
  "env \<Rightarrow> nat \<Rightarrow> contract_id fset \<Rightarrow> call_context \<Rightarrow> transaction \<Rightarrow> principal \<Rightarrow> bool" where
  "call_within E fuel A ctx tx p \<longleftrightarrow>
     within (keeps_depth A ctx) (no_divergence A ctx) (execute_call E fuel tx p)"

text \<open>A call with fuel left stays within the depth relation when the handlers of its target do,
  one level deeper.\<close>

lemma call_withinI:
  assumes "\<And>s. at_depth A (enter_frame (tx_target tx) (tx_method tx) p ctx) s \<Longrightarrow>
      tx_target tx |\<notin>| cc_active_nonreentrant_contracts ctx \<Longrightarrow>
      (\<forall>r. fmlookup (contracts s) (tx_target tx) = Some r \<longrightarrow>
        within (keeps_depth A (enter_frame (tx_target tx) (tx_method tx) p ctx))
          (no_divergence A (enter_frame (tx_target tx) (tx_method tx) p ctx))
          (dispatch_kind E (execute_call E fuel) tx p (cr_kind r)))"
  shows "call_within E (Suc fuel) A ctx tx p"
proof -
  let ?ctx = "enter_frame (tx_target tx) (tx_method tx) p ctx"
  let ?body = "call_body E (execute_call E fuel) tx p"
  have *: "case ?body u of (Inr x, t) \<Rightarrow> at_depth A ?ctx t | (Inl e, t) \<Rightarrow> e \<noteq> Diverge"
    if "at_depth A ctx s" and "tx_target tx |\<notin>| cc_active_nonreentrant_contracts ctx"
      and "u = entered (tx_target tx) (tx_method tx) p s" for s u
  proof -
    have u: "at_depth A ?ctx u"
      using that by (simp add: at_depth_def entered_def aspect_contracts_def)
    have "within_at (keeps_depth A ?ctx) (no_divergence A ?ctx) u ?body"
      by (rule depth.call_body_at) (use assms [OF u that(2)] in \<open>blast intro: within_atI\<close>)
    then show ?thesis
      using u
      by (auto simp: within_at_def keeps_depth_def no_divergence_def split: prod.split sum.split)
  qed
  have "call_ctx (exit_call t) = ctx \<and> aspect_contracts (exit_call t) = A"
    if "at_depth A ?ctx t" and "tx_target tx |\<notin>| cc_active_nonreentrant_contracts ctx" for t
    using that by (simp add: at_depth_def exit_call_def exit_enter_frame aspect_contracts_def)
  with * show ?thesis
    unfolding call_within_def
    by (intro withinI)
      (fastforce simp: framed_run keeps_depth_def no_divergence_def at_depth_def
        split: if_splits prod.splits)+
qed

text \<open>\<open>transferFrom\<close> on a native contract makes no calls.\<close>

lemma depth_handler:
  assumes "\<And>tx c p q n. within (keeps_depth A ctx) (no_divergence A ctx)
      (transfer_aspect_asset_balance call tx c p q n)"
    and "\<And>tx c. within (keeps_depth A ctx) (no_divergence A ctx) (route_transfer_from call tx c)"
    and "\<And>tx hc c meth vs. host \<Longrightarrow> within (keeps_depth A ctx) (no_divergence A ctx)
      (apply_aspect_call_contract call tx hc c meth vs)"
  shows "handler_relation (keeps_depth A ctx) (no_divergence A ctx) (\<lambda>e. e \<noteq> Diverge) E False (\<lambda>_. False) call host"
  by unfold_locales (simp_all add: assms)

lemma transfer_from_dispatch:
  assumes "tx_method tx = TransferFrom" and "\<not> is_aspect_kind kind"
  shows "within (keeps_depth A ctx) (no_divergence A ctx) (dispatch_kind E call tx p kind)"
  using assms
  by (cases kind)
    (simp_all add: dispatch_kind_def dispatch_token_def dispatch_amm_def dispatch_oracle_def
      dispatch_bridge_def dispatch_governance_def dispatch_lending_def dispatch_staking_def
      dispatch_router_def dispatch_factory_def dispatch_account_registry_def is_aspect_kind_def
      depth.fail_within depth.transfer_from_within)

lemma aspect_kind_iff:
  "at_depth A ctx s \<Longrightarrow> fmlookup (contracts s) c = Some r \<Longrightarrow> is_aspect_kind (cr_kind r) \<longleftrightarrow> c |\<in>| A"
  by (auto simp: at_depth_def aspect_contracts_iff)

lemma transfer_from_call:
  "tx_method tx = TransferFrom \<Longrightarrow> tx_target tx |\<notin>| A \<Longrightarrow> 1 \<le> fuel \<Longrightarrow> call_within E fuel A ctx tx p"
  by (cases fuel) (auto simp: aspect_kind_iff intro!: call_withinI transfer_from_dispatch)

text \<open>The two bounds.\<close>

definition aspect_bound :: "env \<Rightarrow> contract_id fset \<Rightarrow> nat \<Rightarrow> bool" where
  "aspect_bound E A k \<longleftrightarrow> (\<forall>ctx fuel tx p. inactive A ctx \<le> k \<longrightarrow> tx_target tx |\<in>| A \<longrightarrow>
     2 * k + 1 \<le> fuel \<longrightarrow> call_within E fuel A ctx tx p)"

definition native_bound :: "env \<Rightarrow> contract_id fset \<Rightarrow> nat \<Rightarrow> bool" where
  "native_bound E A k \<longleftrightarrow> (\<forall>ctx fuel tx p. inactive A ctx \<le> k \<longrightarrow> tx_target tx |\<notin>| A \<longrightarrow>
     tx_method tx \<noteq> DeployAspectContract \<longrightarrow> 2 * k + 2 \<le> fuel \<longrightarrow> call_within E fuel A ctx tx p)"

lemma inactive_enter:
  "c |\<notin>| A \<Longrightarrow> inactive A (enter_frame c m p ctx) = inactive A ctx"
  "c |\<in>| A \<Longrightarrow> c |\<notin>| cc_active_nonreentrant_contracts ctx \<Longrightarrow>
   Suc (inactive A (enter_frame c m p ctx)) = inactive A ctx"
proof -
  let ?act = "cc_active_nonreentrant_contracts ctx"
  have eq: "inactive A (enter_frame c m p ctx) = fcard ((A |-| ?act) |-| {|c|})"
    unfolding inactive_def by (rule arg_cong [where f = fcard]) (auto simp: enter_frame_def)
  show "c |\<notin>| A \<Longrightarrow> inactive A (enter_frame c m p ctx) = inactive A ctx"
    unfolding eq by (simp add: inactive_def)
  show "Suc (inactive A (enter_frame c m p ctx)) = inactive A ctx" if "c |\<in>| A" "c |\<notin>| ?act"
    unfolding eq unfolding inactive_def by (rule fcard_Suc_fminus1) (simp add: that)
qed

lemma transfer_aspect_depth:
  assumes "\<And>tx p. tx_target tx |\<in>| A \<Longrightarrow> within (keeps_depth A ctx) (no_divergence A ctx) (call tx p)"
  shows "within (keeps_depth A ctx) (no_divergence A ctx) (transfer_aspect_asset_balance call tx c p q n)"
proof (cases "c |\<in>| A")
  case True
  then have "within (keeps_depth A ctx) (no_divergence A ctx)
      (call (asset_transfer_tx tx c p q n) p)"
    by (intro assms) (simp add: asset_transfer_tx_def)
  then show ?thesis
    unfolding transfer_aspect_asset_balance_def by (intro depth.op_within)
next
  case False
  then have "transfer_aspect_asset_balance call tx c p q n s = (r, t) \<Longrightarrow> at_depth A ctx s \<Longrightarrow>
      \<exists>e. r = Inl (Err e)" for s r t
    by (auto simp: transfer_aspect_asset_balance_def exec_simps aspect_kind_iff
        split: option.splits if_splits)
  then show ?thesis
    by (intro withinI) (fastforce simp: keeps_depth_def no_divergence_def)+
qed

lemma native_from_aspect:
  assumes "aspect_bound E A k"
  shows "native_bound E A k"
  unfolding native_bound_def
proof (intro allI impI)
  fix ctx fuel p and tx :: transaction
  assume k: "inactive A ctx \<le> k" and target: "tx_target tx |\<notin>| A"
    and deploy: "tx_method tx \<noteq> DeployAspectContract" and fuel: "2 * k + 2 \<le> fuel"
  then obtain f where f: "fuel = Suc f" "2 * k + 1 \<le> f" by (cases fuel) auto
  let ?ctx = "enter_frame (tx_target tx) (tx_method tx) p ctx"
  have aspects: "within (keeps_depth A ?ctx) (no_divergence A ?ctx) (execute_call E f tx' p')"
    if "tx_target tx' |\<in>| A" for tx' p'
    using assms that k f target
    by (simp add: aspect_bound_def call_within_def inactive_enter)
  have "within (keeps_depth A ?ctx) (no_divergence A ?ctx) (execute_call E f (route_tx tx' c) p')"
    for tx' c p'
    using aspects [of "route_tx tx' c"] transfer_from_call [of "route_tx tx' c" A f] f
    by (cases "c |\<in>| A") (auto simp: route_tx_def call_within_def)
  then have "handler_relation (keeps_depth A ?ctx) (no_divergence A ?ctx) (\<lambda>e. e \<noteq> Diverge) E False
      (\<lambda>_. False)      (execute_call E f) False"
    by (intro depth_handler transfer_aspect_depth aspects)
      (auto simp: route_transfer_from_def intro!: depth.op_within)
  then show "call_within E fuel A ctx tx p"
    unfolding f using deploy target
    by (intro call_withinI allI impI handler_relation.dispatch_kind_within)
      (auto simp: aspect_kind_iff)
qed

lemma depth_bounds: "aspect_bound E A k \<and> native_bound E A k"
proof (induction k)
  case 0
  have "aspect_bound E A 0"
    unfolding aspect_bound_def
  proof (intro allI impI)
    fix ctx p and fuel :: nat and tx :: transaction
    assume "inactive A ctx \<le> 0" "tx_target tx |\<in>| A" "2 * 0 + 1 \<le> fuel"
    then have "tx_target tx |\<in>| cc_active_nonreentrant_contracts ctx" "fuel = Suc (fuel - 1)"
      by (auto simp: inactive_def)
    then show "call_within E fuel A ctx tx p"
      by (metis call_withinI)
  qed
  then show ?case by (simp add: native_from_aspect)
next
  case (Suc k)
  have "aspect_bound E A (Suc k)"
    unfolding aspect_bound_def
  proof (intro allI impI)
    fix ctx fuel p and tx :: transaction
    assume k: "inactive A ctx \<le> Suc k" and target: "tx_target tx |\<in>| A" and "2 * Suc k + 1 \<le> fuel"
    then obtain f where f: "fuel = Suc f" "2 * k + 2 \<le> f" by (cases fuel) auto
    let ?ctx = "enter_frame (tx_target tx) (tx_method tx) p ctx"
    have "within (keeps_depth A ?ctx) (no_divergence A ?ctx)
        (dispatch_kind E (execute_call E f) tx p (cr_kind r))"
      if "tx_target tx |\<notin>| cc_active_nonreentrant_contracts ctx" "is_aspect_kind (cr_kind r)" for r
    proof -
      have "inactive A ?ctx \<le> k"
        using k inactive_enter(2) [OF target that(1), of "tx_method tx" p] by simp
      then have calls: "within (keeps_depth A ?ctx) (no_divergence A ?ctx) (execute_call E f tx' p')"
        if "tx_method tx' \<noteq> DeployAspectContract" for tx' p'
        using Suc that f
        by (cases "tx_target tx' |\<in>| A")
          (auto simp: aspect_bound_def native_bound_def call_within_def)
      have "handler_relation (keeps_depth A ?ctx) (no_divergence A ?ctx) (\<lambda>e. e \<noteq> Diverge) E False
      (\<lambda>_. False)          (execute_call E f) True"
        by (intro depth_handler depth.call_units_within calls)
      then show ?thesis
        using that(2)
        by (intro handler_relation.dispatch_kind_within) (auto simp: is_aspect_kind_def)
    qed
    then show "call_within E fuel A ctx tx p"
      unfolding f using target by (blast intro: call_withinI dest: aspect_kind_iff)
  qed
  then show ?case by (simp add: native_from_aspect)
qed

section \<open>Deploying an aspect contract\<close>

text \<open>The one handler that adds an aspect contract runs its initialiser right after, so a
  transaction needs fuel for one more aspect contract than the state has.\<close>

definition roomy :: "contract_id \<Rightarrow> nat \<Rightarrow> exec_state \<Rightarrow> bool" where
  "roomy c k s \<longleftrightarrow> inactive (finsert c (aspect_contracts s)) (call_ctx s) \<le> k"

definition keeps_room :: "contract_id \<Rightarrow> nat \<Rightarrow> exec_state \<Rightarrow> exec_state \<Rightarrow> bool" where
  "keeps_room c k s t \<longleftrightarrow> (roomy c k s \<longrightarrow> roomy c k t)"

definition room_suffices :: "contract_id \<Rightarrow> nat \<Rightarrow> fault \<Rightarrow> exec_state \<Rightarrow> exec_state \<Rightarrow> bool" where
  "room_suffices c k e s t \<longleftrightarrow> (roomy c k s \<longrightarrow> e \<noteq> Diverge)"

lemma depth_room:
  assumes "\<And>A ctx. within (keeps_depth A ctx) (no_divergence A ctx) m"
  shows "within (keeps_room c k) (room_suffices c k) m"
proof (rule withinI)
  fix s x t
  assume "m s = (Inr x, t)"
  then show "keeps_room c k s t"
    using within_okD [OF assms, of s x t "aspect_contracts s" "call_ctx s"]
    by (simp add: keeps_depth_def at_depth_def keeps_room_def roomy_def)
next
  fix s e t
  assume "m s = (Inl e, t)"
  then show "room_suffices c k e s t"
    using within_errD [OF assms, of s e t "aspect_contracts s" "call_ctx s"]
    by (simp add: no_divergence_def at_depth_def room_suffices_def)
qed

interpretation room:
  leaf_relation "keeps_room c k" "room_suffices c k" "\<lambda>e. e \<noteq> Diverge" E False "\<lambda>_. False" for c k E
  by unfold_locales
    (simp_all add: depth_room depth.op_within depth.state_set_within depth.update_contract_within
      depth.registry_insert_within,
     simp_all add: keeps_room_def room_suffices_def)

lemma inactive_mono: "A |\<subseteq>| B \<Longrightarrow> inactive A ctx \<le> inactive B ctx"
  unfolding inactive_def by (intro fcard_mono) auto

lemma room_contracts_insert:
  "within (keeps_room c k) (room_suffices c k) (contracts_insert c r)"
proof -
  have "aspect_contracts (s\<lparr>contracts := fmupd c r (contracts s)\<rparr>) |\<subseteq>| finsert c (aspect_contracts s)"
    for s :: exec_state
    by (auto simp: aspect_contracts_iff split: if_splits)
  then have "inactive (finsert c (aspect_contracts (s\<lparr>contracts := fmupd c r (contracts s)\<rparr>))) ctx
      \<le> inactive (finsert c (aspect_contracts s)) ctx" for s :: exec_state and ctx
    by (intro inactive_mono) auto
  then show ?thesis
    by (auto simp: contracts_insert_def within_def modify_def keeps_room_def roomy_def
        intro: order_trans)
qed

lemma room_call:
  assumes "2 * k + 2 \<le> fuel" and "tx_method tx \<noteq> DeployAspectContract"
  shows "within (keeps_room c k) (room_suffices c k) (execute_call E fuel tx p)"
proof -
  have *: "within (keeps_depth A ctx) (no_divergence A ctx) (execute_call E fuel tx p)"
    if "inactive A ctx \<le> k" for A ctx
    using depth_bounds [of E A k] assms that
    by (cases "tx_target tx |\<in>| A") (auto simp: aspect_bound_def native_bound_def call_within_def)
  have room: "inactive (aspect_contracts s) (call_ctx s) \<le> k" if "roomy c k s" for s
    using that inactive_mono [of "aspect_contracts s" "finsert c (aspect_contracts s)"]
    by (auto simp: roomy_def intro: order_trans)
  show ?thesis
  proof (rule withinI)
    fix s x t
    assume run: "execute_call E fuel tx p s = (Inr x, t)"
    have "roomy c k t" if r: "roomy c k s"
      using within_okD [OF * [OF room [OF r]] run] r
      by (simp add: keeps_depth_def at_depth_def roomy_def)
    then show "keeps_room c k s t" by (simp add: keeps_room_def)
  next
    fix s e t
    assume run: "execute_call E fuel tx p s = (Inl e, t)"
    have "e \<noteq> Diverge" if r: "roomy c k s"
      using within_errD [OF * [OF room [OF r]] run] by (simp add: no_divergence_def at_depth_def)
    then show "room_suffices c k e s t" by (simp add: room_suffices_def)
  qed
qed

lemma room_deploy:
  assumes "2 * k + 2 \<le> fuel" and "tx_args tx ! 0 = Text c"
  shows "within (keeps_room c k) (room_suffices c k)
    (deploy_aspect_contract_from_factory (execute_call E fuel) tx)"
proof -
  have "within (keeps_room c k) (room_suffices c k) (deploy_aspect_contract c h b)" for h b
    unfolding deploy_aspect_contract_def validate_new_contract_id_def
    by (intro room.op_within room_contracts_insert)
  moreover have "within (keeps_room c k) (room_suffices c k)
      (execute_call E fuel (init_tx tx c i) p)" for i p
    using assms(1) by (rule room_call) (simp add: init_tx_def)
  moreover have text0: "bind (try_res (expect_text (tx_args tx ! 0))) h = h c"
    for h :: "string \<Rightarrow> (fault, exec_state, return_value) exec"
    by (simp add: assms(2) lift_result_def)
  ultimately show ?thesis
    unfolding deploy_aspect_contract_from_factory_def Let_def text0
    by (intro room.op_within room.registry_insert_within; simp)
qed

lemma deploy_dispatch:
  assumes "tx_method tx = DeployAspectContract" and "\<not> is_aspect_kind kind" and "2 * k + 2 \<le> fuel"
    and "c = (case tx_args tx ! 0 of Text c \<Rightarrow> c | _ \<Rightarrow> [])"
  shows "within (keeps_room c k) (room_suffices c k) (dispatch_kind E (execute_call E fuel) tx p kind)"
proof -
  have "within (keeps_room c k) (room_suffices c k)
      (deploy_aspect_contract_from_factory (execute_call E fuel) tx)"
  proof (cases "\<exists>u. tx_args tx ! 0 = Text u")
    case True
    with assms show ?thesis by (auto intro: room_deploy)
  next
    case False
    then have "expect_text (tx_args tx ! 0) = Inl InvalidArguments"
      by (cases "tx_args tx ! 0") auto
    then have "bind (try_res (expect_text (tx_args tx ! 0))) h = fail InvalidArguments"
      for h :: "string \<Rightarrow> (fault, exec_state, return_value) exec"
      by (simp add: lift_result_def)
    then show ?thesis
      unfolding deploy_aspect_contract_from_factory_def Let_def
      by simp (intro room.op_within)
  qed
  with assms(1,2) show ?thesis
    by (cases kind)
      (simp_all add: dispatch_kind_def dispatch_token_def dispatch_amm_def dispatch_oracle_def
        dispatch_bridge_def dispatch_governance_def dispatch_lending_def dispatch_staking_def
        dispatch_router_def dispatch_factory_def dispatch_account_registry_def is_aspect_kind_def
        room.fail_within)
qed

text \<open>At the outermost call no contract is active, and \<open>call_fuel\<close> covers all three cases.\<close>

theorem execute_call_converges:
  assumes "cc_active_nonreentrant_contracts (call_ctx s) = {||}"
  shows "execute_call E (call_fuel s) tx p s \<noteq> (Inl Diverge, t)"
proof
  assume run: "execute_call E (call_fuel s) tx p s = (Inl Diverge, t)"
  let ?A = "aspect_contracts s" and ?ctx = "call_ctx s" and ?k = "fcard (aspect_contracts s)"
  have k: "inactive ?A ?ctx \<le> ?k" by (simp add: inactive_def assms)
  have here: "at_depth ?A ?ctx s" by (simp add: at_depth_def)
  have "tx_target tx |\<notin>| ?A \<and> tx_method tx = DeployAspectContract"
  proof (rule ccontr)
    assume "\<not> ?thesis"
    then have "call_within E (call_fuel s) ?A ?ctx tx p"
      using depth_bounds [of E ?A ?k] k
      by (cases "tx_target tx |\<in>| ?A") (auto simp: aspect_bound_def native_bound_def call_fuel_def)
    with run here show False
      by (auto simp: call_within_def no_divergence_def dest: within_errD)
  qed
  note deploy = conjunct1 [OF this] conjunct2 [OF this]
  define f where "f = 2 * ?k + 4"
  define c where "c = (case tx_args tx ! 0 of Text c \<Rightarrow> c | _ \<Rightarrow> [])"
  let ?u = "entered (tx_target tx) (tx_method tx) p s"
  have "call_fuel s = Suc f" by (simp add: call_fuel_def f_def)
  with run obtain v where body: "call_body E (execute_call E f) tx p ?u = (Inl Diverge, v)"
    by (auto simp: framed_run split: if_splits prod.splits)
  have u: "aspect_contracts ?u = ?A" "contracts ?u = contracts s"
    by (simp_all add: entered_def aspect_contracts_def)
  have "inactive (finsert c ?A) (call_ctx ?u) \<le> fcard (finsert c ?A)"
    unfolding inactive_def by (intro fcard_mono) auto
  also have "\<dots> \<le> ?k + 1" by (simp add: fcard_finsert_if)
  finally have "roomy c (?k + 1) ?u" by (simp add: roomy_def u)
  moreover have "within_at (keeps_room c (?k + 1)) (room_suffices c (?k + 1)) ?u
      (call_body E (execute_call E f) tx p)"
  proof (rule room.call_body_at, rule within_atI)
    fix r
    assume "fmlookup (contracts ?u) (tx_target tx) = Some r"
    with deploy have "\<not> is_aspect_kind (cr_kind r)"
      by (auto simp: entered_def aspect_contracts_iff)
    with deploy show "within (keeps_room c (?k + 1)) (room_suffices c (?k + 1))
        (dispatch_kind E (execute_call E f) tx p (cr_kind r))"
      by (intro deploy_dispatch) (auto simp: f_def c_def)
  qed
  ultimately show False by (simp add: within_at_def body room_suffices_def)
qed

end
