(* ===== verification/Run_Rules.thy ===== *)
theory Run_Rules
  imports Executor_Frame
begin

text \<open>
  Inversion rules: when an elementary operation succeeds and what state it leaves. With them
  \<open>simp\<close> turns a successful run of a handler into the conjunction of the guards it passed and the
  state it wrote.
\<close>

section \<open>Elementary operations, inverted\<close>

lemma state_set_run:
  "state_set frame key v s = (Inr x, t) \<longleftrightarrow>
     owner_contract key = af_contract frame \<and> write_scope_contains (af_write_scope frame) key
     \<and> t = s\<lparr>storage := fmupd key v (storage s)\<rparr>"
  by (auto simp: state_set_def storage_insert_def run_Inr)

lemmas op_run = bind_Inr_iff ret_Inr_iff throw_Inr_iff gets_Inr_iff modify_Inr_iff
  fail_if_Inr_iff ok_or_Inr_iff try_res_Inr_iff state_set_run

lemma make_frame_sel [simp]:
  "af_contract (make_frame c p keys) = c"
  "af_write_scope (make_frame c p keys) = fset_of_list keys"
  "af_msg_sender (make_frame c p keys) = p"
  by (simp_all add: make_frame_def)

lemma uint_at_upd [simp]:
  "uint_at (s\<lparr>storage := fmupd key v m\<rparr>) key' =
     (if key' = key then as_uint v else uint_at (s\<lparr>storage := m\<rparr>) key')"
  by (simp add: uint_at_def)

lemma uint_at_same [simp]: "uint_at (s\<lparr>storage := storage s\<rparr>) key = uint_at s key"
  by (simp add: uint_at_def)

section \<open>Arguments and events\<close>

lemma expect_args_Inr: "expect_args n args = Inr out \<longleftrightarrow> length args = n \<and> out = args"
  by (auto simp: expect_args_def)

lemma expect_Inr:
  "expect_principal x = Inr p \<longleftrightarrow> x = Principal p"
  "expect_asset x = Inr a \<longleftrightarrow> x = Asset a"
  "expect_amount x = Inr n \<longleftrightarrow> x = Amount n"
  "expect_text x = Inr u \<longleftrightarrow> x = Text u"
  "expect_certificate x = Inr u \<longleftrightarrow> x = Certificate u"
  by (cases x; auto)+

lemmas arg_run = expect_args_Inr expect_Inr

definition logged :: "transaction \<Rightarrow> event_payload \<Rightarrow> 'z state_of \<Rightarrow> 'z state_of" where
  "logged tx payload s =
     s\<lparr>events := events s @
       [\<lparr>ev_contract = tx_target tx, ev_tx_hash = tx_hash tx,
         ev_index = of_nat (length (events s)), ev_payload = payload\<rparr>]\<rparr>"

lemma emit_run: "emit (tx_target tx) (tx_hash tx) payload s = (Inr x, t) \<longleftrightarrow> t = logged tx payload s"
  by (auto simp: emit_def run_Inr logged_def)

lemma uint_at_logged [simp]: "uint_at (logged tx payload s) key = uint_at s key"
  by (simp add: uint_at_def logged_def)

section \<open>Allowances\<close>

text \<open>A grant that covers \<open>n\<close>, and the state after it is consumed.\<close>

definition spendable :: "'z state_of \<Rightarrow> grant_key \<Rightarrow> principal \<Rightarrow> amount \<Rightarrow> grant \<Rightarrow> bool" where
  "spendable s key spender n g \<longleftrightarrow>
     fmlookup (registry s) key = Some g \<and> g_active g \<and> \<not> g_revoked g \<and> g_subject g = spender
     \<and> SpendAllowance |\<in>| g_rights g \<and> n \<le> grant_remaining g \<and> fits (g_spent g) n"

definition spent ::
  "grant_key \<Rightarrow> grant \<Rightarrow> amount \<Rightarrow> 'z state_of \<Rightarrow> 'z state_of" where
  "spent key g n s = s\<lparr>registry := fmupd key (g\<lparr>g_spent := g_spent g + n\<rparr>) (registry s)\<rparr>"

lemma consume_allowance_run:
  "consume_allowance c owner spender a n s = (Inr x, t) \<longleftrightarrow>
     (\<exists>g. spendable s (Allowance c owner spender a) spender n g
        \<and> t = spent (Allowance c owner spender a) g n s)"
  by (auto simp: consume_allowance_def Let_def op_run registry_insert_def spendable_def not_less
      checked_add_conv spent_def)

lemma ex_image_conj: "(\<exists>u. (\<exists>g. P g \<and> u = f g) \<and> Q u) \<longleftrightarrow> (\<exists>g. P g \<and> Q (f g))"
  by blast

end
