(* ===== verification/Token_Supply.thy ===== *)
theory Token_Supply
  imports Run_Rules
begin

text \<open>
  The supply invariant of the native tokens: for every contract and asset, the recorded total
  supply is the sum of the recorded balances. Every operation that commits preserves it.
\<close>

section \<open>The invariant\<close>

definition balance_sum :: "'z state_of \<Rightarrow> contract_id \<Rightarrow> asset_id \<Rightarrow> nat" where
  "balance_sum s c a = fm_sum (is_balance_of c a) (\<lambda>v. unat (as_uint v)) (storage s)"

definition supply_ok :: "'z state_of \<Rightarrow> bool" where
  "supply_ok s \<longleftrightarrow> (\<forall>c a. balance_sum s c a = unat (total_supply s c a))"

lemma checked_sum_Some:
  "checked_sum P s = Some n \<longleftrightarrow> unat n = fm_sum P (\<lambda>v. unat (as_uint v)) (storage s)"
  by (simp add: checked_sum_def try_fold_add_Some comp_def flip: sum_values_where)

lemma token_invariants_iff:
  "token_invariants_hold s c a \<longleftrightarrow> balance_sum s c a = unat (total_supply s c a)"
  by (auto simp: token_invariants_hold_def balance_sum_def checked_sum_Some)

lemma balance_sum_upd_other [simp]:
  "\<not> is_balance_of c a key \<Longrightarrow>
   balance_sum (s\<lparr>storage := fmupd key v m\<rparr>) c a = balance_sum (s\<lparr>storage := m\<rparr>) c a"
  by (simp add: balance_sum_def)

lemma balance_sum_same [simp]: "balance_sum (s\<lparr>storage := storage s\<rparr>) c a = balance_sum s c a"
  by (simp add: balance_sum_def)

lemma balance_sum_upd:
  "balance_sum (s\<lparr>storage := fmupd (Balance c p a) v m\<rparr>) c a
     + unat (uint_at (s\<lparr>storage := m\<rparr>) (Balance c p a))
   = balance_sum (s\<lparr>storage := m\<rparr>) c a + unat (as_uint v)"
  using fm_sum_upd [of "is_balance_of c a" "Balance c p a" "\<lambda>v. unat (as_uint v)" v m]
  by (simp add: balance_sum_def uint_at_def split: option.splits)

lemma balance_le_sum: "unat (balance s c p a) \<le> balance_sum s c a"
  using fm_sum_member [of "is_balance_of c a" "Balance c p a" "storage s" _ "\<lambda>v. unat (as_uint v)"]
  by (cases "fmlookup (storage s) (Balance c p a)")
    (auto simp: balance_def uint_at_def balance_sum_def)

text \<open>Two states that agree on the entries of every token but one.\<close>

definition touches :: "contract_id \<Rightarrow> asset_id \<Rightarrow> 'z state_of \<Rightarrow> 'z state_of \<Rightarrow> bool" where
  "touches c a s t \<longleftrightarrow>
     (\<forall>c' a'. (c', a') \<noteq> (c, a) \<longrightarrow>
        balance_sum t c' a' = balance_sum s c' a' \<and> total_supply t c' a' = total_supply s c' a')"

lemma touches_supply_ok:
  "touches c a s t \<Longrightarrow> token_invariants_hold t c a \<Longrightarrow> supply_ok s \<Longrightarrow> supply_ok t"
  unfolding touches_def supply_ok_def token_invariants_iff by (metis prod.inject)

lemma touches_refl [simp]: "touches c a s s"
  by (simp add: touches_def)

lemma touches_trans: "touches c a s t \<Longrightarrow> touches c a t u \<Longrightarrow> touches c a s u"
  by (simp add: touches_def)

lemma touches_upd_balance: "touches c a s (s\<lparr>storage := fmupd (Balance c p a) v (storage s)\<rparr>)"
  by (auto simp: touches_def total_supply_def)

lemma touches_upd_supply: "touches c a s (s\<lparr>storage := fmupd (TotalSupply c a) v (storage s)\<rparr>)"
  by (auto simp: touches_def total_supply_def)

lemma touches_upd_contracts: "touches c a s (s\<lparr>contracts := m\<rparr>)"
  by (simp add: touches_def total_supply_def balance_sum_def uint_at_def)

section \<open>Token operations\<close>

text \<open>The state after moving \<open>n\<close> units of an asset.\<close>

definition moved ::
  "contract_id \<Rightarrow> principal \<Rightarrow> principal \<Rightarrow> asset_id \<Rightarrow> amount \<Rightarrow> 'z state_of \<Rightarrow> 'z state_of" where
  "moved c p q a n s =
     s\<lparr>storage := fmupd (Balance c q a) (UInt (balance s c q a + n))
       (fmupd (Balance c p a) (UInt (balance s c p a - n)) (storage s))\<rparr>"

lemma touches_moved: "touches c a s (moved c p q a n s)"
  unfolding moved_def by (auto simp: touches_def total_supply_def)

lemma moved_supply:
  "token_invariants_hold (moved c p q a n s) c a \<Longrightarrow> supply_ok s \<Longrightarrow> supply_ok (moved c p q a n s)"
  by (rule touches_supply_ok [OF touches_moved])

lemma transfer_native_run:
  "transfer_native_asset_balance c p q a n s = (Inr x, t) \<longleftrightarrow>
     n \<le> balance s c p a \<and> fits (balance s c q a) n
     \<and> t = moved c p q a n s \<and> token_invariants_hold t c a"
  by (auto simp: transfer_native_asset_balance_def op_run balance_def moved_def Let_def
      not_less checked_add_conv fset_of_list.rep_eq)

lemma transfer_native_supply:
  "transfer_native_asset_balance c p q a n s = (Inr x, t) \<Longrightarrow> supply_ok s \<Longrightarrow> supply_ok t"
  by (auto simp: transfer_native_run moved_supply)

text \<open>The state after minting.\<close>

definition minted ::
  "contract_id \<Rightarrow> principal \<Rightarrow> asset_id \<Rightarrow> amount \<Rightarrow> 'z state_of \<Rightarrow> 'z state_of" where
  "minted c q a n s =
     s\<lparr>storage := fmupd (Balance c q a) (UInt (balance s c q a + n))
       (fmupd (TotalSupply c a) (UInt (total_supply s c a + n)) (storage s))\<rparr>"

lemma mint_native_run:
  "mint_native_asset_balance c q a n s = (Inr x, t) \<longleftrightarrow>
     fits (total_supply s c a) n \<and> fits (balance s c q a) n
     \<and> t = minted c q a n s \<and> token_invariants_hold t c a"
  by (auto simp: mint_native_asset_balance_def op_run balance_def total_supply_def minted_def
      Let_def not_less checked_add_conv fset_of_list.rep_eq)

lemma mint_native_supply:
  assumes "mint_native_asset_balance c q a n s = (Inr x, t)" "supply_ok s"
  shows "supply_ok t"
proof -
  have "touches c a s (minted c q a n s)"
    by (auto simp: touches_def minted_def total_supply_def)
  with assms show ?thesis by (auto simp: mint_native_run intro: touches_supply_ok)
qed

section \<open>The token contract\<close>

lemma balance_sum_logged [simp]: "balance_sum (logged tx payload s) c a = balance_sum s c a"
  by (simp add: balance_sum_def logged_def)

lemma token_state_logged [simp]:
  "total_supply (logged tx payload s) c a = total_supply s c a"
  "balance (logged tx payload s) c p a = balance s c p a"
  "supply_ok (logged tx payload s) = supply_ok s"
  "token_invariants_hold (logged tx payload s) c a = token_invariants_hold s c a"
  by (simp_all add: total_supply_def balance_def supply_ok_def token_invariants_iff)

lemma transfer_run:
  "transfer tx p s = (Inr v, t) \<longleftrightarrow>
     v = RUnit \<and> (\<exists>q a n. tx_args tx = [Principal q, Asset a, Amount n]
       \<and> n \<le> balance s (tx_target tx) p a \<and> fits (balance s (tx_target tx) q a) n
       \<and> token_invariants_hold (moved (tx_target tx) p q a n s) (tx_target tx) a
       \<and> t = logged tx (EvTransfer p q a n) (moved (tx_target tx) p q a n s))"
  unfolding transfer_def
  by (auto simp: op_run arg_run balance_def moved_def Let_def not_less checked_add_conv emit_run
      fset_of_list.rep_eq numeral_3_eq_3 length_Suc_conv)


lemma token_state_spent [simp]:
  "uint_at (spent key g n s) k = uint_at s k"
  "supply_ok (spent key g n s) = supply_ok s"
  "balance (spent key g n s) c p a = balance s c p a"
  "storage (spent key g n s) = storage s"
  by (simp_all add: uint_at_def supply_ok_def total_supply_def balance_def balance_sum_def
      spent_def)

lemma transfer_from_run:
  "transfer_from tx p s = (Inr v, t) \<longleftrightarrow>
     v = RUnit \<and> (\<exists>owner q a n g. tx_args tx = [Principal owner, Principal q, Asset a, Amount n]
       \<and> spendable s (Allowance (tx_target tx) owner p a) p n g
       \<and> n \<le> balance s (tx_target tx) owner a \<and> fits (balance s (tx_target tx) q a) n
       \<and> token_invariants_hold
           (moved (tx_target tx) owner q a n (spent (Allowance (tx_target tx) owner p a) g n s))
           (tx_target tx) a
       \<and> t = logged tx (EvTransfer owner q a n)
           (moved (tx_target tx) owner q a n (spent (Allowance (tx_target tx) owner p a) g n s)))"
  unfolding transfer_from_def
  by (auto simp: op_run arg_run consume_allowance_run ex_image_conj balance_def moved_def Let_def
      not_less checked_add_conv emit_run fset_of_list.rep_eq numeral_eq_Suc length_Suc_conv)

section \<open>Every call keeps the invariant\<close>

definition keeps_supply :: "'z state_of \<Rightarrow> 'z state_of \<Rightarrow> bool" where
  "keeps_supply s t \<longleftrightarrow> (supply_ok s \<longrightarrow> supply_ok t)"

interpretation supply_rel: exec_relation keeps_supply "\<lambda>_ _ _. True" "\<lambda>_. True"
  by unfold_locales (simp_all add: keeps_supply_def)

interpretation touching: exec_relation "touches c a" "\<lambda>_ _ _. True" "\<lambda>_. True" for c a
  by unfold_locales (auto intro: touches_refl touches_trans)

lemma keeps_supply_same_storage: "storage t = storage s \<Longrightarrow> keeps_supply s t"
  by (simp add: keeps_supply_def supply_ok_def balance_sum_def total_supply_def uint_at_def)

fun is_token_key :: "state_key \<Rightarrow> bool" where
  "is_token_key (Balance _ _ _) = True"
| "is_token_key (TotalSupply _ _) = True"
| "is_token_key _ = False"

lemma keeps_supply_upd:
  "\<not> is_token_key key \<Longrightarrow> keeps_supply s (s\<lparr>storage := fmupd key v (storage s)\<rparr>)"
  by (cases key) (simp_all add: keeps_supply_def supply_ok_def total_supply_def)

lemma supply_storage_insert:
  "\<not> is_token_key key \<Longrightarrow> within keeps_supply (\<lambda>_ _ _. True) (storage_insert key v)"
  by (simp add: storage_insert_def supply_rel.within_modify keeps_supply_upd)

lemma supply_state_set:
  "\<not> is_token_key key \<Longrightarrow> within keeps_supply (\<lambda>_ _ _. True) (state_set frame key v)"
  unfolding state_set_def by (intro supply_rel.within_rules supply_storage_insert) simp_all

lemma supply_deploy_token: "within keeps_supply (\<lambda>_ _ _. True) (deploy_token E c a bs)"
proof (rule withinI)
  fix s :: "'z state_of" and x t
  assume run: "deploy_token E c a bs s = (Inr x, t)"
  have "within (touches c a) (\<lambda>_ _ _. True) (deploy_token E c a bs :: ('z, unit) op)"
    unfolding deploy_token_def validate_new_contract_id_def
      storage_insert_def contracts_insert_def
    by (intro touching.within_rules touching.within_modify;
        simp add: touches_upd_balance touches_upd_supply touches_upd_contracts)
  then have "touches c a s t"
    using run by (rule within_okD)
  moreover have "token_invariants_hold t c a"
    using run by (auto simp: deploy_token_def run_Inr Let_def)
  ultimately show "keeps_supply s t"
    by (auto simp: keeps_supply_def intro: touches_supply_ok)
qed simp

interpretation supply_quiet: quiet_relation keeps_supply "\<lambda>_ _ _. True" "\<lambda>_. True"
  by unfold_locales (simp_all add: keeps_supply_same_storage)

lemma supply_contracts:
  "within keeps_supply (\<lambda>_ _ _. True) (contracts_insert c r)"
  "within keeps_supply (\<lambda>_ _ _. True) (update_contract c f)"
  by (auto simp: keeps_supply_same_storage write_defs within_def modify_def split: option.split)

lemma supply_tokens:
  "within keeps_supply (\<lambda>_ _ _. True) (transfer_native_asset_balance c p q a n)"
  "within keeps_supply (\<lambda>_ _ _. True) (mint_native_asset_balance c p a n)"
  by (rule withinI; auto simp: keeps_supply_def transfer_native_supply mint_native_supply)+

lemma supply_transfers:
  "within keeps_supply (\<lambda>_ _ _. True) (transfer tx p)"
  "within keeps_supply (\<lambda>_ _ _. True) (transfer_from tx p)"
  by (rule withinI; auto simp: keeps_supply_def transfer_run transfer_from_run moved_supply)+

lemma supply_deploy_amm:
  "within keeps_supply (\<lambda>_ _ _. True) (deploy_amm_pool_with_parameters E c a b ap)"
  unfolding deploy_amm_pool_with_parameters_def validate_new_contract_id_def
  by (intro supply_rel.within_rules supply_storage_insert supply_contracts) simp_all

lemma supply_deploy_aspect:
  "within keeps_supply (\<lambda>_ _ _. True) (deploy_aspect_contract c h b)"
  unfolding deploy_aspect_contract_def validate_new_contract_id_def
  by (intro supply_rel.within_rules supply_contracts) simp_all

lemma keeps_supply_framed: "keeps_supply (entered c m p s) t \<Longrightarrow> keeps_supply s (exit_call t)"
  by (simp add: keeps_supply_def supply_ok_def entered_def exit_call_def balance_sum_def
      total_supply_def uint_at_def)

lemma plain_not_token: "plain_write key v \<Longrightarrow> \<not> is_token_key key"
  by (cases key) simp_all

interpretation supply_calls: call_relation keeps_supply "\<lambda>_ _ _. True" "\<lambda>_. True" E "\<lambda>_. False" for E
  by unfold_locales
    (simp_all add: supply_state_set plain_not_token supply_quiet.quiet_within
      supply_contracts supply_tokens supply_transfers
      supply_deploy_token supply_deploy_amm supply_deploy_aspect
      framed_withinI keeps_supply_framed)

end
