(* ===== verification/Transactions.thy ===== *)
theory Transactions
  imports Call_Depth Token_Supply
begin

text \<open>
  \<open>apply_transaction\<close> as a whole: it always returns a receipt, a transaction that does not commit
  changes nothing but the nonce set, no nonce is accepted twice, and what every call keeps (the
  frame, the logs, the token supply, consumed bridge messages, contract kinds) every transaction
  keeps.
\<close>

section \<open>Between the two state types\<close>

lemma with_call_ctx_sel [simp]:
  "chain_id (with_call_ctx s ctx) = chain_id s"
  "height (with_call_ctx s ctx) = height s"
  "finalized_block_hash (with_call_ctx s ctx) = finalized_block_hash s"
  "contracts (with_call_ctx s ctx) = contracts s"
  "aspect_modules (with_call_ctx s ctx) = aspect_modules s"
  "storage (with_call_ctx s ctx) = storage s"
  "registry (with_call_ctx s ctx) = registry s"
  "used_nonces (with_call_ctx s ctx) = used_nonces s"
  "used_certificate_nonces (with_call_ctx s ctx) = used_certificate_nonces s"
  "paused_contracts (with_call_ctx s ctx) = paused_contracts s"
  "scheduled_upgrades (with_call_ctx s ctx) = scheduled_upgrades s"
  "scheduled_policy_updates (with_call_ctx s ctx) = scheduled_policy_updates s"
  "trusted_bridge_validator_sets (with_call_ctx s ctx) = trusted_bridge_validator_sets s"
  "outbound_message_ids (with_call_ctx s ctx) = outbound_message_ids s"
  "cross_shard_outbox (with_call_ctx s ctx) = cross_shard_outbox s"
  "events (with_call_ctx s ctx) = events s"
  "call_ctx (with_call_ctx s ctx) = ctx"
  by (simp_all add: with_call_ctx_def detta_state.defs exec_state.defs)

lemma truncate_sel [simp]:
  "chain_id (detta_state.truncate u) = chain_id u"
  "height (detta_state.truncate u) = height u"
  "finalized_block_hash (detta_state.truncate u) = finalized_block_hash u"
  "contracts (detta_state.truncate u) = contracts u"
  "aspect_modules (detta_state.truncate u) = aspect_modules u"
  "storage (detta_state.truncate u) = storage u"
  "registry (detta_state.truncate u) = registry u"
  "used_nonces (detta_state.truncate u) = used_nonces u"
  "used_certificate_nonces (detta_state.truncate u) = used_certificate_nonces u"
  "paused_contracts (detta_state.truncate u) = paused_contracts u"
  "scheduled_upgrades (detta_state.truncate u) = scheduled_upgrades u"
  "scheduled_policy_updates (detta_state.truncate u) = scheduled_policy_updates u"
  "trusted_bridge_validator_sets (detta_state.truncate u) = trusted_bridge_validator_sets u"
  "outbound_message_ids (detta_state.truncate u) = outbound_message_ids u"
  "cross_shard_outbox (detta_state.truncate u) = cross_shard_outbox u"
  "events (detta_state.truncate u) = events u"
  by (simp_all add: detta_state.truncate_def)

section \<open>The outcomes of a transaction\<close>

definition nonce_used :: "transaction \<Rightarrow> detta_state \<Rightarrow> detta_state" where
  "nonce_used tx s = s\<lparr>used_nonces := finsert (tx_sender tx, tx_nonce tx) (used_nonces s)\<rparr>"

definition started :: "transaction \<Rightarrow> detta_state \<Rightarrow> exec_state" where
  "started tx s = with_call_ctx (nonce_used tx s) (new_call_context (tx_sender tx))"

lemma started_converges:
  "execute_call E (call_fuel (nonce_used tx s)) tx p (started tx s) \<noteq> (Inl Diverge, u)"
proof -
  have "call_fuel (nonce_used tx s) = call_fuel (started tx s)"
    by (simp add: call_fuel_def aspect_contracts_def started_def)
  then show ?thesis
    by (simp add: execute_call_converges started_def new_call_context_def)
qed

lemma restore_framed:
  assumes "same_frame (started tx s) u"
  shows "restore_checkpoints (nonce_used tx s) (detta_state.truncate u) = nonce_used tx s"
  using assms
  by (intro detta_state.equality)
    (simp_all add: same_frame_def started_def restore_checkpoints_def)

text \<open>What \<open>apply_transaction\<close> returns.\<close>

definition runs_to ::
  "env \<Rightarrow> transaction \<Rightarrow> detta_state \<Rightarrow> return_value \<Rightarrow> exec_state \<Rightarrow> bool" where
  "runs_to E tx s v u \<longleftrightarrow>
     execute_call E (call_fuel (nonce_used tx s)) tx (tx_sender tx) (started tx s) = (Inr v, u)"

lemma run_call_conv:
  "run_call E tx (nonce_used tx s) =
     (case execute_call E (call_fuel (nonce_used tx s)) tx (tx_sender tx) (started tx s) of
        (Inr v, t) \<Rightarrow> Some (Inr v, detta_state.truncate t)
      | (Inl (Err e), t) \<Rightarrow> Some (Inl e, detta_state.truncate t)
      | (Inl Diverge, t) \<Rightarrow> None)"
  by (simp add: run_call_def started_def)

lemma run_call_restore:
  assumes "run_call E tx (nonce_used tx s) = Some (Inl e, t)"
  shows "restore_checkpoints (nonce_used tx s) t = nonce_used tx s"
proof -
  obtain u where "execute_call E (call_fuel (nonce_used tx s)) tx (tx_sender tx) (started tx s)
      = (Inl (Err e), u)" and t: "t = detta_state.truncate u"
    using assms by (auto simp: run_call_conv split: prod.splits sum.splits fault.splits)
  then have "same_frame (started tx s) u"
    using frame.execute_call_within by (blast dest: within_errD)
  then show ?thesis by (simp add: t restore_framed)
qed

lemma receipt_sel [simp]:
  "rc_status (committed_receipt E s h v n) = Committed"
  "rc_status (reverted_receipt E s h e n) = Reverted"
  "rc_status (rejected_receipt E s h e) = Rejected"
  "rc_error (committed_receipt E s h v n) = None"
  "rc_error (reverted_receipt E s h e n) = Some e"
  "rc_error (rejected_receipt E s h e) = Some e"
  "rc_return_value (committed_receipt E s h v n) = Some v"
  "rc_tx_hash (committed_receipt E s h v n) = h"
  "rc_tx_hash (reverted_receipt E s h e n) = h"
  "rc_tx_hash (rejected_receipt E s h e) = h"
  "rc_global_state_root_after (committed_receipt E s h v n) = global_state_root E s"
  "rc_global_state_root_after (reverted_receipt E s h e n) = global_state_root E s"
  "rc_global_state_root_after (rejected_receipt E s h e) = global_state_root E s"
  by (simp_all add: committed_receipt_def reverted_receipt_def rejected_receipt_def
      make_receipt_def)

definition rejection :: "transaction \<Rightarrow> detta_state \<Rightarrow> execution_error option" where
  "rejection tx s =
     (if tx_chain_id tx \<noteq> chain_id s then Some ChainMismatch
      else if \<not> tx_signature_ok tx then Some InvalidSignature
      else if expired tx (height s) then Some TransactionExpired
      else if (tx_sender tx, tx_nonce tx) |\<in>| used_nonces s then Some NonceReplay
      else None)"

lemma apply_transaction_rejected:
  "rejection tx s = Some e \<Longrightarrow> apply_transaction E tx s = Some (rejected_receipt E s (tx_hash tx) e, s)"
  by (auto simp: apply_transaction_def rejection_def split: if_splits)

lemma apply_transaction_admitted:
  "rejection tx s = None \<Longrightarrow> apply_transaction E tx s =
     (if tx_budget tx < transaction_resource_units tx then
        Some (reverted_receipt E (nonce_used tx s) (tx_hash tx) OutOfGas
          (transaction_resource_units tx), nonce_used tx s)
      else case run_call E tx (nonce_used tx s) of None \<Rightarrow> None
        | Some (Inr v, t) \<Rightarrow>
            Some (committed_receipt E t (tx_hash tx) v (transaction_resource_units tx), t)
        | Some (Inl e, t) \<Rightarrow>
            Some (reverted_receipt E (nonce_used tx s) (tx_hash tx) e
              (transaction_resource_units tx), nonce_used tx s))"
  by (auto simp: apply_transaction_def rejection_def Let_def run_call_restore
      split: if_splits option.splits sum.splits simp flip: nonce_used_def)

lemma run_call_total: "run_call E tx (nonce_used tx s) \<noteq> None"
  using started_converges by (auto simp: run_call_conv split: prod.splits sum.splits fault.splits)

text \<open>The three outcomes.\<close>

lemma apply_transaction_cases:
  assumes "apply_transaction E tx s = Some (r, t)"
  obtains (rejected) e where "rejection tx s = Some e" "r = rejected_receipt E s (tx_hash tx) e" "t = s"
  | (reverted) e where "rejection tx s = None" "t = nonce_used tx s"
      "r = reverted_receipt E t (tx_hash tx) e (transaction_resource_units tx)"
  | (committed) v u where "rejection tx s = None" "transaction_resource_units tx \<le> tx_budget tx"
      "runs_to E tx s v u" "t = detta_state.truncate u"
      "r = committed_receipt E t (tx_hash tx) v (transaction_resource_units tx)"
proof (cases "rejection tx s")
  case (Some e)
  with assms show thesis by (intro rejected [of e]) (auto simp: apply_transaction_rejected)
next
  case None
  note run = assms [unfolded apply_transaction_admitted [OF None]]
  show thesis
  proof (cases "tx_budget tx < transaction_resource_units tx")
    case True
    with run None show thesis by (intro reverted [of OutOfGas]) auto
  next
    case False
    obtain res t' where call: "run_call E tx (nonce_used tx s) = Some (res, t')"
      using run_call_total [of E tx s] by (cases "run_call E tx (nonce_used tx s)") auto
    show thesis
    proof (cases res)
      case (Inl e)
      with run None False call show thesis by (intro reverted [of e]) auto
    next
      case (Inr v)
      with call obtain u where "runs_to E tx s v u" "t' = detta_state.truncate u"
        by (auto simp: run_call_conv runs_to_def split: prod.splits sum.splits fault.splits)
      with run None False call Inr show thesis by (intro committed [of v u]) auto
    qed
  qed
qed

lemma apply_transaction_returns: "\<exists>r t. apply_transaction E tx s = Some (r, t)"
proof (cases "rejection tx s")
  case None
  then show ?thesis
    using run_call_total [of E tx s] by (auto simp: apply_transaction_admitted split: sum.split)
qed (auto simp: apply_transaction_rejected)

text \<open>What every call keeps, every transaction keeps.\<close>

lemma transaction_keeps:
  assumes "apply_transaction E tx s = Some (r, t)"
    and "\<And>fuel p. within K F (execute_call E fuel tx p)"
    and "\<And>u. K (started tx s) u \<Longrightarrow> R s (detta_state.truncate u)"
    and "R s s" and "R s (nonce_used tx s)"
  shows "R s t"
  using assms(1)
proof (cases rule: apply_transaction_cases)
  case (committed v u)
  then show ?thesis
    using assms(3) within_okD [OF assms(2)] by (auto simp: runs_to_def)
qed (simp_all add: assms)

text \<open>The state the handler of the outermost call starts in, and a committed transaction as a run
  of that handler.\<close>

definition call_state :: "transaction \<Rightarrow> detta_state \<Rightarrow> exec_state" where
  "call_state tx s = entered (tx_target tx) (tx_method tx) (tx_sender tx) (started tx s)"

lemma call_state_sel [simp]:
  "chain_id (call_state tx s) = chain_id s"
  "height (call_state tx s) = height s"
  "contracts (call_state tx s) = contracts s"
  "aspect_modules (call_state tx s) = aspect_modules s"
  "storage (call_state tx s) = storage s"
  "registry (call_state tx s) = registry s"
  "used_certificate_nonces (call_state tx s) = used_certificate_nonces s"
  "paused_contracts (call_state tx s) = paused_contracts s"
  "scheduled_upgrades (call_state tx s) = scheduled_upgrades s"
  "scheduled_policy_updates (call_state tx s) = scheduled_policy_updates s"
  "trusted_bridge_validator_sets (call_state tx s) = trusted_bridge_validator_sets s"
  "outbound_message_ids (call_state tx s) = outbound_message_ids s"
  "cross_shard_outbox (call_state tx s) = cross_shard_outbox s"
  "events (call_state tx s) = events s"
  by (simp_all add: call_state_def entered_def started_def nonce_used_def)

lemma uint_at_call_state [simp]: "uint_at (call_state tx s) key = uint_at s key"
  by (simp add: uint_at_def)

lemma uint_at_truncate [simp]: "uint_at (detta_state.truncate (exit_call t)) key = uint_at t key"
  by (simp add: uint_at_def exit_call_def)

section \<open>A sample chain\<close>

text \<open>A state with one token contract and a transfer, on which the hypotheses of the properties
  are discharged.\<close>

definition sample_state :: detta_state where
  "sample_state = snd (deploy_token sample_env ''tok'' ''GOLD'' [(''alice'', 100)] (new_state ''chain''))"

definition sample_transfer :: transaction where
  "sample_transfer =
     \<lparr>tx_chain_id = ''chain'', tx_hash = ''t1'', tx_sender = ''alice'', tx_nonce = 7,
      tx_valid_until_height = None, tx_target = ''tok'', tx_method = Transfer,
      tx_args = [Principal ''bob'', Asset ''GOLD'', Amount 30], tx_signature_ok = True,
      tx_budget = 1000\<rparr>"

lemma sample_commits:
  "map_option (\<lambda>(r, t). (rc_status r, balance t ''tok'' ''alice'' ''GOLD'', balance t ''tok'' ''bob'' ''GOLD''))
     (apply_transaction sample_env sample_transfer sample_state) = Some (Committed, 70, 30)"
  by code_simp

lemma sample_supply_ok: "supply_ok sample_state"
proof -
  let ?run = "deploy_token sample_env ''tok'' ''GOLD'' [(''alice'', 100)] (new_state ''chain'')"
  have "\<not> isl (fst ?run)" by code_simp
  then have "?run = (Inr (), sample_state)"
    by (cases ?run; cases "fst ?run") (simp_all add: sample_state_def)
  with supply_deploy_token have "keeps_supply (new_state ''chain'') sample_state"
    by (rule within_okD)
  moreover have "supply_ok (new_state ''chain'')"
    by (simp add: supply_ok_def balance_sum_def new_state_def total_supply_def uint_at_def fm_sum_def)
  ultimately show ?thesis by (simp add: keeps_supply_def)
qed

section \<open>Properties\<close>

text \<open>(C3) Every transaction gets a receipt: \<open>apply_transaction\<close> returns on every state and every
  transaction, however its handlers call each other; the bound on the nesting depth that the model
  of \<open>execute_call\<close> carries is never reached.\<close>

theorem apply_transaction_total: "\<exists>r t. apply_transaction E tx s = Some (r, t)"
  by (rule apply_transaction_returns)

text \<open>(C4) Atomicity: a transaction that is not committed changes nothing but the set of used
  nonces, and not even that when it is rejected. In particular the checkpoints that
  \<open>apply_transaction\<close> restores on an error cover every field that execution can change.\<close>

theorem transaction_atomic:
  assumes "apply_transaction E tx s = Some (r, t)" and "rc_status r \<noteq> Committed"
  shows "t = (if rc_status r = Rejected then s
    else s\<lparr>used_nonces := finsert (tx_sender tx, tx_nonce tx) (used_nonces s)\<rparr>)"
  using assms by (cases rule: apply_transaction_cases) (auto simp: nonce_used_def)

text \<open>A transfer of more than the sender owns reverts.\<close>

definition sample_overdraft :: transaction where
  "sample_overdraft = sample_transfer\<lparr>tx_args := [Principal ''bob'', Asset ''GOLD'', Amount 101]\<rparr>"

lemma sample_reverts:
  "map_option (\<lambda>(r, t). (rc_status r, rc_error r)) (apply_transaction sample_env sample_overdraft sample_state)
   = Some (Reverted, Some InsufficientBalance)"
  by code_simp

theorem transaction_atomic_witness:
  "\<exists>r t. apply_transaction sample_env sample_overdraft sample_state = Some (r, t)
     \<and> rc_error r = Some InsufficientBalance
     \<and> t = sample_state\<lparr>used_nonces := finsert (''alice'', 7) (used_nonces sample_state)\<rparr>"
proof -
  obtain r t where run: "apply_transaction sample_env sample_overdraft sample_state = Some (r, t)"
      "rc_status r = Reverted" "rc_error r = Some InsufficientBalance"
    using sample_reverts by auto
  with transaction_atomic [OF run(1)] show ?thesis
    by (simp add: sample_overdraft_def sample_transfer_def)
qed

end
