(* ===== verification/Contract_Frame.thy ===== *)
theory Contract_Frame
  imports Call_Depth
begin

text \<open>
  Deployed contracts are permanent: no call removes a contract, changes its kind, its identifier
  or its exported methods, or replaces it by a new deployment. Upgrades change the code hash only,
  policy updates the policies only.
\<close>

definition same_manifest :: "contract_record \<Rightarrow> contract_record \<Rightarrow> bool" where
  "same_manifest r r' \<longleftrightarrow> cr_kind r' = cr_kind r \<and> cr_contract_id r' = cr_contract_id r
     \<and> cr_exported_methods r' = cr_exported_methods r
     \<and> cr_declared_invariants r' = cr_declared_invariants r"

definition keeps_contracts :: "'z state_of \<Rightarrow> 'y state_of \<Rightarrow> bool" where
  "keeps_contracts s t \<longleftrightarrow>
     (\<forall>c r. fmlookup (contracts s) c = Some r \<longrightarrow>
        (\<exists>r'. fmlookup (contracts t) c = Some r' \<and> same_manifest r r'))"

lemma keeps_contracts_same: "contracts t = contracts s \<Longrightarrow> keeps_contracts s t"
  by (simp add: keeps_contracts_def same_manifest_def)

lemma same_manifest_trans: "same_manifest r r' \<Longrightarrow> same_manifest r' r'' \<Longrightarrow> same_manifest r r''"
  by (simp add: same_manifest_def)

lemma keeps_contracts_trans: "keeps_contracts s t \<Longrightarrow> keeps_contracts t u \<Longrightarrow> keeps_contracts s u"
  unfolding keeps_contracts_def by (blast intro: same_manifest_trans)

interpretation contract_writes:
  storage_relation "keeps_contracts :: exec_state \<Rightarrow> _" "\<lambda>_ _ _. True" "\<lambda>_. True" plain_value
proof unfold_locales
  fix s t u :: exec_state
  show "keeps_contracts s t \<Longrightarrow> keeps_contracts t u \<Longrightarrow> keeps_contracts s u"
    by (rule keeps_contracts_trans)
qed (simp_all add: keeps_contracts_same write_defs within_def modify_def)

text \<open>Deployments insert at a fresh identifier.\<close>

definition changes_only :: "contract_id \<Rightarrow> exec_state \<Rightarrow> exec_state \<Rightarrow> bool" where
  "changes_only c s t \<longleftrightarrow> (\<forall>c'. c' \<noteq> c \<longrightarrow> fmlookup (contracts t) c' = fmlookup (contracts s) c')"

interpretation one_contract: storage_relation "changes_only c" "\<lambda>_ _ _. True" "\<lambda>_. True" plain_value for c
  by unfold_locales (auto simp: changes_only_def write_defs within_def modify_def)

lemma one_contract_insert: "within (changes_only c) (\<lambda>_ _ _. True) (contracts_insert c r)"
  by (simp add: changes_only_def write_defs within_def modify_def)

lemma fresh_keeps_contracts:
  assumes "within (changes_only c) (\<lambda>_ _ _. True) m"
    and "\<And>s x t. m s = (Inr x, t) \<Longrightarrow> fmlookup (contracts s) c = None"
  shows "within keeps_contracts (\<lambda>_ _ _. True) m"
proof (rule withinI)
  fix s x t
  assume run: "m s = (Inr x, t)"
  show "keeps_contracts s t"
    using within_okD [OF assms(1) run] assms(2) [OF run]
    by (auto simp: keeps_contracts_def changes_only_def same_manifest_def) (metis option.distinct(1))
qed simp

lemma contracts_deploy:
  "within keeps_contracts (\<lambda>_ _ _. True) (deploy_token E c a bs :: unit xop)"
  "within keeps_contracts (\<lambda>_ _ _. True) (deploy_amm_pool_with_parameters E c a b ap :: unit xop)"
  "within keeps_contracts (\<lambda>_ _ _. True) (deploy_aspect_contract c h i :: unit xop)"
  by (rule fresh_keeps_contracts,
      rule one_contract.deploy_token_any_within one_contract.deploy_amm_pool_any_within
        one_contract.deploy_aspect_contract_any_within, rule one_contract_insert, simp?,
      erule deploy_fresh)+

lemma contracts_leaf:
  fixes F :: "fault \<Rightarrow> exec_state \<Rightarrow> exec_state \<Rightarrow> bool"
  assumes "F = (\<lambda>_ _ _. True)"
  shows "within keeps_contracts F (certificate_nonce_insert n)"
    "within keeps_contracts F (outbox_append msg)"
    "within keeps_contracts F (pause_insert c)"
    "within keeps_contracts F (pause_remove c)"
    "within keeps_contracts F (upgrade_insert i u)"
    "within keeps_contracts F (policy_update_insert i pu)"
    "within keeps_contracts F (module_insert h module)"
    "keeps_manifest f \<Longrightarrow> within keeps_contracts F (update_contract c f)"
  unfolding write_defs
  by (auto simp: keeps_contracts_def same_manifest_def keeps_manifest_def within_def modify_def
      split: option.split)

lemma keeps_contracts_framed:
  "keeps_contracts (entered c m p s) t \<Longrightarrow> keeps_contracts s (exit_call t)"
  by (simp add: keeps_contracts_def entered_def exit_call_def)

interpretation permanent:
  call_relation keeps_contracts "\<lambda>_ _ _. True" "\<lambda>_. True" E "\<lambda>_. False" for E
  by unfold_locales
    (simp_all add: contract_writes.any_within contract_writes.registry_within
      contract_writes.emit_within contracts_leaf contracts_deploy framed_withinI
      keeps_contracts_framed keeps_contracts_same)

end
