(* ===== verification/Blocks.thy ===== *)
theory Blocks
  imports Transactions Contract_Frame
begin

text \<open>
  Blocks and snapshots: \<open>build_block\<close>, \<open>apply_block\<close>, \<open>snapshot\<close>, \<open>from_snapshot\<close> and the rehearsal
  of a scheduled upgrade. The locale \<open>chain_relation\<close> lifts what every transaction keeps to
  sequences of transactions and to blocks.
\<close>

section \<open>Blocks\<close>

fun apply_transactions ::
  "env \<Rightarrow> transaction list \<Rightarrow> detta_state \<Rightarrow> (receipt list \<times> detta_state) option" where
  "apply_transactions E [] s = Some ([], s)"
| "apply_transactions E (tx # txs) s =
     (case apply_transaction E tx s of None \<Rightarrow> None
      | Some (r, t) \<Rightarrow> map_option (\<lambda>(rs, u). (r # rs, u)) (apply_transactions E txs t))"

definition block_hash :: "env \<Rightarrow> block \<Rightarrow> string" where
  "block_hash E blk = root_of E (SerHeader (b_header blk))"

definition receipt_proof_of :: "env \<Rightarrow> block \<Rightarrow> nat \<Rightarrow> receipt_proof option" where
  "receipt_proof_of E blk index =
     (if index < length (b_receipts blk)
      then map_option (\<lambda>p. \<lparr>rcp_receipt = b_receipts blk ! index, rcp_proof = p\<rparr>)
        (make_merkle_proof E (map SerReceipt (b_receipts blk)) index)
      else None)"

definition make_header ::
  "env \<Rightarrow> detta_state \<Rightarrow> detta_state \<Rightarrow> u64 \<Rightarrow> transaction list \<Rightarrow> receipt list \<Rightarrow> u64 \<Rightarrow> string
   \<Rightarrow> string \<Rightarrow> block_header" where
  "make_header E s working h txs receipts timestamp proposer certificate =
     \<lparr>bh_chain_id = chain_id s, bh_height = h, bh_previous_block_hash = finalized_block_hash s,
      bh_tx_root = merkle_root E (map SerTransaction txs),
      bh_receipt_root = merkle_root E (map SerReceipt receipts),
      bh_global_state_root = global_state_root E working, bh_storage_root = storage_root E working,
      bh_registry_root = registry_root E working, bh_policy_root = policy_root E working,
      bh_event_root = event_root E working, bh_nonce_root = nonce_root E working,
      bh_outbox_root = outbox_root E working, bh_timestamp = timestamp, bh_proposer = proposer,
      bh_consensus_certificate = certificate\<rparr>"

definition build_block ::
  "env \<Rightarrow> detta_state \<Rightarrow> u64 \<Rightarrow> transaction list \<Rightarrow> u64 \<Rightarrow> string \<Rightarrow> string
   \<Rightarrow> (block \<times> detta_state) option" where
  "build_block E s h txs timestamp proposer certificate =
     (case apply_transactions E txs (s\<lparr>height := h\<rparr>) of None \<Rightarrow> None
      | Some (receipts, working) \<Rightarrow>
          let blk = \<lparr>b_header = make_header E s working h txs receipts timestamp proposer certificate,
                     b_transactions = txs, b_receipts = receipts\<rparr>
          in Some (blk, working\<lparr>finalized_block_hash := block_hash E blk\<rparr>))"

text \<open>The comparisons of \<open>apply_block\<close> after replaying the transactions, in order.\<close>

definition check_replay ::
  "env \<Rightarrow> block \<Rightarrow> receipt list \<Rightarrow> detta_state \<Rightarrow> block_error option" where
  "check_replay E blk receipts working =
     (let hd = b_header blk in
      if receipts \<noteq> b_receipts blk then Some ReceiptMismatch
      else if bh_receipt_root hd \<noteq> merkle_root E (map SerReceipt receipts) then Some ReceiptRootMismatch
      else if bh_storage_root hd \<noteq> storage_root E working then Some StorageRootMismatch
      else if bh_registry_root hd \<noteq> registry_root E working then Some RegistryRootMismatch
      else if bh_policy_root hd \<noteq> policy_root E working then Some PolicyRootMismatch
      else if bh_event_root hd \<noteq> event_root E working then Some EventRootMismatch
      else if bh_nonce_root hd \<noteq> nonce_root E working then Some NonceRootMismatch
      else if bh_outbox_root hd \<noteq> outbox_root E working then Some OutboxRootMismatch
      else if bh_global_state_root hd \<noteq> global_state_root E working then Some GlobalStateRootMismatch
      else None)"

text \<open>The result is the error or the new state; on an error \<open>self\<close> is unchanged.\<close>

definition apply_block :: "env \<Rightarrow> block \<Rightarrow> detta_state \<Rightarrow> (block_error + detta_state) option" where
  "apply_block E blk s =
     (let hd = b_header blk; units = block_resource_units (b_transactions blk) in
      if bh_chain_id hd \<noteq> chain_id s then Some (Inl BlockChainMismatch)
      else if default_block_resource_limit < units then
        Some (Inl (ResourceLimitExceeded default_block_resource_limit units))
      else if bh_previous_block_hash hd \<noteq> finalized_block_hash s then
        Some (Inl PreviousBlockMismatch)
      else if bh_tx_root hd \<noteq> merkle_root E (map SerTransaction (b_transactions blk)) then
        Some (Inl TxRootMismatch)
      else
        (case apply_transactions E (b_transactions blk) (s\<lparr>height := bh_height hd\<rparr>) of None \<Rightarrow> None
         | Some (receipts, working) \<Rightarrow>
             (case check_replay E blk receipts working of
                Some e \<Rightarrow> Some (Inl e)
              | None \<Rightarrow> Some (Inr (working\<lparr>finalized_block_hash := block_hash E blk\<rparr>)))))"

section \<open>Snapshots\<close>

record state_snapshot =
  snap_state :: detta_state
  snap_storage_root :: string
  snap_registry_root :: string
  snap_policy_root :: string
  snap_event_root :: string
  snap_nonce_root :: string
  snap_outbox_root :: string
  snap_global_state_root :: string

definition snapshot :: "env \<Rightarrow> detta_state \<Rightarrow> state_snapshot" where
  "snapshot E s =
     \<lparr>snap_state = s, snap_storage_root = storage_root E s, snap_registry_root = registry_root E s,
      snap_policy_root = policy_root E s, snap_event_root = event_root E s,
      snap_nonce_root = nonce_root E s, snap_outbox_root = outbox_root E s,
      snap_global_state_root = global_state_root E s\<rparr>"

definition from_snapshot :: "env \<Rightarrow> state_snapshot \<Rightarrow> snapshot_error + detta_state" where
  "from_snapshot E snap =
     (let s = snap_state snap in
      if snap_storage_root snap \<noteq> storage_root E s then Inl SnapStorageRootMismatch
      else if snap_registry_root snap \<noteq> registry_root E s then Inl SnapRegistryRootMismatch
      else if snap_policy_root snap \<noteq> policy_root E s then Inl SnapPolicyRootMismatch
      else if snap_event_root snap \<noteq> event_root E s then Inl SnapEventRootMismatch
      else if snap_nonce_root snap \<noteq> nonce_root E s then Inl SnapNonceRootMismatch
      else if snap_outbox_root snap \<noteq> outbox_root E s then Inl SnapOutboxRootMismatch
      else if snap_global_state_root snap \<noteq> global_state_root E s then Inl SnapGlobalStateRootMismatch
      else Inr s)"

section \<open>Upgrade rehearsal\<close>

record upgrade_rehearsal_report =
  ur_upgrade_id :: string
  ur_governance_contract :: contract_id
  ur_target_contract :: contract_id
  ur_old_code_hash :: string
  ur_new_code_hash :: string
  ur_execute_after_height :: u64
  ur_ready_at_height :: bool
  ur_invariant_failures :: "invariant_failure list"
  ur_storage_root :: string
  ur_registry_root :: string
  ur_policy_root :: string
  ur_global_state_root :: string

definition governs :: "contract_kind \<Rightarrow> contract_id \<Rightarrow> bool" where
  "governs kind c = (case kind of Governance governed _ \<Rightarrow> governed = c | _ \<Rightarrow> False)"

definition rehearse_scheduled_upgrade ::
  "env \<Rightarrow> detta_state \<Rightarrow> string \<Rightarrow> execution_error + upgrade_rehearsal_report" where
  "rehearse_scheduled_upgrade E s upgrade_id =
     (case fmlookup (scheduled_upgrades s) upgrade_id of None \<Rightarrow> Inl UpgradeNotFound
      | Some upgrade \<Rightarrow>
        if su_executed upgrade then Inl UpgradeAlreadyExecuted
        else (case fmlookup (contracts s) (su_governance_contract upgrade) of
            None \<Rightarrow> Inl ContractNotFound
          | Some governance \<Rightarrow>
            if \<not> governs (cr_kind governance) (su_target_contract upgrade) then Inl UpgradeNotFound
            else (case fmlookup (contracts s) (su_target_contract upgrade) of
                None \<Rightarrow> Inl ContractNotFound
              | Some target \<Rightarrow>
                let rehearsed = s\<lparr>contracts := fmupd (su_target_contract upgrade)
                      (target\<lparr>cr_code_hash := su_new_code_hash upgrade\<rparr>) (contracts s)\<rparr>
                in Inr \<lparr>ur_upgrade_id = su_upgrade_id upgrade,
                  ur_governance_contract = su_governance_contract upgrade,
                  ur_target_contract = su_target_contract upgrade,
                  ur_old_code_hash = cr_code_hash target,
                  ur_new_code_hash = su_new_code_hash upgrade,
                  ur_execute_after_height = su_execute_after_height upgrade,
                  ur_ready_at_height = (su_execute_after_height upgrade \<le> height s),
                  ur_invariant_failures = check_declared_invariants rehearsed,
                  ur_storage_root = storage_root E rehearsed,
                  ur_registry_root = registry_root E rehearsed,
                  ur_policy_root = policy_root E rehearsed,
                  ur_global_state_root = global_state_root E rehearsed\<rparr>)))"

section \<open>Sequences of transactions\<close>

lemma apply_transactions_total: "\<exists>rs t. apply_transactions E txs s = Some (rs, t)"
proof (induction txs arbitrary: s)
  case (Cons tx txs)
  obtain r t where "apply_transaction E tx s = Some (r, t)"
    using apply_transaction_returns by blast
  moreover obtain rs u where "apply_transactions E txs t = Some (rs, u)"
    using Cons by blast
  ultimately show ?case by simp
qed simp

lemma apply_transactions_Cons:
  "apply_transactions E (tx # txs) s = Some (rs, u) \<longleftrightarrow>
     (\<exists>r rs' t. apply_transaction E tx s = Some (r, t) \<and> apply_transactions E txs t = Some (rs', u)
        \<and> rs = r # rs')"
  by (auto split: option.splits)

lemma length_apply_transactions:
  "apply_transactions E txs s = Some (rs, t) \<Longrightarrow> length rs = length txs"
  by (induction txs arbitrary: s rs) (auto simp: apply_transactions_Cons simp del: apply_transactions.simps(2))

text \<open>The interface of a chain to what each transaction keeps.\<close>

locale chain_relation =
  fixes K :: "detta_state \<Rightarrow> detta_state \<Rightarrow> bool" and E :: env
  assumes refl: "K s s"
    and trans: "K s t \<Longrightarrow> K t u \<Longrightarrow> K s u"
    and transaction: "apply_transaction E tx s = Some (r, t) \<Longrightarrow> K s t"
    and new_height: "K s (s\<lparr>height := h\<rparr>)"
    and new_hash: "K s (s\<lparr>finalized_block_hash := b\<rparr>)"
begin

lemma transactions: "apply_transactions E txs s = Some (rs, t) \<Longrightarrow> K s t"
proof (induction txs arbitrary: s rs)
  case (Cons tx txs)
  then show ?case
    unfolding apply_transactions_Cons by (blast intro: trans transaction)
qed (simp add: refl)

lemma built: "build_block E s h txs ts p cert = Some (blk, t) \<Longrightarrow> K s t"
  by (auto simp: build_block_def Let_def split: option.splits
      intro: trans [OF new_height trans [OF transactions new_hash]])

lemma block: "apply_block E blk s = Some (Inr t) \<Longrightarrow> K s t"
  by (auto simp: apply_block_def Let_def split: option.splits if_splits
      intro: trans [OF new_height trans [OF transactions new_hash]])

text \<open>A chain of blocks.\<close>

lemma blocks:
  assumes "\<And>i. i < n \<Longrightarrow> apply_block E (blks i) (st i) = Some (Inr (st (Suc i)))"
  shows "K (st 0) (st n)"
  using assms by (induction n) (auto intro: refl trans block)

end

definition state_logs_extend :: "detta_state \<Rightarrow> detta_state \<Rightarrow> bool" where
  "state_logs_extend s t \<longleftrightarrow>
     prefix (events s) (events t) \<and> prefix (cross_shard_outbox s) (cross_shard_outbox t)
     \<and> used_certificate_nonces s |\<subseteq>| used_certificate_nonces t
     \<and> outbound_message_ids s |\<subseteq>| outbound_message_ids t \<and> used_nonces s |\<subseteq>| used_nonces t"

interpretation log_chain: chain_relation state_logs_extend E for E
proof unfold_locales
  fix tx s r t
  assume run: "apply_transaction E tx s = Some (r, t)"
  have "same_frame (started tx s) u \<and> logs_extend (started tx s) u" if "runs_to E tx s v u" for v u
    using that within_okD [OF frame.execute_call_within] within_okD [OF logs.execute_call_within]
    by (auto simp: runs_to_def)
  with run show "state_logs_extend s t"
    by (cases rule: apply_transaction_cases)
      (fastforce simp: state_logs_extend_def nonce_used_def same_frame_def logs_extend_def
        started_def)+
qed (auto simp: state_logs_extend_def)

interpretation supply_chain: chain_relation keeps_supply E for E
proof unfold_locales
  fix tx s r t
  assume "apply_transaction E tx s = Some (r, t)"
  then show "keeps_supply s t"
    using supply_calls.execute_call_within
    by (rule transaction_keeps)
      (simp_all add: keeps_supply_def supply_ok_def balance_sum_def total_supply_def uint_at_def
        started_def nonce_used_def)
qed (auto simp: keeps_supply_def supply_ok_def balance_sum_def total_supply_def uint_at_def)

interpretation contract_chain: chain_relation keeps_contracts E for E
proof unfold_locales
  fix s t u :: detta_state
  show "keeps_contracts s t \<Longrightarrow> keeps_contracts t u \<Longrightarrow> keeps_contracts s u"
    by (rule keeps_contracts_trans)
next
  fix tx s r t
  assume "apply_transaction E tx s = Some (r, t)"
  then show "keeps_contracts s t"
    using permanent.execute_call_within
    by (rule transaction_keeps)
      (simp_all add: keeps_contracts_def started_def nonce_used_def same_manifest_def)
qed (simp_all add: keeps_contracts_same)

definition keeps_redeemed :: "detta_state \<Rightarrow> detta_state \<Rightarrow> bool" where
  "keeps_redeemed s t \<longleftrightarrow> (\<forall>c m. consumed s c m \<longrightarrow> consumed t c m)"

interpretation redeemed_chain: chain_relation keeps_redeemed E for E
proof unfold_locales
  fix tx s r t
  assume "apply_transaction E tx s = Some (r, t)"
  then show "keeps_redeemed s t"
    using consumption.execute_call_within
    by (rule transaction_keeps)
      (simp_all add: keeps_redeemed_def keeps_consumed_def consumed_def uint_at_def started_def
        nonce_used_def)
qed (auto simp: keeps_redeemed_def consumed_def uint_at_def)

section \<open>Resources that are used once\<close>

text \<open>The keys that the transactions of a list use, given what one transaction uses.\<close>

definition uses_of :: "(transaction \<Rightarrow> receipt \<Rightarrow> 'k option) \<Rightarrow> transaction list \<Rightarrow> receipt list \<Rightarrow> 'k list" where
  "uses_of use txs rs = List.map_filter (\<lambda>(tx, r). use tx r) (zip txs rs)"

lemma uses_of_simps [simp]:
  "uses_of use [] rs = []"
  "uses_of use (tx # txs) (r # rs) =
     (case use tx r of None \<Rightarrow> uses_of use txs rs | Some k \<Rightarrow> k # uses_of use txs rs)"
  by (simp_all add: uses_of_def map_filter_simps split: option.splits)

text \<open>The interface of a resource that a transaction can use once: a set of used keys that only
  grows and that each use extends by a key it did not hold.\<close>

locale single_use =
  fixes use :: "transaction \<Rightarrow> receipt \<Rightarrow> 'k option" and used :: "detta_state \<Rightarrow> 'k set" and E :: env
  assumes grows: "apply_transaction E tx s = Some (r, t) \<Longrightarrow> used s \<subseteq> used t"
    and fresh: "apply_transaction E tx s = Some (r, t) \<Longrightarrow> use tx r = Some k \<Longrightarrow> k \<in> used t - used s"
begin

lemma uses_once:
  assumes "apply_transactions E txs s = Some (rs, t)"
  shows "distinct (uses_of use txs rs) \<and> set (uses_of use txs rs) \<subseteq> used t - used s
    \<and> used s \<subseteq> used t"
  using assms
proof (induction txs arbitrary: s rs)
  case (Cons tx txs)
  then obtain r rs' u where step: "apply_transaction E tx s = Some (r, u)"
    and rest: "apply_transactions E txs u = Some (rs', t)" and rs: "rs = r # rs'"
    unfolding apply_transactions_Cons by blast
  from Cons.IH [OF rest] grows [OF step] fresh [OF step] show ?case
    by (auto simp: rs split: option.splits)
qed simp

end

text \<open>The same when nothing else extends the set.\<close>

locale exact_use = single_use +
  assumes exact: "apply_transaction E tx s = Some (r, t) \<Longrightarrow> used t \<subseteq> used s \<union> set_option (use tx r)"
begin

lemma uses_exactly:
  assumes "apply_transactions E txs s = Some (rs, t)"
  shows "used t = used s \<union> set (uses_of use txs rs)"
  using assms
proof (induction txs arbitrary: s rs)
  case (Cons tx txs)
  then obtain r rs' u where step: "apply_transaction E tx s = Some (r, u)"
    and rest: "apply_transactions E txs u = Some (rs', t)" and rs: "rs = r # rs'"
    unfolding apply_transactions_Cons by blast
  from Cons.IH [OF rest] grows [OF step] fresh [OF step] exact [OF step] show ?case
    by (cases "use tx r") (auto simp: rs)
qed simp

end

text \<open>A transaction that is not rejected uses its nonce.\<close>

lemma transaction_nonces:
  assumes "apply_transaction E tx s = Some (r, t)"
  shows "(rc_status r = Rejected \<longrightarrow> used_nonces t = used_nonces s)
    \<and> (rc_status r \<noteq> Rejected \<longrightarrow> (tx_sender tx, tx_nonce tx) |\<notin>| used_nonces s
        \<and> used_nonces t = finsert (tx_sender tx, tx_nonce tx) (used_nonces s))"
  using assms
proof (cases rule: apply_transaction_cases)
  case (committed v u)
  then have "same_frame (started tx s) u"
    using within_okD [OF frame.execute_call_within] by (simp add: runs_to_def)
  with committed show ?thesis
    by (auto simp: same_frame_def started_def nonce_used_def rejection_def split: if_splits)
qed (auto simp: nonce_used_def rejection_def split: if_splits)

definition nonce_use :: "transaction \<Rightarrow> receipt \<Rightarrow> (principal \<times> nonce) option" where
  "nonce_use tx r = (if rc_status r = Rejected then None else Some (tx_sender tx, tx_nonce tx))"

interpretation nonce_uses: exact_use nonce_use "\<lambda>s. fset (used_nonces s)" E for E
  by unfold_locales (auto simp: nonce_use_def dest: transaction_nonces split: if_splits)

section \<open>Replaying a block\<close>

lemma check_replay_built:
  assumes "b_header blk = make_header E s w h txs rs ts p cert" "b_receipts blk = rs"
  shows "check_replay E blk rs w = None"
  using assms by (simp add: check_replay_def make_header_def Let_def)

lemma roots_new_hash [simp]:
  "storage_root E (s\<lparr>finalized_block_hash := b\<rparr>) = storage_root E s"
  "registry_root E (s\<lparr>finalized_block_hash := b\<rparr>) = registry_root E s"
  "policy_root E (s\<lparr>finalized_block_hash := b\<rparr>) = policy_root E s"
  "event_root E (s\<lparr>finalized_block_hash := b\<rparr>) = event_root E s"
  "nonce_root E (s\<lparr>finalized_block_hash := b\<rparr>) = nonce_root E s"
  "outbox_root E (s\<lparr>finalized_block_hash := b\<rparr>) = outbox_root E s"
  "aspect_module_root E (s\<lparr>finalized_block_hash := b\<rparr>) = aspect_module_root E s"
  "global_state_root E (s\<lparr>finalized_block_hash := b\<rparr>) = global_state_root E s"
  by (simp_all add: storage_root_def registry_root_def policy_root_def event_root_def
      nonce_root_def outbox_root_def aspect_module_root_def global_state_root_def storage_leaves_def
      registry_leaves_def policy_leaves_def module_leaves_def)

lemma built_accepted:
  assumes "build_block E s h txs ts p cert = Some (blk, t)"
    and "block_resource_units txs \<le> default_block_resource_limit"
  shows "apply_block E blk s = Some (Inr t)"
proof -
  obtain rs w where run: "apply_transactions E txs (s\<lparr>height := h\<rparr>) = Some (rs, w)"
    and blk: "blk = \<lparr>b_header = make_header E s w h txs rs ts p cert, b_transactions = txs,
      b_receipts = rs\<rparr>"
    and t: "t = w\<lparr>finalized_block_hash := block_hash E blk\<rparr>"
    using assms(1) by (auto simp: build_block_def Let_def split: option.splits)
  have "check_replay E blk rs w = None"
    by (rule check_replay_built) (simp_all add: blk)
  with run assms(2) show ?thesis
    unfolding t by (simp add: apply_block_def Let_def blk make_header_def not_less)
qed

lemma receipt_proof_exists:
  assumes "i < length (b_receipts blk)"
    and "bh_receipt_root (b_header blk) = merkle_root E (map SerReceipt (b_receipts blk))"
  shows "\<exists>p. receipt_proof_of E blk i = Some p \<and> receipt_proof_verify E p
      \<and> rcp_receipt p = b_receipts blk ! i \<and> mp_root (rcp_proof p) = bh_receipt_root (b_header blk)"
proof -
  obtain p where p: "make_merkle_proof E (map SerReceipt (b_receipts blk)) i = Some p"
    using assms(1) by (auto simp: make_merkle_proof_def Let_def)
  from make_merkle_proof_verify [OF p] assms show ?thesis
    by (simp add: receipt_proof_of_def p receipt_proof_verify_def)
qed

lemma from_snapshot_iff: "from_snapshot E snap = Inr s \<longleftrightarrow> snap = snapshot E s"
proof
  assume "from_snapshot E snap = Inr s"
  then show "snap = snapshot E s"
    by (intro state_snapshot.equality)
      (auto simp: from_snapshot_def snapshot_def Let_def split: if_splits)
qed (simp add: from_snapshot_def snapshot_def Let_def)

section \<open>Properties\<close>

lemma sample_block_units: "block_resource_units [sample_transfer] \<le> default_block_resource_limit"
  by code_simp

text \<open>(C3) Conservation: whatever the transactions of a block do (transfers, swaps, staking, bridge
  mints, factory deployments, nested calls of aspect contracts), if before them the total supply of
  every native token is the sum of its balances, then so it is after.\<close>

theorem transactions_keep_supply:
  assumes "apply_transactions E txs s = Some (rs, t)"
    and "\<forall>c a. balance_sum s c a = unat (total_supply s c a)"
  shows "balance_sum t c a = unat (total_supply t c a)"
  using supply_chain.transactions [OF assms(1)] assms(2)
  by (simp add: keeps_supply_def supply_ok_def)

text \<open>The sample transfer, submitted twice.\<close>

lemma sample_block:
  obtains r r' t where
    "apply_transactions sample_env [sample_transfer, sample_transfer] sample_state = Some ([r, r'], t)"
    "rc_status r = Committed" "rc_status r' = Rejected"
proof -
  obtain r u where first: "apply_transaction sample_env sample_transfer sample_state = Some (r, u)"
      "rc_status r = Committed"
    using sample_commits by auto
  then have "(tx_sender sample_transfer, tx_nonce sample_transfer) |\<in>| used_nonces u"
    using transaction_nonces [OF first(1)] by simp
  then have "rejection sample_transfer u \<noteq> None" by (simp add: rejection_def)
  then obtain e where "rejection sample_transfer u = Some e" by blast
  with first show thesis
    by (intro that [of r "rejected_receipt sample_env u (tx_hash sample_transfer) e" u])
      (simp_all add: apply_transaction_rejected)
qed

theorem transactions_keep_supply_witness:
  "\<exists>r r' t. apply_transactions sample_env [sample_transfer, sample_transfer] sample_state
       = Some ([r, r'], t)
     \<and> rc_status r = Committed \<and> balance_sum t ''tok'' ''GOLD'' = unat (total_supply t ''tok'' ''GOLD'')"
proof -
  obtain r r' t where run:
    "apply_transactions sample_env [sample_transfer, sample_transfer] sample_state = Some ([r, r'], t)"
    "rc_status r = Committed" by (rule sample_block)
  have "balance_sum t ''tok'' ''GOLD'' = unat (total_supply t ''tok'' ''GOLD'')"
    by (rule transactions_keep_supply [OF run(1)]) (use sample_supply_ok in \<open>simp add: supply_ok_def\<close>)
  with run show ?thesis by blast
qed

text \<open>(C4) No replay: in any sequence of transactions, the transactions that are not rejected have
  pairwise distinct pairs of sender and nonce, none of them used before, and exactly these pairs
  are added to the used nonces.\<close>

theorem accepted_nonces_distinct:
  assumes "apply_transactions E txs s = Some (rs, t)"
  shows "distinct (uses_of nonce_use txs rs)
    \<and> set (uses_of nonce_use txs rs) \<inter> fset (used_nonces s) = {}
    \<and> fset (used_nonces t) = fset (used_nonces s) \<union> set (uses_of nonce_use txs rs)"
  using nonce_uses.uses_once [OF assms] nonce_uses.uses_exactly [OF assms] by blast

theorem accepted_nonces_distinct_witness:
  "\<exists>r r' t. apply_transactions sample_env [sample_transfer, sample_transfer] sample_state
       = Some ([r, r'], t)
     \<and> uses_of nonce_use [sample_transfer, sample_transfer] [r, r'] = [(''alice'', 7)]
     \<and> fset (used_nonces t) = fset (used_nonces sample_state) \<union> {(''alice'', 7)}"
proof -
  obtain r r' t where run:
    "apply_transactions sample_env [sample_transfer, sample_transfer] sample_state = Some ([r, r'], t)"
    "rc_status r = Committed" "rc_status r' = Rejected" by (rule sample_block)
  moreover from run have "uses_of nonce_use [sample_transfer, sample_transfer] [r, r'] = [(''alice'', 7)]"
    by (simp add: nonce_use_def sample_transfer_def)
  ultimately show ?thesis using accepted_nonces_distinct [OF run(1)] by auto
qed

text \<open>(C7) Deployed contracts are permanent: after any sequence of transactions, every contract
  still exists with the same kind, identifier, exported methods and declared invariants. Upgrades
  and policy updates change the code hash and the policies only.\<close>

theorem transactions_keep_contracts:
  assumes "apply_transactions E txs s = Some (rs, t)" and "fmlookup (contracts s) c = Some r"
  shows "\<exists>r'. fmlookup (contracts t) c = Some r' \<and> cr_kind r' = cr_kind r
    \<and> cr_contract_id r' = cr_contract_id r \<and> cr_exported_methods r' = cr_exported_methods r
    \<and> cr_declared_invariants r' = cr_declared_invariants r"
  using contract_chain.transactions [OF assms(1)] assms(2)
  by (auto simp: keeps_contracts_def same_manifest_def)

theorem transactions_keep_contracts_witness:
  "\<exists>r r' t. apply_transactions sample_env [sample_transfer, sample_transfer] sample_state
       = Some ([r, r'], t)
     \<and> (\<exists>rec. fmlookup (contracts t) ''tok'' = Some rec \<and> cr_kind rec = Token)"
proof -
  obtain r r' t where run:
    "apply_transactions sample_env [sample_transfer, sample_transfer] sample_state = Some ([r, r'], t)"
    by (rule sample_block)
  have "map_option cr_kind (fmlookup (contracts sample_state) ''tok'') = Some Token" by code_simp
  then obtain rec where "fmlookup (contracts sample_state) ''tok'' = Some rec" "cr_kind rec = Token"
    by auto
  with transactions_keep_contracts [OF run] run show ?thesis by fastforce
qed

text \<open>(C8) The logs only grow: transactions extend the event log and the cross-shard outbox at
  their ends, and forget no used nonce, certificate nonce or outbound message identifier.\<close>

theorem transactions_extend_logs:
  assumes "apply_transactions E txs s = Some (rs, t)"
  shows "prefix (events s) (events t) \<and> prefix (cross_shard_outbox s) (cross_shard_outbox t)
    \<and> used_nonces s |\<subseteq>| used_nonces t \<and> used_certificate_nonces s |\<subseteq>| used_certificate_nonces t
    \<and> outbound_message_ids s |\<subseteq>| outbound_message_ids t"
  using log_chain.transactions [OF assms] by (simp add: state_logs_extend_def)

theorem transactions_extend_logs_witness:
  "\<exists>r r' t. apply_transactions sample_env [sample_transfer, sample_transfer] sample_state
       = Some ([r, r'], t) \<and> prefix (events sample_state) (events t)"
proof -
  obtain r r' t where run:
    "apply_transactions sample_env [sample_transfer, sample_transfer] sample_state = Some ([r, r'], t)"
    by (rule sample_block)
  with transactions_extend_logs [OF run] show ?thesis by blast
qed


lemma sample_built: obtains blk t where
  "build_block sample_env sample_state 1 [sample_transfer] 5 ''v'' ''c'' = Some (blk, t)"
  using apply_transactions_total [of sample_env "[sample_transfer]" "sample_state\<lparr>height := 1\<rparr>"]
  by (auto simp: build_block_def Let_def simp del: apply_transactions.simps)


text \<open>(C10) An accepted block is what its header says: it extends the finalised block of the state
  it is applied to, its transactions and receipts hash to the roots of the header, the roots of the
  header are those of the new state, and every receipt of the block has a proof against the receipt
  root that a light client accepts.\<close>

theorem apply_block_authentic:
  assumes "apply_block E blk s = Some (Inr t)"
  shows "bh_chain_id (b_header blk) = chain_id s
    \<and> bh_previous_block_hash (b_header blk) = finalized_block_hash s
    \<and> finalized_block_hash t = block_hash E blk
    \<and> bh_tx_root (b_header blk) = merkle_root E (map SerTransaction (b_transactions blk))
    \<and> bh_global_state_root (b_header blk) = global_state_root E t
    \<and> bh_storage_root (b_header blk) = storage_root E t
    \<and> length (b_receipts blk) = length (b_transactions blk)
    \<and> (\<forall>i < length (b_receipts blk). \<exists>p. receipt_proof_of E blk i = Some p \<and> receipt_proof_verify E p
         \<and> rcp_receipt p = b_receipts blk ! i
         \<and> mp_root (rcp_proof p) = bh_receipt_root (b_header blk))"
proof -
  have root: "bh_receipt_root (b_header blk) = merkle_root E (map SerReceipt (b_receipts blk))"
    using assms by (auto simp: apply_block_def check_replay_def Let_def split: option.splits if_splits)
  have "\<exists>p. receipt_proof_of E blk i = Some p \<and> receipt_proof_verify E p
      \<and> rcp_receipt p = b_receipts blk ! i \<and> mp_root (rcp_proof p) = bh_receipt_root (b_header blk)"
    if "i < length (b_receipts blk)" for i
    using that root by (rule receipt_proof_exists)
  with assms show ?thesis
    by (auto simp: apply_block_def check_replay_def Let_def length_apply_transactions
        split: option.splits if_splits)
qed

theorem apply_block_authentic_witness:
  "\<exists>blk t. apply_block sample_env blk sample_state = Some (Inr t)
     \<and> finalized_block_hash t = block_hash sample_env blk
     \<and> bh_global_state_root (b_header blk) = global_state_root sample_env t"
proof -
  obtain blk t where built: "build_block sample_env sample_state 1 [sample_transfer] 5 ''v'' ''c''
      = Some (blk, t)"
    by (rule sample_built)
  from built_accepted [OF this sample_block_units] apply_block_authentic show ?thesis by blast
qed

text \<open>(C12) Snapshots: \<open>from_snapshot\<close> accepts exactly the snapshots that \<open>snapshot\<close> makes, and
  returns the state they were made of.\<close>

theorem snapshot_roundtrip: "from_snapshot E snap = Inr s \<longleftrightarrow> snap = snapshot E s"
  by (rule from_snapshot_iff)

end
