(* ===== verification/Part_Frame.thy ===== *)
theory Part_Frame
  imports Blocks
begin

text \<open>
  Relations about the storage entries of one part of the system. An operation that leaves these
  entries alone and keeps the contracts is within such a relation, so only the handlers of that
  part, and the deployment of a pool when the part is the pools', have to be looked at.
\<close>

section \<open>Entries left alone\<close>

text \<open>Entries other than those of tokens, selected by \<open>Q\<close>, that an operation leaves as they are.\<close>

definition same_entries :: "(state_key \<Rightarrow> bool) \<Rightarrow> 'z state_of \<Rightarrow> 'y state_of \<Rightarrow> bool" where
  "same_entries Q s t \<longleftrightarrow>
     (\<forall>key. key_part key \<noteq> TokenPart \<longrightarrow> Q key \<longrightarrow>
        fmlookup (storage t) key = fmlookup (storage s) key)"

lemma same_entries_uint_at:
  "same_entries Q s t \<Longrightarrow> key_part key \<noteq> TokenPart \<Longrightarrow> Q key \<Longrightarrow> uint_at t key = uint_at s key"
  by (simp add: same_entries_def uint_at_def)

interpretation untouched: storage_relation "same_entries Q" "\<lambda>_ _ _. True" "\<lambda>_. True"
  "\<lambda>key v. key_part key = TokenPart \<or> \<not> Q key" for Q
  by unfold_locales (auto simp: same_entries_def write_defs within_def modify_def)

interpretation untouched_quiet: quiet_relation "same_entries Q" "\<lambda>_ _ _. True" "\<lambda>_. True" for Q
  by unfold_locales (simp_all add: same_entries_def)

lemma untouched_contracts:
  "within (same_entries Q) (\<lambda>_ _ _. True) (contracts_insert c r)"
  "within (same_entries Q) (\<lambda>_ _ _. True) (update_contract c f)"
  by (auto simp: same_entries_def write_defs within_def modify_def split: option.split)

section \<open>Relations of one part\<close>

lemma conj_within:
  "within K (\<lambda>_ _ _. True) m \<Longrightarrow> within L (\<lambda>_ _ _. True) m \<Longrightarrow> (\<And>s t. K s t \<Longrightarrow> L s t \<Longrightarrow> M s t) \<Longrightarrow>
   within M (\<lambda>_ _ _. True) m"
  by (auto simp: within_iff_at within_at_iff)

lemma part_deploy_amm:
  assumes "owner \<noteq> AmmPart"
  shows "within (same_entries (\<lambda>key. key_part key = owner)) (\<lambda>_ _ _. True)
    (deploy_amm_pool_with_parameters E c a b ap)"
  by (rule untouched.deploy_amm_pool_any_within) (use assms in \<open>auto simp: untouched_contracts\<close>)

locale part_relation =
  fixes K :: "exec_state \<Rightarrow> exec_state \<Rightarrow> bool" and owner :: part and E :: env
  assumes K_comp: "K s t \<Longrightarrow> K t u \<Longrightarrow> K s u"
    and unaffected: "keeps_contracts s t \<Longrightarrow> same_entries (\<lambda>key. key_part key = owner) s t \<Longrightarrow> K s t"
    and framed: "K (entered c m p s) t \<Longrightarrow> K s (exit_call t)"
    and deploy_pool: "owner = AmmPart \<Longrightarrow>
      within K (\<lambda>_ _ _. True) (deploy_amm_pool_with_parameters E c a b ap)"
    and handlers: "kind_part (cr_kind r) = owner \<Longrightarrow> fmlookup (contracts s) (tx_target tx) = Some r \<Longrightarrow>
      (\<And>t. within K (\<lambda>_ _ _. True) (transfer_asset_balance call tx t)) \<Longrightarrow>
      dispatch_kind E call tx p (cr_kind r) s = (Inr v, t) \<Longrightarrow> K s t"
begin

lemma unaffected_refl: "K s s"
  by (rule unaffected) (simp_all add: keeps_contracts_same same_entries_def)

lemma unaffected_within:
  "within keeps_contracts (\<lambda>_ _ _. True) m \<Longrightarrow>
   within (same_entries (\<lambda>key. key_part key = owner)) (\<lambda>_ _ _. True) m \<Longrightarrow>
   within K (\<lambda>_ _ _. True) m"
  by (rule conj_within) (assumption | rule unaffected)+

lemmas unaffected_writes =
  unaffected_within [OF contract_writes.transfer_native_any_within untouched.transfer_native_any_within]
  unaffected_within [OF contract_writes.mint_native_any_within untouched.mint_native_any_within]
  unaffected_within [OF contract_writes.transfer_any_within untouched.transfer_any_within]
  unaffected_within [OF contract_writes.transfer_from_any_within untouched.transfer_from_any_within]
  unaffected_within [OF contracts_deploy(1) untouched.deploy_token_any_within [OF untouched_contracts(1)]]
  unaffected_within [OF contracts_deploy(3) untouched.deploy_aspect_contract_any_within [OF untouched_contracts(1)]]
  unaffected_within [OF contract_writes.state_set_any_within untouched.state_set_any_within]
  unaffected_within [OF contracts_leaf(8) [OF refl] untouched_contracts(2)]

lemma deploy_pool_within:
  "within K (\<lambda>_ _ _. True) (deploy_amm_pool_with_parameters E c a b ap)"
  using deploy_pool unaffected_within [OF contracts_deploy(2) part_deploy_amm] by (cases "owner = AmmPart") auto

end

sublocale part_relation \<subseteq> unaffected_quiet: quiet_relation K "\<lambda>_ _ _. True" "\<lambda>_. True"
proof unfold_locales
  fix s t u :: exec_state
  show "K s t \<Longrightarrow> K t u \<Longrightarrow> K s u" by (rule K_comp)
qed (simp_all add: unaffected_refl unaffected keeps_contracts_same same_entries_def)

sublocale part_relation \<subseteq>
  calls: call_relation K "\<lambda>_ _ _. True" "\<lambda>_. True" E "\<lambda>p. p = owner"
proof unfold_locales
  fix r :: contract_record and s :: exec_state and tx p
    and call :: "transaction \<Rightarrow> principal \<Rightarrow> return_value xop"
  assume "kind_part (cr_kind r) = owner" "fmlookup (contracts s) (tx_target tx) = Some r"
    "\<And>t. within K (\<lambda>_ _ _. True) (transfer_asset_balance call tx t)"
  then show "within_at K (\<lambda>_ _ _. True) s (dispatch_kind E call tx p (cr_kind r))"
    unfolding within_at_iff using handlers by blast
qed (simp_all add: unaffected_quiet.quiet_within unaffected_writes deploy_pool_within framed_withinI
    framed)

end
