(* ===== verification/Ledgers.thy ===== *)
theory Ledgers
  imports Part_Frame
begin

text \<open>
  Storage ledgers: a total entry that is to be the sum of a family of entries. The liquidity
  shares of a pool and the stakes and pending withdrawals of a staking contract are ledgers; the
  code checks each one at the end of the handlers that write it. A locale shows once that then
  every ledger that is right stays right, whatever the calls.
\<close>

definition ledger_ok ::
  "('i \<Rightarrow> state_key \<Rightarrow> bool) \<Rightarrow> ('i \<Rightarrow> state_key) \<Rightarrow> 'i \<Rightarrow> 'z state_of \<Rightarrow> bool" where
  "ledger_ok entry sum_key i s \<longleftrightarrow>
     fm_sum (entry i) (\<lambda>v. unat (as_uint v)) (storage s) = unat (uint_at s (sum_key i))"

text \<open>Every ledger outside \<open>X\<close> that is right stays right.\<close>

definition keeps_ledgers ::
  "('i \<Rightarrow> state_key \<Rightarrow> bool) \<Rightarrow> ('i \<Rightarrow> state_key) \<Rightarrow> 'i set \<Rightarrow> 'z state_of \<Rightarrow> 'y state_of \<Rightarrow> bool" where
  "keeps_ledgers entry sum_key X s t \<longleftrightarrow>
     (\<forall>i. i \<notin> X \<longrightarrow> ledger_ok entry sum_key i s \<longrightarrow> ledger_ok entry sum_key i t)"

locale ledgers =
  fixes owner :: part and entry :: "'i \<Rightarrow> state_key \<Rightarrow> bool" and sum_key :: "'i \<Rightarrow> state_key"
  assumes entry_part: "entry i key \<Longrightarrow> key_part key = owner"
    and total_part: "key_part (sum_key i) = owner"
    and not_token: "owner \<noteq> TokenPart"
begin

abbreviation keeps :: "'i set \<Rightarrow> exec_state \<Rightarrow> exec_state \<Rightarrow> bool" where
  "keeps X \<equiv> keeps_ledgers entry sum_key X"

text \<open>A write outside the ledgers.\<close>

lemma keeps_insert:
  assumes "\<And>i. i \<notin> X \<Longrightarrow> \<not> entry i key \<and> sum_key i \<noteq> key"
  shows "keeps X s (s\<lparr>storage := fmupd key v (storage s)\<rparr>)"
  using assms by (auto simp: keeps_ledgers_def ledger_ok_def)

lemma foreign_insert: "key_part key \<noteq> owner \<Longrightarrow> keeps X s (s\<lparr>storage := fmupd key v (storage s)\<rparr>)"
  by (rule keeps_insert) (use entry_part total_part in blast)

end

sublocale ledgers \<subseteq>
  writes: storage_relation "keeps_ledgers entry sum_key X :: exec_state \<Rightarrow> _" "\<lambda>_ _ _. True" "\<lambda>_. True"
    "\<lambda>key v. \<forall>i. i \<notin> X \<longrightarrow> \<not> entry i key \<and> sum_key i \<noteq> key" for X
proof unfold_locales
  fix s t u :: exec_state
  show "keeps X s t \<Longrightarrow> keeps X t u \<Longrightarrow> keeps X s u"
    by (simp add: keeps_ledgers_def)
next
  fix key and v :: state_value
  show "within (keeps X) (\<lambda>_ _ _. True) (storage_insert key v)"
    if "\<forall>i. i \<notin> X \<longrightarrow> \<not> entry i key \<and> sum_key i \<noteq> key"
    using that keeps_insert by (simp add: storage_insert_def within_def modify_def)
qed (use entry_part total_part not_token in
    \<open>auto simp: keeps_ledgers_def ledger_ok_def uint_at_def write_defs within_def modify_def\<close>)

context ledgers
begin

lemma foreign_allowed: "key_part key \<noteq> owner \<Longrightarrow> i \<notin> X \<longrightarrow> \<not> entry i key \<and> sum_key i \<noteq> key"
  using entry_part total_part by blast

lemma foreign_state_set:
  "key_part key \<noteq> owner \<Longrightarrow> within (keeps X) (\<lambda>_ _ _. True) (state_set frame key v)"
  by (rule writes.state_set_any_within) (simp add: foreign_allowed)

text \<open>After a guard its negation may be used.\<close>

lemma guard_within:
  "(\<not> c \<Longrightarrow> within (keeps X) (\<lambda>_ _ _. True) m) \<Longrightarrow>
   within (keeps X) (\<lambda>_ _ _. True) (andthen (reject_if c e) m)"
  by (cases c) (auto simp: within_iff_at within_at_iff bind_fail_if)

lemma weaken_within:
  "within (keeps {}) (\<lambda>_ _ _. True) m \<Longrightarrow> within (keeps X) (\<lambda>_ _ _. True) m"
  by (auto simp: within_iff_at within_at_iff keeps_ledgers_def)

lemma closed_within:
  assumes "within (keeps X) (\<lambda>_ _ _. True) m"
    and "\<And>s v t i. m s = (Inr v, t) \<Longrightarrow> i \<in> X \<Longrightarrow> ledger_ok entry sum_key i t"
  shows "within (keeps {}) (\<lambda>_ _ _. True) m"
  using assms unfolding within_iff_at within_at_iff keeps_ledgers_def by blast

lemma contracts_kept:
  "within (keeps X) (\<lambda>_ _ _. True) (contracts_insert c r)"
  "within (keeps X) (\<lambda>_ _ _. True) (update_contract c f)"
  by (auto simp: keeps_ledgers_def ledger_ok_def uint_at_def write_defs within_def modify_def split: option.split)

lemma foreign_deploy:
  "owner \<noteq> AmmPart \<Longrightarrow> within (keeps X) (\<lambda>_ _ _. True) (deploy_amm_pool_with_parameters E c a b ap)"
  by (rule writes.deploy_amm_pool_any_within) (simp_all add: contracts_kept foreign_allowed)

lemma framed_kept: "keeps X (entered c m p s) t \<Longrightarrow> keeps X s (exit_call t)"
  by (simp add: keeps_ledgers_def ledger_ok_def uint_at_def entered_def exit_call_def)

end

text \<open>The contract of the handlers that write the ledgers: each leaves those of its target right
  and the others as they were. Nested calls made to move assets may be relied on.\<close>

locale ledger_calls = ledgers owner entry sum_key
  for owner :: part and entry :: "'i \<Rightarrow> state_key \<Rightarrow> bool" and sum_key :: "'i \<Rightarrow> state_key" +
  fixes E :: env
  assumes deploy_kept: "within (keeps_ledgers entry sum_key {}) (\<lambda>_ _ _. True)
      (deploy_amm_pool_with_parameters E c a b ap :: unit xop)"
    and handler_kept: "kind_part kind = owner \<Longrightarrow>
      (\<And>t. within (keeps_ledgers entry sum_key {}) (\<lambda>_ _ _. True) (transfer_asset_balance call tx t)) \<Longrightarrow>
      within (keeps_ledgers entry sum_key {}) (\<lambda>_ _ _. True) (dispatch_kind E call tx p kind :: return_value xop)"

sublocale ledger_calls \<subseteq> part: part_relation "keeps_ledgers entry sum_key {} :: exec_state \<Rightarrow> _" owner E
proof unfold_locales
  fix s t :: exec_state
  assume "same_entries (\<lambda>key. key_part key = owner) s t"
  then have "fmlookup (storage t) key = fmlookup (storage s) key" if "key_part key = owner" for key
    using that not_token by (simp add: same_entries_def)
  then show "keeps {} s t"
    using entry_part total_part fm_sum_cong [of _ "storage t" "storage s"]
    by (auto simp: keeps_ledgers_def ledger_ok_def uint_at_def)
next
  fix r :: contract_record and s t :: exec_state and tx p v
    and call :: "transaction \<Rightarrow> principal \<Rightarrow> return_value xop"
  assume run: "dispatch_kind E call tx p (cr_kind r) s = (Inr v, t)"
  assume "kind_part (cr_kind r) = owner"
    and "\<And>t. within (keeps {}) (\<lambda>_ _ _. True) (transfer_asset_balance call tx t)"
  then have "within (keeps {}) (\<lambda>_ _ _. True) (dispatch_kind E call tx p (cr_kind r))"
    by (rule handler_kept)
  then show "keeps {} s t" using run by (rule within_okD)
qed (simp_all add: deploy_kept framed_kept, simp add: keeps_ledgers_def)

sublocale ledger_calls \<subseteq> chain: chain_relation "keeps_ledgers entry sum_key {}" E
proof unfold_locales
  fix tx s r t
  assume "apply_transaction E tx s = Some (r, t)"
  then show "keeps_ledgers entry sum_key {} s t"
    using part.calls.execute_call_within
    by (rule transaction_keeps)
      (simp_all add: keeps_ledgers_def ledger_ok_def uint_at_def started_def nonce_used_def)
qed (simp_all add: keeps_ledgers_def ledger_ok_def uint_at_def)

end
