(* ===== verification/Admission.thy ===== *)
theory Admission
  imports Transactions
begin

text \<open>
  Admission: what a transaction must pass before a handler runs, and the outcome of the transaction
  as the outcome of that handler. With it, what a handler does becomes a fact about
  \<open>apply_transaction\<close>.
\<close>

section \<open>The checks before the handler\<close>

text \<open>The grant that an authority of a method policy asks for.\<close>

definition has_grant :: "'z state_of \<Rightarrow> grant_key \<Rightarrow> principal \<Rightarrow> grant_right \<Rightarrow> bool" where
  "has_grant s key p right =
     (case fmlookup (registry s) key of None \<Rightarrow> False
      | Some g \<Rightarrow> g_active g \<and> \<not> g_revoked g \<and> g_subject g = p \<and> right |\<in>| g_rights g)"

definition authorised :: "'z state_of \<Rightarrow> contract_id \<Rightarrow> principal \<Rightarrow> method_policy \<Rightarrow> bool" where
  "authorised s c p policy =
     (case pol_authority policy of
        OracleUpdaterGrant \<Rightarrow> has_grant s (OracleUpdaterKey c p) p UpdateOracle
      | GovernanceAdminGrant \<Rightarrow> has_grant s (GovernanceAdminKey c p) p GovernanceAdmin
      | _ \<Rightarrow> True)"

definition admits :: "transaction \<Rightarrow> detta_state \<Rightarrow> contract_record \<Rightarrow> bool" where
  "admits tx s r \<longleftrightarrow> rejection tx s = None \<and> transaction_resource_units tx \<le> tx_budget tx
     \<and> fmlookup (contracts s) (tx_target tx) = Some r \<and> tx_method tx |\<in>| cr_exported_methods r
     \<and> (case fmlookup (cr_method_policies r) (tx_method tx) of None \<Rightarrow> False
        | Some policy \<Rightarrow> authorised s (tx_target tx) (tx_sender tx) policy)
     \<and> tx_target tx |\<notin>| paused_contracts s"

lemma require_grant_run:
  "require_oracle_updater c p s = (Inr x, t) \<longleftrightarrow> has_grant s (OracleUpdaterKey c p) p UpdateOracle \<and> t = s"
  "require_governance_admin c p s = (Inr x, t) \<longleftrightarrow>
     has_grant s (GovernanceAdminKey c p) p GovernanceAdmin \<and> t = s"
  by (auto simp: require_oracle_updater_def require_governance_admin_def has_grant_def op_run
      split: option.splits)

lemma authority_iff:
  "enforce_method_authority tx p policy s = (Inr x, t) \<longleftrightarrow> authorised s (tx_target tx) p policy \<and> t = s"
  by (auto simp: enforce_method_authority_def authorised_def require_grant_run op_run
      split: policy_authority.splits)

lemma authorised_call_state [simp]: "authorised (call_state tx s) c p policy = authorised s c p policy"
  by (simp add: authorised_def has_grant_def split: policy_authority.splits)

text \<open>The handler of the outermost call.\<close>

definition handler :: "env \<Rightarrow> transaction \<Rightarrow> detta_state \<Rightarrow> contract_record \<Rightarrow> return_value xop" where
  "handler E tx s r =
     dispatch_kind E (execute_call E (call_fuel (nonce_used tx s) - 1)) tx (tx_sender tx) (cr_kind r)"

lemma body_run:
  "call_body E call tx p (call_state tx s) = (Inr v, t) \<longleftrightarrow>
     (\<exists>r. fmlookup (contracts s) (tx_target tx) = Some r \<and> tx_method tx |\<in>| cr_exported_methods r
       \<and> (case fmlookup (cr_method_policies r) (tx_method tx) of None \<Rightarrow> False
          | Some policy \<Rightarrow> authorised s (tx_target tx) p policy)
       \<and> tx_target tx |\<notin>| paused_contracts s
       \<and> dispatch_kind E call tx p (cr_kind r) (call_state tx s) = (Inr v, t))"
  unfolding call_body_def by (auto simp: op_run authority_iff split: option.splits)

lemma execute_outermost:
  "execute_call E (call_fuel (nonce_used tx s)) tx (tx_sender tx) (started tx s) =
     (case call_body E (execute_call E (call_fuel (nonce_used tx s) - 1)) tx (tx_sender tx) (call_state tx s)
      of (res, t) \<Rightarrow> (res, exit_call t))"
proof -
  obtain n where "call_fuel (nonce_used tx s) = Suc n" by (simp add: call_fuel_def)
  then show ?thesis
    by (simp add: framed_run call_state_def started_def new_call_context_def split: prod.split)
qed

lemma runs_to_iff:
  "runs_to E tx s v u \<longleftrightarrow>
     (\<exists>t. call_body E (execute_call E (call_fuel (nonce_used tx s) - 1)) tx (tx_sender tx)
         (call_state tx s) = (Inr v, t) \<and> u = exit_call t)"
  by (auto simp: runs_to_def execute_outermost split: prod.splits)


lemma committed_cases:
  assumes "apply_transaction E tx s = Some (r, t)" "rc_status r = Committed"
  obtains rec v u where "admits tx s rec" "handler E tx s rec (call_state tx s) = (Inr v, u)"
    "t = detta_state.truncate (exit_call u)"
    "r = committed_receipt E t (tx_hash tx) v (transaction_resource_units tx)"
  using assms(1)
proof (cases rule: apply_transaction_cases)
  case (committed v w)
  then show thesis
    using that unfolding runs_to_iff body_run admits_def handler_def by blast
qed (use assms(2) in simp_all)

text \<open>The outcome of an admitted transaction.\<close>

lemma admitted_body:
  assumes "admits tx s rec"
  shows "call_body E call tx (tx_sender tx) (call_state tx s)
     = dispatch_kind E call tx (tx_sender tx) (cr_kind rec) (call_state tx s)"
proof -
  obtain policy where p: "fmlookup (cr_method_policies rec) (tx_method tx) = Some policy"
    and a: "authorised s (tx_target tx) (tx_sender tx) policy"
    using assms by (auto simp: admits_def split: option.splits)
  have "enforce_method_authority tx (tx_sender tx) policy (call_state tx s) = (Inr (), call_state tx s)"
    using a by (simp add: authority_iff)
  with assms p show ?thesis
    by (simp add: call_body_def exec_simps admits_def) (simp add: bind_def [of "enforce_method_authority _ _ _"] exec_simps)
qed

lemma admitted_outcome:
  assumes "admits tx s rec"
  shows "handler E tx s rec (call_state tx s) = (Inr v, u) \<Longrightarrow> t = detta_state.truncate (exit_call u) \<Longrightarrow>
      apply_transaction E tx s = Some (committed_receipt E t (tx_hash tx) v (transaction_resource_units tx), t)"
    and "handler E tx s rec (call_state tx s) = (Inl (Err e), u) \<Longrightarrow>
      apply_transaction E tx s = Some (reverted_receipt E (nonce_used tx s) (tx_hash tx) e
        (transaction_resource_units tx), nonce_used tx s)"
  using assms
  by (auto simp: apply_transaction_admitted admits_def run_call_conv execute_outermost
      admitted_body [OF assms] not_less handler_def)

text \<open>The dispatch tables, to find the handler of a method.\<close>

lemmas dispatch_defs = dispatch_kind_def dispatch_token_def dispatch_amm_def dispatch_oracle_def
  dispatch_bridge_def dispatch_governance_def dispatch_lending_def dispatch_staking_def
  dispatch_router_def dispatch_factory_def dispatch_account_registry_def
  execute_aspect_module_method_def other_name_def

text \<open>An executable test that a transaction commits.\<close>

definition commits :: "env \<Rightarrow> transaction \<Rightarrow> detta_state \<Rightarrow> bool" where
  "commits E tx s =
     (case fmlookup (contracts s) (tx_target tx) of None \<Rightarrow> False
      | Some rec \<Rightarrow> admits tx s rec \<and> \<not> isl (fst (handler E tx s rec (call_state tx s))))"

lemma commits_run:
  assumes "commits E tx s"
  obtains r t where "apply_transaction E tx s = Some (r, t)" "rc_status r = Committed"
proof -
  obtain rec v u where "admits tx s rec" "handler E tx s rec (call_state tx s) = (Inr v, u)"
    using assms by (auto simp: commits_def admits_def isl_def split: option.splits)
      (metis prod.exhaust_sel sum.exhaust)
  from admitted_outcome(1) [OF this refl] show thesis by (rule that) simp
qed

text \<open>The handler that a committed transaction ran.\<close>

lemma committed_handler:
  assumes "apply_transaction E tx s = Some (r, t)" "rc_status r = Committed"
  obtains rec v u call where "fmlookup (contracts s) (tx_target tx) = Some rec"
    "dispatch_kind E call tx (tx_sender tx) (cr_kind rec) (call_state tx s) = (Inr v, u)"
    "t = detta_state.truncate (exit_call u)" "rc_return_value r = Some v"
  using assms by (rule committed_cases) (auto simp: admits_def handler_def intro: that)

section \<open>Properties\<close>



end
