(* ===== verification/Pool_Safety.thy ===== *)
theory Pool_Safety
  imports Ledgers Admission
begin

text \<open>
  The constant-product pool. The shares of every pool add up to its recorded supply after any
  transactions, and the product of its two reserves never decreases: no sequence of swaps and
  deposits, nested calls of aspect tokens included, takes value out of a pool.
\<close>

section \<open>Liquidity shares\<close>

interpretation lp_entries: ledgers AmmPart is_lp_balance_of LpSupply
proof unfold_locales
  fix c key
  show "is_lp_balance_of c key \<Longrightarrow> key_part key = AmmPart" by (cases key) simp_all
qed simp_all

lemma amm_invariants_iff:
  "amm_invariants_hold s c \<longleftrightarrow> ledger_ok is_lp_balance_of LpSupply c s"
  by (auto simp: amm_invariants_hold_def lp_supply_def ledger_ok_def checked_sum_Some)

lemma deploy_pool_run:
  "deploy_amm_pool_with_parameters E c a b ap s = (Inr x, t) \<Longrightarrow> amm_invariants_hold t c"
  unfolding deploy_amm_pool_with_parameters_def Let_def by (auto simp: op_run)

lemma add_liquidity_checked:
  "add_liquidity call tx p a b s = (Inr v, t) \<Longrightarrow> amm_invariants_hold t (tx_target tx)"
  unfolding add_liquidity_def Let_def
  by (auto simp: op_run emit_run amm_invariants_iff ledger_ok_def logged_def uint_at_def)

lemma swap_checked:
  "swap call tx p a b fee s = (Inr v, t) \<Longrightarrow> amm_invariants_hold t (tx_target tx)"
  unfolding swap_def Let_def
  by (auto simp: op_run emit_run amm_invariants_iff ledger_ok_def logged_def uint_at_def)

lemma lp_handler_kept:
  assumes "\<And>t. within (keeps_ledgers is_lp_balance_of LpSupply {}) (\<lambda>_ _ _. True)
      (transfer_asset_balance call tx t)"
  shows "within (keeps_ledgers is_lp_balance_of LpSupply {}) (\<lambda>_ _ _. True)
    (dispatch_amm call tx p a b fee :: return_value xop)"
proof (rule lp_entries.closed_within [where X = "{tx_target tx}"])
  note nested = lp_entries.weaken_within [OF assms]
  show "within (keeps_ledgers is_lp_balance_of LpSupply {tx_target tx}) (\<lambda>_ _ _. True)
      (dispatch_amm call tx p a b fee)"
    unfolding dispatch_amm_def add_liquidity_def swap_def
    by (intro lp_entries.writes.writer_within lp_entries.writes.within_throw nested lp_entries.writes.state_set_any_within) auto
next
  fix s v t i
  assume "dispatch_amm call tx p a b fee s = (Inr v, t)" and "i \<in> {tx_target tx}"
  then show "ledger_ok is_lp_balance_of LpSupply i t"
    by (auto simp: dispatch_amm_def op_run simp flip: amm_invariants_iff split: if_splits
        dest: add_liquidity_checked swap_checked)
qed

interpretation lp: ledger_calls AmmPart is_lp_balance_of LpSupply E for E
proof unfold_locales
  fix c a b ap
  show "within (keeps_ledgers is_lp_balance_of LpSupply {}) (\<lambda>_ _ _. True)
      (deploy_amm_pool_with_parameters E c a b ap :: unit xop)"
    by (rule lp_entries.closed_within [where X = "{c}"],
        rule lp_entries.writes.deploy_amm_pool_any_within)
      (auto simp: lp_entries.contracts_kept simp flip: amm_invariants_iff dest: deploy_pool_run
        elim: is_lp_balance_of.elims)
next
  fix kind tx p and call :: "transaction \<Rightarrow> principal \<Rightarrow> return_value xop"
  assume "\<And>t. within (keeps_ledgers is_lp_balance_of LpSupply {}) (\<lambda>_ _ _. True)
      (transfer_asset_balance call tx t)"
    and "kind_part kind = AmmPart"
  then show "within (keeps_ledgers is_lp_balance_of LpSupply {}) (\<lambda>_ _ _. True)
      (dispatch_kind E call tx p kind)"
    by (cases kind) (simp_all add: dispatch_kind_def lp_handler_kept)
qed

section \<open>The product of the reserves\<close>

text \<open>The arithmetic of a swap: the output never exceeds what the constant product allows.\<close>

lemma constant_product:
  fixes r q n m x :: nat
  assumes "x * (r + m) \<le> q * m" "m \<le> n"
  shows "r * q \<le> (r + n) * (q - x)"
proof -
  have "r * q \<le> (q - x) * (r + m)"
    using assms(1) by (simp add: diff_mult_distrib algebra_simps)
  also have "\<dots> \<le> (q - x) * (r + n)"
    using assms(2) by (intro mult_le_mono2) simp
  finally show ?thesis by (simp add: mult.commute)
qed

lemma swap_quote_bounds:
  assumes "swap_quote rin rout n fee = Inr (fee_amount, out)"
  shows "unat rin * unat rout \<le> (unat rin + unat n) * (unat rout - unat out)"
    and "unat n * unat fee \<le> unat fee_amount * 10000" and "fee_amount \<le> n"
proof -
  obtain nf num den where nf: "amount_after_fee n fee = Inr nf"
    and num: "checked_mul rout nf = Some num" and den: "checked_add rin nf = Some den"
    and fee: "fee_amount = n - nf" and out: "out = num div den"
    using assms by (auto simp: swap_quote_def split: sum.splits option.splits)
  obtain v where v: "checked_mul n (10000 - as_amount fee) = Some v" and nfv: "nf = v div 10000"
    and bps: "fee \<le> 10000"
    using nf by (auto simp: amount_after_fee_def not_less split: if_splits option.splits)
  have "unat (as_amount fee) = unat fee" by (rule unat_as_amount)
  then have "unat (10000 - as_amount fee) = 10000 - unat fee"
    using bps by (simp add: unat_minus_le word_le_nat_alt)
  then have unf: "unat nf = unat n * (10000 - unat fee) div 10000"
    using v by (simp add: nfv unat_div checked_mul_Some)
  have fee_le: "unat fee \<le> 10000" using bps by (simp add: word_le_nat_alt)
  have "unat nf * 10000 \<le> unat n * (10000 - unat fee)" by (simp add: unf)
  then have scaled: "unat nf * 10000 + unat n * unat fee \<le> unat n * 10000"
    using mult_le_mono2 [OF fee_le, of "unat n"] unfolding diff_mult_distrib2 by linarith
  then have "unat nf * 10000 \<le> unat n * 10000" by (rule add_leD1)
  then have nfn: "unat nf \<le> unat n" by simp
  then have ufee: "unat fee_amount = unat n - unat nf"
    by (simp add: fee unat_minus_le word_le_nat_alt)
  show "unat n * unat fee \<le> unat fee_amount * 10000"
    using scaled by (simp add: ufee diff_mult_distrib)
  show "fee_amount \<le> n" by (simp add: word_le_nat_alt ufee)
  have unum: "unat num = unat rout * unat nf" using num by (simp add: checked_mul_Some)
  have uden: "unat den = unat rin + unat nf" using den by (simp add: checked_add_Some)
  have uout: "unat out * (unat rin + unat nf) \<le> unat rout * unat nf"
    by (simp add: out unat_div unum uden)
  show "unat rin * unat rout \<le> (unat rin + unat n) * (unat rout - unat out)"
    using constant_product [OF uout nfn] .
qed

text \<open>What a committed deposit and a committed swap do to the pool.\<close>

lemma add_liquidity_run:
  assumes "add_liquidity call tx p a b s = (Inr v, t)"
  obtains n m la lb s1 s2 where "tx_args tx = [Amount n, Amount m]"
    "transfer_asset_balance call tx \<lparr>at_ledger = la, at_from = p, at_to = tx_target tx,
       at_asset = a, at_amount = n\<rparr> s = (Inr (), s1)"
    "transfer_asset_balance call tx \<lparr>at_ledger = lb, at_from = p, at_to = tx_target tx,
       at_asset = b, at_amount = m\<rparr> s1 = (Inr (), s2)"
    "fits (uint_at s (Reserve (tx_target tx) a)) n" "fits (uint_at s (Reserve (tx_target tx) b)) m"
    "v = RUInt (n + m)"
    "contracts t = contracts s2"
    "storage t = fmupd (LpBalance (tx_target tx) p) (UInt (uint_at s (LpBalance (tx_target tx) p) + (n + m)))
      (fmupd (LpSupply (tx_target tx)) (UInt (uint_at s (LpSupply (tx_target tx)) + (n + m)))
      (fmupd (Reserve (tx_target tx) b) (UInt (uint_at s (Reserve (tx_target tx) b) + m))
      (fmupd (Reserve (tx_target tx) a) (UInt (uint_at s (Reserve (tx_target tx) a) + n)) (storage s2))))"
  using assms unfolding add_liquidity_def Let_def
  by (auto simp: op_run arg_run emit_run numeral_eq_Suc length_Suc_conv checked_add_conv
      fset_of_list.rep_eq logged_def)

lemma output_asset_Inr:
  "output_asset_of i a b = Inr j \<longleftrightarrow> i = a \<and> j = b \<or> i \<noteq> a \<and> i = b \<and> j = a"
  by (auto simp: output_asset_of_def)

lemma collect_fee_run:
  assumes "(if fee \<noteq> 0 then bind (read_uint k) (\<lambda>c. bind (or_err (checked_add c fee) ArithmeticOverflow)
      (\<lambda>n. state_set frame k (UInt n))) else ret ()) s = (Inr x, t)"
  shows "contracts t = contracts s \<and> (\<forall>key. key \<noteq> k \<longrightarrow> fmlookup (storage t) key = fmlookup (storage s) key)"
  using assms by (cases "fee = 0") (auto simp: op_run)

text \<open>What a swap with input \<open>i\<close> and output \<open>j\<close> writes, its fee counter aside.\<close>

lemma swap_run:
  assumes "swap call tx p a b fee s = (Inr v, t)"
  obtains i j n least fa out li lj s1 s2 where "tx_args tx = [Asset i, Amount n, Amount least]"
    "i = a \<and> j = b \<or> i = b \<and> j = a"
    "swap_quote (uint_at s (Reserve (tx_target tx) i)) (uint_at s (Reserve (tx_target tx) j)) n fee
       = Inr (fa, out)"
    "n \<noteq> 0" "out \<noteq> 0" "least \<le> out" "out \<le> uint_at s (Reserve (tx_target tx) j)"
    "transfer_asset_balance call tx \<lparr>at_ledger = li, at_from = p, at_to = tx_target tx,
       at_asset = i, at_amount = n\<rparr> s = (Inr (), s1)"
    "transfer_asset_balance call tx \<lparr>at_ledger = lj, at_from = tx_target tx, at_to = p,
       at_asset = j, at_amount = out\<rparr> s1 = (Inr (), s2)"
    "fits (uint_at s (Reserve (tx_target tx) i)) n"
    "v = RUInt out" "contracts t = contracts s2"
    "\<forall>key. key \<noteq> AmmFeeCollected (tx_target tx) i \<longrightarrow> fmlookup (storage t) key =
       fmlookup (fmupd (Reserve (tx_target tx) j) (UInt (uint_at s (Reserve (tx_target tx) j) - out))
         (fmupd (Reserve (tx_target tx) i) (UInt (uint_at s (Reserve (tx_target tx) i) + n))
         (storage s2))) key"
  using assms unfolding swap_def Let_def
  apply (simp add: op_run arg_run emit_run numeral_eq_Suc length_Suc_conv checked_add_conv
      fset_of_list.rep_eq not_less output_asset_Inr)
  apply (elim exE conjE)
  apply (drule collect_fee_run)
  subgoal for y i ys n ya ysa least yb j li lj fa out s1 s2 u
    by (rule that [of i n least j fa out li s1 lj s2]) (auto simp: logged_def)
  done

text \<open>The price of a swap: the fee comes off the input, and the output is at most what keeps the
  product of the reserves.\<close>

definition swap_priced :: "nat \<Rightarrow> nat \<Rightarrow> nat \<Rightarrow> nat \<Rightarrow> nat \<Rightarrow> bool" where
  "swap_priced rin rout n fee out \<longleftrightarrow>
     (\<exists>net. net * 10000 + n * fee \<le> n * 10000 \<and> out * (rin + net) \<le> rout * net)"

lemma swap_quote_priced:
  assumes "swap_quote rin rout n fee = Inr (fa, out)"
  shows "swap_priced (unat rin) (unat rout) (unat n) (unat fee) (unat out)"
proof -
  have "unat (n - fa) = unat n - unat fa" "unat fa \<le> unat n"
    using swap_quote_bounds(3) [OF assms] by (simp_all add: unat_minus_le word_le_nat_alt)
  then have "unat (n - fa) * 10000 + unat n * unat fee \<le> unat n * 10000"
    using swap_quote_bounds(2) [OF assms] by (simp add: diff_mult_distrib)
  moreover have "unat out * (unat rin + unat (n - fa)) \<le> unat rout * unat (n - fa)"
    using assms
    by (auto simp: swap_quote_def checked_mul_Some checked_add_Some unat_div split: sum.splits option.splits)
  ultimately show ?thesis unfolding swap_priced_def by blast
qed

definition reserves_swapped ::
  "'z state_of \<Rightarrow> 'y state_of \<Rightarrow> contract_id \<Rightarrow> asset_id \<Rightarrow> asset_id \<Rightarrow> amount \<Rightarrow> amount \<Rightarrow> bool" where
  "reserves_swapped s t c i j n out \<longleftrightarrow>
     unat (uint_at t (Reserve c i)) = unat (uint_at s (Reserve c i)) + unat n
     \<and> unat (uint_at s (Reserve c j)) = unat (uint_at t (Reserve c j)) + unat out"

lemma swap_effect:
  assumes "swap call tx p a b fee s = (Inr v, t)"
  shows "\<exists>i j n least out. tx_args tx = [Asset i, Amount n, Amount least]
    \<and> (i = a \<and> j = b \<or> i = b \<and> j = a) \<and> v = RUInt out \<and> 0 < out \<and> least \<le> out
    \<and> swap_priced (unat (uint_at s (Reserve (tx_target tx) i))) (unat (uint_at s (Reserve (tx_target tx) j)))
        (unat n) (unat fee) (unat out)
    \<and> (a \<noteq> b \<longrightarrow> reserves_swapped s t (tx_target tx) i j n out)"
  using assms
proof (rule swap_run)
  fix i j n least fa out s2
  let ?in = "Reserve (tx_target tx) i" and ?out = "Reserve (tx_target tx) j"
  assume le: "out \<le> uint_at s ?out" and fits: "fits (uint_at s ?in) n"
    and written: "\<forall>key. key \<noteq> AmmFeeCollected (tx_target tx) i \<longrightarrow> fmlookup (storage t) key =
      fmlookup (fmupd ?out (UInt (uint_at s ?out - out)) (fmupd ?in (UInt (uint_at s ?in + n))
        (storage s2))) key"
    and args: "tx_args tx = [Asset i, Amount n, Amount least]" and ij: "i = a \<and> j = b \<or> i = b \<and> j = a"
    and quote: "swap_quote (uint_at s ?in) (uint_at s ?out) n fee = Inr (fa, out)"
    and v: "out \<noteq> 0" "least \<le> out" "v = RUInt out"
  have "reserves_swapped s t (tx_target tx) i j n out" if "a \<noteq> b"
  proof -
    have "uint_at t ?in = uint_at s ?in + n" "uint_at t ?out = uint_at s ?out - out"
      using written ij that by (auto simp: uint_at_def)
    with le show ?thesis
      by (simp add: reserves_swapped_def unat_add_fits fits unat_minus_le word_le_nat_alt)
  qed
  with args ij swap_quote_priced [OF quote] v show ?thesis unfolding word_gt_0 by blast
qed

lemma priced_product:
  assumes "swap_priced rin rout n fee out"
  shows "rin * rout \<le> (rin + n) * (rout - out)"
proof -
  obtain net where net: "net * 10000 + n * fee \<le> n * 10000" "out * (rin + net) \<le> rout * net"
    using assms by (auto simp: swap_priced_def)
  then have "net \<le> n" by (meson add_leD1 mult_le_cancel2 zero_less_numeral)
  with net(2) show ?thesis by (rule constant_product)
qed

definition pool_product :: "'z state_of \<Rightarrow> contract_id \<Rightarrow> asset_id \<Rightarrow> asset_id \<Rightarrow> nat" where
  "pool_product s c a b = unat (uint_at s (Reserve c a)) * unat (uint_at s (Reserve c b))"

definition keeps_pools :: "'z state_of \<Rightarrow> 'y state_of \<Rightarrow> bool" where
  "keeps_pools s t \<longleftrightarrow> keeps_contracts s t
     \<and> (\<forall>c r a b fee. fmlookup (contracts s) c = Some r \<longrightarrow> cr_kind r = AmmPool a b fee \<longrightarrow> a \<noteq> b \<longrightarrow>
          pool_product s c a b \<le> pool_product t c a b)"

lemma keeps_pools_trans:
  assumes "keeps_pools s t" "keeps_pools t u"
  shows "keeps_pools s u"
  unfolding keeps_pools_def
proof (intro conjI allI impI)
  show "keeps_contracts s u"
    using assms unfolding keeps_pools_def by (blast intro: keeps_contracts_trans)
next
  fix c r a b fee
  assume r: "fmlookup (contracts s) c = Some r" "cr_kind r = AmmPool a b fee" "a \<noteq> b"
  then obtain r' where "fmlookup (contracts t) c = Some r'" "cr_kind r' = AmmPool a b fee"
    using assms(1) unfolding keeps_pools_def keeps_contracts_def same_manifest_def by metis
  then show "pool_product s c a b \<le> pool_product u c a b"
    using assms r unfolding keeps_pools_def by (blast intro: order_trans)
qed

lemma pool_product_commute: "pool_product s c a b = pool_product s c b a"
  by (simp add: pool_product_def)

lemma swap_product:
  assumes "swap call tx p a b fee s = (Inr v, t)" and "a \<noteq> b"
  shows "pool_product s (tx_target tx) a b \<le> pool_product t (tx_target tx) a b"
proof -
  obtain i j n out where ij: "i = a \<and> j = b \<or> i = b \<and> j = a"
    and "swap_priced (unat (uint_at s (Reserve (tx_target tx) i))) (unat (uint_at s (Reserve (tx_target tx) j)))
        (unat n) (unat fee) (unat out)" "reserves_swapped s t (tx_target tx) i j n out"
    using swap_effect [OF assms(1)] assms(2) by blast
  then have "pool_product s (tx_target tx) i j \<le> pool_product t (tx_target tx) i j"
    by (auto simp: pool_product_def reserves_swapped_def dest!: priced_product)
  with ij show ?thesis by (auto simp: pool_product_commute)
qed

lemma add_liquidity_product:
  assumes "add_liquidity call tx p a b s = (Inr v, t)" and "a \<noteq> b"
  shows "pool_product s (tx_target tx) a b \<le> pool_product t (tx_target tx) a b"
  using assms(1)
proof (rule add_liquidity_run)
  fix n m s2
  assume "fits (uint_at s (Reserve (tx_target tx) a)) n" "fits (uint_at s (Reserve (tx_target tx) b)) m"
    and "storage t = fmupd (LpBalance (tx_target tx) p) (UInt (uint_at s (LpBalance (tx_target tx) p) + (n + m)))
      (fmupd (LpSupply (tx_target tx)) (UInt (uint_at s (LpSupply (tx_target tx)) + (n + m)))
      (fmupd (Reserve (tx_target tx) b) (UInt (uint_at s (Reserve (tx_target tx) b) + m))
      (fmupd (Reserve (tx_target tx) a) (UInt (uint_at s (Reserve (tx_target tx) a) + n)) (storage s2))))"
  then have "unat (uint_at t (Reserve (tx_target tx) a)) = unat (uint_at s (Reserve (tx_target tx) a)) + unat n"
    "unat (uint_at t (Reserve (tx_target tx) b)) = unat (uint_at s (Reserve (tx_target tx) b)) + unat m"
    using assms(2) by (auto simp: uint_at_def [of t] unat_add_fits)
  then show ?thesis by (simp add: pool_product_def mult_le_mono)
qed

section \<open>No call takes value out of a pool\<close>

text \<open>A deployment writes the entries of a contract that did not exist.\<close>

lemma pool_deploy:
  "within keeps_pools (\<lambda>_ _ _. True) (deploy_amm_pool_with_parameters E c a b ap :: unit xop)"
proof (rule withinI)
  fix s t :: exec_state and x
  assume run: "deploy_amm_pool_with_parameters E c a b ap s = (Inr x, t)"
  have "within (same_entries (\<lambda>key. owner_contract key \<noteq> c)) (\<lambda>_ _ _. True)
      (deploy_amm_pool_with_parameters E c a b ap :: unit xop)"
    by (rule untouched.deploy_amm_pool_any_within) (simp_all add: untouched_contracts)
  then have "same_entries (\<lambda>key. owner_contract key \<noteq> c) s t"
    using run by (rule within_okD)
  then have "pool_product t c' a' b' = pool_product s c' a' b'" if "c' \<noteq> c" for c' a' b'
    using that by (simp add: pool_product_def same_entries_uint_at)
  moreover have "keeps_contracts s t"
    using contracts_deploy(2) run by (rule within_okD)
  ultimately show "keeps_pools s t"
    using deploy_fresh(2) [OF run] unfolding keeps_pools_def by (metis option.distinct(1) order_refl)
qed simp

text \<open>A handler that ends in writes of its own contract's entries after nested calls.\<close>

lemma pool_step:
  assumes "fmlookup (contracts s) (tx_target tx) = Some r" "cr_kind r = AmmPool a b fee"
    and "keeps_pools s s2" "contracts t = contracts s2"
    and "\<forall>key. owner_contract key \<noteq> tx_target tx \<longrightarrow> fmlookup (storage t) key = fmlookup (storage s2) key"
    and "a \<noteq> b \<Longrightarrow> pool_product s (tx_target tx) a b \<le> pool_product t (tx_target tx) a b"
  shows "keeps_pools s t"
  unfolding keeps_pools_def
proof (intro conjI allI impI)
  show "keeps_contracts s t"
    using assms(3,4) by (simp add: keeps_pools_def keeps_contracts_def)
next
  fix c r' a' b' fee'
  assume r': "fmlookup (contracts s) c = Some r'" "cr_kind r' = AmmPool a' b' fee'" "a' \<noteq> b'"
  show "pool_product s c a' b' \<le> pool_product t c a' b'"
  proof (cases "c = tx_target tx")
    case True
    with r' assms(1,2,6) show ?thesis by auto
  next
    case False
    then have "pool_product t c a' b' = pool_product s2 c a' b'"
      using assms(5) by (simp add: pool_product_def uint_at_def)
    with r' assms(3) show ?thesis unfolding keeps_pools_def by auto
  qed
qed

lemma foreign_key:
  "owner_contract key \<noteq> c \<Longrightarrow> \<forall>i. key \<noteq> AmmFeeCollected c i \<and> Reserve c i \<noteq> key"
  by auto

lemma pool_handlers:
  assumes r: "fmlookup (contracts s) (tx_target tx) = Some r" "cr_kind r = AmmPool a b fee"
    and nested: "\<And>t. within keeps_pools (\<lambda>_ _ _. True) (transfer_asset_balance call tx t)"
    and run: "dispatch_amm call tx p a b fee s = (Inr v, t)"
  shows "keeps_pools s t"
proof -
  have trans: "keeps_pools s s2" if "transfer_asset_balance call tx x s = (Inr (), s1)"
    "transfer_asset_balance call tx y s1 = (Inr (), s2)" for x y s1 s2
    using that within_okD [OF nested] by (blast intro: keeps_pools_trans)
  consider (add) "add_liquidity call tx p a b s = (Inr v, t)" | (swap) "swap call tx p a b fee s = (Inr v, t)"
    using run by (auto simp: dispatch_amm_def op_run split: if_splits)
  then show ?thesis
  proof cases
    case add
    then show ?thesis
      by (rule add_liquidity_run) (rule pool_step [OF r trans]; auto intro: add_liquidity_product [OF add])
  next
    case swap
    then show ?thesis
      by (rule swap_run)
        (rule pool_step [OF r trans], assumption, assumption, assumption,
          auto dest: foreign_key intro: swap_product [OF swap])
  qed
qed

interpretation pool_calls: part_relation keeps_pools AmmPart E for E
proof unfold_locales
  fix s t u :: exec_state
  show "keeps_pools s t \<Longrightarrow> keeps_pools t u \<Longrightarrow> keeps_pools s u" by (rule keeps_pools_trans)
  show "keeps_contracts s t \<Longrightarrow> same_entries (\<lambda>key. key_part key = AmmPart) s t \<Longrightarrow> keeps_pools s t"
    by (simp add: keeps_pools_def pool_product_def same_entries_uint_at)
  show "keeps_pools (entered c m p s) t \<Longrightarrow> keeps_pools s (exit_call t)" for c m p
    by (simp add: keeps_pools_def keeps_contracts_def pool_product_def uint_at_def entered_def exit_call_def)
next
  fix r :: contract_record and s t :: exec_state and tx p v
    and call :: "transaction \<Rightarrow> principal \<Rightarrow> return_value xop"
  assume "kind_part (cr_kind r) = AmmPart" "fmlookup (contracts s) (tx_target tx) = Some r"
    "\<And>t. within keeps_pools (\<lambda>_ _ _. True) (transfer_asset_balance call tx t)"
    "dispatch_kind E call tx p (cr_kind r) s = (Inr v, t)"
  then show "keeps_pools s t"
    by (cases "cr_kind r") (auto simp: dispatch_kind_def intro: pool_handlers)
qed (rule pool_deploy)

interpretation pool_chain: chain_relation keeps_pools E for E
proof unfold_locales
  fix s t u :: detta_state
  show "keeps_pools s t \<Longrightarrow> keeps_pools t u \<Longrightarrow> keeps_pools s u" by (rule keeps_pools_trans)
next
  fix tx s r t
  assume "apply_transaction E tx s = Some (r, t)"
  then show "keeps_pools s t"
    using pool_calls.calls.execute_call_within
    by (rule transaction_keeps)
      (simp_all add: keeps_pools_def keeps_contracts_def started_def nonce_used_def same_manifest_def
        pool_product_def uint_at_def)
qed (simp_all add: keeps_pools_def keeps_contracts_same pool_product_def uint_at_def)

section \<open>A sample swap\<close>

definition pool_state :: detta_state where
  "pool_state =
     (let s = snd (andthen (deploy_token sample_env ''tok'' ''GOLD'' [(''alice'', 100), (''amm'', 20)])
          (andthen (deploy_token sample_env ''usd'' ''USD'' [(''alice'', 100), (''amm'', 40)])
          (deploy_amm_pool sample_env ''amm'' ''GOLD'' ''USD'')) (new_state ''chain'')) in
      s\<lparr>storage := fmupd (Reserve ''amm'' ''GOLD'') (UInt 20) (fmupd (Reserve ''amm'' ''USD'') (UInt 40) (storage s))\<rparr>)"

definition sample_swap :: transaction where
  "sample_swap =
     \<lparr>tx_chain_id = ''chain'', tx_hash = ''t3'', tx_sender = ''alice'', tx_nonce = 1,
      tx_valid_until_height = None, tx_target = ''amm'', tx_method = Swap,
      tx_args = [Asset ''GOLD'', Amount 5, Amount 6], tx_signature_ok = True,
      tx_budget = 1000\<rparr>"

lemma sample_swaps: "commits sample_env sample_swap pool_state"
  by code_simp

section \<open>Properties\<close>

text \<open>(C16) No value leaves a pool: after any transactions, swaps and deposits in any order and with any
  tokens, the product of the two reserves of every pool is at least what it was before.\<close>

theorem transactions_keep_product:
  assumes "apply_transactions E txs s = Some (rs, t)"
    and "fmlookup (contracts s) c = Some r" "cr_kind r = AmmPool a b fee" "a \<noteq> b"
  shows "pool_product s c a b \<le> pool_product t c a b"
  using pool_chain.transactions [OF assms(1)] assms(2-4) unfolding keeps_pools_def by blast

theorem transactions_keep_product_witness:
  "\<exists>r t. apply_transactions sample_env [sample_swap] pool_state = Some ([r], t) \<and> rc_status r = Committed
     \<and> 800 \<le> pool_product t ''amm'' ''GOLD'' ''USD''"
proof -
  obtain r t where run: "apply_transaction sample_env sample_swap pool_state = Some (r, t)"
    and committed: "rc_status r = Committed"
    using sample_swaps by (rule commits_run)
  then have all: "apply_transactions sample_env [sample_swap] pool_state = Some ([r], t)" by simp
  have "map_option cr_kind (fmlookup (contracts pool_state) ''amm'') = Some (AmmPool ''GOLD'' ''USD'' 30)"
    by code_simp
  then obtain rec where "fmlookup (contracts pool_state) ''amm'' = Some rec"
    "cr_kind rec = AmmPool ''GOLD'' ''USD'' 30" by auto
  moreover have "pool_product pool_state ''amm'' ''GOLD'' ''USD'' = 800" by code_simp
  ultimately have "800 \<le> pool_product t ''amm'' ''GOLD'' ''USD''"
    using transactions_keep_product [OF all, of "''amm''" rec] by simp
  with all committed show ?thesis by blast
qed

text \<open>(C17) What a committed swap does: it takes exactly the input amount into one reserve and pays
  exactly the returned amount out of the other; the amount paid is positive, at least the minimum
  the caller asked for, and at most what the constant product of the reserves allows once the
  declared basis points of the input are kept as the fee.\<close>

theorem committed_swap:
  assumes "apply_transaction E tx s = Some (r, t)" "rc_status r = Committed" "tx_method tx = Swap"
  shows "\<exists>a b fee i j n least out.
    map_option cr_kind (fmlookup (contracts s) (tx_target tx)) = Some (AmmPool a b fee)
    \<and> tx_args tx = [Asset i, Amount n, Amount least] \<and> (i = a \<and> j = b \<or> i = b \<and> j = a)
    \<and> rc_return_value r = Some (RUInt out) \<and> 0 < out \<and> least \<le> out
    \<and> swap_priced (unat (uint_at s (Reserve (tx_target tx) i))) (unat (uint_at s (Reserve (tx_target tx) j)))
        (unat n) (unat fee) (unat out)
    \<and> (a \<noteq> b \<longrightarrow> reserves_swapped s t (tx_target tx) i j n out)"
  using assms(1,2)
proof (rule committed_handler)
  fix rec v u call
  assume run: "fmlookup (contracts s) (tx_target tx) = Some rec"
      "dispatch_kind E call tx (tx_sender tx) (cr_kind rec) (call_state tx s) = (Inr v, u)"
    and t: "t = detta_state.truncate (exit_call u)" and "rc_return_value r = Some v"
  moreover obtain a b fee where "map_option cr_kind (fmlookup (contracts s) (tx_target tx)) = Some (AmmPool a b fee)"
    and "swap call tx (tx_sender tx) a b fee (call_state tx s) = (Inr v, u)"
    using run assms(3) by (cases "cr_kind rec") (auto simp: dispatch_defs op_run)
  moreover have "reserves_swapped (call_state tx s) u c i j n out = reserves_swapped s t c i j n out" for c i j n out
    by (simp add: reserves_swapped_def t)
  ultimately show ?thesis
    using swap_effect [of call tx "tx_sender tx" a b fee "call_state tx s" v u] unfolding uint_at_call_state
    by metis
qed

theorem committed_swap_witness:
  "\<exists>r t. apply_transaction sample_env sample_swap pool_state = Some (r, t) \<and> rc_status r = Committed
     \<and> (\<exists>out. rc_return_value r = Some (RUInt out) \<and> 6 \<le> out)"
proof -
  obtain r t where run: "apply_transaction sample_env sample_swap pool_state = Some (r, t)"
    "rc_status r = Committed"
    using sample_swaps by (rule commits_run)
  have "tx_method sample_swap = Swap" "tx_args sample_swap = [Asset ''GOLD'', Amount 5, Amount 6]"
    by (simp_all add: sample_swap_def)
  with committed_swap [OF run] run show ?thesis by auto
qed

end
