(* ===== verification/Staking_Safety.thy ===== *)
theory Staking_Safety
  imports Ledgers
begin

text \<open>
  Staking. The stakes and the pending withdrawals of every staking contract add up to their
  recorded totals after any transactions.
\<close>

section \<open>The two ledgers\<close>

text \<open>The stakes (\<open>False\<close>) and the pending withdrawals (\<open>True\<close>) of a contract and an asset.\<close>

fun staking_entry :: "bool \<times> contract_id \<times> asset_id \<Rightarrow> state_key \<Rightarrow> bool" where
  "staking_entry (pending, c, a) = (if pending then is_pending_of c a else is_stake_of c a)"

fun staking_total :: "bool \<times> contract_id \<times> asset_id \<Rightarrow> state_key" where
  "staking_total (pending, c, a) = (if pending then TotalPendingUnbond c a else TotalStaked c a)"

interpretation stake_entries: ledgers StakingPart staking_entry staking_total
proof unfold_locales
  fix i key
  show "staking_entry i key \<Longrightarrow> key_part key = StakingPart"
    by (cases i; cases key) (auto split: if_splits)
  show "key_part (staking_total i) = StakingPart" by (cases i) simp
qed simp

lemma staking_invariants_iff:
  "staking_invariants_hold s c a \<longleftrightarrow> ledger_ok staking_entry staking_total (False, c, a) s"
  "staking_pending_unbonding_invariants_hold s c a \<longleftrightarrow>
     ledger_ok staking_entry staking_total (True, c, a) s"
  by (auto simp: staking_invariants_hold_def staking_pending_unbonding_invariants_hold_def
      total_staked_def total_pending_unbond_def ledger_ok_def checked_sum_Some)

lemma staking_invariants_logged [simp]:
  "staking_invariants_hold (logged tx payload s) c a = staking_invariants_hold s c a"
  "staking_pending_unbonding_invariants_hold (logged tx payload s) c a
    = staking_pending_unbonding_invariants_hold s c a"
  by (simp_all add: staking_invariants_iff ledger_ok_def logged_def uint_at_def)

lemma emit_penalty_run:
  "emit_penalty tx p a n penalty released s = (Inr x, t) \<longleftrightarrow>
     t = (if penalty = 0 then s else logged tx (EvStakingPenaltyApplied p a n penalty released) s)"
  by (auto simp: emit_penalty_def op_run emit_run)

lemma staking_checked:
  "stake call tx p a rpb s = (Inr v, t) \<Longrightarrow>
     staking_invariants_hold t (tx_target tx) a \<and> staking_pending_unbonding_invariants_hold t (tx_target tx) a"
  "unstake call tx p a params s = (Inr v, t) \<Longrightarrow>
     staking_invariants_hold t (tx_target tx) a \<and> staking_pending_unbonding_invariants_hold t (tx_target tx) a"
  "request_unstake tx p a rpb delay bps s = (Inr v, t) \<Longrightarrow>
     staking_invariants_hold t (tx_target tx) a \<and> staking_pending_unbonding_invariants_hold t (tx_target tx) a"
  "complete_unstake call tx p a s = (Inr v, t) \<Longrightarrow>
     staking_pending_unbonding_invariants_hold t (tx_target tx) a"
  unfolding stake_def unstake_def request_unstake_def complete_unstake_def Let_def
  by (auto simp: op_run emit_run emit_penalty_run)

text \<open>A staking handler touches the two ledgers of its target and asset only.\<close>

lemma stake_entry_simps [simp]:
  "staking_entry i (StakingRewardBalance c p a) = False"
  "staking_entry i (StakingLastRewardHeight c p a) = False"
  "staking_entry i (StakingPenaltyCollected c a) = False"
  "staking_entry i (UnbondReadyHeight c p a) = False"
  "staking_entry i (TotalStaked c a) = False"
  "staking_entry i (TotalPendingUnbond c a) = False"
  "staking_entry i (StakeBalance c p a) = (i = (False, c, a))"
  "staking_entry i (PendingUnbond c p a) = (i = (True, c, a))"
  by (cases i; auto)+

lemma stake_total_simps [simp]:
  "staking_total i = TotalStaked c a \<longleftrightarrow> i = (False, c, a)"
  "staking_total i = TotalPendingUnbond c a \<longleftrightarrow> i = (True, c, a)"
  "staking_total i \<noteq> StakeBalance c p a" "staking_total i \<noteq> PendingUnbond c p a"
  "staking_total i \<noteq> StakingRewardBalance c p a" "staking_total i \<noteq> StakingLastRewardHeight c p a"
  "staking_total i \<noteq> StakingPenaltyCollected c a" "staking_total i \<noteq> UnbondReadyHeight c p a"
  by (cases i; auto)+

abbreviation keeps_stakes :: "(bool \<times> contract_id \<times> asset_id) set \<Rightarrow> exec_state \<Rightarrow> exec_state \<Rightarrow> bool" where
  "keeps_stakes X \<equiv> keeps_ledgers staking_entry staking_total X"

lemmas stake_rules = stake_entries.guard_within stake_entries.writes.writer_within
  stake_entries.writes.within_throw stake_entries.writes.state_set_any_within
  stake_entries.writes.mint_native_any_within

lemma staking_helpers_kept:
  "within (keeps_stakes X) (\<lambda>_ _ _. True) (accrue_staking_rewards frame c p a n)"
  "within (keeps_stakes X) (\<lambda>_ _ _. True) (collect_penalty frame (StakingPenaltyCollected c a) n)"
  "within (keeps_stakes X) (\<lambda>_ _ _. True) (emit_penalty tx p a n m k)"
  unfolding accrue_staking_rewards_def collect_penalty_def emit_penalty_def
  by (intro stake_rules; simp)+

lemma staking_mint_kept: "within (keeps_stakes X) (\<lambda>_ _ _. True) (mint_asset_balance l p a n)"
  by (cases l) (simp_all add: mint_asset_balance_def stake_rules)

lemma staking_handlers_touch:
  assumes nested: "\<And>t. within (keeps_stakes X) (\<lambda>_ _ _. True) (transfer_asset_balance call tx t)"
  shows "{(False, tx_target tx, a), (True, tx_target tx, a)} \<subseteq> X \<Longrightarrow>
      within (keeps_stakes X) (\<lambda>_ _ _. True) (stake call tx p a n)"
    and "{(False, tx_target tx, a), (True, tx_target tx, a)} \<subseteq> X \<Longrightarrow>
      within (keeps_stakes X) (\<lambda>_ _ _. True) (unstake call tx p a params)"
    and "{(False, tx_target tx, a), (True, tx_target tx, a)} \<subseteq> X \<Longrightarrow>
      within (keeps_stakes X) (\<lambda>_ _ _. True) (request_unstake tx p a n d b)"
    and "(True, tx_target tx, a) \<in> X \<Longrightarrow>
      within (keeps_stakes X) (\<lambda>_ _ _. True) (complete_unstake call tx p a)"
    and "within (keeps_stakes X) (\<lambda>_ _ _. True) (claim_staking_rewards tx p a n)"
  unfolding stake_def unstake_def request_unstake_def complete_unstake_def claim_staking_rewards_def Let_def
  by (intro stake_rules nested staking_helpers_kept staking_mint_kept; auto)+

lemma staking_handlers_kept:
  assumes nested: "\<And>t. within (keeps_stakes {}) (\<lambda>_ _ _. True) (transfer_asset_balance call tx t)"
  shows "within (keeps_stakes {}) (\<lambda>_ _ _. True) (dispatch_staking call tx p a params)"
proof -
  let ?both = "{(False, tx_target tx, a), (True, tx_target tx, a)}"
  note touch = staking_handlers_touch [OF stake_entries.weaken_within [OF nested]]
  have "within (keeps_stakes {}) (\<lambda>_ _ _. True) (stake call tx p a n)" for n
    by (rule stake_entries.closed_within [OF touch(1) [of a ?both]])
      (auto simp flip: staking_invariants_iff dest: staking_checked)
  moreover have "within (keeps_stakes {}) (\<lambda>_ _ _. True) (unstake call tx p a params)"
    by (rule stake_entries.closed_within [OF touch(2) [of a ?both]])
      (auto simp flip: staking_invariants_iff dest: staking_checked)
  moreover have "within (keeps_stakes {}) (\<lambda>_ _ _. True) (request_unstake tx p a n d b)" for n d b
    by (rule stake_entries.closed_within [OF touch(3) [of a ?both]])
      (auto simp flip: staking_invariants_iff dest: staking_checked)
  moreover have "within (keeps_stakes {}) (\<lambda>_ _ _. True) (complete_unstake call tx p a)"
    by (rule stake_entries.closed_within [OF touch(4) [of a "{(True, tx_target tx, a)}"]])
      (auto simp flip: staking_invariants_iff dest: staking_checked)
  ultimately show ?thesis
    using touch(5) by (simp add: dispatch_staking_def stake_rules)
qed

interpretation stakes: ledger_calls StakingPart staking_entry staking_total E for E
proof unfold_locales
  fix c a b ap
  show "within (keeps_stakes {}) (\<lambda>_ _ _. True) (deploy_amm_pool_with_parameters E c a b ap)"
    by (rule stake_entries.foreign_deploy) simp
next
  fix kind tx p and call :: "transaction \<Rightarrow> principal \<Rightarrow> return_value xop"
  assume "\<And>t. within (keeps_stakes {}) (\<lambda>_ _ _. True) (transfer_asset_balance call tx t)"
    and "kind_part kind = StakingPart"
  then show "within (keeps_stakes {}) (\<lambda>_ _ _. True) (dispatch_kind E call tx p kind)"
    by (cases kind) (simp_all add: dispatch_kind_def staking_handlers_kept)
qed

section \<open>Entries belong to contracts\<close>

text \<open>A new staking entry belongs to a contract of \<open>C\<close> or to one that exists.\<close>

definition keeps_owned :: "contract_id set \<Rightarrow> 'z state_of \<Rightarrow> 'y state_of \<Rightarrow> bool" where
  "keeps_owned C s t \<longleftrightarrow> keeps_contracts s t
     \<and> (\<forall>key. key_part key = StakingPart \<longrightarrow> key |\<in>| fmdom (storage t) \<longrightarrow>
          key |\<in>| fmdom (storage s) \<or> owner_contract key \<in> C
          \<or> owner_contract key |\<in>| fmdom (contracts t))"

lemma keeps_contracts_dom: "keeps_contracts s t \<Longrightarrow> fmdom (contracts s) |\<subseteq>| fmdom (contracts t)"
  unfolding keeps_contracts_def by (metis fmdomE fmdomI fsubsetI)

lemma keeps_owned_trans: "keeps_owned C s t \<Longrightarrow> keeps_owned C t u \<Longrightarrow> keeps_owned C s u"
  unfolding keeps_owned_def
  by (metis (no_types, lifting) keeps_contracts_dom keeps_contracts_trans fsubsetD)

interpretation owned_writes: storage_relation "keeps_owned C :: exec_state \<Rightarrow> _" "\<lambda>_ _ _. True" "\<lambda>_. True"
  "\<lambda>key v. key_part key = StakingPart \<longrightarrow> owner_contract key \<in> C" for C
proof unfold_locales
  fix s t u :: exec_state
  show "keeps_owned C s t \<Longrightarrow> keeps_owned C t u \<Longrightarrow> keeps_owned C s u" by (rule keeps_owned_trans)
qed (auto simp: keeps_owned_def keeps_contracts_same write_defs within_def modify_def)

lemmas owned_rules = owned_writes.writer_within owned_writes.within_throw
  owned_writes.state_set_any_within owned_writes.mint_native_any_within

lemma owned_helpers:
  "c \<in> C \<Longrightarrow> within (keeps_owned C) (\<lambda>_ _ _. True) (accrue_staking_rewards frame c p a n :: amount xop)"
  "c \<in> C \<Longrightarrow> within (keeps_owned C) (\<lambda>_ _ _. True) (collect_penalty frame (StakingPenaltyCollected c a) n :: unit xop)"
  "within (keeps_owned C) (\<lambda>_ _ _. True) (emit_penalty tx p a n m k :: unit xop)"
  unfolding accrue_staking_rewards_def collect_penalty_def emit_penalty_def
  by (intro owned_rules; simp)+

lemma owned_mint: "within (keeps_owned C) (\<lambda>_ _ _. True) (mint_asset_balance l p a n :: unit xop)"
  by (cases l) (simp_all add: mint_asset_balance_def owned_rules)

lemma owned_handlers:
  fixes call :: "transaction \<Rightarrow> principal \<Rightarrow> return_value xop"
  assumes "\<And>t. within (keeps_owned C) (\<lambda>_ _ _. True) (transfer_asset_balance call tx t)"
    and "tx_target tx \<in> C"
  shows "within (keeps_owned C) (\<lambda>_ _ _. True) (dispatch_staking call tx p a params)"
  unfolding dispatch_staking_def stake_def unstake_def request_unstake_def complete_unstake_def
    claim_staking_rewards_def Let_def
  by (intro owned_rules assms owned_helpers owned_mint; simp add: assms)

interpretation owned_calls: part_relation "keeps_owned {} :: exec_state \<Rightarrow> exec_state \<Rightarrow> bool" StakingPart E for E
proof unfold_locales
  fix s t u :: exec_state
  show "keeps_owned {} s t \<Longrightarrow> keeps_owned {} t u \<Longrightarrow> keeps_owned {} s u" by (rule keeps_owned_trans)
  show "keeps_contracts s t \<Longrightarrow> same_entries (\<lambda>key. key_part key = StakingPart) s t \<Longrightarrow> keeps_owned {} s t"
    by (auto simp: keeps_owned_def same_entries_def fmlookup_dom_iff)
  show "keeps_owned {} (entered c m p s) t \<Longrightarrow> keeps_owned {} s (exit_call t)" for c m p
    by (simp add: keeps_owned_def keeps_contracts_def entered_def exit_call_def)
next
  fix r :: contract_record and s t :: exec_state and tx p v
    and call :: "transaction \<Rightarrow> principal \<Rightarrow> return_value xop"
  assume r: "kind_part (cr_kind r) = StakingPart" "fmlookup (contracts s) (tx_target tx) = Some r"
    and nested: "\<And>t. within (keeps_owned {}) (\<lambda>_ _ _. True) (transfer_asset_balance call tx t)"
    and run: "dispatch_kind E call tx p (cr_kind r) s = (Inr v, t)"
  have "within (keeps_owned {tx_target tx}) (\<lambda>_ _ _. True) (transfer_asset_balance call tx x)" for x
    by (rule conj_within [OF nested nested]) (auto simp: keeps_owned_def)
  then have "within (keeps_owned {tx_target tx}) (\<lambda>_ _ _. True) (dispatch_staking call tx p a params)"
    for a params by (rule owned_handlers) simp
  then have "keeps_owned {tx_target tx} s t"
    using r(1) run by (cases "cr_kind r") (auto simp: dispatch_kind_def dest: within_okD)
  moreover have "tx_target tx |\<in>| fmdom (contracts s)" using r(2) by (rule fmdomI)
  ultimately show "keeps_owned {} s t"
    using keeps_contracts_dom [of s t] unfolding keeps_owned_def by (metis fsubsetD singletonD)
qed simp

interpretation owned_chain: chain_relation "keeps_owned {}" E for E
proof unfold_locales
  fix s t u :: detta_state
  show "keeps_owned {} s t \<Longrightarrow> keeps_owned {} t u \<Longrightarrow> keeps_owned {} s u" by (rule keeps_owned_trans)
next
  fix tx s r t
  assume "apply_transaction E tx s = Some (r, t)"
  then show "keeps_owned {} s t"
    using owned_calls.calls.execute_call_within
    by (rule transaction_keeps)
      (simp_all add: keeps_owned_def keeps_contracts_def started_def nonce_used_def same_manifest_def)
qed (simp_all add: keeps_owned_def keeps_contracts_same)

end
