(* ===== verification/Control_Safety.thy ===== *)
theory Control_Safety
  imports Blocks
begin

text \<open>
  The records that decide who may do what: registry grants, contract manifests and aspect modules.
  Every call keeps the signer keys canonical, the administrators of oracles and governance
  contracts in place, the manifest of every contract well-formed and every stored module complete.
\<close>

section \<open>Well-formed records\<close>

text \<open>The invariants that the manifest of a contract kind declares.\<close>

primrec kind_invariants :: "contract_kind \<Rightarrow> contract_invariant fset" where
  "kind_invariants Token = {|TokenSupplyMatchesBalances|}"
| "kind_invariants (AmmPool _ _ _) = {|AmmPoolAssetsDistinct, AmmLpSupplyMatchesBalances|}"
| "kind_invariants (Oracle _ _) = {|OracleUpdatesRequireLiveGrant, OracleFreshnessCheckedByConsumers|}"
| "kind_invariants (Bridge _) = {|BridgeInboundMessagesConsumedOnce, BridgeOutboundMessageIdsUnique|}"
| "kind_invariants (Governance _ _) =
     {|GovernanceChangesRequireAdminGrant, GovernanceUpgradesRespectTimelock|}"
| "kind_invariants (LendingVault _ _ _ _ _ _ _) = {|LendingBorrowWithinCollateralLimit|}"
| "kind_invariants (Staking _ _ _ _) =
     {|StakingTotalMatchesBalances, StakingPendingUnbondingMatchesTotal|}"
| "kind_invariants (Router _) = {|RouterDoesNotInheritCallerWriteScope|}"
| "kind_invariants Factory = {|FactoryDeploymentsDeclarePolicies|}"
| "kind_invariants AccountRegistry = {|AccountSignerKeysCanonical|}"
| "kind_invariants (AspectModule _ _ _ _ _) = {||}"

definition record_ok :: "contract_id \<Rightarrow> contract_record \<Rightarrow> bool" where
  "record_ok c r \<longleftrightarrow> cr_contract_id r = c \<and> record_declares_policies r
     \<and> cr_declared_invariants r = kind_invariants (cr_kind r)
     \<and> (\<forall>a b fee. cr_kind r = AmmPool a b fee \<longrightarrow> a \<noteq> b)"

lemmas record_defs = with_policy_manifest_def token_record_def amm_pool_record_def oracle_record_def
  bridge_record_def governance_record_def lending_vault_record_def staking_record_def
  router_record_def factory_record_def account_registry_record_def

lemma deployed_records_ok:
  "record_ok c (token_record c h)"
  "a \<noteq> b \<Longrightarrow> record_ok c (amm_pool_record c h a b ap)"
  "record_ok c (oracle_record c h a age)"
  "record_ok c (bridge_record c h chain)"
  "record_ok c (governance_record c h g d)"
  "record_ok c (lending_vault_record c h a b oc risk)"
  "record_ok c (staking_record c h a params)"
  "record_ok c (router_record c h tc)"
  "record_ok c (factory_record c h)"
  "record_ok c (account_registry_record c h)"
  by (auto simp: record_ok_def record_defs record_declares_policies_def)

lemma deployed_aspect_ok:
  "aspect_module_contract_record c m b = Inr r \<Longrightarrow> roots_are_complete m \<Longrightarrow> record_ok c r"
  by (auto simp: aspect_module_contract_record_def record_ok_def record_declares_policies_def
      roots_are_complete_def map_sum_def split: sum.splits)

lemma updated_record_ok:
  assumes "record_ok c r" "keeps_manifest f"
  shows "record_ok c (f r)"
proof -
  from assms(2) have f: "cr_kind (f r) = cr_kind r" "cr_contract_id (f r) = cr_contract_id r"
    "cr_exported_methods (f r) = cr_exported_methods r"
    "cr_declared_invariants (f r) = cr_declared_invariants r"
    "fmdom (cr_method_policies r) |\<subseteq>| fmdom (cr_method_policies (f r))"
    by (simp_all add: keeps_manifest_def)
  have "fmlookup (cr_method_policies (f r)) m \<noteq> None" if "fmlookup (cr_method_policies r) m \<noteq> None" for m
    using f(5) that by (meson fmdomI fmdom_notI fsubsetD option.exhaust)
  then have "record_declares_policies (f r)"
    using assms(1) f
    by (auto simp: record_ok_def record_declares_policies_def split: contract_kind.splits)
  with assms(1) f show ?thesis by (simp add: record_ok_def)
qed

section \<open>The invariant\<close>

text \<open>The administrators a contract of a kind has to have.\<close>

definition authority_ok :: "'z state_of \<Rightarrow> contract_id \<Rightarrow> contract_kind \<Rightarrow> bool" where
  "authority_ok s c kind \<longleftrightarrow>
     (\<forall>a age. kind = Oracle a age \<longrightarrow> has_active_oracle_updater s c)
     \<and> (\<forall>g d. kind = Governance g d \<longrightarrow> has_active_governance_admin s c)"

definition controls_ok :: "'z state_of \<Rightarrow> bool" where
  "controls_ok s \<longleftrightarrow> account_signer_keys_canonical s
     \<and> (\<forall>h m. fmlookup (aspect_modules s) h = Some m \<longrightarrow> roots_are_complete m)
     \<and> (\<forall>c r. fmlookup (contracts s) c = Some r \<longrightarrow> record_ok c r \<and> authority_ok s c (cr_kind r))"

definition keeps_controls :: "'z state_of \<Rightarrow> 'y state_of \<Rightarrow> bool" where
  "keeps_controls s t \<longleftrightarrow> (controls_ok s \<longrightarrow> controls_ok t)"

lemma list_ex_fmap: "list_ex P (sorted_list_of_fmap m) \<longleftrightarrow> (\<exists>k v. fmlookup m k = Some v \<and> P (k, v))"
  by (force simp: list_ex_iff sorted_list_of_fmap_def fmlookup_dom_iff)

lemma controls_ok_same:
  "registry t = registry s \<Longrightarrow> contracts t = contracts s \<Longrightarrow> aspect_modules t = aspect_modules s \<Longrightarrow>
   controls_ok t = controls_ok s"
  by (simp add: controls_ok_def authority_ok_def account_signer_keys_canonical_def
      has_active_oracle_updater_def has_active_governance_admin_def)

text \<open>The registry part of the invariant, entry by entry.\<close>

definition live_grant :: "grant_key \<Rightarrow> grant \<Rightarrow> bool" where
  "live_grant key g \<longleftrightarrow> g_active g \<and> \<not> g_revoked g
     \<and> (case key of OracleUpdaterKey _ _ \<Rightarrow> UpdateOracle |\<in>| g_rights g
        | GovernanceAdminKey _ _ \<Rightarrow> GovernanceAdmin |\<in>| g_rights g | _ \<Rightarrow> False)"

lemma admin_key_iff:
  "is_oracle_updater_key c key \<longleftrightarrow> (\<exists>p. key = OracleUpdaterKey c p)"
  "is_governance_admin_key c key \<longleftrightarrow> (\<exists>p. key = GovernanceAdminKey c p)"
  by (cases key; auto)+

lemma active_iff:
  "has_active_oracle_updater s c \<longleftrightarrow>
     (\<exists>p g. fmlookup (registry s) (OracleUpdaterKey c p) = Some g \<and> live_grant (OracleUpdaterKey c p) g)"
  "has_active_governance_admin s c \<longleftrightarrow>
     (\<exists>p g. fmlookup (registry s) (GovernanceAdminKey c p) = Some g \<and> live_grant (GovernanceAdminKey c p) g)"
  by (auto simp: has_active_oracle_updater_def has_active_governance_admin_def list_ex_fmap
      admin_key_iff live_grant_def)

text \<open>Two registries such that every live grant of the first is live in the second.\<close>

definition keeps_grants :: "'z state_of \<Rightarrow> 'y state_of \<Rightarrow> bool" where
  "keeps_grants s t \<longleftrightarrow>
     (\<forall>key g. fmlookup (registry s) key = Some g \<longrightarrow> live_grant key g \<longrightarrow>
        (\<exists>g'. fmlookup (registry t) key = Some g' \<and> live_grant key g'))"

lemma keeps_grants_active:
  assumes "keeps_grants s t"
  shows "has_active_oracle_updater s c \<Longrightarrow> has_active_oracle_updater t c"
    and "has_active_governance_admin s c \<Longrightarrow> has_active_governance_admin t c"
  using assms unfolding active_iff keeps_grants_def by meson+

lemma keeps_grants_authority: "keeps_grants s t \<Longrightarrow> authority_ok s c kind \<Longrightarrow> authority_ok t c kind"
  by (simp add: authority_ok_def keeps_grants_active)

section \<open>Every call keeps it\<close>

lemma controlsI:
  assumes "keeps_grants s t"
    and "account_signer_keys_canonical s \<Longrightarrow> account_signer_keys_canonical t"
    and "\<And>h m. fmlookup (aspect_modules t) h = Some m \<Longrightarrow>
      fmlookup (aspect_modules s) h = Some m \<or> roots_are_complete m"
    and "\<And>c r. fmlookup (contracts t) c = Some r \<Longrightarrow>
      fmlookup (contracts s) c = Some r \<or> (controls_ok s \<longrightarrow> record_ok c r \<and> authority_ok t c (cr_kind r))"
  shows "keeps_controls s t"
  unfolding keeps_controls_def
proof
  assume ok: "controls_ok s"
  show "controls_ok t"
    unfolding controls_ok_def
  proof (intro conjI allI impI)
    show "account_signer_keys_canonical t"
      using ok assms(2) by (simp add: controls_ok_def)
  next
    fix h m
    assume "fmlookup (aspect_modules t) h = Some m"
    then show "roots_are_complete m"
      using ok assms(3) unfolding controls_ok_def by blast
  next
    fix c r
    assume "fmlookup (contracts t) c = Some r"
    then have "record_ok c r \<and> authority_ok t c (cr_kind r)"
      using ok assms(4) keeps_grants_authority [OF assms(1)] unfolding controls_ok_def by blast
    then show "record_ok c r" "authority_ok t c (cr_kind r)" by simp_all
  qed
qed

lemma keeps_grants_insert:
  "(live_grant key g \<or> (\<forall>g'. \<not> live_grant key g')) \<Longrightarrow>
   keeps_grants s (s\<lparr>registry := fmupd key g (registry s)\<rparr>)"
  by (auto simp: keeps_grants_def)

lemma keeps_grants_same: "registry t = registry s \<Longrightarrow> keeps_grants s t"
  by (simp add: keeps_grants_def)

lemma canonical_insert:
  "signer_grant_canonical key g \<Longrightarrow> account_signer_keys_canonical s \<Longrightarrow>
   account_signer_keys_canonical (s\<lparr>registry := fmupd key g (registry s)\<rparr>)"
  by (simp add: account_signer_keys_canonical_def fmpred_iff)

lemma controls_plain_grant:
  assumes "plain_grant key g"
  shows "within keeps_controls (\<lambda>_ _ _. True) (registry_insert key g :: ('z, unit) op)"
proof -
  have "keeps_controls s (s\<lparr>registry := fmupd key g (registry s)\<rparr>)" for s :: "'z state_of"
    using assms
    by (intro controlsI keeps_grants_insert canonical_insert)
      (cases key; auto simp: live_grant_def grant_governance_admin_def)+
  then show ?thesis by (simp add: registry_insert_def within_def modify_def)
qed

lemmas controls_defs = keeps_controls_def controls_ok_def authority_ok_def
  account_signer_keys_canonical_def has_active_oracle_updater_def has_active_governance_admin_def

interpretation control_writes:
  token_relation "keeps_controls :: 'z state_of \<Rightarrow> 'z state_of \<Rightarrow> bool" "\<lambda>_ _ _. True" "\<lambda>_. True" "\<lambda>_ _. True"
proof unfold_locales
  fix s t u :: "'z state_of"
  show "keeps_controls s t \<Longrightarrow> keeps_controls t u \<Longrightarrow> keeps_controls s u"
    by (simp add: keeps_controls_def)
qed (simp_all add: controls_plain_grant, simp_all add: controls_defs write_defs within_def modify_def)

text \<open>The handlers of the account registry check the keys at their end.\<close>

lemma controls_account_keys:
  "within keeps_controls (\<lambda>_ _ _. True) (register_account_key_from_contract tx p :: ('z, return_value) op)"
  "within keeps_controls (\<lambda>_ _ _. True) (revoke_account_key_from_contract tx p :: ('z, return_value) op)"
proof -
  have *: "keeps_controls s (logged tx payload (s\<lparr>registry := fmupd (AccountSigner q k) g (registry s)\<rparr>))"
    if "account_signer_keys_canonical (s\<lparr>registry := fmupd (AccountSigner q k) g (registry s)\<rparr>)"
    for s :: "'z state_of" and q k g payload
    using that
    by (intro controlsI)
      (auto simp: keeps_grants_def live_grant_def logged_def account_signer_keys_canonical_def)
  show "within keeps_controls (\<lambda>_ _ _. True) (register_account_key_from_contract tx p :: ('z, return_value) op)"
    by (rule withinI)
      (auto simp: register_account_key_from_contract_def register_account_key_def op_run arg_run
        emit_run registry_insert_def *)
  show "within keeps_controls (\<lambda>_ _ _. True) (revoke_account_key_from_contract tx p :: ('z, return_value) op)"
    by (rule withinI)
      (auto simp: revoke_account_key_from_contract_def op_run arg_run emit_run registry_insert_def Let_def *)
qed

lemma controls_update_contract:
  assumes "keeps_manifest f"
  shows "within keeps_controls (\<lambda>_ _ _. True) (update_contract c f :: ('z, unit) op)"
proof -
  have "keeps_controls s (s\<lparr>contracts := fmupd c (f r) (contracts s)\<rparr>)"
    if r: "fmlookup (contracts s) c = Some r" for s :: "'z state_of" and r
  proof (rule controlsI)
    fix c' r'
    assume "fmlookup (contracts (s\<lparr>contracts := fmupd c (f r) (contracts s)\<rparr>)) c' = Some r'"
    moreover have "cr_kind (f r) = cr_kind r" using assms by (simp add: keeps_manifest_def)
    ultimately show "fmlookup (contracts s) c' = Some r' \<or> (controls_ok s \<longrightarrow> record_ok c' r'
        \<and> authority_ok (s\<lparr>contracts := fmupd c (f r) (contracts s)\<rparr>) c' (cr_kind r'))"
      using r updated_record_ok [OF _ assms]
      by (auto simp: controls_ok_def authority_ok_def active_iff split: if_splits)
  qed (simp_all add: keeps_grants_same account_signer_keys_canonical_def)
  then show ?thesis
    by (auto simp: update_contract_def within_def modify_def keeps_controls_def split: option.split)
qed

lemma controls_register_module:
  "within keeps_controls (\<lambda>_ _ _. True) (register_aspect_module E m :: ('z, string) op)"
proof (rule withinI)
  fix s :: "'z state_of" and x t
  assume "register_aspect_module E m s = (Inr x, t)"
  then have "roots_are_complete m" "t = s\<lparr>aspect_modules := fmupd (amr_module_hash m) m (aspect_modules s)\<rparr>"
    by (auto simp: register_aspect_module_def op_run module_insert_def split: option.splits)
  then show "keeps_controls s t"
    by (auto intro!: controlsI simp: keeps_grants_same account_signer_keys_canonical_def split: if_splits)
qed simp

text \<open>Deployments insert one well-formed record.\<close>

lemma controls_deployed:
  assumes "contracts t = fmupd c r (contracts s)" "registry t = registry s"
    and "aspect_modules t = aspect_modules s"
    and "controls_ok s \<Longrightarrow> record_ok c r" "\<And>a age. cr_kind r \<noteq> Oracle a age" "\<And>g d. cr_kind r \<noteq> Governance g d"
  shows "keeps_controls s t"
  by (rule controlsI)
    (auto simp: assms keeps_grants_same account_signer_keys_canonical_def authority_ok_def split: if_splits)

text \<open>The loop that writes the initial balances.\<close>

definition same_controls :: "'z state_of \<Rightarrow> 'z state_of \<Rightarrow> bool" where
  "same_controls s t \<longleftrightarrow> contracts t = contracts s \<and> registry t = registry s
     \<and> aspect_modules t = aspect_modules s"

interpretation same_control_writes: exec_relation same_controls "\<lambda>_ _ _. True" "\<lambda>_. True"
  by unfold_locales (simp_all add: same_controls_def)

lemma balances_controls:
  assumes "for_each (\<lambda>(p, n). storage_insert (Balance c p a) (UInt n)) bs s = (Inr x, t)"
  shows "same_controls s t"
proof -
  have "within same_controls (\<lambda>_ _ _. True) (for_each (\<lambda>(p, n). storage_insert (Balance c p a) (UInt n)) bs)"
    unfolding storage_insert_def
    by (intro same_control_writes.within_rules same_control_writes.within_modify)
      (simp add: same_controls_def)
  then show ?thesis using assms by (rule within_okD)
qed

lemma insert_run:
  "storage_insert key v s = (Inr x, t) \<longleftrightarrow> t = s\<lparr>storage := fmupd key v (storage s)\<rparr>"
  "contracts_insert c r s = (Inr x, t) \<longleftrightarrow> t = s\<lparr>contracts := fmupd c r (contracts s)\<rparr>"
  "registry_insert k g s = (Inr x, t) \<longleftrightarrow> t = s\<lparr>registry := fmupd k g (registry s)\<rparr>"
  by (auto simp: write_defs op_run)

lemma deploy_token_record:
  "deploy_token E c a bs s = (Inr x, t) \<Longrightarrow>
   \<exists>h. contracts t = fmupd c (token_record c h) (contracts s) \<and> registry t = registry s
     \<and> aspect_modules t = aspect_modules s"
  by (auto simp: deploy_token_def Let_def op_run insert_run validate_new_run same_controls_def
      dest!: balances_controls)

lemma deploy_pool_record:
  "deploy_amm_pool_with_parameters E c a b ap s = (Inr x, t) \<Longrightarrow>
   a \<noteq> b \<and> (\<exists>h. contracts t = fmupd c (amm_pool_record c h a b ap) (contracts s)
     \<and> registry t = registry s \<and> aspect_modules t = aspect_modules s)"
  by (auto simp: deploy_amm_pool_with_parameters_def Let_def op_run insert_run validate_new_run)

lemma deploy_aspect_record:
  "deploy_aspect_contract c h i s = (Inr x, t) \<Longrightarrow>
   \<exists>m r. fmlookup (aspect_modules s) h = Some m \<and> aspect_module_contract_record c m i = Inr r
     \<and> t = s\<lparr>contracts := fmupd c r (contracts s)\<rparr>"
  by (auto simp: deploy_aspect_contract_def op_run insert_run validate_new_run)

lemma record_kinds [simp]:
  "cr_kind (token_record c h) = Token"
  "cr_kind (amm_pool_record c h a b ap) = AmmPool a b (ap_swap_fee_bps ap)"
  "aspect_module_contract_record c m i = Inr r \<Longrightarrow> is_aspect_kind (cr_kind r)"
  by (auto simp: token_record_def amm_pool_record_def aspect_module_contract_record_def
      is_aspect_kind_def map_sum_def split: sum.splits)

lemma controls_deploys:
  "within keeps_controls (\<lambda>_ _ _. True) (deploy_token E c a bs :: ('z, unit) op)"
  "within keeps_controls (\<lambda>_ _ _. True) (deploy_amm_pool_with_parameters E c a b ap :: ('z, unit) op)"
  "within keeps_controls (\<lambda>_ _ _. True) (deploy_aspect_contract c h i :: ('z, unit) op)"
proof -
  show "within keeps_controls (\<lambda>_ _ _. True) (deploy_token E c a bs :: ('z, unit) op)"
    by (rule withinI)
      (auto dest!: deploy_token_record intro: controls_deployed deployed_records_ok(1))
  show "within keeps_controls (\<lambda>_ _ _. True) (deploy_amm_pool_with_parameters E c a b ap :: ('z, unit) op)"
    by (rule withinI)
      (auto dest!: deploy_pool_record intro: controls_deployed deployed_records_ok(2))
  show "within keeps_controls (\<lambda>_ _ _. True) (deploy_aspect_contract c h i :: ('z, unit) op)"
  proof (rule withinI)
    fix s :: "'z state_of" and x t
    assume "deploy_aspect_contract c h i s = (Inr x, t)"
    then obtain m r where *: "fmlookup (aspect_modules s) h = Some m"
      "aspect_module_contract_record c m i = Inr r" "t = s\<lparr>contracts := fmupd c r (contracts s)\<rparr>"
      by (blast dest: deploy_aspect_record)
    then have "is_aspect_kind (cr_kind r)" by simp
    with * show "keeps_controls s t"
      by (intro controls_deployed [of t c r s])
        (auto simp: controls_ok_def is_aspect_kind_def intro: deployed_aspect_ok)
  qed simp
qed

lemma controls_ok_simps [simp]:
  "controls_ok (entered c m p s) = controls_ok s"
  "controls_ok (exit_call t) = controls_ok t"
  "controls_ok (started tx u) = controls_ok u"
  "controls_ok (nonce_used tx u) = controls_ok u"
  "controls_ok (detta_state.truncate t) = controls_ok t"
  "controls_ok (u\<lparr>height := h\<rparr>) = controls_ok u"
  "controls_ok (u\<lparr>finalized_block_hash := b\<rparr>) = controls_ok u"
  by (rule controls_ok_same; simp add: entered_def exit_call_def started_def nonce_used_def)+

lemma keeps_controls_framed: "keeps_controls (entered c m p s) t \<Longrightarrow> keeps_controls s (exit_call t)"
  by (simp add: keeps_controls_def)

lemma controls_quiet:
  "within keeps_controls (\<lambda>_ _ _. True) (certificate_nonce_insert n :: ('z, unit) op)"
  "within keeps_controls (\<lambda>_ _ _. True) (outbox_append msg :: ('z, unit) op)"
  "within keeps_controls (\<lambda>_ _ _. True) (pause_insert c :: ('z, unit) op)"
  "within keeps_controls (\<lambda>_ _ _. True) (pause_remove c :: ('z, unit) op)"
  "within keeps_controls (\<lambda>_ _ _. True) (upgrade_insert i u :: ('z, unit) op)"
  "within keeps_controls (\<lambda>_ _ _. True) (policy_update_insert i pu :: ('z, unit) op)"
  by (simp_all add: controls_defs write_defs within_def modify_def)

interpretation control_calls: call_relation keeps_controls "\<lambda>_ _ _. True" "\<lambda>_. True" E "\<lambda>_. False" for E
  by unfold_locales
    (simp_all add: control_writes.any_within control_writes.emit_within controls_plain_grant
      controls_account_keys controls_quiet controls_update_contract controls_register_module
      controls_deploys framed_withinI keeps_controls_framed)

interpretation control_chain: chain_relation keeps_controls E for E
proof unfold_locales
  fix tx s r t
  assume "apply_transaction E tx s = Some (r, t)"
  then show "keeps_controls s t"
    using control_calls.execute_call_within
    by (rule transaction_keeps) (simp_all add: keeps_controls_def)
qed (simp_all add: keeps_controls_def)

end
