(* ===== verification/Bridge_Safety.thy ===== *)
theory Bridge_Safety
  imports Blocks Admission
begin

text \<open>
  The bridge at the level of transactions: what a committed redemption proves about its
  certificate, what it mints, and that no message is redeemed twice.
\<close>

section \<open>A committed redemption\<close>

lemma count_known_signers_Some:
  "count_known_signers vs acc ps = Some n \<Longrightarrow>
   set ps \<subseteq> fset vs \<and> distinct ps \<and> set ps \<inter> fset acc = {} \<and> n = fcard acc + length ps"
  by (induction vs acc ps rule: count_known_signers.induct)
    (auto split: if_splits simp: fcard_finsert_if)

text \<open>What the validator set and the message of a certificate must satisfy.\<close>

definition certified ::
  "env \<Rightarrow> cross_shard_finality_proof \<Rightarrow> expected_bridge_message \<Rightarrow> bridge_validator_set \<Rightarrow> bool" where
  "certified E p expected vset \<longleftrightarrow>
     distinct (cfp_signers p) \<and> set (cfp_signers p) \<subseteq> fset (bvs_validators vset)
     \<and> 0 < bvs_quorum vset \<and> bvs_quorum vset \<le> length (cfp_signers p)
     \<and> cfp_source_chain p = bvs_source_chain vset
     \<and> merkle_verify E (omp_proof (cfp_message_proof p)) (SerMessage (omp_message (cfp_message_proof p)))
     \<and> mp_root (omp_proof (cfp_message_proof p)) = cfp_outbox_root p
     \<and> csm_message_id (omp_message (cfp_message_proof p)) = ebm_message_id expected
     \<and> csm_recipient (omp_message (cfp_message_proof p)) = ebm_recipient expected
     \<and> csm_asset (omp_message (cfp_message_proof p)) = ebm_asset expected
     \<and> csm_amount (omp_message (cfp_message_proof p)) = ebm_amount expected
     \<and> csm_destination_chain (omp_message (cfp_message_proof p)) = ebm_destination_chain expected
     \<and> csm_destination_contract (omp_message (cfp_message_proof p)) = ebm_destination_contract expected"

lemma verify_certified:
  "verify_message_with_validator_set E p expected vset \<Longrightarrow> certified E p expected vset"
  by (auto simp: verify_message_with_validator_set_def verify_message_def verifies_finality_def
      certified_def outbox_message_proof_verify_def Let_def
      dest!: count_known_signers_Some split: if_splits option.splits)

text \<open>The state after minting \<open>n\<close> units to \<open>q\<close> on the native ledger of the asset.\<close>

lemma mint_bridge_run:
  "mint_bridge_asset_balance l q a n s = (Inr x, t) \<longleftrightarrow>
     (\<exists>c. l = NativeToken c \<and> fits (total_supply s c a) n \<and> fits (balance s c q a) n
        \<and> t = minted c q a n s \<and> token_invariants_hold t c a)"
  by (cases l) (auto simp: mint_bridge_asset_balance_def mint_native_run)

lemma redeem_run:
  assumes "redeem_bridge_message E tx sender chain s = (Inr v, t)"
  shows "\<exists>m q a n cert p vset c.
    tx_args tx = [Text m, Principal q, Asset a, Amount n, Certificate cert] \<and> n \<noteq> 0
    \<and> parse_finality_proof E cert = Some p
    \<and> fmlookup (trusted_bridge_validator_sets s) chain = Some vset
    \<and> certified E p \<lparr>ebm_destination_chain = chain_id s, ebm_destination_contract = tx_target tx,
        ebm_source_chain = chain, ebm_message_id = m, ebm_recipient = q, ebm_asset = a,
        ebm_amount = n\<rparr> vset
    \<and> \<not> consumed s (tx_target tx) m
    \<and> resolve_asset_ledger s a = Inr (NativeToken c)
    \<and> fits (total_supply s c a) n \<and> fits (balance s c q a) n
    \<and> t = logged tx (EvBridgeMessageRedeemed m q a n)
        ((minted c q a n s)\<lparr>storage := fmupd (BridgeMessageConsumed (tx_target tx) m) (UInt 1)
          (storage (minted c q a n s))\<rparr>)"
  using assms unfolding redeem_bridge_message_def Let_def
  by (auto simp: op_run arg_run emit_run mint_bridge_run consumed_def numeral_eq_Suc length_Suc_conv
      verify_bridge_finality_proof_def fset_of_list.rep_eq verify_certified
      split: option.splits if_splits)

lemma committed_redeem:
  assumes "apply_transaction E tx s = Some (r, t)" "rc_status r = Committed"
    and "tx_method tx = RedeemBridgeMessage"
  obtains rec chain v u where "fmlookup (contracts s) (tx_target tx) = Some rec"
    "cr_kind rec = Bridge chain" "t = detta_state.truncate (exit_call u)"
    "redeem_bridge_message E tx (tx_sender tx) chain (call_state tx s) = (Inr v, u)"
  using assms(1,2)
proof (rule committed_cases)
  fix rec v u
  assume "admits tx s rec" "handler E tx s rec (call_state tx s) = (Inr v, u)"
    and "t = detta_state.truncate (exit_call u)"
  with assms(3) that show thesis
    by (cases "cr_kind rec") (auto simp: admits_def handler_def dispatch_defs op_run)
qed

lemma token_call_state:
  "total_supply (call_state tx s) c a = total_supply s c a"
  "balance (call_state tx s) c p a = balance s c p a"
  by (simp_all add: total_supply_def balance_def)

lemma consumed_simps [simp]:
  "consumed (call_state tx s) c m = consumed s c m"
  "consumed (detta_state.truncate (exit_call u)) c m = consumed u c m"
  "consumed (logged tx payload u) c m = consumed u c m"
  by (simp_all add: consumed_def)

lemma redeem_transaction:
  assumes "apply_transaction E tx s = Some (r, t)" "rc_status r = Committed"
    and "tx_method tx = RedeemBridgeMessage"
  shows "\<exists>m. tx_args tx ! 0 = Text m \<and> \<not> consumed s (tx_target tx) m \<and> consumed t (tx_target tx) m"
proof -
  obtain chain v u where "t = detta_state.truncate (exit_call u)"
    "redeem_bridge_message E tx (tx_sender tx) chain (call_state tx s) = (Inr v, u)"
    using assms by (rule committed_redeem)
  with redeem_run [OF this(2)] show ?thesis by (auto simp: consumed_def)
qed

text \<open>A committed redemption uses its message.\<close>

definition redeem_use :: "transaction \<Rightarrow> receipt \<Rightarrow> (contract_id \<times> argument) option" where
  "redeem_use tx r =
     (if rc_status r = Committed \<and> tx_method tx = RedeemBridgeMessage
      then Some (tx_target tx, tx_args tx ! 0) else None)"

definition consumed_messages :: "detta_state \<Rightarrow> (contract_id \<times> argument) set" where
  "consumed_messages s = {(c, Text m) | c m. consumed s c m}"

interpretation redeem_uses: single_use redeem_use consumed_messages E for E
proof unfold_locales
  fix tx s r t k
  assume run: "apply_transaction E tx s = Some (r, t)"
  then show "consumed_messages s \<subseteq> consumed_messages t"
    using redeemed_chain.transaction [OF run] by (auto simp: keeps_redeemed_def consumed_messages_def)
  show "redeem_use tx r = Some k \<Longrightarrow> k \<in> consumed_messages t - consumed_messages s"
    using redeem_transaction [OF run] by (auto simp: redeem_use_def consumed_messages_def split: if_splits)
qed

section \<open>A sample redemption\<close>

definition sample_message :: cross_shard_message where
  "sample_message =
     \<lparr>csm_source_chain = ''src'', csm_source_contract = ''out'', csm_source_height = 5,
      csm_destination_chain = ''chain'', csm_destination_contract = ''br'', csm_message_id = ''m1'',
      csm_recipient = ''bob'', csm_asset = ''GOLD'', csm_amount = 9\<rparr>"

definition sample_finality :: cross_shard_finality_proof where
  "sample_finality =
     (let p = the (make_merkle_proof sample_env [SerMessage sample_message] 0) in
      \<lparr>cfp_source_chain = ''src'', cfp_source_height = 5, cfp_finalized_block_hash = ''b'',
       cfp_outbox_root = mp_root p, cfp_quorum = 2, cfp_signers = [''v1'', ''v3''],
       cfp_message_proof = \<lparr>omp_message = sample_message, omp_proof = p\<rparr>\<rparr>)"

definition bridge_env :: env where
  "bridge_env = sample_env\<lparr>parse_finality_proof := (\<lambda>_. Some sample_finality)\<rparr>"

definition bridge_state :: detta_state where
  "bridge_state =
     snd (andthen (deploy_token sample_env ''tok'' ''GOLD'' [(''alice'', 100)])
       (deploy_bridge_with_validator_set sample_env ''br'' ''src'' [''v1'', ''v2'', ''v3''] 2)
       (new_state ''chain''))"

definition sample_redeem :: transaction where
  "sample_redeem =
     \<lparr>tx_chain_id = ''chain'', tx_hash = ''t2'', tx_sender = ''carol'', tx_nonce = 1,
      tx_valid_until_height = None, tx_target = ''br'', tx_method = RedeemBridgeMessage,
      tx_args = [Text ''m1'', Principal ''bob'', Asset ''GOLD'', Amount 9, Certificate ''cert''],
      tx_signature_ok = True, tx_budget = 1000\<rparr>"

lemma sample_redeems:
  "map_option (\<lambda>(r, t). (rc_status r, balance t ''tok'' ''bob'' ''GOLD'', total_supply t ''tok'' ''GOLD''))
     (apply_transaction bridge_env sample_redeem bridge_state) = Some (Committed, 9, 109)"
  by code_simp

section \<open>Properties\<close>

text \<open>(C5) Bridge messages are redeemed at most once: in any sequence of transactions, the committed
  redemptions are of pairwise distinct messages per bridge contract, and none of a message consumed
  before.\<close>

theorem messages_redeemed_once:
  assumes "apply_transactions E txs s = Some (rs, t)"
  shows "distinct (uses_of redeem_use txs rs)
    \<and> set (uses_of redeem_use txs rs) \<inter> consumed_messages s = {}
    \<and> set (uses_of redeem_use txs rs) \<subseteq> consumed_messages t"
  using redeem_uses.uses_once [OF assms] by blast

text \<open>The sample redemption commits, and the same redemption under another nonce does not.\<close>

theorem messages_redeemed_once_witness:
  "\<exists>r r' t. apply_transactions bridge_env [sample_redeem, sample_redeem\<lparr>tx_nonce := 2\<rparr>] bridge_state
       = Some ([r, r'], t) \<and> rc_status r = Committed \<and> rc_status r' \<noteq> Committed"
proof -
  obtain r u where first: "apply_transaction bridge_env sample_redeem bridge_state = Some (r, u)"
      "rc_status r = Committed"
    using sample_redeems by auto
  obtain r' t where "apply_transaction bridge_env (sample_redeem\<lparr>tx_nonce := 2\<rparr>) u = Some (r', t)"
    using apply_transaction_returns by blast
  with first have run: "apply_transactions bridge_env [sample_redeem, sample_redeem\<lparr>tx_nonce := 2\<rparr>]
      bridge_state = Some ([r, r'], t)" by simp
  from messages_redeemed_once [OF run] first(2) have "rc_status r' \<noteq> Committed"
    by (auto simp: redeem_use_def sample_redeem_def split: if_splits)
  with run first(2) show ?thesis by blast
qed

text \<open>(C6) A redemption is certified: it commits only against a certificate that parses to a
  finality proof signed by at least the quorum of distinct validators of the set trusted for the
  bridge's source chain, whose message proof verifies against the certified outbox root, and whose
  message names this chain, this bridge contract, the message identifier, the recipient, the asset
  and the amount of the call. It then mints exactly that amount to the recipient.\<close>

theorem redeem_certified:
  assumes "apply_transaction E tx s = Some (r, t)" "rc_status r = Committed"
    and "tx_method tx = RedeemBridgeMessage"
  shows "\<exists>chain m q a n cert p vset c.
    map_option cr_kind (fmlookup (contracts s) (tx_target tx)) = Some (Bridge chain)
    \<and> tx_args tx = [Text m, Principal q, Asset a, Amount n, Certificate cert]
    \<and> parse_finality_proof E cert = Some p
    \<and> fmlookup (trusted_bridge_validator_sets s) chain = Some vset
    \<and> certified E p \<lparr>ebm_destination_chain = chain_id s, ebm_destination_contract = tx_target tx,
        ebm_source_chain = chain, ebm_message_id = m, ebm_recipient = q, ebm_asset = a,
        ebm_amount = n\<rparr> vset
    \<and> unat (total_supply t c a) = unat (total_supply s c a) + unat n
    \<and> unat (balance t c q a) = unat (balance s c q a) + unat n"
proof -
  obtain rec chain v u where rec: "fmlookup (contracts s) (tx_target tx) = Some rec"
    "cr_kind rec = Bridge chain" and t: "t = detta_state.truncate (exit_call u)"
    and run: "redeem_bridge_message E tx (tx_sender tx) chain (call_state tx s) = (Inr v, u)"
    using assms by (rule committed_redeem)
  have kind: "map_option cr_kind (fmlookup (contracts s) (tx_target tx)) = Some (Bridge chain)"
    by (simp add: rec)
  have minted: "unat (total_supply t c a) = unat (total_supply s c a) + unat n"
    "unat (balance t c q a) = unat (balance s c q a) + unat n"
    if "u = logged tx e ((minted c q a n (call_state tx s))\<lparr>storage := fmupd (BridgeMessageConsumed d m)
        (UInt 1) (storage (minted c q a n (call_state tx s)))\<rparr>)"
      "fits (total_supply s c a) n" "fits (balance s c q a) n" for c a q n e d m
    using that by (simp_all add: t minted_def total_supply_def balance_def unat_add_fits)
  show ?thesis
    using redeem_run [OF run] kind
    unfolding call_state_sel token_call_state by (fast intro: minted)
qed

theorem redeem_certified_witness:
  "\<exists>r t. apply_transaction bridge_env sample_redeem bridge_state = Some (r, t) \<and> rc_status r = Committed
     \<and> (\<exists>chain m q a n cert p vset c. tx_args sample_redeem
          = [Text m, Principal q, Asset a, Amount n, Certificate cert]
        \<and> parse_finality_proof bridge_env cert = Some p
        \<and> certified bridge_env p \<lparr>ebm_destination_chain = chain_id bridge_state,
            ebm_destination_contract = ''br'', ebm_source_chain = chain, ebm_message_id = m,
            ebm_recipient = q, ebm_asset = a, ebm_amount = n\<rparr> vset
        \<and> unat (total_supply t c a) = unat (total_supply bridge_state c a) + unat n)"
proof -
  obtain r t where run: "apply_transaction bridge_env sample_redeem bridge_state = Some (r, t)"
      "rc_status r = Committed"
    using sample_redeems by auto
  have "tx_method sample_redeem = RedeemBridgeMessage" "tx_target sample_redeem = ''br''"
    by (simp_all add: sample_redeem_def)
  with redeem_certified [OF run this(1)] run show ?thesis by metis
qed

end
