(* ===== verification/Reachability.thy ===== *)
theory Reachability
  imports Pool_Safety Staking_Safety Control_Safety Bridge_Safety
begin

text \<open>
  The states a chain can be in: those reached from \<open>DeTTaState::new\<close> by the public operations that
  change a state. In every one of them the invariants that the deployed contracts declare hold,
  apart from the three that the code does not enforce on every path.
\<close>

section \<open>Setup\<close>

text \<open>The public operations of \<open>DeTTaState\<close> that change the state outside transactions.\<close>

datatype genesis_op =
    SetupToken contract_id asset_id "(principal \<times> amount) list"
  | SetupPool contract_id asset_id asset_id amm_parameters
  | SetupOracle contract_id asset_id principal u64
  | SetupBridge contract_id chain_id
  | SetupBridgeValidators contract_id chain_id "principal list" nat
  | SetupTrusted bridge_validator_set
  | SetupGovernance contract_id contract_id principal u64
  | SetupLending contract_id asset_id asset_id contract_id lending_risk_parameters
  | SetupStaking contract_id asset_id staking_parameters
  | SetupRouter contract_id contract_id
  | SetupFactory contract_id
  | SetupAccountRegistry contract_id
  | SetupAccountKey principal string
  | SetupModule aspect_module_record
  | SetupAspect contract_id string string

fun setup_op :: "env \<Rightarrow> genesis_op \<Rightarrow> ('z, unit) op" where
  "setup_op E (SetupToken c a bs) = deploy_token E c a bs"
| "setup_op E (SetupPool c a b ap) = deploy_amm_pool_with_parameters E c a b ap"
| "setup_op E (SetupOracle c a p age) = deploy_oracle E c a p age"
| "setup_op E (SetupBridge c chain) = deploy_bridge E c chain"
| "setup_op E (SetupBridgeValidators c chain vs q) = deploy_bridge_with_validator_set E c chain vs q"
| "setup_op E (SetupTrusted vset) = set_trusted_bridge_validator_set vset"
| "setup_op E (SetupGovernance c g p d) = deploy_governance_with_timelock E c g p d"
| "setup_op E (SetupLending c a b oc risk) = deploy_lending_vault_with_risk E c a b oc risk"
| "setup_op E (SetupStaking c a params) = deploy_staking_with_parameters E c a params"
| "setup_op E (SetupRouter c tok) = deploy_router E c tok"
| "setup_op E (SetupFactory c) = deploy_factory E c"
| "setup_op E (SetupAccountRegistry c) = deploy_account_registry E c"
| "setup_op E (SetupAccountKey p k) = register_account_key p k"
| "setup_op E (SetupModule m) = andthen (register_aspect_module E m) (ret ())"
| "setup_op E (SetupAspect c h i) = deploy_aspect_contract c h i"

definition run_setup :: "env \<Rightarrow> genesis_op \<Rightarrow> detta_state \<Rightarrow> detta_state option" where
  "run_setup E op s =
     (case setup_op E op s of (Inr _, t) \<Rightarrow> Some t | (Inl _, _) \<Rightarrow> None)"

inductive reachable :: "env \<Rightarrow> detta_state \<Rightarrow> bool" for E where
  start: "reachable E (new_state chain)"
| genesis: "reachable E s \<Longrightarrow> run_setup E op s = Some t \<Longrightarrow> reachable E t"
| transaction: "reachable E s \<Longrightarrow> apply_transaction E tx s = Some (r, t) \<Longrightarrow> reachable E t"
| block: "reachable E s \<Longrightarrow> apply_block E blk s = Some (Inr t) \<Longrightarrow> reachable E t"
| built: "reachable E s \<Longrightarrow> build_block E s h txs ts p cert = Some (blk, t) \<Longrightarrow> reachable E t"

section \<open>Soundness of a state\<close>

definition staking_owned :: "'z state_of \<Rightarrow> bool" where
  "staking_owned s \<longleftrightarrow> (\<forall>key. key_part key = StakingPart \<longrightarrow> key |\<in>| fmdom (storage s) \<longrightarrow>
     owner_contract key |\<in>| fmdom (contracts s))"

definition sound :: "'z state_of \<Rightarrow> bool" where
  "sound s \<longleftrightarrow> supply_ok s \<and> (\<forall>c. amm_invariants_hold s c)
     \<and> (\<forall>c a. staking_invariants_hold s c a \<and> staking_pending_unbonding_invariants_hold s c a)
     \<and> staking_owned s \<and> controls_ok s"

lemma sound_step:
  assumes "keeps_supply s t" "keeps_ledgers is_lp_balance_of LpSupply {} s t"
    and "keeps_ledgers staking_entry staking_total {} s t" "keeps_owned {} s t" "keeps_controls s t"
    and "sound s"
  shows "sound t"
  unfolding sound_def
proof (intro conjI allI)
  show "supply_ok t" "controls_ok t"
    using assms by (simp_all add: keeps_supply_def keeps_controls_def sound_def)
  show "amm_invariants_hold t c" for c
    using assms(2,6) by (simp add: sound_def keeps_ledgers_def amm_invariants_iff)
  show "staking_invariants_hold t c a" "staking_pending_unbonding_invariants_hold t c a" for c a
    using assms(3,6) by (simp_all add: sound_def keeps_ledgers_def staking_invariants_iff)
  have "keeps_contracts s t" using assms(4) by (simp add: keeps_owned_def)
  then show "staking_owned t"
    using assms(4,6) keeps_contracts_dom [of s t] unfolding sound_def staking_owned_def keeps_owned_def
    by blast
qed

text \<open>A step that writes no entry of a pool or a staking contract.\<close>

lemma sound_unaffected:
  assumes "keeps_supply s t" "keeps_contracts s t" "keeps_controls s t"
    and "same_entries (\<lambda>key. key_part key \<in> {AmmPart, StakingPart}) s t" "sound s"
  shows "sound t"
  using assms(1) _ _ _ assms(3,5)
proof (rule sound_step)
  have same: "fmlookup (storage t) key = fmlookup (storage s) key"
    if "key_part key = AmmPart \<or> key_part key = StakingPart" for key
    using assms(4) that by (auto simp: same_entries_def)
  have sums: "fm_sum P f (storage t) = fm_sum P f (storage s)"
    if "\<And>key. P key \<Longrightarrow> key_part key = AmmPart \<or> key_part key = StakingPart" for P and f :: "_ \<Rightarrow> nat"
    by (rule fm_sum_cong) (simp add: same that)
  show "keeps_ledgers is_lp_balance_of LpSupply {} s t"
    using sums lp_entries.entry_part by (simp add: keeps_ledgers_def ledger_ok_def uint_at_def same)
  show "keeps_ledgers staking_entry staking_total {} s t"
    using sums stake_entries.entry_part stake_entries.total_part
    by (simp add: keeps_ledgers_def ledger_ok_def uint_at_def same)
  show "keeps_owned {} s t"
    using assms(2) by (auto simp: keeps_owned_def same fmlookup_dom_iff)
qed

lemma sound_transaction: "apply_transaction E tx s = Some (r, t) \<Longrightarrow> sound s \<Longrightarrow> sound t"
  by (rule sound_step)
    (rule supply_chain.transaction lp.chain.transaction stakes.chain.transaction
      owned_chain.transaction control_chain.transaction, assumption)+

lemma sound_block: "apply_block E blk s = Some (Inr t) \<Longrightarrow> sound s \<Longrightarrow> sound t"
  by (rule sound_step)
    (rule supply_chain.block lp.chain.block stakes.chain.block
      owned_chain.block control_chain.block, assumption)+

lemma sound_built: "build_block E s h txs ts p cert = Some (blk, t) \<Longrightarrow> sound s \<Longrightarrow> sound t"
  by (rule sound_step)
    (rule supply_chain.built lp.chain.built stakes.chain.built
      owned_chain.built control_chain.built, assumption)+

section \<open>Setup keeps a state sound\<close>

text \<open>A deployment: one well-formed record at a fresh identifier, with its administrator.\<close>

definition deploys :: "contract_id \<Rightarrow> contract_record \<Rightarrow> 'z state_of \<Rightarrow> 'z state_of \<Rightarrow> bool" where
  "deploys c r s t \<longleftrightarrow> fmlookup (contracts s) c = None \<and> contracts t = fmupd c r (contracts s)
     \<and> record_ok c r \<and> authority_ok t c (cr_kind r) \<and> aspect_modules t = aspect_modules s
     \<and> keeps_grants s t
     \<and> (account_signer_keys_canonical s \<longrightarrow> account_signer_keys_canonical t)"

lemma deploys_keeps:
  assumes "deploys c r s t"
  shows "keeps_contracts s t" "keeps_controls s t"
proof -
  show "keeps_contracts s t"
    using assms by (auto simp: deploys_def keeps_contracts_def same_manifest_def)
  show "keeps_controls s t"
    using assms by (intro controlsI) (auto simp: deploys_def split: if_splits)
qed

lemma sound_deploys:
  assumes "deploys c r s t" "storage t = storage s" "sound s"
  shows "sound t"
  by (rule sound_unaffected [OF _ deploys_keeps(1) [OF assms(1)] deploys_keeps(2) [OF assms(1)] _ assms(3)])
    (simp_all add: keeps_supply_same_storage same_entries_def assms(2))

lemma plain_authority [simp]:
  "authority_ok s c Token" "authority_ok s c (AmmPool a b fee)" "authority_ok s c (Bridge chain)"
  "authority_ok s c (LendingVault ca da oc ltv age i th)" "authority_ok s c (Staking a d n bps)"
  "authority_ok s c (Router tok)" "authority_ok s c Factory" "authority_ok s c AccountRegistry"
  by (simp_all add: authority_ok_def)

lemma record_kind_simps [simp]:
  "cr_kind (oracle_record c h a age) = Oracle a age"
  "cr_kind (bridge_record c h chain) = Bridge chain"
  "cr_kind (governance_record c h g d) = Governance g d"
  "cr_kind (lending_vault_record c h a b oc risk) = LendingVault a b oc (lp_ltv_bps risk)
     (lp_max_oracle_age risk) (lp_interest_bps_per_block risk) (lp_liquidation_threshold_bps risk)"
  "cr_kind (staking_record c h a params) = Staking a (stp_unbonding_delay params)
     (stp_reward_per_block params) (stp_unstake_penalty_bps params)"
  "cr_kind (router_record c h tok) = Router tok"
  "cr_kind (factory_record c h) = Factory"
  "cr_kind (account_registry_record c h) = AccountRegistry"
  by (simp_all add: record_defs)

lemmas deploy_simps = op_run insert_run validate_new_run Let_def deploys_def deployed_records_ok
  keeps_grants_same account_signer_keys_canonical_def

lemma plain_deploys:
  "deploy_bridge E c chain s = (Inr x, t) \<Longrightarrow>
     \<exists>h. deploys c (bridge_record c h chain) s t \<and> storage t = storage s"
  "deploy_lending_vault_with_risk E c a b oc risk s = (Inr x, t) \<Longrightarrow>
     \<exists>h. deploys c (lending_vault_record c h a b oc risk) s t \<and> storage t = storage s"
  "deploy_router E c tok s = (Inr x, t) \<Longrightarrow>
     \<exists>h. deploys c (router_record c h tok) s t \<and> storage t = storage s"
  "deploy_factory E c s = (Inr x, t) \<Longrightarrow>
     \<exists>h. deploys c (factory_record c h) s t \<and> storage t = storage s"
  "deploy_account_registry E c s = (Inr x, t) \<Longrightarrow>
     \<exists>h. deploys c (account_registry_record c h) s t \<and> storage t = storage s"
  unfolding deploy_bridge_def insert_bridge_contract_def deploy_lending_vault_with_risk_def
    deploy_router_def deploy_factory_def deploy_account_registry_def
  by (auto simp: deploy_simps)

lemma administered_deploys:
  "deploy_governance_with_timelock E c g p d s = (Inr x, t) \<Longrightarrow>
     \<exists>h. deploys c (governance_record c h g d) s t \<and> storage t = storage s"
  "deploy_oracle E c a p age s = (Inr x, t) \<Longrightarrow>
     \<exists>h. deploys c (oracle_record c h a age) s t
       \<and> storage t = fmupd (OracleTimestamp c a) (UInt 0) (fmupd (OraclePrice c a) (UInt 0) (storage s))"
  unfolding deploy_governance_with_timelock_def deploy_oracle_def
  by (auto simp: deploy_simps authority_ok_def active_iff live_grant_def grant_governance_admin_def
      grant_oracle_updater_def keeps_grants_def fmpred_iff split: if_splits)

definition same_core :: "'z state_of \<Rightarrow> 'z state_of \<Rightarrow> bool" where
  "same_core s t \<longleftrightarrow> storage t = storage s \<and> same_controls s t"

interpretation core_writes: exec_relation same_core "\<lambda>_ _ _. True" "\<lambda>_. True"
  by unfold_locales (simp_all add: same_core_def same_controls_def)

lemma trusted_core: "set_trusted_bridge_validator_set vset s = (Inr x, t) \<Longrightarrow> same_core s t"
proof -
  have "within same_core (\<lambda>_ _ _. True) (set_trusted_bridge_validator_set vset)"
    unfolding set_trusted_bridge_validator_set_def
    by (intro core_writes.within_rules core_writes.within_modify)
      (simp_all add: same_core_def same_controls_def)
  then show "set_trusted_bridge_validator_set vset s = (Inr x, t) \<Longrightarrow> same_core s t"
    by (rule within_okD)
qed

lemma bridge_validators_deploys:
  "deploy_bridge_with_validator_set E c chain vs q s = (Inr x, t) \<Longrightarrow>
     \<exists>h. deploys c (bridge_record c h chain) s t \<and> storage t = storage s"
  unfolding deploy_bridge_with_validator_set_def insert_bridge_contract_def
  by (auto simp: deploy_simps same_core_def same_controls_def dest!: trusted_core)

lemma sound_oracle:
  assumes "deploy_oracle E c a p age s = (Inr x, t)" "sound s"
  shows "sound t"
proof -
  obtain h where h: "deploys c (oracle_record c h a age) s t"
    and st: "storage t = fmupd (OracleTimestamp c a) (UInt 0) (fmupd (OraclePrice c a) (UInt 0) (storage s))"
    using assms(1) administered_deploys(2) by blast
  have "keeps_supply s t"
    by (simp add: keeps_supply_def supply_ok_def balance_sum_def total_supply_def uint_at_def st)
  moreover have "same_entries (\<lambda>key. key_part key \<in> {AmmPart, StakingPart}) s t"
    by (auto simp: same_entries_def st)
  ultimately show ?thesis
    using deploys_keeps [OF h] assms(2) by (intro sound_unaffected [of s t])
qed

lemma sound_token:
  assumes "deploy_token E c a bs s = (Inr x, t)" "sound s"
  shows "sound t"
proof (rule sound_unaffected [OF _ _ _ _ assms(2)])
  show "keeps_supply s t" by (rule within_okD [OF supply_deploy_token assms(1)])
  show "keeps_controls s t" by (rule within_okD [OF controls_deploys(1) assms(1)])
  show "keeps_contracts s t"
    using deploy_token_record [OF assms(1)] deploy_fresh(1) [OF assms(1)]
    by (auto simp: keeps_contracts_def same_manifest_def)
  show "same_entries (\<lambda>key. key_part key \<in> {AmmPart, StakingPart}) s t"
    by (rule within_okD [OF untouched.deploy_token_any_within [OF untouched_contracts(1)] assms(1)])
qed

lemma sound_aspect:
  assumes "deploy_aspect_contract c h i s = (Inr x, t)" "sound s"
  shows "sound t"
proof (rule sound_unaffected [OF _ _ _ _ assms(2)])
  obtain r where t: "t = s\<lparr>contracts := fmupd c r (contracts s)\<rparr>"
    using assms(1) deploy_aspect_record by blast
  show "keeps_controls s t" by (rule within_okD [OF controls_deploys(3) assms(1)])
  show "keeps_contracts s t"
    using deploy_fresh(3) [OF assms(1)] by (auto simp: t keeps_contracts_def same_manifest_def)
  show "keeps_supply s t" "same_entries (\<lambda>key. key_part key \<in> {AmmPart, StakingPart}) s t"
    by (simp_all add: t keeps_supply_same_storage same_entries_def)
qed

lemma sound_module:
  assumes "register_aspect_module E m s = (Inr x, t)" "sound s"
  shows "sound t"
proof (rule sound_unaffected [OF _ _ _ _ assms(2)])
  have t: "storage t = storage s" "contracts t = contracts s"
    using assms(1) by (auto simp: register_aspect_module_def op_run module_insert_def split: option.splits)
  show "keeps_controls s t" by (rule within_okD [OF controls_register_module assms(1)])
  show "keeps_supply s t" "keeps_contracts s t" "same_entries (\<lambda>key. key_part key \<in> {AmmPart, StakingPart}) s t"
    by (simp_all add: t keeps_supply_same_storage keeps_contracts_same same_entries_def)
qed

lemma sound_account_key:
  assumes "register_account_key p k s = (Inr x, t)" "sound s"
  shows "sound t"
proof (rule sound_unaffected [OF _ _ _ _ assms(2)])
  have t: "t = s\<lparr>registry := fmupd (AccountSigner p k) (grant_account_signer p) (registry s)\<rparr>"
    and ok: "signer_grant_canonical (AccountSigner p k) (grant_account_signer p)"
    using assms(1) by (auto simp: register_account_key_def op_run insert_run grant_account_signer_def)
  show "keeps_controls s t"
    unfolding t by (rule controlsI) (auto simp: keeps_grants_insert live_grant_def canonical_insert [OF ok])
  show "keeps_supply s t" "keeps_contracts s t" "same_entries (\<lambda>key. key_part key \<in> {AmmPart, StakingPart}) s t"
    by (simp_all add: t keeps_supply_same_storage keeps_contracts_same same_entries_def)
qed

lemma sound_trusted:
  assumes "set_trusted_bridge_validator_set vset s = (Inr x, t)" "sound s"
  shows "sound t"
proof (rule sound_unaffected [OF _ _ _ _ assms(2)])
  have t: "storage t = storage s" "contracts t = contracts s" "registry t = registry s"
    "aspect_modules t = aspect_modules s"
    using trusted_core [OF assms(1)] by (simp_all add: same_core_def same_controls_def)
  show "keeps_controls s t" using controls_ok_same [of t s] by (simp add: keeps_controls_def t)
  show "keeps_supply s t" "keeps_contracts s t" "same_entries (\<lambda>key. key_part key \<in> {AmmPart, StakingPart}) s t"
    by (simp_all add: t keeps_supply_same_storage keeps_contracts_same same_entries_def)
qed

lemma sound_pool:
  assumes "deploy_amm_pool_with_parameters E c a b ap s = (Inr x, t)" "sound s"
  shows "sound t"
proof (rule sound_step [OF _ _ _ _ _ assms(2)])
  show "keeps_supply s t" by (rule within_okD [OF supply_deploy_amm assms(1)])
  show "keeps_controls s t" by (rule within_okD [OF controls_deploys(2) assms(1)])
  have same: "same_entries (\<lambda>key. key_part key = AmmPart \<longrightarrow> owner_contract key \<noteq> c) s t"
    by (rule within_okD [OF untouched.deploy_amm_pool_any_within [OF untouched_contracts(1)] assms(1)]) auto
  have "ledger_ok is_lp_balance_of LpSupply i t" if "ledger_ok is_lp_balance_of LpSupply i s" for i
  proof (cases "i = c")
    case True
    then show ?thesis using deploy_pool_run [OF assms(1)] by (simp add: amm_invariants_iff)
  next
    case False
    then have "fm_sum (is_lp_balance_of i) f (storage t) = fm_sum (is_lp_balance_of i) f (storage s)" for f
      using same by (intro fm_sum_cong) (auto simp: same_entries_def elim!: is_lp_balance_of.elims)
    with False that same show ?thesis
      by (simp add: ledger_ok_def same_entries_uint_at)
  qed
  then show "keeps_ledgers is_lp_balance_of LpSupply {} s t" by (simp add: keeps_ledgers_def)
  have stake: "fmlookup (storage t) key = fmlookup (storage s) key" if "key_part key = StakingPart" for key
    using same that by (auto simp: same_entries_def)
  have contracts: "keeps_contracts s t"
    using deploy_pool_record [OF assms(1)] deploy_fresh(2) [OF assms(1)]
    by (auto simp: keeps_contracts_def same_manifest_def)
  have "fm_sum (staking_entry i) f (storage t) = fm_sum (staking_entry i) f (storage s)" for i f
    by (rule fm_sum_cong) (simp add: stake stake_entries.entry_part)
  then show "keeps_ledgers staking_entry staking_total {} s t"
    by (simp add: keeps_ledgers_def ledger_ok_def uint_at_def stake stake_entries.total_part)
  show "keeps_owned {} s t"
    using contracts by (auto simp: keeps_owned_def stake fmlookup_dom_iff)
qed

text \<open>A new staking contract starts with empty ledgers: no entry of its identifier existed.\<close>

lemma sound_staking:
  assumes "deploy_staking_with_parameters E c a params s = (Inr x, t)" "sound s"
  shows "sound t"
proof -
  obtain h where h: "deploys c (staking_record c h a params) s t"
    and st: "storage t = fmupd (StakingPenaltyCollected c a) (UInt 0)
      (fmupd (TotalPendingUnbond c a) (UInt 0) (fmupd (TotalStaked c a) (UInt 0) (storage s)))"
    using assms(1) unfolding deploy_staking_with_parameters_def by (auto simp: deploy_simps)
  have fresh: "c |\<notin>| fmdom (contracts s)" using h by (simp add: deploys_def fmdom_notI)
  have empty: "fmlookup (storage s) key = None" if "key_part key = StakingPart" "owner_contract key = c" for key
    using assms(2) fresh that by (auto simp: sound_def staking_owned_def fmdom_notD)
  have "ledger_ok staking_entry staking_total i t" if ok: "ledger_ok staking_entry staking_total i s" for i
  proof (cases "i = (False, c, a) \<or> i = (True, c, a)")
    case True
    have "fm_sum (staking_entry i) (\<lambda>v. unat (as_uint v)) (storage s) = 0"
      unfolding fm_sum_def
      by (rule sum.neutral) (use True empty in \<open>auto simp: fmlookup_dom_iff elim!: is_stake_of.elims is_pending_of.elims\<close>)
    with True show ?thesis by (auto simp: ledger_ok_def st uint_at_def)
  next
    case False
    with ok show ?thesis by (cases i) (auto simp: ledger_ok_def st uint_at_def split: if_splits)
  qed
  then have stakes: "keeps_ledgers staking_entry staking_total {} s t" by (simp add: keeps_ledgers_def)
  have "keeps_supply s t"
    by (simp add: keeps_supply_def supply_ok_def balance_sum_def total_supply_def uint_at_def st)
  moreover have "keeps_ledgers is_lp_balance_of LpSupply {} s t"
    by (simp add: keeps_ledgers_def ledger_ok_def uint_at_def st)
  moreover have "keeps_owned {} s t"
    using deploys_keeps(1) [OF h] h by (auto simp: keeps_owned_def st deploys_def)
  ultimately show ?thesis
    using stakes deploys_keeps(2) [OF h] assms(2) by (intro sound_step [of s t])
qed

lemma sound_setup:
  assumes "run_setup E op s = Some t" "sound s"
  shows "sound t"
proof -
  have run: "setup_op E op s = (Inr (), t)"
    using assms(1) by (auto simp: run_setup_def split: prod.splits sum.splits)
  show ?thesis
    using run assms(2)
    by (cases op)
      (auto simp: op_run intro: sound_token sound_pool sound_oracle sound_trusted sound_staking
        sound_account_key sound_module sound_aspect sound_deploys
        dest!: plain_deploys administered_deploys(1) bridge_validators_deploys)
qed

lemma sound_new: "sound (new_state chain)"
  by (simp add: sound_def new_state_def supply_ok_def balance_sum_def total_supply_def uint_at_def
      amm_invariants_iff staking_invariants_iff ledger_ok_def fm_sum_def staking_owned_def
      controls_ok_def account_signer_keys_canonical_def)

lemma reachable_sound: "reachable E s \<Longrightarrow> sound s"
  by (induction rule: reachable.induct)
    (auto intro: sound_new sound_setup sound_transaction sound_block sound_built)

section \<open>Declared invariants\<close>

text \<open>What a failure reported by \<open>check_declared_invariants\<close> can still be about.\<close>

definition unenforced :: "'z state_of \<Rightarrow> invariant_failure \<Rightarrow> bool" where
  "unenforced s f \<longleftrightarrow>
     (\<exists>r. fmlookup (contracts s) (if_contract f) = Some r \<and>
       (if_invariant f = LendingBorrowWithinCollateralLimit \<and> \<not> lending_invariants_hold s r
        \<or> if_invariant f = BridgeOutboundMessageIdsUnique \<and> \<not> outbound_messages_are_unique s
        \<or> if_invariant f = GovernanceUpgradesRespectTimelock
          \<and> (\<exists>g. cr_kind r = Governance g 0)))"

lemma declared_invariant_cases:
  assumes "sound s" "fmlookup (contracts s) c = Some r" "k |\<in>| cr_declared_invariants r"
    and "\<not> declared_invariant_holds s r k"
  shows "unenforced s \<lparr>if_contract = cr_contract_id r, if_invariant = k\<rparr>"
proof -
  have r: "cr_contract_id r = c" "k |\<in>| kind_invariants (cr_kind r)" "authority_ok s c (cr_kind r)"
    "\<And>a b fee. cr_kind r = AmmPool a b fee \<Longrightarrow> a \<noteq> b"
    using assms(1-3) by (auto simp: sound_def controls_ok_def record_ok_def)
  have all: "\<And>c r. fmlookup (contracts s) c = Some r \<Longrightarrow> record_declares_policies r"
    using assms(1) by (auto simp: sound_def controls_ok_def record_ok_def)
  have s: "token_invariants_hold s c a" "amm_invariants_hold s c" "staking_invariants_hold s c a"
    "staking_pending_unbonding_invariants_hold s c a" "account_signer_keys_canonical s" for c a
    using assms(1) by (auto simp: sound_def controls_ok_def supply_ok_def token_invariants_iff)
  show ?thesis
    using assms(2,4) r s all
    by (cases "cr_kind r")
      (auto simp: unenforced_def authority_ok_def fmpred_iff word_gt_0)
qed

lemma failures_unenforced:
  assumes "sound s" "f \<in> set (check_declared_invariants s)"
  shows "unenforced s f"
  using assms(2) declared_invariant_cases [OF assms(1)]
  by (auto simp: check_declared_invariants_def sorted_list_of_fmap_def fmlookup_dom_iff)

text \<open>(C20) Declared invariants hold in every reachable state: whatever was deployed and whatever
  transactions and blocks were executed, \<open>check_declared_invariants\<close> reports no token, pool, oracle,
  staking, router, factory or account registry invariant. A failure it does report is a borrower
  over the collateral limit, a repeated outbound message identifier, or a governance contract that
  was deployed with a timelock of zero.\<close>

theorem declared_invariants_hold:
  assumes "reachable E s" and "f \<in> set (check_declared_invariants s)"
  shows "unenforced s f"
  using reachable_sound [OF assms(1)] assms(2) by (rule failures_unenforced)

text \<open>A governance contract without a timelock.\<close>

definition hasty_op :: genesis_op where
  "hasty_op = SetupGovernance ''gov'' ''tok'' ''admin'' 0"

theorem declared_invariants_hold_witness:
  "\<exists>s. reachable sample_env s \<and>
     check_declared_invariants s = [\<lparr>if_contract = ''gov'', if_invariant = GovernanceUpgradesRespectTimelock\<rparr>]
     \<and> unenforced s \<lparr>if_contract = ''gov'', if_invariant = GovernanceUpgradesRespectTimelock\<rparr>"
proof -
  have "case run_setup sample_env hasty_op (new_state ''chain'') of None \<Rightarrow> False
    | Some s \<Rightarrow> check_declared_invariants s = [\<lparr>if_contract = ''gov'', if_invariant = GovernanceUpgradesRespectTimelock\<rparr>]"
    by code_simp
  then obtain s where s: "run_setup sample_env hasty_op (new_state ''chain'') = Some s"
    "check_declared_invariants s = [\<lparr>if_contract = ''gov'', if_invariant = GovernanceUpgradesRespectTimelock\<rparr>]"
    by (auto split: option.splits)
  then have "reachable sample_env s" by (blast intro: reachable.intros)
  with s(2) declared_invariants_hold [OF this] show ?thesis by auto
qed

end
