(* ===== verification/Token_Safety.thy ===== *)
theory Token_Safety
  imports Reachability
begin

text \<open>
  The native token contract in detail: exactly when a transfer succeeds and what it does, what an
  allowance lets a spender do, and that a permit certificate is accepted once.
\<close>

section \<open>Moving a balance\<close>

lemma two_balances_le_sum:
  assumes "p \<noteq> q"
  shows "unat (balance s c p a) + unat (balance s c q a) \<le> balance_sum s c a"
proof -
  let ?s = "s\<lparr>storage := fmupd (Balance c p a) (UInt 0) (storage s)\<rparr>"
  have "balance_sum ?s c a + unat (balance s c p a) = balance_sum s c a"
    using balance_sum_upd [where s = s and c = c and p = p and a = a and v = "UInt 0" and m = "storage s"]
    by (simp add: balance_def)
  moreover have "unat (balance s c q a) \<le> balance_sum ?s c a"
    using balance_le_sum [of ?s c q a] assms by (simp add: balance_def)
  ultimately show ?thesis by linarith
qed

lemma balance_sum_moved:
  assumes "n \<le> balance s c p a" and "fits (balance s c q a) n"
  shows "balance_sum (moved c p q a n s) c a = balance_sum s c a + (if p = q then unat n else 0)"
proof -
  let ?m = "fmupd (Balance c p a) (UInt (balance s c p a - n)) (storage s)"
  have out: "balance_sum (s\<lparr>storage := ?m\<rparr>) c a + unat n = balance_sum s c a"
    using balance_sum_upd [where s = s and c = c and p = p and a = a
        and v = "UInt (balance s c p a - n)" and m = "storage s"] assms(1)
    by (simp add: balance_def unat_minus_le word_le_nat_alt)
  have "balance_sum (moved c p q a n s) c a + unat (uint_at (s\<lparr>storage := ?m\<rparr>) (Balance c q a))
      = balance_sum (s\<lparr>storage := ?m\<rparr>) c a + (unat (balance s c q a) + unat n)"
    using balance_sum_upd [where s = s and c = c and p = q and a = a
        and v = "UInt (balance s c q a + n)" and m = ?m] assms(2)
    by (simp add: moved_def unat_add_fits)
  with out assms(1) show ?thesis
    by (auto simp: balance_def unat_minus_le word_le_nat_alt split: if_splits)
qed

text \<open>On a state that satisfies the supply invariant, the overflow check never fails between
  different accounts, and the invariant check after the move fails exactly on a transfer of a
  nonzero amount to oneself.\<close>

lemma moved_invariant:
  assumes "supply_ok s" "n \<le> balance s c p a" "fits (balance s c q a) n"
  shows "token_invariants_hold (moved c p q a n s) c a \<longleftrightarrow> p \<noteq> q \<or> n = 0"
proof -
  have "total_supply (moved c p q a n s) c a = total_supply s c a"
    by (simp add: moved_def total_supply_def)
  with assms show ?thesis
    by (auto simp: token_invariants_iff balance_sum_moved supply_ok_def unat_eq_0)
qed

lemma supply_fits:
  assumes "supply_ok s" "n \<le> balance s c p a" "p \<noteq> q \<or> n = 0"
  shows "fits (balance s c q a) n"
proof -
  have "unat (balance s c q a) + unat n \<le> balance_sum s c a"
    using assms(2,3) two_balances_le_sum [of p q s c a] balance_le_sum [of s c q a]
    by (auto simp: word_le_nat_alt)
  also have "\<dots> < 2 ^ LENGTH(128)"
    using assms(1) unsigned_less [of "total_supply s c a"] by (simp add: supply_ok_def)
  finally show ?thesis by (simp add: fits_def)
qed

lemma transfer_succeeds:
  assumes "supply_ok s"
  shows "transfer tx p s = (Inr v, t) \<longleftrightarrow>
     v = RUnit \<and> (\<exists>q a n. tx_args tx = [Principal q, Asset a, Amount n]
       \<and> n \<le> balance s (tx_target tx) p a \<and> (p \<noteq> q \<or> n = 0)
       \<and> t = logged tx (EvTransfer p q a n) (moved (tx_target tx) p q a n s))"
  using moved_invariant [OF assms] supply_fits [OF assms] unfolding transfer_run by blast

lemma transfer_insufficient:
  assumes "tx_args tx = [Principal q, Asset a, Amount n]" "balance s (tx_target tx) p a < n"
  shows "transfer tx p s = (Inl (Err InsufficientBalance), s)"
  using assms by (simp add: transfer_def expect_args_def exec_simps balance_def Let_def numeral_eq_Suc)

text \<open>The balances after a transfer.\<close>

definition transferred ::
  "'z state_of \<Rightarrow> 'y state_of \<Rightarrow> contract_id \<Rightarrow> principal \<Rightarrow> principal \<Rightarrow> asset_id \<Rightarrow> amount \<Rightarrow> bool" where
  "transferred s t c p q a n \<longleftrightarrow>
     unat (balance s c p a) = unat (balance t c p a) + unat n
     \<and> unat (balance t c q a) = unat (balance s c q a) + unat n
     \<and> (\<forall>key. key \<notin> {Balance c p a, Balance c q a} \<longrightarrow> fmlookup (storage t) key = fmlookup (storage s) key)"

lemma moved_transferred:
  assumes "n \<le> balance s c p a" "fits (balance s c q a) n" "p \<noteq> q"
  shows "transferred s (moved c p q a n s) c p q a n"
  using assms by (simp add: transferred_def moved_def balance_def unat_add_fits unat_minus_le word_le_nat_alt)

lemma transferred_cong:
  assumes "storage s = storage s'" "storage t = storage t'"
  shows "transferred s t c p q a n = transferred s' t' c p q a n"
  using assms by (simp add: transferred_def balance_def uint_at_def)

section \<open>Allowances\<close>

lemma grant_remaining_spent:
  assumes "n \<le> grant_remaining g" "fits (g_spent g) n" "g_limit g = Some l"
  shows "unat (grant_remaining (g\<lparr>g_spent := g_spent g + n\<rparr>)) = unat (grant_remaining g) - unat n"
  using assms
  by (simp add: grant_remaining_def unat_saturating_sub unat_add_fits)

section \<open>Permits\<close>

definition certificate_nonce :: "transaction \<Rightarrow> string" where
  "certificate_nonce tx =
     (case tx_args tx ! 4 of Certificate u \<Rightarrow> split_on (CHR '':'') u ! 7 | _ \<Rightarrow> [])"

lemma permit_run:
  assumes "permit tx s = (Inr v, t)"
  shows "\<exists>owner spender a n cert.
    tx_args tx = [Principal owner, Principal spender, Asset a, Amount n, Certificate cert]
    \<and> split_on (CHR '':'') cert = [''permit'', chain_id s, tx_target tx, owner, spender, a,
        u128_to_string n, certificate_nonce tx]
    \<and> certificate_nonce tx |\<notin>| used_certificate_nonces s
    \<and> used_certificate_nonces t = finsert (certificate_nonce tx) (used_certificate_nonces s)
    \<and> registry t = fmupd (Allowance (tx_target tx) owner spender a)
        (grant_allowance owner spender n) (registry s)"
  using assms unfolding permit_def
  by (auto simp: op_run arg_run emit_run registry_insert_def certificate_nonce_insert_def logged_def
      verify_permit_certificate_def Let_def numeral_eq_Suc length_Suc_conv certificate_nonce_def
      split: if_splits)

text \<open>A committed permit uses the nonce of its certificate.\<close>

definition permit_use :: "transaction \<Rightarrow> receipt \<Rightarrow> string option" where
  "permit_use tx r =
     (if rc_status r = Committed \<and> tx_method tx = Permit then Some (certificate_nonce tx) else None)"

lemma committed_permit:
  assumes "apply_transaction E tx s = Some (r, t)" "rc_status r = Committed" "tx_method tx = Permit"
  shows "certificate_nonce tx |\<notin>| used_certificate_nonces s
    \<and> certificate_nonce tx |\<in>| used_certificate_nonces t"
  using assms(1,2)
proof (rule committed_handler)
  fix rec v u call
  assume "dispatch_kind E call tx (tx_sender tx) (cr_kind rec) (call_state tx s) = (Inr v, u)"
    and t: "t = detta_state.truncate (exit_call u)"
  then have "permit tx (call_state tx s) = (Inr v, u)"
    using assms(3) by (cases "cr_kind rec") (auto simp: dispatch_defs op_run)
  from permit_run [OF this] show ?thesis by (auto simp: t exit_call_def)
qed

interpretation permit_uses: single_use permit_use "\<lambda>s. fset (used_certificate_nonces s)" E for E
proof unfold_locales
  fix tx s r t k
  assume run: "apply_transaction E tx s = Some (r, t)"
  then show "fset (used_certificate_nonces s) \<subseteq> fset (used_certificate_nonces t)"
    using log_chain.transaction [OF run] by (auto simp: state_logs_extend_def)
  show "permit_use tx r = Some k \<Longrightarrow> k \<in> fset (used_certificate_nonces t) - fset (used_certificate_nonces s)"
    using committed_permit [OF run] by (auto simp: permit_use_def split: if_splits)
qed

section \<open>Properties\<close>

lemma reachable_supply: "reachable E s \<Longrightarrow> supply_ok s"
  using reachable_sound by (auto simp: sound_def)

lemma supply_call_state: "supply_ok s \<Longrightarrow> supply_ok (call_state tx s)"
  by (simp add: supply_ok_def balance_sum_def total_supply_def)


lemma sample_reachable: "reachable sample_env sample_state"
proof -
  let ?op = "SetupToken ''tok'' ''GOLD'' [(''alice'', 100)]"
  let ?run = "deploy_token sample_env ''tok'' ''GOLD'' [(''alice'', 100)] (new_state ''chain'')"
  have "\<not> isl (fst ?run)" by code_simp
  then have "run_setup sample_env ?op (new_state ''chain'') = Some sample_state"
    by (cases ?run; cases "fst ?run") (simp_all add: run_setup_def sample_state_def)
  then show ?thesis by (blast intro: reachable.intros)
qed

lemma sample_admitted:
  obtains rec where "admits sample_transfer sample_state rec" "cr_kind rec = Token"
proof -
  have "case fmlookup (contracts sample_state) ''tok'' of None \<Rightarrow> False
    | Some rec \<Rightarrow> admits sample_transfer sample_state rec \<and> cr_kind rec = Token" by code_simp
  then show thesis using that by (auto split: option.splits)
qed


text \<open>(C17) Spending is authorised: a \<open>transferFrom\<close> commits only under a live allowance that the owner
  has granted the sender for this asset and that covers the amount. It moves exactly that amount
  from the owner and lowers what remains of the allowance by exactly as much.\<close>

theorem transfer_from_authorised:
  assumes "apply_transaction E tx s = Some (r, t)" "rc_status r = Committed"
    and "tx_method tx = TransferFrom" "c = tx_target tx" "p = tx_sender tx"
  shows "\<exists>owner q a n g g'. tx_args tx = [Principal owner, Principal q, Asset a, Amount n]
    \<and> fmlookup (registry s) (Allowance c owner p a) = Some g
    \<and> g_active g \<and> \<not> g_revoked g \<and> g_subject g = p \<and> SpendAllowance |\<in>| g_rights g
    \<and> n \<le> grant_remaining g \<and> fmlookup (registry t) (Allowance c owner p a) = Some g'
    \<and> (g_limit g \<noteq> None \<longrightarrow> unat (grant_remaining g) = unat (grant_remaining g') + unat n)
    \<and> (owner \<noteq> q \<longrightarrow> transferred s t c owner q a n)"
  using assms(1,2)
proof (rule committed_handler)
  fix rec v u call
  let ?s = "call_state tx s"
  assume "dispatch_kind E call tx (tx_sender tx) (cr_kind rec) ?s = (Inr v, u)"
    and t: "t = detta_state.truncate (exit_call u)"
  then have "transfer_from tx p ?s = (Inr v, u)"
    using assms(3,5) by (cases "cr_kind rec") (auto simp: dispatch_defs op_run)
  then obtain owner q a n g where args: "tx_args tx = [Principal owner, Principal q, Asset a, Amount n]"
    and g: "spendable ?s (Allowance c owner p a) p n g"
    and n: "n \<le> balance ?s c owner a" "fits (balance ?s c q a) n"
    and u: "u = logged tx (EvTransfer owner q a n)
      (moved c owner q a n (spent (Allowance c owner p a) g n ?s))"
    unfolding transfer_from_run using assms(4) by blast
  let ?g = "g\<lparr>g_spent := g_spent g + n\<rparr>"
  have "transferred s t c owner q a n" if "owner \<noteq> q"
  proof -
    have "transferred ?s (moved c owner q a n ?s) c owner q a n" using n that by (rule moved_transferred)
    then show ?thesis
      by (rule transferred_cong [THEN iffD1, rotated 2])
        (simp_all add: t u exit_call_def logged_def moved_def)
  qed
  moreover have "unat (grant_remaining g) = unat (grant_remaining ?g) + unat n" if "g_limit g \<noteq> None"
    using g that grant_remaining_spent [of n g] by (auto simp: spendable_def word_le_nat_alt)
  moreover have "fmlookup (registry t) (Allowance c owner p a) = Some ?g"
    by (simp add: t u exit_call_def logged_def moved_def spent_def)
  ultimately show ?thesis using args g unfolding spendable_def call_state_sel by blast
qed

text \<open>A spender with an allowance of ten moves four.\<close>

definition allowance_state :: detta_state where
  "allowance_state =
     sample_state\<lparr>registry := fmupd (Allowance ''tok'' ''alice'' ''carol'' ''GOLD'')
       (grant_allowance ''alice'' ''carol'' 10) (registry sample_state)\<rparr>"

definition sample_spend :: transaction where
  "sample_spend = sample_transfer\<lparr>tx_sender := ''carol'', tx_method := TransferFrom,
     tx_args := [Principal ''alice'', Principal ''bob'', Asset ''GOLD'', Amount 4]\<rparr>"

lemma sample_spends: "commits sample_env sample_spend allowance_state"
  by code_simp

theorem transfer_from_authorised_witness:
  "\<exists>r t. apply_transaction sample_env sample_spend allowance_state = Some (r, t)
     \<and> transferred allowance_state t ''tok'' ''alice'' ''bob'' ''GOLD'' 4
     \<and> (\<exists>g. fmlookup (registry t) (Allowance ''tok'' ''alice'' ''carol'' ''GOLD'') = Some g
          \<and> unat (grant_remaining g) = 6)"
proof -
  obtain r t where run: "apply_transaction sample_env sample_spend allowance_state = Some (r, t)"
    "rc_status r = Committed"
    using sample_spends by (rule commits_run)
  have tx: "tx_method sample_spend = TransferFrom" "''tok'' = tx_target sample_spend"
    "''carol'' = tx_sender sample_spend"
    "tx_args sample_spend = [Principal ''alice'', Principal ''bob'', Asset ''GOLD'', Amount 4]"
    by (simp_all add: sample_spend_def sample_transfer_def)
  have grant: "fmlookup (registry allowance_state) (Allowance ''tok'' ''alice'' ''carol'' ''GOLD'')
      = Some (grant_allowance ''alice'' ''carol'' 10)"
    by (simp add: allowance_state_def)
  have "unat (grant_remaining (grant_allowance ''alice'' ''carol'' 10)) = 10"
    "g_limit (grant_allowance ''alice'' ''carol'' 10) \<noteq> None" by code_simp+
  with transfer_from_authorised [OF run tx(1-3)] run tx(4) grant show ?thesis by auto
qed

text \<open>(C20) A permit certificate is accepted at most once: in any sequence of transactions, the
  committed permits carry pairwise distinct certificate nonces, none of them used before.\<close>

theorem permits_used_once:
  assumes "apply_transactions E txs s = Some (rs, t)"
  shows "distinct (uses_of permit_use txs rs)
    \<and> set (uses_of permit_use txs rs) \<inter> fset (used_certificate_nonces s) = {}
    \<and> set (uses_of permit_use txs rs) \<subseteq> fset (used_certificate_nonces t)"
  using permit_uses.uses_once [OF assms] by blast

definition sample_permit :: transaction where
  "sample_permit =
     \<lparr>tx_chain_id = ''chain'', tx_hash = ''t4'', tx_sender = ''carol'', tx_nonce = 1,
      tx_valid_until_height = None, tx_target = ''tok'', tx_method = Permit,
      tx_args = [Principal ''alice'', Principal ''carol'', Asset ''GOLD'', Amount 9,
        Certificate ''permit:chain:tok:alice:carol:GOLD:9:n1''], tx_signature_ok = True,
      tx_budget = 1000\<rparr>"

lemma sample_permits: "commits sample_env sample_permit sample_state"
  by code_simp

text \<open>The sample permit commits; under another transaction nonce it does not commit again.\<close>

theorem permits_used_once_witness:
  "\<exists>r r' t. apply_transactions sample_env [sample_permit, sample_permit\<lparr>tx_nonce := 2\<rparr>] sample_state
       = Some ([r, r'], t) \<and> rc_status r = Committed \<and> rc_status r' \<noteq> Committed"
proof -
  obtain r u where first: "apply_transaction sample_env sample_permit sample_state = Some (r, u)"
      "rc_status r = Committed"
    using sample_permits by (rule commits_run)
  obtain r' t where "apply_transaction sample_env (sample_permit\<lparr>tx_nonce := 2\<rparr>) u = Some (r', t)"
    using apply_transaction_returns by blast
  with first have run: "apply_transactions sample_env [sample_permit, sample_permit\<lparr>tx_nonce := 2\<rparr>]
      sample_state = Some ([r, r'], t)" by simp
  from permits_used_once [OF run] first(2) have "rc_status r' \<noteq> Committed"
    by (auto simp: permit_use_def certificate_nonce_def sample_permit_def split: if_splits)
  with run first(2) show ?thesis by blast
qed

text \<open>(C21) The certificate of a permit is not a signature: whoever submits the transaction, an admitted
  permit commits as soon as the certificate spells the fields of the call and a nonce that was not
  used, and then the spender has a live allowance over the owner's balance.\<close>

theorem permit_unauthenticated:
  assumes "admits tx s rec" "cr_kind rec = Token" "tx_method tx = Permit"
    and "tx_args tx = [Principal owner, Principal spender, Asset a, Amount n, Certificate cert]"
    and "split_on (CHR '':'') cert = [''permit'', chain_id s, tx_target tx, owner, spender, a,
        u128_to_string n, nonce]"
    and "nonce |\<notin>| used_certificate_nonces s"
  shows "\<exists>r t. apply_transaction E tx s = Some (r, t) \<and> rc_status r = Committed
    \<and> fmlookup (registry t) (Allowance (tx_target tx) owner spender a) = Some (grant_allowance owner spender n)"
proof -
  have run: "handler E tx s rec = permit tx"
    using assms(2,3) by (simp add: handler_def dispatch_kind_def dispatch_token_def)
  have "\<exists>u. permit tx (call_state tx s) = (Inr RUnit, u)"
    using assms(4-6)
    by (simp add: permit_def op_run arg_run emit_run registry_insert_def certificate_nonce_insert_def
        verify_permit_certificate_def)
  then obtain u where u: "permit tx (call_state tx s) = (Inr RUnit, u)" by blast
  with permit_run [OF this] assms(4)
  have "registry u = fmupd (Allowance (tx_target tx) owner spender a) (grant_allowance owner spender n) (registry s)"
    by auto
  with admitted_outcome(1) [OF assms(1) u [folded run] refl] show ?thesis by (simp add: exit_call_def)
qed

theorem permit_unauthenticated_witness:
  "\<exists>r t. apply_transaction sample_env sample_permit sample_state = Some (r, t) \<and> rc_status r = Committed
    \<and> fmlookup (registry t) (Allowance ''tok'' ''alice'' ''carol'' ''GOLD'')
        = Some (grant_allowance ''alice'' ''carol'' 9)"
proof -
  have "case fmlookup (contracts sample_state) ''tok'' of None \<Rightarrow> False
    | Some rec \<Rightarrow> admits sample_permit sample_state rec \<and> cr_kind rec = Token" by code_simp
  then obtain rec where "admits sample_permit sample_state rec" "cr_kind rec = Token"
    by (auto split: option.splits)
  moreover have "chain_id sample_state = ''chain'' \<and> ''n1'' |\<notin>| used_certificate_nonces sample_state
    \<and> split_on (CHR '':'') ''permit:chain:tok:alice:carol:GOLD:9:n1''
      = [''permit'', ''chain'', ''tok'', ''alice'', ''carol'', ''GOLD'', u128_to_string 9, ''n1'']"
    by code_simp
  ultimately show ?thesis
    using permit_unauthenticated [of sample_permit sample_state rec "''alice''" "''carol''" "''GOLD''" 9
        "''permit:chain:tok:alice:carol:GOLD:9:n1''" "''n1''" sample_env]
    by (simp add: sample_permit_def)
qed

end
