(* ===== verification/Vault_Safety.thy ===== *)
theory Vault_Safety
  imports Reachability
begin

text \<open>
  What committed transactions on the price oracle, the lending vault and governance do.
\<close>

section \<open>Arithmetic of the vault\<close>

lemma debt_limit_Inr:
  assumes "lending_debt_limit collateral price bps = Inr m"
  shows "unat m * 10000 \<le> unat collateral * unat price * unat bps"
    and "unat collateral * unat price * unat bps < (unat m + 1) * 10000"
proof -
  have m: "unat m = unat collateral * unat price * unat bps div 10000"
    using assms
    by (auto simp: lending_debt_limit_def checked_mul_Some unat_div unat_as_amount split: option.splits)
  show "unat m * 10000 \<le> unat collateral * unat price * unat bps" by (simp add: m)
  show "unat collateral * unat price * unat bps < (unat m + 1) * 10000"
    unfolding m by (simp add: div_mult_mod_eq dividend_less_div_times)
qed

lemma div_ceil_Inr:
  assumes "div_ceil n d = Inr q"
  shows "unat n \<le> unat q * unat d" and "unat q * unat d < unat n + unat d"
proof -
  have d: "0 < unat d" and q: "unat q = (unat n + (unat d - 1)) div unat d"
    using assms
    by (auto simp: div_ceil_def checked_add_Some unat_div unat_minus_le word_le_nat_alt Suc_le_eq unat_gt_0
        unat_1 split: if_splits option.splits)
  have "unat q * unat d + (unat n + (unat d - 1)) mod unat d = unat n + (unat d - 1)"
    unfolding q by (rule div_mult_mod_eq)
  moreover have "(unat n + (unat d - 1)) mod unat d < unat d" using d by simp
  ultimately show "unat n \<le> unat q * unat d" "unat q * unat d < unat n + unat d" using d by linarith+
qed

section \<open>Runs\<close>

lemma fits_le: "fits a b \<Longrightarrow> a \<le> a + b"
  by (simp add: word_le_nat_alt unat_add_fits)

lemma accrue_lending_debt_run:
  assumes "accrue_lending_debt frame c p config s = (Inr debt, t)"
  shows "uint_at s (Debt c p (lc_debt_asset config)) \<le> debt"
    and "uint_at t (Collateral c p (lc_collateral_asset config)) = uint_at s (Collateral c p (lc_collateral_asset config))"
  using assms unfolding accrue_lending_debt_def Let_def
  by (auto simp: op_run checked_add_conv fits_le simp del: order.refl split: if_split_asm)

lemma fresh_price:
  "fresh_lending_collateral_price s config = Inr price \<longleftrightarrow>
     price = oracle_price s (lc_oracle_contract config) (lc_collateral_asset config) \<and> price \<noteq> 0
     \<and> height s \<le> saturating_add (oracle_timestamp s (lc_oracle_contract config) (lc_collateral_asset config))
         (lc_max_oracle_age config)"
  by (auto simp: fresh_lending_collateral_price_def Let_def not_less)

lemma borrow_run:
  assumes "borrow call tx p config s = (Inr v, t)"
  obtains n price frame debt s1 limit where
    "tx_args tx = [Asset (lc_debt_asset config), Amount n]" "n \<noteq> 0"
    "fresh_lending_collateral_price s config = Inr price"
    "accrue_lending_debt frame (tx_target tx) p config s = (Inr debt, s1)" "fits debt n"
    "lending_debt_limit (collateral_of s (tx_target tx) p (lc_collateral_asset config)) price (lc_ltv_bps config)
      = Inr limit" "debt + n \<le> limit"
    "uint_at t (Debt (tx_target tx) p (lc_debt_asset config)) = debt + n"
  using assms unfolding borrow_def Let_def
  apply (simp add: op_run arg_run emit_run numeral_2_eq_2 length_Suc_conv checked_add_conv
      fset_of_list.rep_eq not_less)
  apply (elim exE conjE)
  subgoal for y x ys n y' price debt u limit l w
    by (rule that [of n price _ debt u limit]) auto
  done

lemma settle_run:
  assumes "settle_remaining_debt frame key config price split s = (Inr (debt, bad), t)"
  shows "unat debt + unat bad = unat (ls_debt_after split)"
    and "bad = 0 \<or> ls_collateral_after split = 0"
    and "bad = 0 \<Longrightarrow> unat debt * 10000 \<le> unat (ls_collateral_after split) * unat price * unat (lc_ltv_bps config)"
  using assms unfolding settle_remaining_debt_def
  by (auto simp: op_run not_less word_le_nat_alt dest!: debt_limit_Inr(1) split: if_splits)

lemma liquidate_run:
  assumes "liquidate call tx p config s = (Inr v, t)"
  obtains borrower n price frame debt s1 threshold split debt' bad s2 where
    "tx_args tx = [Principal borrower, Asset (lc_debt_asset config), Amount n]" "n \<noteq> 0"
    "fresh_lending_collateral_price s config = Inr price"
    "accrue_lending_debt frame (tx_target tx) borrower config s = (Inr debt, s1)" "debt \<noteq> 0"
    "lending_debt_limit (uint_at s1 (Collateral (tx_target tx) borrower (lc_collateral_asset config))) price
      (lc_liquidation_threshold_bps config) = Inr threshold" "threshold < debt"
    "split_liquidation debt (uint_at s1 (Collateral (tx_target tx) borrower (lc_collateral_asset config))) price n
      = Inr split"
    "settle_remaining_debt frame (BadDebt (tx_target tx) (lc_debt_asset config)) config price split s1
      = (Inr (debt', bad), s2)"
    "uint_at t (Debt (tx_target tx) borrower (lc_debt_asset config)) = debt'"
    "uint_at t (Collateral (tx_target tx) borrower (lc_collateral_asset config)) = ls_collateral_after split"
    "v = RUInt (ls_repaid_debt split)"
  using assms unfolding liquidate_def Let_def
  apply (simp add: op_run arg_run emit_run numeral_3_eq_3 length_Suc_conv
      fset_of_list.rep_eq not_le)
  apply (elim exE conjE)
  subgoal for y borrower ys a y' ys' n y'' price debt u threshold split debt' bad w
    by (rule that [of borrower n price _ debt u threshold split debt' bad w]) simp_all
  done

lemma split_liquidation_Inr:
  assumes "split_liquidation debt collateral price n = Inr split"
  shows "unat (ls_repaid_debt split) = min (unat n) (unat debt)"
    and "unat debt = unat (ls_debt_after split) + unat (ls_repaid_debt split)"
    and "unat collateral = unat (ls_collateral_after split) + unat (ls_seized_collateral split)"
    and "unat (ls_seized_collateral split) * unat price < unat (ls_repaid_debt split) + unat price"
proof -
  obtain q where q: "div_ceil (min n debt) price = Inr q"
    and split: "split = \<lparr>ls_repaid_debt = min n debt, ls_seized_collateral = min q collateral,
      ls_collateral_after = collateral - min q collateral, ls_debt_after = debt - min n debt\<rparr>"
    using assms by (auto simp: split_liquidation_def Let_def split: sum.splits)
  show repaid: "unat (ls_repaid_debt split) = min (unat n) (unat debt)"
    by (simp add: split min_def word_le_nat_alt)
  show "unat debt = unat (ls_debt_after split) + unat (ls_repaid_debt split)"
    "unat collateral = unat (ls_collateral_after split) + unat (ls_seized_collateral split)"
    by (simp_all add: split unat_minus_le) (simp_all add: min_def word_le_nat_alt)
  have "unat (min q collateral) * unat price \<le> unat q * unat price"
    by (intro mult_le_mono1) (simp add: min_def word_le_nat_alt)
  then show "unat (ls_seized_collateral split) * unat price < unat (ls_repaid_debt split) + unat price"
    using div_ceil_Inr(2) [OF q] unfolding split liquidation_split.simps by (rule le_less_trans)
qed

section \<open>Oracle and governance\<close>

lemma submit_price_run:
  assumes "submit_price tx p oracle_asset max_age s = (Inr v, t)"
  shows "\<exists>price timestamp. tx_args tx = [Asset oracle_asset, Amount price, Amount (as_amount timestamp)]
    \<and> price \<noteq> 0 \<and> height s \<le> saturating_add timestamp max_age
    \<and> has_grant s (OracleUpdaterKey (tx_target tx) p) p UpdateOracle
    \<and> uint_at t (OraclePrice (tx_target tx) oracle_asset) = price
    \<and> uint_at t (OracleTimestamp (tx_target tx) oracle_asset) = as_amount timestamp"
  using assms unfolding submit_price_def Let_def
  apply (simp add: op_run arg_run emit_run require_grant_run numeral_3_eq_3 length_Suc_conv
      fset_of_list.rep_eq not_less u64_try_from_Some)
  apply (elim exE conjE)
  subgoal for y a ys price y' ys' x y'' timestamp
    by (intro exI [of _ timestamp]) (simp add: word_unat_eq_iff)
  done

lemma execute_upgrade_run:
  assumes "execute_upgrade E tx p governed s = (Inr v, t)"
  shows "\<exists>i up rec. tx_args tx = [Text i] \<and> has_grant s (GovernanceAdminKey (tx_target tx) p) p GovernanceAdmin
    \<and> fmlookup (scheduled_upgrades s) i = Some up \<and> \<not> su_executed up
    \<and> su_governance_contract up = tx_target tx \<and> su_target_contract up = governed
    \<and> su_execute_after_height up \<le> height s
    \<and> fmlookup (contracts s) governed = Some rec
    \<and> fmlookup (contracts t) governed = Some (rec\<lparr>cr_code_hash := su_new_code_hash up\<rparr>)
    \<and> fmlookup (scheduled_upgrades t) i = Some (up\<lparr>su_executed := True\<rparr>)
    \<and> storage t = storage s \<and> registry t = registry s"
  using assms unfolding execute_upgrade_def Let_def
  by (auto simp: op_run arg_run emit_run require_grant_run length_Suc_conv not_less logged_def
      update_contract_def upgrade_insert_def split: option.splits)

section \<open>A sample vault\<close>

text \<open>A vault that lends gold against silver at a price of two, and a governance contract over the
  gold token with an upgrade scheduled for height three.\<close>

definition vault_state :: detta_state where
  "vault_state =
     (let s = snd (andthen (deploy_token sample_env ''tok'' ''GOLD'' [(''bank'', 90), (''al'', 9)])
          (andthen (deploy_token sample_env ''sil'' ''SILVER'' [(''bank'', 20)])
          (andthen (deploy_oracle sample_env ''orc'' ''SILVER'' ''up'' 9)
          (andthen (deploy_governance_with_timelock sample_env ''gov'' ''tok'' ''adm'' 3)
          (deploy_lending_vault_with_risk sample_env ''bank'' ''SILVER'' ''GOLD'' ''orc''
             \<lparr>lp_ltv_bps = 5000, lp_max_oracle_age = 9, lp_interest_bps_per_block = 0,
              lp_liquidation_threshold_bps = 8000\<rparr>)))) (new_state ''chain'')) in
      s\<lparr>height := 5,
        scheduled_upgrades := fmupd ''u'' \<lparr>su_upgrade_id = ''u'', su_governance_contract = ''gov'',
          su_target_contract = ''tok'', su_new_code_hash = ''h'', su_execute_after_height = 3,
          su_executed = False\<rparr> (scheduled_upgrades s),
        storage := fmupd (Collateral ''bank'' ''al'' ''SILVER'') (UInt 20)
          (fmupd (OraclePrice ''orc'' ''SILVER'') (UInt 2) (storage s))\<rparr>)"

definition vault_call :: "principal \<Rightarrow> contract_id \<Rightarrow> call_method \<Rightarrow> argument list \<Rightarrow> transaction" where
  "vault_call p c m args =
     \<lparr>tx_chain_id = ''chain'', tx_hash = ''t'', tx_sender = p, tx_nonce = 1,
      tx_valid_until_height = None, tx_target = c, tx_method = m, tx_args = args,
      tx_signature_ok = True, tx_budget = 1000\<rparr>"

lemma sample_borrow: "commits sample_env (vault_call ''al'' ''bank'' Borrow [Asset ''GOLD'', Amount 20]) vault_state"
  by code_simp

definition debt_state :: detta_state where
  "debt_state =
     vault_state\<lparr>storage := fmupd (Debt ''bank'' ''al'' ''GOLD'') (UInt 36)
       (fmupd (Balance ''tok'' ''liq'' ''GOLD'') (UInt 40) (fmupd (TotalSupply ''tok'' ''GOLD'') (UInt 139)
       (storage vault_state)))\<rparr>"

lemma sample_liquidate:
  "commits sample_env (vault_call ''liq'' ''bank'' Liquidate [Principal ''al'', Asset ''GOLD'', Amount 32])
     debt_state"
  by code_simp

lemma sample_price:
  "commits sample_env (vault_call ''up'' ''orc'' SubmitPrice [Asset ''SILVER'', Amount 3, Amount 4]) vault_state"
  by code_simp

lemma sample_upgrade: "commits sample_env (vault_call ''adm'' ''gov'' ExecuteUpgrade [Text ''u'']) vault_state"
  by code_simp

section \<open>Properties\<close>

lemma vault_kind:
  "map_option cr_kind (fmlookup (contracts vault_state) ''bank'')
     = Some (LendingVault ''SILVER'' ''GOLD'' ''orc'' 5000 9 0 8000)"
  by code_simp

text \<open>(C22) Borrowing respects the collateral: a borrow commits only at a fresh, nonzero oracle price,
  and afterwards the borrower's whole debt, interest and the new loan included, is within the
  loan-to-value share of the collateral at that price.\<close>

theorem borrow_within_limit:
  assumes "apply_transaction E tx s = Some (r, t)" "rc_status r = Committed" "tx_method tx = Borrow"
    and "map_option cr_kind (fmlookup (contracts s) (tx_target tx)) = Some (LendingVault ca da oc ltv age bps th)"
    and "c = tx_target tx" "p = tx_sender tx"
  shows "oracle_price s oc ca \<noteq> 0 \<and> height s \<le> saturating_add (oracle_timestamp s oc ca) age
    \<and> (\<exists>n. tx_args tx = [Asset da, Amount n] \<and> 0 < n \<and> unat (debt_of s c p da) + unat n \<le> unat (debt_of t c p da))
    \<and> unat (debt_of t c p da) * 10000 \<le> unat (collateral_of s c p ca) * unat (oracle_price s oc ca) * unat ltv"
  using assms(1,2)
proof (rule committed_handler)
  fix rec v u call
  let ?s = "call_state tx s"
  define config where "config = \<lparr>lc_collateral_asset = ca, lc_debt_asset = da, lc_oracle_contract = oc,
    lc_ltv_bps = ltv, lc_max_oracle_age = age, lc_interest_bps_per_block = bps, lc_liquidation_threshold_bps = th\<rparr>"
  assume "fmlookup (contracts s) (tx_target tx) = Some rec" and t: "t = detta_state.truncate (exit_call u)"
    and "dispatch_kind E call tx (tx_sender tx) (cr_kind rec) ?s = (Inr v, u)"
  then have "borrow call tx p config ?s = (Inr v, u)"
    using assms(3,4,6) by (simp add: dispatch_kind_def dispatch_lending_def config_def)
  then show ?thesis
  proof (rule borrow_run)
    fix n price frame debt s1 limit
    assume args: "tx_args tx = [Asset (lc_debt_asset config), Amount n]" "n \<noteq> 0"
      and price: "fresh_lending_collateral_price ?s config = Inr price"
      and debt: "accrue_lending_debt frame (tx_target tx) p config ?s = (Inr debt, s1)" "fits debt n"
      and limit: "lending_debt_limit (collateral_of ?s (tx_target tx) p (lc_collateral_asset config)) price
        (lc_ltv_bps config) = Inr limit" "debt + n \<le> limit"
      and "uint_at u (Debt (tx_target tx) p (lc_debt_asset config)) = debt + n"
    then have after: "unat (debt_of t c p da) = unat debt + unat n"
      using assms(5) by (simp add: t debt_of_def config_def unat_add_fits)
    have before: "unat (debt_of s c p da) \<le> unat debt"
      using accrue_lending_debt_run(1) [OF debt(1)] assms(5)
      by (simp add: debt_of_def config_def word_le_nat_alt)
    have "unat (debt_of t c p da) \<le> unat limit"
      using limit(2) debt(2) by (simp add: after word_le_nat_alt unat_add_fits)
    then have "unat (debt_of t c p da) * 10000 \<le> unat limit * 10000" by (rule mult_le_mono1)
    also have "\<dots> \<le> unat (collateral_of s c p ca) * unat price * unat ltv"
      using debt_limit_Inr(1) [OF limit(1)] assms(5) by (simp add: config_def collateral_of_def)
    finally have "unat (debt_of t c p da) * 10000 \<le> unat (collateral_of s c p ca) * unat price * unat ltv" .
    moreover have "price = oracle_price s oc ca" "price \<noteq> 0"
      "height s \<le> saturating_add (oracle_timestamp s oc ca) age"
      using price by (auto simp: fresh_price config_def oracle_price_def oracle_timestamp_def)
    ultimately show ?thesis
      using args before after by (simp add: config_def word_gt_0)
  qed
qed

theorem borrow_within_limit_witness:
  "\<exists>r t. apply_transaction sample_env (vault_call ''al'' ''bank'' Borrow [Asset ''GOLD'', Amount 20]) vault_state
       = Some (r, t) \<and> rc_status r = Committed
     \<and> unat (debt_of t ''bank'' ''al'' ''GOLD'') * 10000
        \<le> unat (collateral_of vault_state ''bank'' ''al'' ''SILVER'')
           * unat (oracle_price vault_state ''orc'' ''SILVER'') * unat (5000 :: u64)"
proof -
  let ?tx = "vault_call ''al'' ''bank'' Borrow [Asset ''GOLD'', Amount 20]"
  obtain r t where run: "apply_transaction sample_env ?tx vault_state = Some (r, t)" "rc_status r = Committed"
    using sample_borrow by (rule commits_run)
  have tx: "tx_method ?tx = Borrow" "tx_target ?tx = ''bank''" "tx_sender ?tx = ''al''"
    by (simp_all add: vault_call_def)
  from borrow_within_limit [OF run tx(1)] vault_kind run show ?thesis unfolding tx by blast
qed

text \<open>What a liquidation does to a position: the amounts it may repay and seize, and the position
  left.\<close>

definition liquidation_correct ::
  "nat \<Rightarrow> nat \<Rightarrow> nat \<Rightarrow> nat \<Rightarrow> nat \<Rightarrow> nat \<Rightarrow> nat \<Rightarrow> nat \<Rightarrow> nat \<Rightarrow> bool" where
  "liquidation_correct price ltv th n collateral debt repaid collateral' debt' \<longleftrightarrow>
     (\<exists>bad seized. collateral * price * th < debt * 10000
        \<and> debt = repaid + bad + debt' \<and> repaid = min n debt
        \<and> collateral = seized + collateral' \<and> seized * price < repaid + price
        \<and> (if bad \<noteq> 0 then collateral' = 0 else debt' * 10000 \<le> collateral' * price * ltv))"

lemma split_correct:
  assumes limit: "lending_debt_limit collateral price th = Inr threshold" "threshold < debt"
    and split: "split_liquidation debt collateral price n = Inr split"
    and settle: "settle_remaining_debt frame key config price split s = (Inr (debt', bad), s2)"
  shows "liquidation_correct (unat price) (unat (lc_ltv_bps config)) (unat th) (unat n) (unat collateral)
    (unat debt) (unat (ls_repaid_debt split)) (unat (ls_collateral_after split)) (unat debt')"
proof -
  have "(unat threshold + 1) * 10000 \<le> unat debt * 10000"
    using limit(2) by (intro mult_le_mono1) (simp add: word_less_nat_alt)
  with debt_limit_Inr(2) [OF limit(1)]
  have over: "unat collateral * unat price * unat th < unat debt * 10000" by (rule less_le_trans)
  have "unat debt = unat (ls_repaid_debt split) + unat bad + unat debt'"
    using split_liquidation_Inr(2) [OF split] settle_run(1) [OF settle] by linarith
  moreover have "unat collateral = unat (ls_seized_collateral split) + unat (ls_collateral_after split)"
    using split_liquidation_Inr(3) [OF split] by linarith
  moreover have "if unat bad \<noteq> 0 then unat (ls_collateral_after split) = 0
      else unat debt' * 10000 \<le> unat (ls_collateral_after split) * unat price * unat (lc_ltv_bps config)"
    using settle_run(2,3) [OF settle] by (auto simp: unat_eq_0)
  ultimately show ?thesis
    unfolding liquidation_correct_def
    using over split_liquidation_Inr(1,4) [OF split] by blast
qed



text \<open>(C24) Oracle prices: a price commits only from a principal with a live updater grant, for the
  asset of the oracle, nonzero and not stale at the height of the state; afterwards exactly this
  price and its timestamp are what readers of the oracle see.\<close>

theorem price_authorised:
  assumes "apply_transaction E tx s = Some (r, t)" "rc_status r = Committed" "tx_method tx = SubmitPrice"
  shows "\<exists>a age price timestamp.
    map_option cr_kind (fmlookup (contracts s) (tx_target tx)) = Some (Oracle a age)
    \<and> tx_args tx = [Asset a, Amount price, Amount (as_amount timestamp)]
    \<and> price \<noteq> 0 \<and> height s \<le> saturating_add timestamp age
    \<and> has_grant s (OracleUpdaterKey (tx_target tx) (tx_sender tx)) (tx_sender tx) UpdateOracle
    \<and> oracle_price t (tx_target tx) a = price \<and> oracle_timestamp t (tx_target tx) a = timestamp"
  using assms(1,2)
proof (rule committed_handler)
  fix rec v u call
  assume rec: "fmlookup (contracts s) (tx_target tx) = Some rec" and t: "t = detta_state.truncate (exit_call u)"
    and "dispatch_kind E call tx (tx_sender tx) (cr_kind rec) (call_state tx s) = (Inr v, u)"
  then obtain a age where kind: "cr_kind rec = Oracle a age"
    and run: "submit_price tx (tx_sender tx) a age (call_state tx s) = (Inr v, u)"
    using assms(3) by (cases "cr_kind rec") (auto simp: dispatch_defs op_run)
  have "u64_try_from (as_amount timestamp) = Some timestamp" for timestamp by (simp add: u64_try_from_Some)
  then have read: "oracle_price t c a = uint_at u (OraclePrice c a)"
    "uint_at u (OracleTimestamp c a) = as_amount timestamp \<Longrightarrow> oracle_timestamp t c a = timestamp" for c timestamp
    by (simp_all add: t oracle_price_def oracle_timestamp_def)
  show ?thesis
    using submit_price_run [OF run] rec kind read by (fastforce simp: has_grant_def)
qed

theorem price_authorised_witness:
  "\<exists>r t. apply_transaction sample_env
       (vault_call ''up'' ''orc'' SubmitPrice [Asset ''SILVER'', Amount 3, Amount 4]) vault_state = Some (r, t)
     \<and> oracle_price t ''orc'' ''SILVER'' = 3"
proof -
  let ?tx = "vault_call ''up'' ''orc'' SubmitPrice [Asset ''SILVER'', Amount 3, Amount 4]"
  obtain r t where run: "apply_transaction sample_env ?tx vault_state = Some (r, t)" "rc_status r = Committed"
    using sample_price by (rule commits_run)
  have "tx_method ?tx = SubmitPrice" "tx_target ?tx = ''orc''"
    "tx_args ?tx = [Asset ''SILVER'', Amount 3, Amount 4]"
    by (simp_all add: vault_call_def)
  with price_authorised [OF run] run(1) show ?thesis by auto
qed

text \<open>(C25) Upgrades respect governance: an upgrade is executed only by a principal with a live
  administrator grant, once, from the governance contract that scheduled it, and not before the
  height fixed when it was scheduled. It changes the code hash of the governed contract and nothing
  in storage or in the registry.\<close>

theorem upgrade_respects_timelock:
  assumes "apply_transaction E tx s = Some (r, t)" "rc_status r = Committed" "tx_method tx = ExecuteUpgrade"
  shows "\<exists>governed delay i up rec.
    map_option cr_kind (fmlookup (contracts s) (tx_target tx)) = Some (Governance governed delay)
    \<and> tx_args tx = [Text i]
    \<and> has_grant s (GovernanceAdminKey (tx_target tx) (tx_sender tx)) (tx_sender tx) GovernanceAdmin
    \<and> fmlookup (scheduled_upgrades s) i = Some up \<and> \<not> su_executed up
    \<and> su_governance_contract up = tx_target tx \<and> su_target_contract up = governed
    \<and> su_execute_after_height up \<le> height s
    \<and> fmlookup (contracts s) governed = Some rec
    \<and> fmlookup (contracts t) governed = Some (rec\<lparr>cr_code_hash := su_new_code_hash up\<rparr>)
    \<and> fmlookup (scheduled_upgrades t) i = Some (up\<lparr>su_executed := True\<rparr>)
    \<and> storage t = storage s \<and> registry t = registry s"
  using assms(1,2)
proof (rule committed_handler)
  fix rec v u call
  assume rec: "fmlookup (contracts s) (tx_target tx) = Some rec" and t: "t = detta_state.truncate (exit_call u)"
    and "dispatch_kind E call tx (tx_sender tx) (cr_kind rec) (call_state tx s) = (Inr v, u)"
  then obtain governed delay where kind: "cr_kind rec = Governance governed delay"
    and run: "execute_upgrade E tx (tx_sender tx) governed (call_state tx s) = (Inr v, u)"
    using assms(3) by (cases "cr_kind rec") (auto simp: dispatch_defs op_run)
  have "contracts t = contracts u" "scheduled_upgrades t = scheduled_upgrades u" "storage t = storage u"
    "registry t = registry u" "has_grant (call_state tx s) = has_grant s"
    by (simp_all add: t exit_call_def has_grant_def fun_eq_iff)
  with execute_upgrade_run [OF run] rec kind show ?thesis unfolding call_state_sel by simp
qed

theorem upgrade_respects_timelock_witness:
  "\<exists>r t rec. apply_transaction sample_env (vault_call ''adm'' ''gov'' ExecuteUpgrade [Text ''u'']) vault_state
       = Some (r, t)
     \<and> (\<exists>up. fmlookup (scheduled_upgrades vault_state) ''u'' = Some up \<and> su_execute_after_height up \<le> 5)
     \<and> storage t = storage vault_state"
proof -
  let ?tx = "vault_call ''adm'' ''gov'' ExecuteUpgrade [Text ''u'']"
  obtain r t where run: "apply_transaction sample_env ?tx vault_state = Some (r, t)" "rc_status r = Committed"
    using sample_upgrade by (rule commits_run)
  have "tx_method ?tx = ExecuteUpgrade" "tx_args ?tx = [Text ''u'']" "height vault_state = 5"
    by (simp_all add: vault_call_def vault_state_def Let_def)
  with upgrade_respects_timelock [OF run] run(1) show ?thesis by auto
qed

end
