(* ===== verification/Staking_Withdrawals.thy ===== *)
theory Staking_Withdrawals
  imports Staking_Safety Admission
begin

text \<open>
  Leaving a staking contract: what a withdrawal request books, and when a withdrawal may be
  completed.
\<close>

section \<open>Withdrawals\<close>

lemma staking_penalty_Inr:
  assumes "apply_staking_penalty n bps = Inr (released, penalty)"
  shows "unat released + unat penalty = unat n"
    and "unat penalty = unat n * unat bps div 10000"
proof -
  have le10: "bps \<le> 10000"
  proof (rule ccontr)
    assume "\<not> bps \<le> 10000"
    then have "10000 < bps" by (simp only: not_le)
    with assms show False by (simp only: apply_staking_penalty_def if_True sum.distinct)
  qed
  then have "\<not> 10000 < bps" by (simp only: not_less)
  then have run: "(case checked_mul n (as_amount bps) of None \<Rightarrow> Inl ArithmeticOverflow
      | Some v \<Rightarrow> Inr (n - v div 10000, v div 10000)) = Inr (released, penalty)"
    using assms by (simp only: apply_staking_penalty_def if_False)
  obtain v where v: "checked_mul n (as_amount bps) = Some v" "released = n - v div 10000" "penalty = v div 10000"
  proof (cases "checked_mul n (as_amount bps)")
    case None
    with run show thesis by (simp only: option.case sum.distinct)
  next
    case (Some v)
    with run have "(Inr (n - v div 10000, v div 10000) :: execution_error + _) = Inr (released, penalty)"
      by (simp only: option.case)
    with Some show thesis using that by (metis sum.inject(2) prod.inject)
  qed
  from le10 have bps: "unat bps \<le> 10000" by (simp add: word_le_nat_alt)
  from v show p: "unat penalty = unat n * unat bps div 10000"
    by (simp add: checked_mul_Some unat_div)
  have "unat n * unat bps div 10000 \<le> unat n * 10000 div 10000"
    using bps by (intro div_le_mono mult_le_mono2)
  then have le: "penalty \<le> n" unfolding word_le_nat_alt p by simp
  have "unat released = unat n - unat penalty" using le v(2,3) by (simp add: unat_minus_le)
  with le show "unat released + unat penalty = unat n" by (simp add: word_le_nat_alt)
qed

lemma accrue_rewards_run:
  assumes "accrue_staking_rewards frame c p a n s = (Inr x, t)"
  shows "height t = height s"
    and "key \<noteq> StakingRewardBalance c p a \<Longrightarrow> key \<noteq> StakingLastRewardHeight c p a \<Longrightarrow> uint_at t key = uint_at s key"
  using assms unfolding accrue_staking_rewards_def Let_def
  by (auto simp: op_run split: if_split_asm)

lemma collect_penalty_run:
  assumes "collect_penalty frame key n s = (Inr x, t)"
  shows "k \<noteq> key \<Longrightarrow> uint_at t k = uint_at s k"
    and "unat (uint_at t key) = unat (uint_at s key) + unat n"
  using assms unfolding collect_penalty_def
  by (cases "n = 0"; auto simp: op_run checked_add_conv unat_add_fits)+

lemma uint_at_penalty_logged [simp]:
  "uint_at (if c then s else logged tx e s) key = uint_at s key"
  by simp

lemma request_unstake_run:
  assumes "request_unstake tx p a rpb delay bps s = (Inr v, t)"
  obtains n frame earned u released penalty w where "tx_args tx = [Asset a, Amount n]" "n \<noteq> 0"
    "accrue_staking_rewards frame (tx_target tx) p a rpb s = (Inr earned, u)"
    "n \<le> uint_at u (StakeBalance (tx_target tx) p a)"
    "apply_staking_penalty n bps = Inr (released, penalty)"
    "fits (height u) delay" "fits (uint_at u (PendingUnbond (tx_target tx) p a)) released"
    "collect_penalty frame (StakingPenaltyCollected (tx_target tx) a) penalty
       (u\<lparr>storage := fmupd (TotalPendingUnbond (tx_target tx) a) (UInt (uint_at u (TotalPendingUnbond (tx_target tx) a) + released))
         (fmupd (PendingUnbond (tx_target tx) p a) (UInt (uint_at u (PendingUnbond (tx_target tx) p a) + released))
         (fmupd (TotalStaked (tx_target tx) a) (UInt (uint_at u (TotalStaked (tx_target tx) a) - n))
         (fmupd (StakeBalance (tx_target tx) p a) (UInt (uint_at u (StakeBalance (tx_target tx) p a) - n)) (storage u))))\<rparr>)
       = (Inr (), w)"
    "\<And>key. uint_at t key = (if key = UnbondReadyHeight (tx_target tx) p a then as_amount (height u + delay) else uint_at w key)"
  using assms unfolding request_unstake_def Let_def
  apply (simp add: op_run arg_run emit_run emit_penalty_run numeral_2_eq_2 length_Suc_conv checked_add_conv
      fset_of_list.rep_eq not_less split_beta split del: if_split)
  apply (elim exE conjE)
  subgoal for y x ys n y' earned u released penalty w
    by (rule that [of n _ earned u released penalty w], simp, assumption, simp, simp, simp, simp, simp, simp, simp)
  done

text \<open>A withdrawal request, in numbers.\<close>

definition unstake_requested ::
  "'z state_of \<Rightarrow> 'y state_of \<Rightarrow> contract_id \<Rightarrow> principal \<Rightarrow> asset_id \<Rightarrow> amount \<Rightarrow> u64 \<Rightarrow> u64 \<Rightarrow> bool" where
  "unstake_requested s t c p a n delay bps \<longleftrightarrow>
     (let penalty = unat n * unat bps div 10000 in
      unat (uint_at s (StakeBalance c p a)) = unat (uint_at t (StakeBalance c p a)) + unat n
      \<and> unat (uint_at t (PendingUnbond c p a)) = unat (uint_at s (PendingUnbond c p a)) + (unat n - penalty)
      \<and> unat (uint_at t (StakingPenaltyCollected c a)) = unat (uint_at s (StakingPenaltyCollected c a)) + penalty
      \<and> unat (uint_at t (UnbondReadyHeight c p a)) = unat (height s) + unat delay)"

lemma request_unstake_effect:
  assumes "request_unstake tx p a rpb delay bps s = (Inr v, t)"
  shows "\<exists>n. tx_args tx = [Asset a, Amount n] \<and> 0 < n \<and> unstake_requested s t (tx_target tx) p a n delay bps"
  using assms
proof (rule request_unstake_run)
  fix n frame earned u released penalty w
  let ?c = "tx_target tx"
  assume args: "tx_args tx = [Asset a, Amount n]" "n \<noteq> 0"
    and u: "accrue_staking_rewards frame ?c p a rpb s = (Inr earned, u)"
    and n: "n \<le> uint_at u (StakeBalance ?c p a)"
    and split: "apply_staking_penalty n bps = Inr (released, penalty)"
    and fits: "fits (height u) delay" "fits (uint_at u (PendingUnbond ?c p a)) released"
    and w: "collect_penalty frame (StakingPenaltyCollected ?c a) penalty
       (u\<lparr>storage := fmupd (TotalPendingUnbond ?c a) (UInt (uint_at u (TotalPendingUnbond ?c a) + released))
         (fmupd (PendingUnbond ?c p a) (UInt (uint_at u (PendingUnbond ?c p a) + released))
         (fmupd (TotalStaked ?c a) (UInt (uint_at u (TotalStaked ?c a) - n))
         (fmupd (StakeBalance ?c p a) (UInt (uint_at u (StakeBalance ?c p a) - n)) (storage u))))\<rparr>)
       = (Inr (), w)"
    and t: "\<And>key. uint_at t key = (if key = UnbondReadyHeight ?c p a then as_amount (height u + delay) else uint_at w key)"
  have same: "uint_at t (StakeBalance ?c p a) = uint_at s (StakeBalance ?c p a) - n"
    "uint_at t (PendingUnbond ?c p a) = uint_at s (PendingUnbond ?c p a) + released"
    "unat (uint_at t (StakingPenaltyCollected ?c a)) = unat (uint_at s (StakingPenaltyCollected ?c a)) + unat penalty"
    "uint_at t (UnbondReadyHeight ?c p a) = as_amount (height s + delay)"
    using collect_penalty_run [OF w] accrue_rewards_run [OF u] by (simp_all add: t)
  have le: "n \<le> uint_at s (StakeBalance ?c p a)" "fits (height s) delay" "fits (uint_at s (PendingUnbond ?c p a)) released"
    using n fits accrue_rewards_run [OF u] by simp_all
  have "unat n - unat penalty = unat released" using staking_penalty_Inr(1) [OF split] by simp
  with le have "unstake_requested s t ?c p a n delay bps"
    unfolding unstake_requested_def Let_def same staking_penalty_Inr(2) [OF split, symmetric]
    by (simp add: unat_add_fits unat_minus_le word_le_nat_alt)
  with args show ?thesis by (auto simp: word_gt_0)
qed
lemma complete_unstake_run:
  assumes "complete_unstake call tx p a s = (Inr v, t)"
  shows "\<exists>n. tx_args tx = [Asset a, Amount n] \<and> n \<noteq> 0 \<and> n \<le> uint_at s (PendingUnbond (tx_target tx) p a)
    \<and> unat (uint_at s (UnbondReadyHeight (tx_target tx) p a)) \<le> unat (height s)"
  using assms unfolding complete_unstake_def Let_def
  apply (simp add: op_run arg_run numeral_2_eq_2 length_Suc_conv not_less u64_try_from_Some word_le_nat_alt
      del: staking_invariants_logged)
  apply (elim exE conjE)
  apply simp
  done

section \<open>A sample stake\<close>

definition stake_state :: detta_state where
  "stake_state =
     (let s = snd (andthen (deploy_token sample_env ''tok'' ''GOLD'' [(''stk'', 90)])
          (deploy_staking_with_parameters sample_env ''stk'' ''GOLD''
             \<lparr>stp_unbonding_delay = 4, stp_reward_per_block = 0, stp_unstake_penalty_bps = 1000\<rparr>)
          (new_state ''chain'')) in
      s\<lparr>height := 5,
        storage := fmupd (StakeBalance ''stk'' ''al'' ''GOLD'') (UInt 40)
          (fmupd (TotalStaked ''stk'' ''GOLD'') (UInt 40)
          (fmupd (PendingUnbond ''stk'' ''bo'' ''GOLD'') (UInt 20)
          (fmupd (TotalPendingUnbond ''stk'' ''GOLD'') (UInt 20)
          (fmupd (UnbondReadyHeight ''stk'' ''bo'' ''GOLD'') (UInt 5) (storage s)))))\<rparr>)"

definition stake_call :: "principal \<Rightarrow> call_method \<Rightarrow> amount \<Rightarrow> transaction" where
  "stake_call p m n =
     \<lparr>tx_chain_id = ''chain'', tx_hash = ''t'', tx_sender = p, tx_nonce = 1,
      tx_valid_until_height = None, tx_target = ''stk'', tx_method = m, tx_args = [Asset ''GOLD'', Amount n],
      tx_signature_ok = True, tx_budget = 1000\<rparr>"

lemma sample_request: "commits sample_env (stake_call ''al'' RequestUnstake 30) stake_state"
  by code_simp

lemma sample_complete: "commits sample_env (stake_call ''bo'' CompleteUnstake 20) stake_state"
  by code_simp

section \<open>Properties\<close>

text \<open>(C26) A withdrawal request splits the amount exactly: the stake falls by the amount, the declared
  basis points of it, rounded down, go to the collected penalties and all the rest becomes a pending
  withdrawal, which is ready the unbonding delay after the current height.\<close>

theorem unstake_request_splits:
  assumes "apply_transaction E tx s = Some (r, t)" "rc_status r = Committed" "tx_method tx = RequestUnstake"
  shows "\<exists>a delay rpb bps n.
    map_option cr_kind (fmlookup (contracts s) (tx_target tx)) = Some (Staking a delay rpb bps)
    \<and> tx_args tx = [Asset a, Amount n] \<and> 0 < n
    \<and> unstake_requested s t (tx_target tx) (tx_sender tx) a n delay bps"
  using assms(1,2)
proof (rule committed_handler)
  fix rec v u call
  assume rec: "fmlookup (contracts s) (tx_target tx) = Some rec" and t: "t = detta_state.truncate (exit_call u)"
    and "dispatch_kind E call tx (tx_sender tx) (cr_kind rec) (call_state tx s) = (Inr v, u)"
  then obtain a delay rpb bps where kind: "cr_kind rec = Staking a delay rpb bps"
    and run: "request_unstake tx (tx_sender tx) a rpb delay bps (call_state tx s) = (Inr v, u)"
    using assms(3) by (cases "cr_kind rec") (auto simp: dispatch_defs op_run)
  have "unstake_requested (call_state tx s) u c p a n delay bps = unstake_requested s t c p a n delay bps" for c p n
    by (simp add: unstake_requested_def t)
  with request_unstake_effect [OF run] rec kind show ?thesis by auto
qed

theorem unstake_request_splits_witness:
  "\<exists>r t bps delay. apply_transaction sample_env (stake_call ''al'' RequestUnstake 30) stake_state = Some (r, t)
     \<and> unstake_requested stake_state t ''stk'' ''al'' ''GOLD'' 30 delay bps"
proof -
  let ?tx = "stake_call ''al'' RequestUnstake 30"
  obtain r t where run: "apply_transaction sample_env ?tx stake_state = Some (r, t)" "rc_status r = Committed"
    using sample_request by (rule commits_run)
  have "tx_method ?tx = RequestUnstake" "tx_args ?tx = [Asset ''GOLD'', Amount 30]" "tx_target ?tx = ''stk''"
    "tx_sender ?tx = ''al''"
    by (simp_all add: stake_call_def)
  with unstake_request_splits [OF run] run(1) show ?thesis by auto
qed

text \<open>(C27) Withdrawals wait: a withdrawal is completed only at or after the height at which it is ready,
  and for at most the pending amount; and a contract with an unbonding delay pays out no stake
  immediately.\<close>

theorem withdrawals_wait:
  assumes "apply_transaction E tx s = Some (r, t)" "rc_status r = Committed"
    and "map_option cr_kind (fmlookup (contracts s) (tx_target tx)) = Some (Staking a delay rpb bps)"
    and "tx_method tx \<in> {CompleteUnstake, Unstake}"
  shows "if tx_method tx = Unstake then delay = 0
    else \<exists>n. tx_args tx = [Asset a, Amount n] \<and> 0 < n
      \<and> n \<le> uint_at s (PendingUnbond (tx_target tx) (tx_sender tx) a)
      \<and> unat (uint_at s (UnbondReadyHeight (tx_target tx) (tx_sender tx) a)) \<le> unat (height s)"
  using assms(1,2)
proof (rule committed_handler)
  fix rec v u call
  assume rec: "fmlookup (contracts s) (tx_target tx) = Some rec"
    and run: "dispatch_kind E call tx (tx_sender tx) (cr_kind rec) (call_state tx s) = (Inr v, u)"
  show ?thesis
  proof (cases "tx_method tx = Unstake")
    case True
    with run rec assms(3) show ?thesis
      by (auto simp: dispatch_kind_def dispatch_staking_def unstake_def op_run word_gt_0 not_less)
  next
    case False
    then have "complete_unstake call tx (tx_sender tx) a (call_state tx s) = (Inr v, u)"
      using run rec assms(3,4) by (auto simp: dispatch_kind_def dispatch_staking_def)
    from complete_unstake_run [OF this] False show ?thesis by (auto simp: word_gt_0)
  qed
qed

theorem withdrawals_wait_witness:
  "\<exists>r t. apply_transaction sample_env (stake_call ''bo'' CompleteUnstake 20) stake_state = Some (r, t)
     \<and> rc_status r = Committed \<and> unat (uint_at stake_state (UnbondReadyHeight ''stk'' ''bo'' ''GOLD'')) \<le> unat (height stake_state)"
proof -
  let ?tx = "stake_call ''bo'' CompleteUnstake 20"
  obtain r t where run: "apply_transaction sample_env ?tx stake_state = Some (r, t)" "rc_status r = Committed"
    using sample_complete by (rule commits_run)
  have tx: "tx_method ?tx = CompleteUnstake" "tx_target ?tx = ''stk''" "tx_sender ?tx = ''bo''"
    "tx_args ?tx = [Asset ''GOLD'', Amount 20]"
    by (simp_all add: stake_call_def)
  have "map_option cr_kind (fmlookup (contracts stake_state) ''stk'') = Some (Staking ''GOLD'' 4 0 1000)"
    by code_simp
  with withdrawals_wait [OF run, of "''GOLD''"] tx run show ?thesis by auto
qed

end
