(* ===== verification/Mempool.thy ===== *)
theory Mempool
  imports Blocks "HOL-Library.Multiset"
begin

text \<open>
  The pool of pending transactions of a validator: admission, revalidation after a block, and the
  selection of the transactions of the next block.
\<close>

section \<open>Model\<close>

record mempool_admission_policy =
  map_max_pending :: nat
  map_max_pending_per_sender :: nat
  map_max_transaction_bytes :: nat

definition default_admission_policy :: mempool_admission_policy where
  "default_admission_policy =
     \<lparr>map_max_pending = 10000, map_max_pending_per_sender = 1024,
      map_max_transaction_bytes = 64 * 1024\<rparr>"

record mempool =
  mp_pending :: "transaction list"
  mp_tx_hashes :: "tx_hash fset"
  mp_policy :: mempool_admission_policy

definition with_policy :: "mempool_admission_policy \<Rightarrow> mempool" where
  "with_policy policy = \<lparr>mp_pending = [], mp_tx_hashes = {||}, mp_policy = policy\<rparr>"

definition new_mempool :: mempool where
  "new_mempool = with_policy default_admission_policy"

definition pending_of_sender :: "mempool \<Rightarrow> principal \<Rightarrow> nat" where
  "pending_of_sender pool p = length (filter (\<lambda>tx. tx_sender tx = p) (mp_pending pool))"

definition submit :: "env \<Rightarrow> detta_state \<Rightarrow> transaction \<Rightarrow> mempool \<Rightarrow> mempool_error + mempool" where
  "submit E s tx pool =
     (if tx_chain_id tx \<noteq> chain_id s then Inl MempoolChainMismatch
      else if \<not> tx_signature_ok tx then Inl MempoolInvalidSignature
      else if (case tx_valid_until_height tx of None \<Rightarrow> False | Some h \<Rightarrow> h \<le> height s)
      then Inl (MempoolTransactionExpired (height s) (the (tx_valid_until_height tx)))
      else if tx_hash tx |\<in>| mp_tx_hashes pool then Inl DuplicateTransaction
      else if (tx_sender tx, tx_nonce tx) |\<in>| used_nonces s then Inl NonceAlreadyUsed
      else
        let actual_bytes = length (canonical_bytes E (SerTransaction tx)); policy = mp_policy pool in
        if map_max_transaction_bytes policy < actual_bytes
        then Inl (TransactionTooLarge (map_max_transaction_bytes policy) actual_bytes)
        else if tx_budget tx < transaction_resource_units tx then Inl InsufficientBudget
        else if map_max_pending policy \<le> length (mp_pending pool)
        then Inl (PoolFull (map_max_pending policy))
        else if map_max_pending_per_sender policy \<le> pending_of_sender pool (tx_sender tx)
        then Inl (SenderPendingLimitExceeded (tx_sender tx) (map_max_pending_per_sender policy))
        else Inr (pool\<lparr>mp_tx_hashes := finsert (tx_hash tx) (mp_tx_hashes pool),
                       mp_pending := mp_pending pool @ [tx]\<rparr>))"

fun submit_all :: "env \<Rightarrow> detta_state \<Rightarrow> transaction list \<Rightarrow> mempool \<Rightarrow> mempool_error + mempool" where
  "submit_all E s [] pool = Inr pool"
| "submit_all E s (tx # txs) pool =
     (case submit E s tx pool of Inl e \<Rightarrow> Inl e | Inr pool' \<Rightarrow> submit_all E s txs pool')"

definition from_transactions :: "env \<Rightarrow> detta_state \<Rightarrow> transaction list \<Rightarrow> mempool_error + mempool" where
  "from_transactions E s txs = submit_all E s txs new_mempool"

definition still_admissible :: "detta_state \<Rightarrow> transaction \<Rightarrow> bool" where
  "still_admissible s tx \<longleftrightarrow> tx_chain_id tx = chain_id s \<and> tx_signature_ok tx
     \<and> (tx_sender tx, tx_nonce tx) |\<notin>| used_nonces s
     \<and> (case tx_valid_until_height tx of None \<Rightarrow> True | Some h \<Rightarrow> height s < h)"

definition set_pending :: "transaction list \<Rightarrow> mempool \<Rightarrow> mempool" where
  "set_pending txs pool =
     pool\<lparr>mp_pending := txs, mp_tx_hashes := fset_of_list (map tx_hash txs)\<rparr>"

definition retain_admissible :: "detta_state \<Rightarrow> mempool \<Rightarrow> mempool" where
  "retain_admissible s pool = set_pending (filter (still_admissible s) (mp_pending pool)) pool"

text \<open>\<open>sort_by\<close> on sender, nonce and hash; the sort is stable.\<close>

definition block_order :: "transaction \<Rightarrow> principal \<times> u64 \<times> tx_hash" where
  "block_order tx = (tx_sender tx, tx_nonce tx, tx_hash tx)"

definition drain_ordered :: "mempool \<Rightarrow> transaction list \<times> mempool" where
  "drain_ordered pool =
     (sort_key block_order (mp_pending pool), pool\<lparr>mp_pending := [], mp_tx_hashes := {||}\<rparr>)"

text \<open>The loop that fills a block: the units used so far, the transactions selected and deferred.\<close>

fun select_within :: "u64 \<Rightarrow> u64 \<Rightarrow> transaction list \<Rightarrow> transaction list \<times> transaction list" where
  "select_within max_units used [] = ([], [])"
| "select_within max_units used (tx # txs) =
     (let next = saturating_add used (transaction_resource_units tx) in
      if next \<le> max_units
      then (let (selected, deferred) = select_within max_units next txs in (tx # selected, deferred))
      else (let (selected, deferred) = select_within max_units used txs in (selected, tx # deferred)))"

definition drain_ordered_with_resource_limit :: "u64 \<Rightarrow> mempool \<Rightarrow> transaction list \<times> mempool" where
  "drain_ordered_with_resource_limit max_units pool =
     (let (txs, drained) = drain_ordered pool; (selected, deferred) = select_within max_units 0 txs in
      (selected, set_pending deferred drained))"

section \<open>The pool is well formed\<close>

definition pool_ok :: "mempool \<Rightarrow> bool" where
  "pool_ok pool \<longleftrightarrow> distinct (map tx_hash (mp_pending pool))
     \<and> mp_tx_hashes pool = fset_of_list (map tx_hash (mp_pending pool))
     \<and> length (mp_pending pool) \<le> map_max_pending (mp_policy pool)
     \<and> (\<forall>p. pending_of_sender pool p \<le> map_max_pending_per_sender (mp_policy pool))"

lemma submit_Inr:
  "submit E s tx pool = Inr pool' \<longleftrightarrow> still_admissible s tx \<and> tx_hash tx |\<notin>| mp_tx_hashes pool
     \<and> length (canonical_bytes E (SerTransaction tx)) \<le> map_max_transaction_bytes (mp_policy pool)
     \<and> transaction_resource_units tx \<le> tx_budget tx
     \<and> length (mp_pending pool) < map_max_pending (mp_policy pool)
     \<and> pending_of_sender pool (tx_sender tx) < map_max_pending_per_sender (mp_policy pool)
     \<and> pool' = pool\<lparr>mp_tx_hashes := finsert (tx_hash tx) (mp_tx_hashes pool),
                    mp_pending := mp_pending pool @ [tx]\<rparr>"
  by (auto simp: submit_def still_admissible_def Let_def not_less not_le split: option.splits)

lemma submit_ok:
  assumes "submit E s tx pool = Inr pool'" "pool_ok pool"
  shows "pool_ok pool'"
  using assms by (auto simp: submit_Inr pool_ok_def pending_of_sender_def fset_of_list.rep_eq fset_of_list_elem)

lemma submit_all_ok:
  "submit_all E s txs pool = Inr pool' \<Longrightarrow> pool_ok pool \<Longrightarrow> pool_ok pool'"
  by (induction txs arbitrary: pool) (auto dest: submit_ok split: sum.splits)

lemma distinct_submset: "mset xs \<subseteq># mset ys \<Longrightarrow> distinct ys \<Longrightarrow> distinct xs"
  unfolding distinct_count_atmost_1
  by (metis count_mset_0_iff le_zero_eq mset_subset_eq_count set_mset_mset count_eq_zero_iff le_SucE One_nat_def)

lemma subpool_ok:
  assumes "pool_ok pool" "mset txs \<subseteq># mset (mp_pending pool)" "mp_policy pool' = mp_policy pool"
  shows "pool_ok (set_pending txs pool')"
proof -
  have "image_mset tx_hash (mset txs) \<subseteq># image_mset tx_hash (mset (mp_pending pool))"
    using assms(2) by (rule image_mset_subseteq_mono)
  then have "mset (map tx_hash txs) \<subseteq># mset (map tx_hash (mp_pending pool))" by simp
  moreover have "distinct (map tx_hash (mp_pending pool))" using assms(1) by (simp add: pool_ok_def)
  ultimately have "distinct (map tx_hash txs)" by (rule distinct_submset)
  moreover have "length txs \<le> length (mp_pending pool)"
    using assms(2) size_mset_mono by fastforce
  moreover have "pending_of_sender (set_pending txs pool') p \<le> pending_of_sender pool p" for p
  proof -
    have "filter_mset (\<lambda>tx. tx_sender tx = p) (mset txs) \<subseteq># filter_mset (\<lambda>tx. tx_sender tx = p) (mset (mp_pending pool))"
      using assms(2) by (rule multiset_filter_mono)
    then show ?thesis
      using size_mset_mono by (fastforce simp: pending_of_sender_def set_pending_def simp flip: mset_filter)
  qed
  ultimately show ?thesis
    using assms(1,3) unfolding pool_ok_def
    by (auto simp: set_pending_def intro: le_trans)
qed

section \<open>Filling a block\<close>

lemma select_within_mset:
  "select_within m used txs = (sel, def) \<Longrightarrow> mset sel + mset def = mset txs"
  by (induction m used txs arbitrary: sel def rule: select_within.induct)
    (auto simp: Let_def split: prod.splits if_splits)

lemma select_within_sorted:
  assumes "select_within m used txs = (sel, def)" "sorted (map f txs)"
  shows "sorted (map f sel)"
  using assms
proof (induction m used txs arbitrary: sel def rule: select_within.induct)
  case (2 m used tx txs)
  have "set sel' \<subseteq> set txs" if "select_within m u txs = (sel', def')" for u sel' def'
    using select_within_mset [OF that] by (metis mset_subset_eq_add_left set_mset_mono set_mset_mset)
  with 2 show ?case by (auto simp: Let_def split: prod.splits if_splits) blast
qed simp

definition units_after :: "u64 \<Rightarrow> transaction list \<Rightarrow> u64" where
  "units_after used txs = fold (\<lambda>tx acc. saturating_add acc (transaction_resource_units tx)) txs used"

lemma units_after_simps [simp]:
  "units_after used [] = used"
  "units_after used (tx # txs) = units_after (saturating_add used (transaction_resource_units tx)) txs"
  by (simp_all add: units_after_def)

lemma block_units_after: "block_resource_units txs = units_after 0 txs"
  by (simp add: units_after_def block_resource_units_def)

lemma saturating_add_ge: "a \<le> saturating_add a (b :: 'a::len word)"
proof -
  have "unat a < 2 ^ LENGTH('a)" by (rule unsigned_less)
  then have "unat a \<le> 2 ^ LENGTH('a) - 1" by linarith
  then show ?thesis by (simp add: word_le_nat_alt unat_saturating_add)
qed

lemma saturating_add_mono: "a \<le> b \<Longrightarrow> saturating_add a c \<le> saturating_add b (c :: 'a::len word)"
  by (simp add: word_le_nat_alt unat_saturating_add)

lemma saturating_add_zero: "saturating_add 0 (b :: 'a::len word) = b"
proof -
  have "unat b < 2 ^ LENGTH('a)" by (rule unsigned_less)
  then show ?thesis by (simp add: saturating_add_def)
qed

lemma units_after_ge: "used \<le> units_after used txs"
proof (induction txs arbitrary: used)
  case (Cons tx txs)
  have "used \<le> saturating_add used (transaction_resource_units tx)" by (rule saturating_add_ge)
  also have "\<dots> \<le> units_after used (tx # txs)" using Cons by simp
  finally show ?case .
qed simp

lemma select_within_units:
  "select_within m used txs = (sel, def) \<Longrightarrow> used \<le> m \<Longrightarrow> units_after used sel \<le> m"
  by (induction m used txs arbitrary: sel def rule: select_within.induct)
    (auto simp: Let_def split: prod.splits if_splits)

lemma select_within_maximal:
  "select_within m used txs = (sel, def) \<Longrightarrow> tx \<in> set def \<Longrightarrow>
     m < saturating_add (units_after used sel) (transaction_resource_units tx)"
proof (induction m used txs arbitrary: sel def rule: select_within.induct)
  case (2 m used tx' txs)
  let ?next = "saturating_add used (transaction_resource_units tx')"
  show ?case
  proof (cases "?next \<le> m")
    case True
    with 2 show ?thesis by (auto simp: Let_def split: prod.splits)
  next
    case False
    then obtain def' where sel: "select_within m used txs = (sel, def')" and "def = tx' # def'"
      using 2(3) by (auto simp: Let_def split: prod.splits)
    with 2(4) consider "tx = tx'" | "tx \<in> set def'" by auto
    then show ?thesis
    proof cases
      case 1
      have "m < ?next" using False by simp
      also have "\<dots> \<le> saturating_add (units_after used sel) (transaction_resource_units tx')"
        by (rule saturating_add_mono) (rule units_after_ge)
      finally show ?thesis by (simp add: 1)
    next
      case 2
      show ?thesis using "2.IH"(2) sel 2 False by auto
    qed
  qed
qed simp

lemma drain_with_limit:
  assumes "drain_ordered_with_resource_limit m pool = (sel, pool')"
  obtains def where "select_within m 0 (sort_key block_order (mp_pending pool)) = (sel, def)"
    "pool' = set_pending def (pool\<lparr>mp_pending := [], mp_tx_hashes := {||}\<rparr>)"
  using assms
  by (auto simp: drain_ordered_with_resource_limit_def drain_ordered_def Let_def split: prod.splits)

lemma mp_pending_set [simp]: "mp_pending (set_pending txs pool) = txs" "mp_policy (set_pending txs pool) = mp_policy pool"
  by (simp_all add: set_pending_def)

lemma drain_partition:
  assumes "drain_ordered_with_resource_limit m pool = (sel, pool')"
  shows "mset sel + mset (mp_pending pool') = mset (mp_pending pool)"
  using assms by (rule drain_with_limit) (auto dest: select_within_mset)

lemma drain_ok:
  assumes "drain_ordered_with_resource_limit m pool = (sel, pool')" "pool_ok pool"
  shows "pool_ok pool'"
  using assms(1)
proof (rule drain_with_limit)
  fix def
  assume pool': "pool' = set_pending def (pool\<lparr>mp_pending := [], mp_tx_hashes := {||}\<rparr>)"
  have "mset def \<subseteq># mset (mp_pending pool)"
    using drain_partition [OF assms(1)] by (metis pool' mp_pending_set(1) mset_subset_eq_add_right)
  then show "pool_ok pool'" using assms(2) unfolding pool' by (intro subpool_ok) simp_all
qed

lemma retain_ok: "pool_ok pool \<Longrightarrow> pool_ok (retain_admissible s pool)"
  unfolding retain_admissible_def by (rule subpool_ok) (simp_all add: multiset_filter_subset)

section \<open>Progress\<close>

text \<open>As long as every pending transaction fits a block of its own, each proposal takes one out.\<close>

lemma select_nonempty:
  assumes "txs \<noteq> []" "\<forall>tx \<in> set txs. transaction_resource_units tx \<le> m"
  shows "fst (select_within m 0 txs) \<noteq> []"
proof -
  obtain tx txs' where txs: "txs = tx # txs'" using assms(1) by (cases txs) auto
  have "saturating_add 0 (transaction_resource_units tx) = transaction_resource_units tx"
    by (rule saturating_add_zero)
  with assms(2) show ?thesis by (auto simp: txs Let_def split: prod.split)
qed

lemma drain_progress:
  assumes "drain_ordered_with_resource_limit m pool = (sel, pool')" "mp_pending pool \<noteq> []"
    and "\<forall>tx \<in> set (mp_pending pool). transaction_resource_units tx \<le> m"
  shows "length (mp_pending pool') < length (mp_pending pool)"
proof -
  have "sel \<noteq> []"
    using assms(1)
  proof (rule drain_with_limit)
    fix def
    assume "select_within m 0 (sort_key block_order (mp_pending pool)) = (sel, def)"
    then show "sel \<noteq> []"
      using select_nonempty [of "sort_key block_order (mp_pending pool)" m] assms(2,3)
      by (metis fst_conv length_0_conv length_sort set_sort)
  qed
  moreover have "length sel + length (mp_pending pool') = length (mp_pending pool)"
    using drain_partition [OF assms(1)] by (metis size_mset size_union)
  ultimately show ?thesis by (cases sel) auto
qed

fun proposals :: "nat \<Rightarrow> u64 \<Rightarrow> mempool \<Rightarrow> transaction list list \<times> mempool" where
  "proposals 0 m pool = ([], pool)"
| "proposals (Suc k) m pool =
     (let (sel, pool') = drain_ordered_with_resource_limit m pool; (rest, pool'') = proposals k m pool'
      in (sel # rest, pool''))"

lemma proposals_drain:
  assumes "\<forall>tx \<in> set (mp_pending pool). transaction_resource_units tx \<le> m"
    and "length (mp_pending pool) \<le> k"
  shows "mp_pending (snd (proposals k m pool)) = []
    \<and> mset (concat (fst (proposals k m pool))) = mset (mp_pending pool)"
  using assms
proof (induction k arbitrary: pool)
  case (Suc k)
  obtain sel pool' where drain: "drain_ordered_with_resource_limit m pool = (sel, pool')" by fastforce
  have part: "mset sel + mset (mp_pending pool') = mset (mp_pending pool)"
    using drain by (rule drain_partition)
  then have "set (mp_pending pool') \<subseteq> set (mp_pending pool)"
    by (metis mset_subset_eq_add_right set_mset_mono set_mset_mset)
  moreover have "length (mp_pending pool') \<le> k"
  proof (cases "mp_pending pool = []")
    case True
    with part show ?thesis by simp
  next
    case False
    with drain_progress [OF drain] Suc.prems show ?thesis by linarith
  qed
  ultimately have "mp_pending (snd (proposals k m pool')) = []
      \<and> mset (concat (fst (proposals k m pool'))) = mset (mp_pending pool')"
    using Suc.prems(1) by (intro Suc.IH) auto
  with part show ?case by (auto simp: drain split: prod.split)
qed simp

section \<open>Properties\<close>

text \<open>(C28) Selection for a block: draining the pool with a resource limit loses and duplicates nothing,
  the selected transactions are in the order of sender, nonce and hash and together within the
  limit, and none of the transactions left behind would have fitted in addition.\<close>

theorem block_selection:
  assumes "drain_ordered_with_resource_limit m pool = (sel, pool')"
  shows "mset sel + mset (mp_pending pool') = mset (mp_pending pool)
    \<and> sorted (map block_order sel) \<and> block_resource_units sel \<le> m
    \<and> (\<forall>tx \<in> set (mp_pending pool').
         m < saturating_add (block_resource_units sel) (transaction_resource_units tx))"
  using assms
proof (rule drain_with_limit)
  fix def
  assume sel: "select_within m 0 (sort_key block_order (mp_pending pool)) = (sel, def)"
    and pool': "pool' = set_pending def (pool\<lparr>mp_pending := [], mp_tx_hashes := {||}\<rparr>)"
  have "sorted (map block_order sel)" using sel by (rule select_within_sorted) simp
  moreover have "block_resource_units sel \<le> m"
    unfolding block_units_after using sel by (rule select_within_units) simp
  ultimately show ?thesis
    using drain_partition [OF assms] select_within_maximal [OF sel]
    by (simp add: pool' block_units_after)
qed

text \<open>Three transfers, two of which fit a block of eighty units.\<close>

definition sample_pool :: mempool where
  "sample_pool =
     set_pending [sample_transfer, sample_transfer\<lparr>tx_nonce := 3, tx_hash := ''t9''\<rparr>,
       sample_transfer\<lparr>tx_nonce := 5, tx_hash := ''t8''\<rparr>]
       (with_policy \<lparr>map_max_pending = 3, map_max_pending_per_sender = 3, map_max_transaction_bytes = 9\<rparr>)"

theorem block_selection_witness:
  "\<exists>sel pool'. drain_ordered_with_resource_limit 80 sample_pool = (sel, pool')
     \<and> map tx_hash sel = [''t9'', ''t8''] \<and> block_resource_units sel \<le> 80
     \<and> mset sel + mset (mp_pending pool') = mset (mp_pending sample_pool)"
proof -
  obtain sel pool' where drain: "drain_ordered_with_resource_limit 80 sample_pool = (sel, pool')" by fastforce
  moreover have "map tx_hash (fst (drain_ordered_with_resource_limit 80 sample_pool)) = [''t9'', ''t8'']"
    by code_simp
  ultimately show ?thesis using block_selection [OF drain] by auto
qed



end
