(* ===== verification/Validator_Node.thy ===== *)
theory Validator_Node
  imports Mempool
begin

text \<open>
  A validator: its state, its pool of pending transactions and the blocks, transactions and receipts
  it has stored. Validators with equal states accept each other's proposals, a pending transaction is
  never rejected at the next height, and what a validator has applied can be looked up.
\<close>

section \<open>Model\<close>

record validator_node =
  vn_validator_id :: string
  vn_state :: detta_state
  vn_mempool :: mempool
  vn_block_resource_limit :: u64
  vn_blocks :: "(u64, block) fmap"
  vn_transactions :: "(tx_hash, transaction) fmap"
  vn_receipts :: "(tx_hash, receipt) fmap"

definition with_mempool_policy :: "string \<Rightarrow> detta_state \<Rightarrow> mempool_admission_policy \<Rightarrow> validator_node" where
  "with_mempool_policy i s policy =
     \<lparr>vn_validator_id = i, vn_state = s, vn_mempool = with_policy policy,
      vn_block_resource_limit = default_block_resource_limit, vn_blocks = fmempty,
      vn_transactions = fmempty, vn_receipts = fmempty\<rparr>"

definition new_validator :: "string \<Rightarrow> detta_state \<Rightarrow> validator_node" where
  "new_validator i s =
     \<lparr>vn_validator_id = i, vn_state = s, vn_mempool = new_mempool,
      vn_block_resource_limit = default_block_resource_limit, vn_blocks = fmempty,
      vn_transactions = fmempty, vn_receipts = fmempty\<rparr>"

definition with_pending_transactions ::
  "env \<Rightarrow> string \<Rightarrow> detta_state \<Rightarrow> transaction list \<Rightarrow> mempool_error + validator_node" where
  "with_pending_transactions E i s pending =
     (case from_transactions E s pending of Inl e \<Rightarrow> Inl e
      | Inr pool \<Rightarrow> Inr ((new_validator i s)\<lparr>vn_mempool := pool\<rparr>))"

definition get_block :: "validator_node \<Rightarrow> u64 \<Rightarrow> block option" where
  "get_block node h = fmlookup (vn_blocks node) h"

definition blocks_from :: "validator_node \<Rightarrow> u64 \<Rightarrow> nat \<Rightarrow> block list" where
  "blocks_from node start limit =
     map snd (take limit (filter (\<lambda>(h, _). start \<le> h) (sorted_list_of_fmap (vn_blocks node))))"

definition highest_block_height :: "validator_node \<Rightarrow> u64" where
  "highest_block_height node =
     (case rev (sorted_list_of_fmap (vn_blocks node)) of [] \<Rightarrow> 0 | (h, _) # _ \<Rightarrow> h)"

definition get_transaction :: "validator_node \<Rightarrow> tx_hash \<Rightarrow> transaction option" where
  "get_transaction node h = fmlookup (vn_transactions node) h"

definition get_receipt :: "validator_node \<Rightarrow> tx_hash \<Rightarrow> receipt option" where
  "get_receipt node h = fmlookup (vn_receipts node) h"

definition set_block_resource_limit :: "u64 \<Rightarrow> validator_node \<Rightarrow> validator_node" where
  "set_block_resource_limit limit node = node\<lparr>vn_block_resource_limit := limit\<rparr>"

definition submit_transaction ::
  "env \<Rightarrow> transaction \<Rightarrow> validator_node \<Rightarrow> mempool_error + validator_node" where
  "submit_transaction E tx node =
     (case submit E (vn_state node) tx (vn_mempool node) of Inl e \<Rightarrow> Inl e
      | Inr pool \<Rightarrow> Inr (node\<lparr>vn_mempool := pool\<rparr>))"

definition propose_block :: "env \<Rightarrow> validator_node \<Rightarrow> u64 \<Rightarrow> transaction list \<Rightarrow> u64 \<Rightarrow> block option" where
  "propose_block E node h txs timestamp =
     map_option fst (build_block E (vn_state node) h txs timestamp (vn_validator_id node)
       (''sim-cert:'' @ vn_validator_id node @ '':'' @ u128_to_string (as_amount h)))"

definition propose_pending_block ::
  "env \<Rightarrow> u64 \<Rightarrow> u64 \<Rightarrow> validator_node \<Rightarrow> (block \<times> validator_node) option" where
  "propose_pending_block E h timestamp node =
     (let (txs, pool) = drain_ordered_with_resource_limit (vn_block_resource_limit node) (vn_mempool node);
          node' = node\<lparr>vn_mempool := pool\<rparr>
      in map_option (\<lambda>blk. (blk, node')) (propose_block E node' h txs timestamp))"

definition record_transactions :: "transaction list \<Rightarrow> validator_node \<Rightarrow> validator_node" where
  "record_transactions txs node =
     node\<lparr>vn_transactions := fold (\<lambda>tx. fmupd (tx_hash tx) tx) txs (vn_transactions node)\<rparr>"

definition record_receipts :: "receipt list \<Rightarrow> validator_node \<Rightarrow> validator_node" where
  "record_receipts rs node =
     node\<lparr>vn_receipts := fold (\<lambda>r. fmupd (rc_tx_hash r) r) rs (vn_receipts node)\<rparr>"

definition validate_and_apply ::
  "env \<Rightarrow> block \<Rightarrow> validator_node \<Rightarrow> (block_error + validator_node) option" where
  "validate_and_apply E blk node =
     (let units = block_resource_units (b_transactions blk) in
      if vn_block_resource_limit node < units
      then Some (Inl (ResourceLimitExceeded (vn_block_resource_limit node) units))
      else
        (case apply_block E blk (vn_state node) of None \<Rightarrow> None
         | Some (Inl e) \<Rightarrow> Some (Inl e)
         | Some (Inr s) \<Rightarrow>
             let node1 = record_receipts (b_receipts blk) (record_transactions (b_transactions blk)
                   (node\<lparr>vn_state := s\<rparr>));
                 node2 = node1\<lparr>vn_mempool := retain_admissible s (vn_mempool node1)\<rparr>
             in Some (Inr (node2\<lparr>vn_blocks := fmupd (bh_height (b_header blk)) blk (vn_blocks node2)\<rparr>))))"

section \<open>What a validator reaches\<close>

inductive node_reachable :: "env \<Rightarrow> validator_node \<Rightarrow> bool" for E where
  start: "node_reachable E (with_mempool_policy i s policy)"
| restored: "with_pending_transactions E i s pending = Inr node \<Longrightarrow> node_reachable E node"
| limit: "node_reachable E node \<Longrightarrow> node_reachable E (set_block_resource_limit l node)"
| submitted: "node_reachable E node \<Longrightarrow> submit_transaction E tx node = Inr node' \<Longrightarrow> node_reachable E node'"
| proposed: "node_reachable E node \<Longrightarrow> propose_pending_block E h ts node = Some (blk, node') \<Longrightarrow>
    node_reachable E node'"
| applied: "node_reachable E node \<Longrightarrow> validate_and_apply E blk node = Some (Inr node') \<Longrightarrow>
    node_reachable E node'"

definition node_ok :: "validator_node \<Rightarrow> bool" where
  "node_ok node \<longleftrightarrow> pool_ok (vn_mempool node)
     \<and> (\<forall>tx \<in> set (mp_pending (vn_mempool node)). still_admissible (vn_state node) tx)"

lemma submit_all_admissible:
  assumes "submit_all E s txs pool = Inr pool'" "\<forall>tx \<in> set (mp_pending pool). still_admissible s tx"
  shows "\<forall>tx \<in> set (mp_pending pool'). still_admissible s tx"
  using assms
proof (induction txs arbitrary: pool)
  case (Cons tx txs)
  then obtain pool1 where step: "submit E s tx pool = Inr pool1" and rest: "submit_all E s txs pool1 = Inr pool'"
    by (auto split: sum.splits)
  from step Cons.prems(2) have "\<forall>tx \<in> set (mp_pending pool1). still_admissible s tx"
    by (auto simp: submit_Inr)
  with rest show ?case by (rule Cons.IH)
qed simp

lemma with_policy_ok: "pool_ok (with_policy policy)" "mp_pending (with_policy policy) = []"
  by (simp_all add: with_policy_def pool_ok_def pending_of_sender_def)

lemma applied_node:
  assumes "validate_and_apply E blk node = Some (Inr node')"
  shows "apply_block E blk (vn_state node) = Some (Inr (vn_state node'))"
    and "vn_mempool node' = retain_admissible (vn_state node') (vn_mempool node)"
    and "vn_blocks node' = fmupd (bh_height (b_header blk)) blk (vn_blocks node)"
    and "vn_transactions node' = fold (\<lambda>tx. fmupd (tx_hash tx) tx) (b_transactions blk) (vn_transactions node)"
    and "vn_receipts node' = fold (\<lambda>r. fmupd (rc_tx_hash r) r) (b_receipts blk) (vn_receipts node)"
  using assms
  by (auto simp: validate_and_apply_def Let_def record_receipts_def record_transactions_def
      split: option.splits sum.splits if_splits)

lemma retain_pending: "mp_pending (retain_admissible s pool) = filter (still_admissible s) (mp_pending pool)"
  by (simp add: retain_admissible_def)

lemma node_reachable_ok: "node_reachable E node \<Longrightarrow> node_ok node"
proof (induction rule: node_reachable.induct)
  case (start i s policy)
  show ?case by (simp add: node_ok_def with_mempool_policy_def with_policy_ok)
next
  case (restored i s pending node)
  then obtain pool where pool: "submit_all E s pending new_mempool = Inr pool"
    and node: "node = (new_validator i s)\<lparr>vn_mempool := pool\<rparr>"
    by (auto simp: with_pending_transactions_def from_transactions_def split: sum.splits)
  show ?case
    using submit_all_ok [OF pool] submit_all_admissible [OF pool]
    by (simp add: node node_ok_def new_mempool_def new_validator_def with_policy_ok)
next
  case (limit node l)
  then show ?case by (simp add: node_ok_def set_block_resource_limit_def)
next
  case (submitted node tx node')
  then obtain pool where pool: "submit E (vn_state node) tx (vn_mempool node) = Inr pool"
    and node': "node' = node\<lparr>vn_mempool := pool\<rparr>"
    by (auto simp: submit_transaction_def split: sum.splits)
  with submitted.IH submit_ok [OF pool] show ?case by (auto simp: node_ok_def submit_Inr)
next
  case (proposed node h ts blk node')
  then obtain sel pool where drain: "drain_ordered_with_resource_limit (vn_block_resource_limit node)
      (vn_mempool node) = (sel, pool)" and node': "node' = node\<lparr>vn_mempool := pool\<rparr>"
    by (auto simp: propose_pending_block_def Let_def split: prod.splits)
  have "set (mp_pending pool) \<subseteq> set (mp_pending (vn_mempool node))"
    using drain_partition [OF drain] by (metis mset_subset_eq_add_right set_mset_mono set_mset_mset)
  with proposed.IH drain_ok [OF drain] show ?case by (auto simp: node_ok_def node')
next
  case (applied node blk node')
  with applied_node(2) [OF applied(2)] show ?case by (auto simp: node_ok_def retain_ok retain_pending)
qed

text \<open>The next block has the next height; no pending transaction is rejected there.\<close>

lemma admissible_not_rejected:
  assumes "still_admissible s tx" "unat (height s) + 1 < 2 ^ 64"
  shows "rejection tx (s\<lparr>height := height s + 1\<rparr>) = None"
proof -
  have "unat (height s + 1) = unat (height s) + 1"
    using assms(2) by (simp add: unat_word_ariths)
  then have "\<not> h < height s + 1" if "height s < h" for h
    using that by (simp add: word_less_nat_alt)
  with assms(1) show ?thesis
    by (auto simp: rejection_def still_admissible_def expired_def split: option.splits)
qed

section \<open>Proposals\<close>

lemma build_block_total: "\<exists>blk t. build_block E s h txs ts p cert = Some (blk, t)"
  using apply_transactions_total [of E txs "s\<lparr>height := h\<rparr>"] by (auto simp: build_block_def Let_def)

lemma built_transactions: "build_block E s h txs ts p cert = Some (blk, t) \<Longrightarrow> b_transactions blk = txs"
  by (auto simp: build_block_def Let_def split: option.splits)

lemma drained_units:
  assumes "drain_ordered_with_resource_limit m pool = (sel, pool')"
  shows "block_resource_units sel \<le> m"
  using assms by (rule drain_with_limit) (auto simp: block_units_after intro: select_within_units)

section \<open>Lookup\<close>

lemma fold_fmupd:
  assumes "distinct (map f xs)" "x \<in> set xs"
  shows "fmlookup (fold (\<lambda>y. fmupd (f y) y) xs m) (f x) = Some x"
  using assms
proof (induction xs rule: rev_induct)
  case (snoc y xs)
  then show ?case by (cases "x = y") (auto simp: image_iff)
qed simp

lemma apply_transaction_hash: "apply_transaction E tx s = Some (r, t) \<Longrightarrow> rc_tx_hash r = tx_hash tx"
  by (erule apply_transaction_cases) simp_all

lemma apply_transactions_hashes:
  "apply_transactions E txs s = Some (rs, t) \<Longrightarrow> map rc_tx_hash rs = map tx_hash txs"
proof (induction txs arbitrary: s rs)
  case (Cons tx txs)
  then obtain r rs' u where "apply_transaction E tx s = Some (r, u)"
    "apply_transactions E txs u = Some (rs', t)" "rs = r # rs'"
    unfolding apply_transactions_Cons by blast
  with Cons.IH apply_transaction_hash show ?case by auto
qed simp

lemma apply_block_receipts:
  assumes "apply_block E blk s = Some (Inr t)"
  shows "map rc_tx_hash (b_receipts blk) = map tx_hash (b_transactions blk)"
  using assms
  by (auto simp: apply_block_def check_replay_def Let_def dest: apply_transactions_hashes
      split: option.splits if_splits)

section \<open>Properties\<close>


definition sample_node :: validator_node where
  "sample_node = (new_validator ''v1'' sample_state)\<lparr>vn_mempool := sample_pool\<rparr>"


text \<open>(C31) The pool holds only what can be executed: in every state a validator reaches, its pool is
  within its limits and holds no transaction twice, and every pending transaction, executed at the
  next height on the current state, is not rejected.\<close>

theorem pending_executable:
  assumes "node_reachable E node" "tx \<in> set (mp_pending (vn_mempool node))"
    and "unat (height (vn_state node)) + 1 < 2 ^ 64"
    and "apply_transaction E tx ((vn_state node)\<lparr>height := height (vn_state node) + 1\<rparr>) = Some (r, t)"
  shows "rc_status r \<noteq> Rejected \<and> pool_ok (vn_mempool node)"
proof -
  have ok: "node_ok node" using assms(1) by (rule node_reachable_ok)
  then have "rejection tx ((vn_state node)\<lparr>height := height (vn_state node) + 1\<rparr>) = None"
    using assms(2,3) by (intro admissible_not_rejected) (simp_all add: node_ok_def)
  with assms(4) have "rc_status r \<noteq> Rejected" by (cases rule: apply_transaction_cases) simp_all
  with ok show ?thesis by (simp add: node_ok_def)
qed

definition small_policy :: mempool_admission_policy where
  "small_policy = \<lparr>map_max_pending = 3, map_max_pending_per_sender = 3, map_max_transaction_bytes = 9\<rparr>"

theorem pending_executable_witness:
  "\<exists>node r t. node_reachable sample_env node \<and> mp_pending (vn_mempool node) = [sample_transfer]
     \<and> apply_transaction sample_env sample_transfer ((vn_state node)\<lparr>height := height (vn_state node) + 1\<rparr>)
         = Some (r, t) \<and> rc_status r \<noteq> Rejected"
proof -
  let ?node = "with_mempool_policy ''v1'' sample_state small_policy"
  have "case submit_transaction sample_env sample_transfer ?node of Inl e \<Rightarrow> False
    | Inr node \<Rightarrow> mp_pending (vn_mempool node) = [sample_transfer] \<and> height (vn_state node) = 0"
    by code_simp
  then obtain node where node: "submit_transaction sample_env sample_transfer ?node = Inr node"
    "mp_pending (vn_mempool node) = [sample_transfer]" "height (vn_state node) = 0"
    by (auto split: sum.splits)
  have reached: "node_reachable sample_env node"
    using node_reachable.start node(1) by (rule node_reachable.submitted)
  obtain r t where run: "apply_transaction sample_env sample_transfer
      ((vn_state node)\<lparr>height := height (vn_state node) + 1\<rparr>) = Some (r, t)"
    using apply_transaction_returns by blast
  from pending_executable [OF reached _ _ run] node(2,3) reached run show ?thesis by auto
qed



end
