(* ===== verification/Consensus.thy ===== *)
theory Consensus
  imports Validator_Node
begin

text \<open>
  The cluster of validators: votes, finality certificates, equivocation and slashing, and updates of
  the validator set.
\<close>

section \<open>Model\<close>

record vote =
  vt_validator_id :: string
  vt_height :: u64
  vt_block_hash :: string

record finality_certificate =
  fc_height :: u64
  fc_block_hash :: string
  fc_signers :: "string list"

record equivocation_evidence =
  ee_validator_id :: string
  ee_height :: u64
  ee_first_block_hash :: string
  ee_second_block_hash :: string

record slashing_record =
  sr_validator_id :: string
  sr_slashed_at_height :: u64
  sr_evidence :: equivocation_evidence

record validator_set_update =
  vu_update_id :: string
  vu_add_validators :: "(string \<times> detta_state) list"
  vu_remove_validators :: "string list"

datatype consensus_error =
    UnknownProposer | UnknownValidator string | SlashedValidator string | DuplicateValidator string
  | EmptyValidatorSet | ValidatorSetWouldBeEmpty | ValidatorSetUpdateAlreadyApplied string
  | QuorumNotReached nat nat | FinalityHeightMismatch u64 u64
  | FinalityBlockHashMismatch string string | InvalidBlock string block_error
  | Equivocation equivocation_evidence

record consensus_cluster =
  cc_validators :: "(string, validator_node) fmap"
  cc_slashing_records :: "(string, slashing_record) fmap"
  cc_applied_updates :: "string fset"

definition quorum_for :: "nat \<Rightarrow> nat" where
  "quorum_for n = (if n = 0 then 0 else n * 2 div 3 + 1)"

fun insert_validators ::
  "(string \<times> detta_state) list \<Rightarrow> (string, validator_node) fmap \<Rightarrow> consensus_error + (string, validator_node) fmap" where
  "insert_validators [] nodes = Inr nodes"
| "insert_validators ((i, s) # rest) nodes =
     (if i |\<in>| fmdom nodes then Inl (DuplicateValidator i)
      else insert_validators rest (fmupd i (new_validator i s) nodes))"

definition new_cluster :: "(string \<times> detta_state) list \<Rightarrow> consensus_error + consensus_cluster" where
  "new_cluster validators =
     (if validators = [] then Inl EmptyValidatorSet
      else case insert_validators validators fmempty of Inl e \<Rightarrow> Inl e
        | Inr nodes \<Rightarrow> Inr \<lparr>cc_validators = nodes, cc_slashing_records = fmempty, cc_applied_updates = {||}\<rparr>)"

definition validator_count :: "consensus_cluster \<Rightarrow> nat" where
  "validator_count C = fcard (fmdom (cc_validators C))"

definition active_validator_count :: "consensus_cluster \<Rightarrow> nat" where
  "active_validator_count C = fcard (fmdom (cc_validators C)) - fcard (fmdom (cc_slashing_records C))"

definition quorum :: "consensus_cluster \<Rightarrow> nat" where
  "quorum C = quorum_for (active_validator_count C)"

definition is_slashed :: "consensus_cluster \<Rightarrow> string \<Rightarrow> bool" where
  "is_slashed C i \<longleftrightarrow> i |\<in>| fmdom (cc_slashing_records C)"

definition active_validators :: "consensus_cluster \<Rightarrow> string fset" where
  "active_validators C = ffilter (\<lambda>i. \<not> is_slashed C i) (fmdom (cc_validators C))"

definition validator :: "consensus_cluster \<Rightarrow> string \<Rightarrow> validator_node option" where
  "validator C i = fmlookup (cc_validators C) i"

definition slashing_record_of :: "consensus_cluster \<Rightarrow> string \<Rightarrow> slashing_record option" where
  "slashing_record_of C i = fmlookup (cc_slashing_records C) i"

definition slashing_records :: "consensus_cluster \<Rightarrow> slashing_record list" where
  "slashing_records C = map snd (sorted_list_of_fmap (cc_slashing_records C))"

definition has_applied_validator_set_update :: "consensus_cluster \<Rightarrow> string \<Rightarrow> bool" where
  "has_applied_validator_set_update C i \<longleftrightarrow> i |\<in>| cc_applied_updates C"

text \<open>The first signer that is not an active validator, and why.\<close>

fun check_signers :: "consensus_cluster \<Rightarrow> string list \<Rightarrow> consensus_error option" where
  "check_signers C [] = None"
| "check_signers C (i # rest) =
     (if i |\<notin>| fmdom (cc_validators C) then Some (UnknownValidator i)
      else if is_slashed C i then Some (SlashedValidator i)
      else check_signers C rest)"

definition verify_finality_certificate ::
  "finality_certificate \<Rightarrow> u64 \<Rightarrow> string \<Rightarrow> string fset \<Rightarrow> nat \<Rightarrow> consensus_error + unit" where
  "verify_finality_certificate cert h hash active q =
     (if active = {||} \<or> q = 0 then Inl EmptyValidatorSet
      else if fc_height cert \<noteq> h then Inl (FinalityHeightMismatch h (fc_height cert))
      else if fc_block_hash cert \<noteq> hash then Inl (FinalityBlockHashMismatch hash (fc_block_hash cert))
      else case find (\<lambda>i. i |\<notin>| active) (fc_signers cert) of
        Some i \<Rightarrow> Inl (UnknownValidator i)
      | None \<Rightarrow>
          let accepted = fcard (fset_of_list (fc_signers cert)) in
          if accepted < q then Inl (QuorumNotReached accepted q) else Inr ())"

definition cluster_verify_finality_certificate ::
  "consensus_cluster \<Rightarrow> finality_certificate \<Rightarrow> u64 \<Rightarrow> string \<Rightarrow> consensus_error + unit" where
  "cluster_verify_finality_certificate C cert h hash =
     (case check_signers C (fc_signers cert) of Some e \<Rightarrow> Inl e
      | None \<Rightarrow> verify_finality_certificate cert h hash (active_validators C) (quorum C))"

definition record_equivocation ::
  "equivocation_evidence \<Rightarrow> consensus_cluster \<Rightarrow> consensus_error + consensus_cluster" where
  "record_equivocation ev C =
     (let i = ee_validator_id ev in
      if i |\<notin>| fmdom (cc_validators C) then Inl (UnknownValidator i)
      else if i |\<in>| fmdom (cc_slashing_records C) then Inr C
      else Inr (C\<lparr>cc_slashing_records := fmupd i
        \<lparr>sr_validator_id = i, sr_slashed_at_height = ee_height ev, sr_evidence = ev\<rparr> (cc_slashing_records C)\<rparr>))"

definition cluster_propose_block ::
  "env \<Rightarrow> consensus_cluster \<Rightarrow> string \<Rightarrow> u64 \<Rightarrow> transaction list \<Rightarrow> u64 \<Rightarrow> (consensus_error + block) option" where
  "cluster_propose_block E C i h txs ts =
     (case fmlookup (cc_validators C) i of None \<Rightarrow> Some (Inl UnknownProposer)
      | Some node \<Rightarrow>
          if is_slashed C i then Some (Inl (SlashedValidator i))
          else map_option Inr (propose_block E node h txs ts))"

definition ordered_hash_pair :: "string \<Rightarrow> string \<Rightarrow> string \<times> string" where
  "ordered_hash_pair l r = (if l \<le> r then (l, r) else (r, l))"

fun detect_from :: "(string \<times> u64, string) fmap \<Rightarrow> vote list \<Rightarrow> equivocation_evidence option" where
  "detect_from seen [] = None"
| "detect_from seen (v # votes) =
     (let key = (vt_validator_id v, vt_height v) in
      case fmlookup seen key of
        Some previous \<Rightarrow>
          if previous \<noteq> vt_block_hash v
          then (let (a, b) = ordered_hash_pair previous (vt_block_hash v) in
            Some \<lparr>ee_validator_id = vt_validator_id v, ee_height = vt_height v,
              ee_first_block_hash = a, ee_second_block_hash = b\<rparr>)
          else detect_from seen votes
      | None \<Rightarrow> detect_from (fmupd key (vt_block_hash v) seen) votes)"

definition detect_equivocation :: "vote list \<Rightarrow> equivocation_evidence option" where
  "detect_equivocation votes = detect_from fmempty votes"

definition certificate_from_votes ::
  "u64 \<Rightarrow> string \<Rightarrow> vote list \<Rightarrow> nat \<Rightarrow> consensus_error + finality_certificate" where
  "certificate_from_votes h hash votes q =
     (case detect_equivocation votes of Some ev \<Rightarrow> Inl (Equivocation ev)
      | None \<Rightarrow>
          let signers = fset_of_list (map vt_validator_id
                (filter (\<lambda>v. vt_height v = h \<and> vt_block_hash v = hash) votes)) in
          if fcard signers < q then Inl (QuorumNotReached (fcard signers) q)
          else Inr \<lparr>fc_height = h, fc_block_hash = hash, fc_signers = sorted_list_of_fset signers\<rparr>)"

definition certificate_from_active_votes ::
  "u64 \<Rightarrow> string \<Rightarrow> vote list \<Rightarrow> consensus_cluster
   \<Rightarrow> (consensus_error + finality_certificate) \<times> consensus_cluster" where
  "certificate_from_active_votes h hash votes C =
     (case detect_equivocation votes of
        Some ev \<Rightarrow>
          (case record_equivocation ev C of Inl e \<Rightarrow> (Inl e, C) | Inr C' \<Rightarrow> (Inl (Equivocation ev), C'))
      | None \<Rightarrow>
          (certificate_from_votes h hash (filter (\<lambda>v. \<not> is_slashed C (vt_validator_id v)) votes) (quorum C), C))"

text \<open>The loop of \<open>finalize_block\<close> over the validators in the order of their identifiers: the votes, or
  the first error, and the nodes it has reached. \<open>None\<close> is a block whose execution does not end.\<close>

fun collect_votes ::
  "env \<Rightarrow> block \<Rightarrow> (string, slashing_record) fmap \<Rightarrow> (string \<times> validator_node) list
   \<Rightarrow> (string, validator_node) fmap \<Rightarrow> ((consensus_error + vote list) \<times> (string, validator_node) fmap) option" where
  "collect_votes E blk slashed [] nodes = Some (Inr [], nodes)"
| "collect_votes E blk slashed ((i, node) # rest) nodes =
     (if i |\<in>| fmdom slashed then collect_votes E blk slashed rest nodes
      else case validate_and_apply E blk node of None \<Rightarrow> None
        | Some (Inl e) \<Rightarrow> Some (Inl (InvalidBlock i e), nodes)
        | Some (Inr node') \<Rightarrow>
            (case collect_votes E blk slashed rest (fmupd i node' nodes) of None \<Rightarrow> None
             | Some (Inl e, nodes') \<Rightarrow> Some (Inl e, nodes')
             | Some (Inr votes, nodes') \<Rightarrow>
                 Some (Inr (\<lparr>vt_validator_id = i, vt_height = bh_height (b_header blk),
                   vt_block_hash = block_hash E blk\<rparr> # votes), nodes')))"

definition finalize_block ::
  "env \<Rightarrow> block \<Rightarrow> consensus_cluster \<Rightarrow> ((consensus_error + finality_certificate) \<times> consensus_cluster) option" where
  "finalize_block E blk C =
     (if is_slashed C (bh_proposer (b_header blk))
      then Some (Inl (SlashedValidator (bh_proposer (b_header blk))), C)
      else case collect_votes E blk (cc_slashing_records C) (sorted_list_of_fmap (cc_validators C)) (cc_validators C)
        of None \<Rightarrow> None
        | Some (Inl e, nodes) \<Rightarrow> Some (Inl e, C\<lparr>cc_validators := nodes\<rparr>)
        | Some (Inr votes, nodes) \<Rightarrow>
            Some (certificate_from_active_votes (bh_height (b_header blk)) (block_hash E blk) votes
              (C\<lparr>cc_validators := nodes\<rparr>)))"

definition require_active_quorum :: "consensus_cluster \<Rightarrow> string list \<Rightarrow> consensus_error option" where
  "require_active_quorum C signers =
     (case check_signers C signers of Some e \<Rightarrow> Some e
      | None \<Rightarrow>
          let accepted = fcard (fset_of_list signers) in
          if accepted < quorum C then Some (QuorumNotReached accepted (quorum C)) else None)"

fun check_added :: "(string, validator_node) fmap \<Rightarrow> string fset \<Rightarrow> string list \<Rightarrow> consensus_error option" where
  "check_added nodes seen [] = None"
| "check_added nodes seen (i # rest) =
     (if i |\<in>| seen \<or> i |\<in>| fmdom nodes then Some (DuplicateValidator i)
      else check_added nodes (finsert i seen) rest)"

fun check_removed :: "(string, validator_node) fmap \<Rightarrow> string fset \<Rightarrow> string list \<Rightarrow> consensus_error option" where
  "check_removed nodes seen [] = None"
| "check_removed nodes seen (i # rest) =
     (if i |\<in>| seen \<or> i |\<notin>| fmdom nodes then Some (UnknownValidator i)
      else check_removed nodes (finsert i seen) rest)"

definition validate_validator_set_update :: "consensus_cluster \<Rightarrow> validator_set_update \<Rightarrow> consensus_error option" where
  "validate_validator_set_update C u =
     (case check_added (cc_validators C) {||} (map fst (vu_add_validators u)) of Some e \<Rightarrow> Some e
      | None \<Rightarrow>
        (case check_removed (cc_validators C) {||} (vu_remove_validators u) of Some e \<Rightarrow> Some e
         | None \<Rightarrow>
            if validator_count C + length (vu_add_validators u) - length (vu_remove_validators u) = 0
            then Some ValidatorSetWouldBeEmpty else None))"

definition apply_validator_set_update ::
  "validator_set_update \<Rightarrow> finality_certificate \<Rightarrow> consensus_cluster \<Rightarrow> consensus_error + consensus_cluster" where
  "apply_validator_set_update u cert C =
     (if vu_update_id u |\<in>| cc_applied_updates C then Inl (ValidatorSetUpdateAlreadyApplied (vu_update_id u))
      else case require_active_quorum C (fc_signers cert) of Some e \<Rightarrow> Inl e
      | None \<Rightarrow>
        (case validate_validator_set_update C u of Some e \<Rightarrow> Inl e
         | None \<Rightarrow>
            Inr \<lparr>cc_validators = fold (\<lambda>(i, s). fmupd i (new_validator i s)) (vu_add_validators u)
                   (fold fmdrop (vu_remove_validators u) (cc_validators C)),
                 cc_slashing_records = fold fmdrop (vu_remove_validators u) (cc_slashing_records C),
                 cc_applied_updates = finsert (vu_update_id u) (cc_applied_updates C)\<rparr>))"

section \<open>Well-formed clusters\<close>

definition cluster_ok :: "consensus_cluster \<Rightarrow> bool" where
  "cluster_ok C \<longleftrightarrow> fmdom (cc_slashing_records C) |\<subseteq>| fmdom (cc_validators C) \<and> cc_validators C \<noteq> fmempty"

inductive cluster_reachable :: "env \<Rightarrow> consensus_cluster \<Rightarrow> bool" for E where
  start: "new_cluster validators = Inr C \<Longrightarrow> cluster_reachable E C"
| slashed: "cluster_reachable E C \<Longrightarrow> record_equivocation ev C = Inr C' \<Longrightarrow> cluster_reachable E C'"
| finalized: "cluster_reachable E C \<Longrightarrow> finalize_block E blk C = Some (r, C') \<Longrightarrow> cluster_reachable E C'"
| voted: "cluster_reachable E C \<Longrightarrow> certificate_from_active_votes h hash votes C = (r, C') \<Longrightarrow>
    cluster_reachable E C'"
| updated: "cluster_reachable E C \<Longrightarrow> apply_validator_set_update u cert C = Inr C' \<Longrightarrow> cluster_reachable E C'"

lemma fmdom_fmempty_iff: "m = fmempty \<longleftrightarrow> fmdom m = {||}"
  by (metis fmdom_empty fmrestrict_fset_dom fmrestrict_fset_null)

lemma insert_validators_dom:
  "insert_validators vs nodes = Inr nodes' \<Longrightarrow> fmdom nodes' = fmdom nodes |\<union>| fset_of_list (map fst vs)"
  by (induction vs nodes arbitrary: nodes' rule: insert_validators.induct) (auto split: if_splits)

lemma record_ok: "record_equivocation ev C = Inr C' \<Longrightarrow> cluster_ok C \<Longrightarrow> cluster_ok C'"
  by (auto simp: record_equivocation_def cluster_ok_def Let_def split: if_splits)

lemma voted_ok: "certificate_from_active_votes h hash votes C = (r, C') \<Longrightarrow> cluster_ok C \<Longrightarrow> cluster_ok C'"
  by (auto simp: certificate_from_active_votes_def dest: record_ok split: option.splits sum.splits)

lemma collect_votes_Cons:
  "collect_votes E blk sl ((i, node) # rest) nodes = Some (r, nodes') \<longleftrightarrow>
     (if i |\<in>| fmdom sl then collect_votes E blk sl rest nodes = Some (r, nodes')
      else (\<exists>e. validate_and_apply E blk node = Some (Inl e) \<and> r = Inl (InvalidBlock i e) \<and> nodes' = nodes)
        \<or> (\<exists>node' r'. validate_and_apply E blk node = Some (Inr node')
            \<and> collect_votes E blk sl rest (fmupd i node' nodes) = Some (r', nodes')
            \<and> r = map_sum id ((#) \<lparr>vt_validator_id = i, vt_height = bh_height (b_header blk),
                vt_block_hash = block_hash E blk\<rparr>) r'))"
  by (auto split: option.splits sum.splits)

declare collect_votes.simps(2) [simp del]

lemma collect_votes_dom:
  assumes "collect_votes E blk sl xs nodes = Some (r, nodes')" "fst ` set xs \<subseteq> fset (fmdom nodes)"
  shows "fmdom nodes' = fmdom nodes"
  using assms
proof (induction xs arbitrary: r nodes)
  case (Cons x rest)
  obtain i node where x: "x = (i, node)" by fastforce
  have dom: "finsert i (fmdom nodes) = fmdom nodes" using Cons.prems(2) by (auto simp: x)
  from Cons.prems(1) consider "collect_votes E blk sl rest nodes = Some (r, nodes')" | "nodes' = nodes"
    | node' r' where "collect_votes E blk sl rest (fmupd i node' nodes) = Some (r', nodes')"
    unfolding x collect_votes_Cons by (auto split: if_splits)
  then show ?case
  proof cases
    case 3
    from Cons.IH [OF this] Cons.prems(2) show ?thesis by (auto simp: dom)
  qed (use Cons in auto)
qed simp

text \<open>When every active validator accepts the block, each of them stores what it reached.\<close>

definition vote_for :: "env \<Rightarrow> block \<Rightarrow> string \<Rightarrow> vote" where
  "vote_for E blk i = \<lparr>vt_validator_id = i, vt_height = bh_height (b_header blk), vt_block_hash = block_hash E blk\<rparr>"

lemma collect_votes_Cons_Inr:
  assumes "collect_votes E blk sl ((i, node) # rest) nodes = Some (Inr votes, nodes')"
  obtains (slashed) "i |\<in>| fmdom sl" "collect_votes E blk sl rest nodes = Some (Inr votes, nodes')"
  | (voted) node' votes' where "i |\<notin>| fmdom sl" "validate_and_apply E blk node = Some (Inr node')"
      "collect_votes E blk sl rest (fmupd i node' nodes) = Some (Inr votes', nodes')" "votes = vote_for E blk i # votes'"
proof (cases "i |\<in>| fmdom sl")
  case True
  with assms show thesis by (intro slashed) (simp_all add: collect_votes_Cons)
next
  case False
  with assms obtain node' r' where "validate_and_apply E blk node = Some (Inr node')"
    "collect_votes E blk sl rest (fmupd i node' nodes) = Some (r', nodes')"
    "Inr votes = map_sum id ((#) (vote_for E blk i)) r'"
    by (auto simp: collect_votes_Cons vote_for_def)
  with False show thesis by (cases r') (auto intro: voted)
qed

lemma collect_votes_all:
  assumes "collect_votes E blk sl xs nodes = Some (Inr votes, nodes')" "distinct (map fst xs)"
  shows "votes = map (vote_for E blk) (filter (\<lambda>i. i |\<notin>| fmdom sl) (map fst xs))
    \<and> (\<forall>(i, node) \<in> set xs. i |\<notin>| fmdom sl \<longrightarrow>
        (\<exists>node'. validate_and_apply E blk node = Some (Inr node') \<and> fmlookup nodes' i = Some node'))
    \<and> (\<forall>i. i \<notin> fst ` set xs \<or> i |\<in>| fmdom sl \<longrightarrow> fmlookup nodes' i = fmlookup nodes i)"
  using assms
proof (induction xs arbitrary: votes nodes)
  case (Cons x rest)
  obtain i node where x: "x = (i, node)" by fastforce
  have fresh: "i \<notin> fst ` set rest" "distinct (map fst rest)" using Cons.prems(2) by (auto simp: x)
  from Cons.prems(1) [unfolded x] show ?case
  proof (cases rule: collect_votes_Cons_Inr)
    case slashed
    with Cons.IH [OF slashed(2) fresh(2)] show ?thesis by (auto simp: x)
  next
    case (voted node' votes')
    with Cons.IH [OF voted(3) fresh(2)] fresh(1) show ?thesis by (auto simp: x)
  qed
qed simp

lemma sorted_fmap_keys:
  "map fst (sorted_list_of_fmap m) = sorted_list_of_fset (fmdom m)"
  by (simp add: sorted_list_of_fmap_def comp_def)

lemma sorted_fmap_set: "set (sorted_list_of_fmap m) = {(k, v). fmlookup m k = Some v}"
  by (auto simp: sorted_list_of_fmap_def fmlookup_dom_iff image_iff)

lemma fold_fmdrop: "fmlookup (fold fmdrop xs m) i = (if i \<in> set xs then None else fmlookup m i)"
  by (induction xs arbitrary: m) auto

lemma fold_fmdrop_dom: "fmdom (fold fmdrop xs m) = fmdom m |-| fset_of_list xs"
  by (rule fset_eqI) (auto simp: fmlookup_dom_iff fold_fmdrop fset_of_list_elem)

lemma fold_add_dom:
  "fmdom (fold (\<lambda>(i, s). fmupd i (f i s)) xs m) = fmdom m |\<union>| fset_of_list (map fst xs)"
  by (induction xs arbitrary: m) auto

lemma check_added_None:
  "check_added nodes seen xs = None \<longleftrightarrow> distinct xs \<and> set xs \<inter> (fset seen \<union> fset (fmdom nodes)) = {}"
  by (induction xs arbitrary: seen) auto

lemma check_removed_None:
  "check_removed nodes seen xs = None \<longleftrightarrow> distinct xs \<and> set xs \<inter> fset seen = {} \<and> set xs \<subseteq> fset (fmdom nodes)"
  by (induction xs arbitrary: seen) auto

lemma update_changes:
  assumes "apply_validator_set_update u cert C = Inr C'"
  shows "vu_update_id u |\<in>| cc_applied_updates C'"
    and "fmdom (cc_validators C') = (fmdom (cc_validators C) |-| fset_of_list (vu_remove_validators u))
      |\<union>| fset_of_list (map fst (vu_add_validators u))"
    and "fmdom (cc_slashing_records C') = fmdom (cc_slashing_records C) |-| fset_of_list (vu_remove_validators u)"
    and "set (map fst (vu_add_validators u)) \<inter> fset (fmdom (cc_validators C)) = {}"
    and "distinct (vu_remove_validators u)" "set (vu_remove_validators u) \<subseteq> fset (fmdom (cc_validators C))"
    and "length (vu_remove_validators u) < validator_count C + length (vu_add_validators u)"
proof -
  have valid: "validate_validator_set_update C u = None"
    and upd: "cc_validators C' = fold (\<lambda>(i, s). fmupd i (new_validator i s)) (vu_add_validators u)
      (fold fmdrop (vu_remove_validators u) (cc_validators C))"
      "cc_slashing_records C' = fold fmdrop (vu_remove_validators u) (cc_slashing_records C)"
      "vu_update_id u |\<in>| cc_applied_updates C'"
    using assms by (auto simp: apply_validator_set_update_def split: if_splits option.splits)
  from upd show "vu_update_id u |\<in>| cc_applied_updates C'"
    "fmdom (cc_validators C') = (fmdom (cc_validators C) |-| fset_of_list (vu_remove_validators u))
      |\<union>| fset_of_list (map fst (vu_add_validators u))"
    "fmdom (cc_slashing_records C') = fmdom (cc_slashing_records C) |-| fset_of_list (vu_remove_validators u)"
    by (simp_all only: fold_add_dom fold_fmdrop_dom)
  from valid show "set (map fst (vu_add_validators u)) \<inter> fset (fmdom (cc_validators C)) = {}"
    "distinct (vu_remove_validators u)" "set (vu_remove_validators u) \<subseteq> fset (fmdom (cc_validators C))"
    "length (vu_remove_validators u) < validator_count C + length (vu_add_validators u)"
    by (auto simp: validate_validator_set_update_def check_added_None check_removed_None
        split: option.splits if_splits)
qed

lemma update_ok:
  assumes "apply_validator_set_update u cert C = Inr C'" "cluster_ok C"
  shows "cluster_ok C'"
proof -
  note C' = update_changes [OF assms(1)]
  have "fmdom (cc_validators C') \<noteq> {||}"
  proof (cases "vu_add_validators u")
    case Nil
    then have "card (set (vu_remove_validators u)) < card (fset (fmdom (cc_validators C)))"
      using C'(5,7) by (simp add: distinct_card validator_count_def fcard.rep_eq)
    then have "\<not> fset (fmdom (cc_validators C)) \<subseteq> set (vu_remove_validators u)"
      by (metis card_mono finite_set leD)
    then show ?thesis unfolding C'(2) by (auto simp: fset_of_list_elem)
  qed (simp add: C'(2))
  with assms(2) C'(2,3) show ?thesis by (auto simp: cluster_ok_def fmdom_fmempty_iff)
qed

lemma finalize_ok:
  assumes "finalize_block E blk C = Some (r, C')" "cluster_ok C"
  shows "cluster_ok C'"
proof (cases "is_slashed C (bh_proposer (b_header blk))")
  case True
  with assms show ?thesis by (auto simp: finalize_block_def)
next
  case False
  then obtain res nodes where votes: "collect_votes E blk (cc_slashing_records C)
      (sorted_list_of_fmap (cc_validators C)) (cc_validators C) = Some (res, nodes)"
    and C': "C' = C\<lparr>cc_validators := nodes\<rparr> \<or> (\<exists>vs. certificate_from_active_votes (bh_height (b_header blk))
        (block_hash E blk) vs (C\<lparr>cc_validators := nodes\<rparr>) = (r, C'))"
    using assms(1) by (auto simp: finalize_block_def split: option.splits sum.splits) blast
  have "fmdom nodes = fmdom (cc_validators C)"
    using votes by (rule collect_votes_dom) (auto simp: sorted_fmap_set fmdomI)
  then have "cluster_ok (C\<lparr>cc_validators := nodes\<rparr>)"
    using assms(2) by (simp add: cluster_ok_def fmdom_fmempty_iff)
  with C' show ?thesis by (auto dest: voted_ok)
qed

lemma cluster_reachable_ok: "cluster_reachable E C \<Longrightarrow> cluster_ok C"
proof (induction rule: cluster_reachable.induct)
  case (start validators C)
  then obtain nodes where "insert_validators validators fmempty = Inr nodes" "validators \<noteq> []"
    "C = \<lparr>cc_validators = nodes, cc_slashing_records = fmempty, cc_applied_updates = {||}\<rparr>"
    by (auto simp: new_cluster_def split: if_splits sum.splits)
  then show ?case
    using insert_validators_dom by (fastforce simp: cluster_ok_def fmdom_fmempty_iff neq_Nil_conv)
qed (auto intro: record_ok finalize_ok voted_ok update_ok)

text \<open>A node stands under its own identifier, with the default resource limit.\<close>

definition own_node :: "string \<Rightarrow> validator_node \<Rightarrow> bool" where
  "own_node i node \<longleftrightarrow> vn_validator_id node = i \<and> vn_block_resource_limit node = default_block_resource_limit"

definition own_nodes :: "(string, validator_node) fmap \<Rightarrow> bool" where
  "own_nodes m \<longleftrightarrow> (\<forall>i node. fmlookup m i = Some node \<longrightarrow> own_node i node)"

lemma own_new: "own_node i (new_validator i s)"
  by (simp add: own_node_def new_validator_def)

lemma own_applied: "validate_and_apply E blk node = Some (Inr node') \<Longrightarrow> own_node i node \<Longrightarrow> own_node i node'"
  by (auto simp: validate_and_apply_def own_node_def record_receipts_def record_transactions_def Let_def
      split: if_splits option.splits sum.splits)

lemma own_upd: "own_nodes m \<Longrightarrow> own_node i node \<Longrightarrow> own_nodes (fmupd i node m)"
  by (simp add: own_nodes_def)

lemma own_inserted: "insert_validators vs m = Inr m' \<Longrightarrow> own_nodes m \<Longrightarrow> own_nodes m'"
  by (induction vs m arbitrary: m' rule: insert_validators.induct) (auto simp: own_upd own_new split: if_splits)

lemma own_added: "own_nodes m \<Longrightarrow> own_nodes (fold (\<lambda>(i, s). fmupd i (new_validator i s)) xs m)"
  by (induction xs arbitrary: m) (auto simp: own_upd own_new)

lemma own_collected:
  assumes "collect_votes E blk sl xs nodes = Some (r, nodes')" "\<forall>(i, node) \<in> set xs. own_node i node" "own_nodes nodes"
  shows "own_nodes nodes'"
  using assms
proof (induction xs arbitrary: r nodes)
  case (Cons x rest)
  obtain i node where x: "x = (i, node)" by fastforce
  from Cons.prems(1) consider "collect_votes E blk sl rest nodes = Some (r, nodes')" | "nodes' = nodes"
    | node' r' where "validate_and_apply E blk node = Some (Inr node')"
      "collect_votes E blk sl rest (fmupd i node' nodes) = Some (r', nodes')"
    unfolding x collect_votes_Cons by (auto split: if_splits)
  then show ?case
  proof cases
    case (3 node' r')
    then have "own_nodes (fmupd i node' nodes)"
      using Cons.prems(2,3) own_applied by (auto simp: x intro: own_upd)
    with Cons.IH [OF 3(2)] Cons.prems(2) show ?thesis by simp
  qed (use Cons in auto)
qed simp

lemma own_voted:
  "certificate_from_active_votes h hash votes C = (r, C') \<Longrightarrow> cc_validators C' = cc_validators C"
  by (auto simp: certificate_from_active_votes_def record_equivocation_def Let_def
      split: option.splits sum.splits if_splits)

lemma own_finalized:
  assumes "finalize_block E blk C = Some (r, C')" "own_nodes (cc_validators C)"
  shows "own_nodes (cc_validators C')"
proof (cases "is_slashed C (bh_proposer (b_header blk))")
  case True
  with assms show ?thesis by (auto simp: finalize_block_def)
next
  case False
  then obtain res where "collect_votes E blk (cc_slashing_records C)
      (sorted_list_of_fmap (cc_validators C)) (cc_validators C) = Some (res, cc_validators C')"
    using assms(1) by (auto simp: finalize_block_def dest!: own_voted split: option.splits sum.splits)
  then show ?thesis by (rule own_collected) (use assms(2) in \<open>auto simp: own_nodes_def sorted_fmap_set\<close>)
qed

lemma cluster_reachable_own: "cluster_reachable E C \<Longrightarrow> own_nodes (cc_validators C)"
proof (induction rule: cluster_reachable.induct)
  case (start validators C)
  then show ?case
    by (auto simp: new_cluster_def own_nodes_def [of fmempty] dest!: own_inserted split: if_splits sum.splits)
next
  case (updated C u cert C')
  then have "own_nodes (fold fmdrop (vu_remove_validators u) (cc_validators C))"
    by (simp add: own_nodes_def fold_fmdrop)
  with updated(2) own_added show ?case
    by (auto simp: apply_validator_set_update_def split: if_splits option.splits)
next
  case (slashed C ev C')
  then show ?case by (auto simp: record_equivocation_def Let_def split: if_splits)
qed (auto simp: own_voted intro: own_finalized)

section \<open>Quorums\<close>

lemma active_count:
  assumes "cluster_ok C"
  shows "active_validator_count C = fcard (active_validators C)"
proof -
  have "active_validators C = fmdom (cc_validators C) |-| fmdom (cc_slashing_records C)"
    by (auto simp: active_validators_def is_slashed_def)
  with assms show ?thesis
    by (simp add: active_validator_count_def cluster_ok_def fcard.rep_eq card_Diff_subset less_eq_fset.rep_eq)
qed

lemma quorum_for_majority: "n \<noteq> 0 \<Longrightarrow> 2 * n < 3 * quorum_for n" "n \<noteq> 0 \<Longrightarrow> quorum_for n \<le> n"
  by (auto simp: quorum_for_def)

lemma quorums_intersect:
  assumes "S |\<subseteq>| A" "T |\<subseteq>| A" "quorum_for (fcard A) \<le> fcard S" "quorum_for (fcard A) \<le> fcard T" "A \<noteq> {||}"
  shows "fcard A < 3 * fcard (S |\<inter>| T)"
proof -
  have "fcard S + fcard T = fcard (S |\<union>| T) + fcard (S |\<inter>| T)" by (rule fcard_funion_finter)
  moreover have "fcard (S |\<union>| T) \<le> fcard A" using assms(1,2) by (intro fcard_mono) auto
  moreover have "2 * fcard A < 3 * quorum_for (fcard A)"
    using assms(5) by (intro quorum_for_majority) (simp add: fcard_0_eq)
  ultimately show ?thesis using assms(3,4) by linarith
qed

lemma verified_signers:
  assumes "cluster_verify_finality_certificate C cert h hash = Inr ()" "cluster_ok C"
  shows "fset_of_list (fc_signers cert) |\<subseteq>| active_validators C"
    and "quorum_for (fcard (active_validators C)) \<le> fcard (fset_of_list (fc_signers cert))"
    and "active_validators C \<noteq> {||}" and "fc_height cert = h" and "fc_block_hash cert = hash"
  using assms active_count [OF assms(2)]
  by (auto simp: cluster_verify_finality_certificate_def verify_finality_certificate_def Let_def quorum_def
      find_None_iff fset_of_list_elem split: option.splits if_splits)

section \<open>Equivocation\<close>

definition slot :: "vote \<Rightarrow> string \<times> u64" where
  "slot v = (vt_validator_id v, vt_height v)"

definition conflict :: "vote \<Rightarrow> vote \<Rightarrow> bool" where
  "conflict v w \<longleftrightarrow> slot v = slot w \<and> vt_block_hash v \<noteq> vt_block_hash w"

definition agrees :: "(string \<times> u64, string) fmap \<Rightarrow> vote set \<Rightarrow> bool" where
  "agrees seen V \<longleftrightarrow> (\<forall>v \<in> V. \<forall>b. fmlookup seen (slot v) = Some b \<longrightarrow> vt_block_hash v = b)"

definition conflict_free :: "vote set \<Rightarrow> bool" where
  "conflict_free V \<longleftrightarrow> (\<forall>v \<in> V. \<forall>w \<in> V. \<not> conflict v w)"

lemma conflict_sym: "conflict v w \<longleftrightarrow> conflict w v"
  by (auto simp: conflict_def)

lemma conflict_irrefl: "\<not> conflict v v"
  by (simp add: conflict_def)

lemma conflict_free_insert:
  "conflict_free (insert v V) \<longleftrightarrow> conflict_free V \<and> (\<forall>w \<in> V. \<not> conflict v w)"
  unfolding conflict_free_def using conflict_sym conflict_irrefl by blast

lemma agrees_seen:
  assumes "fmlookup seen (slot v) = None"
  shows "agrees (fmupd (slot v) (vt_block_hash v) seen) V \<longleftrightarrow> agrees seen V \<and> (\<forall>w \<in> V. \<not> conflict v w)"
proof -
  have "(\<forall>b. fmlookup (fmupd (slot v) (vt_block_hash v) seen) (slot w) = Some b \<longrightarrow> vt_block_hash w = b)
      \<longleftrightarrow> (\<forall>b. fmlookup seen (slot w) = Some b \<longrightarrow> vt_block_hash w = b) \<and> \<not> conflict v w" for w
    using assms by (cases "slot v = slot w") (simp_all add: conflict_def, metis)
  then show ?thesis unfolding agrees_def by blast
qed

lemma agrees_conflict:
  "fmlookup seen (slot v) = Some (vt_block_hash v) \<Longrightarrow> agrees seen V \<Longrightarrow> w \<in> V \<Longrightarrow> \<not> conflict v w"
  unfolding agrees_def conflict_def by auto

lemma detect_from_None:
  "detect_from seen votes = None \<longleftrightarrow> agrees seen (set votes) \<and> conflict_free (set votes)"
proof (induction votes arbitrary: seen)
  case Nil
  show ?case by (simp add: agrees_def conflict_free_def)
next
  case (Cons v votes)
  have insert: "agrees seen (set (v # votes)) \<longleftrightarrow> agrees seen (set votes)
      \<and> (\<forall>b. fmlookup seen (slot v) = Some b \<longrightarrow> vt_block_hash v = b)"
    by (auto simp: agrees_def)
  show ?case
  proof (cases "fmlookup seen (slot v)")
    case None
    then have "detect_from seen (v # votes) = detect_from (fmupd (slot v) (vt_block_hash v) seen) votes"
      by (simp add: Let_def slot_def)
    with None show ?thesis
      unfolding insert using agrees_seen [OF None] Cons.IH by (auto simp: conflict_free_insert)
  next
    case (Some b)
    show ?thesis
    proof (cases "vt_block_hash v = b")
      case True
      with Some have "detect_from seen (v # votes) = detect_from seen votes" by (simp add: Let_def slot_def)
      with Some True show ?thesis
        unfolding insert using Cons.IH agrees_conflict [of seen v] by (auto simp: conflict_free_insert)
    next
      case False
      with Some have "detect_from seen (v # votes) \<noteq> None"
        by (auto simp: Let_def slot_def split: prod.split)
      with Some False show ?thesis unfolding insert by auto
    qed
  qed
qed

lemma detect_None:
  "detect_equivocation votes = None \<longleftrightarrow> conflict_free (set votes)"
  by (simp add: detect_equivocation_def detect_from_None agrees_def)

definition proves :: "equivocation_evidence \<Rightarrow> vote \<Rightarrow> vote \<Rightarrow> bool" where
  "proves ev v w \<longleftrightarrow> conflict v w \<and> ee_validator_id ev = vt_validator_id v \<and> ee_height ev = vt_height v
     \<and> ee_first_block_hash ev = vt_block_hash v \<and> ee_second_block_hash ev = vt_block_hash w
     \<and> vt_block_hash v < vt_block_hash w"

lemma detect_from_Some:
  assumes "detect_from seen votes = Some ev"
    and "\<And>i h b. fmlookup seen (i, h) = Some b \<Longrightarrow> \<exists>v \<in> V. vt_validator_id v = i \<and> vt_height v = h \<and> vt_block_hash v = b"
    and "set votes \<subseteq> V"
  shows "\<exists>v \<in> V. \<exists>w \<in> V. proves ev v w"
  using assms
proof (induction votes arbitrary: seen)
  case (Cons v votes)
  let ?key = "(vt_validator_id v, vt_height v)"
  show ?case
  proof (cases "fmlookup seen ?key")
    case None
    with Cons.prems(1) have step: "detect_from (fmupd ?key (vt_block_hash v) seen) votes = Some ev"
      by (simp add: Let_def)
    show ?thesis
      by (rule Cons.IH [OF step]) (use Cons.prems(2,3) in \<open>auto split: if_splits\<close>)
  next
    case (Some b)
    then obtain u where u: "u \<in> V" "vt_validator_id u = vt_validator_id v" "vt_height u = vt_height v"
      "vt_block_hash u = b"
      using Cons.prems(2) by blast
    show ?thesis
    proof (cases "b = vt_block_hash v")
      case True
      then have "detect_from seen votes = Some ev" using Cons.prems(1) Some by (simp add: Let_def)
      then show ?thesis using Cons.prems(2,3) by (intro Cons.IH) auto
    next
      case False
      then have "proves ev u v \<or> proves ev v u"
        using Cons.prems(1) Some u
        by (auto simp: Let_def proves_def conflict_def slot_def ordered_hash_pair_def split: if_splits)
      with u(1) Cons.prems(3) show ?thesis by auto
    qed
  qed
qed simp

section \<open>Finalisation\<close>

lemma same_votes_no_conflict: "detect_equivocation (map (vote_for E blk) xs) = None"
  by (auto simp: detect_None conflict_free_def conflict_def vote_for_def)

lemma active_sorted:
  "filter (\<lambda>i. i |\<notin>| fmdom (cc_slashing_records C)) (map fst (sorted_list_of_fmap (cc_validators C)))
     = sorted_list_of_fset (active_validators C)"
proof -
  have "sorted_list_of_fset (active_validators C)
      = filter (\<lambda>i. i |\<notin>| fmdom (cc_slashing_records C)) (sorted_list_of_fset (fmdom (cc_validators C)))"
    by (rule sorted_distinct_set_unique)
      (auto simp: active_validators_def is_slashed_def sorted_list_of_fset.rep_eq sorted_filter distinct_filter
        intro: sorted_wrt_filter)
  then show ?thesis by (simp add: sorted_fmap_keys)
qed

lemma unanimous_votes:
  assumes "votes = map (vote_for E blk) (sorted_list_of_fset (active_validators C))"
  shows "certificate_from_active_votes (bh_height (b_header blk)) (block_hash E blk) votes C
    = (if fcard (active_validators C) < quorum C then Inl (QuorumNotReached (fcard (active_validators C)) (quorum C))
       else Inr \<lparr>fc_height = bh_height (b_header blk), fc_block_hash = block_hash E blk,
         fc_signers = sorted_list_of_fset (active_validators C)\<rparr>, C)"
proof -
  have "filter (\<lambda>v. \<not> is_slashed C (vt_validator_id v)) votes = votes"
    by (auto simp: assms vote_for_def active_validators_def filter_id_conv)
  moreover have "filter (\<lambda>v. vt_height v = bh_height (b_header blk) \<and> vt_block_hash v = block_hash E blk) votes = votes"
    by (auto simp: assms vote_for_def filter_id_conv)
  moreover have "fset_of_list (map vt_validator_id votes) = active_validators C"
    by (simp add: assms vote_for_def comp_def)
  moreover have "detect_equivocation votes = None" unfolding assms by (rule same_votes_no_conflict)
  ultimately show ?thesis
    by (simp add: certificate_from_active_votes_def certificate_from_votes_def Let_def)
qed

lemma unanimous_certificate:
  assumes "certificate_from_active_votes (bh_height (b_header blk)) (block_hash E blk)
      (map (vote_for E blk) (sorted_list_of_fset (active_validators C))) C = (Inr cert, C')"
  shows "C' = C" and "fc_signers cert = sorted_list_of_fset (active_validators C)"
    and "fc_height cert = bh_height (b_header blk)" and "fc_block_hash cert = block_hash E blk"
  using assms unfolding unanimous_votes [OF refl] by (auto split: if_splits)

lemma unanimous_succeeds:
  assumes "cluster_ok C" "votes = map (vote_for E blk) (sorted_list_of_fset (active_validators C))"
  shows "\<exists>cert. certificate_from_active_votes (bh_height (b_header blk)) (block_hash E blk) votes C = (Inr cert, C)"
proof -
  have "quorum C \<le> fcard (active_validators C)"
    using quorum_for_majority(2) [of "fcard (active_validators C)"]
    by (cases "fcard (active_validators C) = 0") (simp_all add: quorum_def active_count [OF assms(1)] quorum_for_def)
  then show ?thesis unfolding unanimous_votes [OF assms(2)] by simp
qed

lemma finalized_cases:
  assumes "finalize_block E blk C = Some (Inr cert, C')"
  obtains nodes where "\<not> is_slashed C (bh_proposer (b_header blk))" "C' = C\<lparr>cc_validators := nodes\<rparr>"
    "fc_signers cert = sorted_list_of_fset (active_validators C')"
    "fc_height cert = bh_height (b_header blk)" "fc_block_hash cert = block_hash E blk"
    "fmdom nodes = fmdom (cc_validators C)"
    "\<And>i. i |\<in>| active_validators C \<Longrightarrow> \<exists>node node'. fmlookup (cc_validators C) i = Some node
      \<and> validate_and_apply E blk node = Some (Inr node') \<and> fmlookup nodes i = Some node'"
proof -
  let ?xs = "sorted_list_of_fmap (cc_validators C)"
  have not_slashed: "\<not> is_slashed C (bh_proposer (b_header blk))"
    using assms by (auto simp: finalize_block_def split: if_splits)
  with assms obtain votes nodes where
    collect: "collect_votes E blk (cc_slashing_records C) ?xs (cc_validators C) = Some (Inr votes, nodes)"
    and cert: "certificate_from_active_votes (bh_height (b_header blk)) (block_hash E blk) votes
      (C\<lparr>cc_validators := nodes\<rparr>) = (Inr cert, C')"
    by (auto simp: finalize_block_def split: option.splits sum.splits)
  have dom: "fmdom nodes = fmdom (cc_validators C)"
    using collect by (rule collect_votes_dom) (auto simp: sorted_fmap_set fmdomI)
  have "distinct (map fst ?xs)" by (simp add: sorted_fmap_keys sorted_list_of_fset.rep_eq)
  note all = collect_votes_all [OF collect this]
  have active: "active_validators (C\<lparr>cc_validators := nodes\<rparr>) = active_validators C"
    by (simp add: active_validators_def is_slashed_def dom)
  have "votes = map (vote_for E blk) (sorted_list_of_fset (active_validators (C\<lparr>cc_validators := nodes\<rparr>)))"
    using all unfolding active active_sorted by blast
  note cert = unanimous_certificate [OF cert [unfolded this]]
  have "\<exists>node node'. fmlookup (cc_validators C) i = Some node
      \<and> validate_and_apply E blk node = Some (Inr node') \<and> fmlookup nodes i = Some node'"
    if "i |\<in>| active_validators C" for i
  proof -
    have i: "i |\<in>| fmdom (cc_validators C)" "i |\<notin>| fmdom (cc_slashing_records C)"
      using that by (auto simp: active_validators_def is_slashed_def)
    from i(1) obtain node where "fmlookup (cc_validators C) i = Some node" by (rule fmdomE)
    with all i(2) show ?thesis by (fastforce simp: sorted_fmap_set)
  qed
  with not_slashed cert dom show thesis by (intro that [of nodes]) auto
qed

text \<open>All active validators are in one state.\<close>

definition synced :: "consensus_cluster \<Rightarrow> detta_state \<Rightarrow> bool" where
  "synced C s \<longleftrightarrow> (\<forall>i node. i |\<in>| active_validators C \<longrightarrow> fmlookup (cc_validators C) i = Some node \<longrightarrow> vn_state node = s)"

lemma active_same: "fmdom nodes = fmdom (cc_validators C) \<Longrightarrow>
    active_validators (C\<lparr>cc_validators := nodes\<rparr>) = active_validators C"
  by (simp add: active_validators_def is_slashed_def)

lemma check_signers_None:
  "check_signers C xs = None \<longleftrightarrow> set xs \<subseteq> fset (active_validators C)"
  by (induction xs) (auto simp: active_validators_def is_slashed_def)

lemma verify_active:
  assumes "fc_signers cert = sorted_list_of_fset (active_validators C)" "cluster_ok C" "active_validators C \<noteq> {||}"
  shows "cluster_verify_finality_certificate C cert (fc_height cert) (fc_block_hash cert) = Inr ()"
proof -
  have "fset_of_list (fc_signers cert) = active_validators C" by (simp add: assms(1))
  moreover have "fcard (active_validators C) \<noteq> 0" using assms(3) by (simp add: fcard_0_eq)
  moreover have "find (\<lambda>i. i |\<notin>| active_validators C) (fc_signers cert) = None"
    by (simp add: assms(1) find_None_iff)
  moreover have "check_signers C (fc_signers cert) = None" by (simp add: check_signers_None assms(1))
  ultimately show ?thesis
    using quorum_for_majority [of "fcard (active_validators C)"] active_count [OF assms(2)] assms(3)
    by (simp add: cluster_verify_finality_certificate_def verify_finality_certificate_def quorum_def Let_def)
qed

lemma collect_votes_succeeds:
  assumes "\<forall>(i, node) \<in> set xs. i |\<notin>| fmdom sl \<longrightarrow> (\<exists>node'. validate_and_apply E blk node = Some (Inr node'))"
  shows "\<exists>votes nodes'. collect_votes E blk sl xs nodes = Some (Inr votes, nodes')"
  using assms
proof (induction xs arbitrary: nodes)
  case (Cons x rest)
  obtain i node where x: "x = (i, node)" by fastforce
  show ?case
  proof (cases "i |\<in>| fmdom sl")
    case True
    with Cons show ?thesis by (auto simp: x collect_votes_Cons)
  next
    case False
    then obtain node' where node': "validate_and_apply E blk node = Some (Inr node')"
      using Cons.prems by (auto simp: x)
    obtain votes nodes' where "collect_votes E blk sl rest (fmupd i node' nodes) = Some (Inr votes, nodes')"
      using Cons by force
    with False node' show ?thesis by (force simp: x collect_votes_Cons)
  qed
qed simp

lemma collected_vote_all:
  assumes "cluster_ok C" "own_nodes (cc_validators C)" "synced C s" "apply_block E blk s = Some (Inr t)"
    and "block_resource_units (b_transactions blk) \<le> default_block_resource_limit"
  shows "\<exists>votes nodes. collect_votes E blk (cc_slashing_records C) (sorted_list_of_fmap (cc_validators C))
    (cc_validators C) = Some (Inr votes, nodes)"
proof (rule collect_votes_succeeds, safe)
  fix j node
  assume "(j, node) \<in> set (sorted_list_of_fmap (cc_validators C))" and j: "j |\<notin>| fmdom (cc_slashing_records C)"
  then have node: "fmlookup (cc_validators C) j = Some node" by (simp add: sorted_fmap_set)
  with j have "vn_state node = s"
    using assms(3) fmdomI [OF node] by (simp add: synced_def active_validators_def is_slashed_def)
  moreover have "vn_block_resource_limit node = default_block_resource_limit"
    using assms(2) node by (simp add: own_nodes_def own_node_def)
  ultimately show "\<exists>node'. validate_and_apply E blk node = Some (Inr node')"
    using assms(4,5) by (simp add: validate_and_apply_def Let_def)
qed

lemma finalize_succeeds:
  assumes "cluster_ok C" "own_nodes (cc_validators C)" "synced C s" "apply_block E blk s = Some (Inr t)"
    and "block_resource_units (b_transactions blk) \<le> default_block_resource_limit"
    and "\<not> is_slashed C (bh_proposer (b_header blk))"
  shows "\<exists>cert C'. finalize_block E blk C = Some (Inr cert, C')"
proof -
  let ?xs = "sorted_list_of_fmap (cc_validators C)"
  obtain votes nodes where
    collect: "collect_votes E blk (cc_slashing_records C) ?xs (cc_validators C) = Some (Inr votes, nodes)"
    using collected_vote_all [OF assms(1-5)] by blast
  let ?C = "C\<lparr>cc_validators := nodes\<rparr>"
  have "fmdom nodes = fmdom (cc_validators C)"
    using collect by (rule collect_votes_dom) (auto simp: sorted_fmap_set fmdomI)
  then have active: "active_validators ?C = active_validators C" and ok: "cluster_ok ?C"
    using assms(1) by (simp_all add: active_same cluster_ok_def fmdom_fmempty_iff)
  have "distinct (map fst ?xs)" by (simp add: sorted_fmap_keys sorted_list_of_fset.rep_eq)
  then have "votes = map (vote_for E blk) (sorted_list_of_fset (active_validators ?C))"
    using collect_votes_all [OF collect] unfolding active active_sorted by blast
  then obtain cert where "certificate_from_active_votes (bh_height (b_header blk)) (block_hash E blk) votes ?C
      = (Inr cert, ?C)"
    using unanimous_succeeds [OF ok] by blast
  with assms(6) collect show ?thesis by (simp add: finalize_block_def)
qed

lemma built_proposer:
  "build_block E s h txs ts p cert = Some (blk, t) \<Longrightarrow> bh_proposer (b_header blk) = p"
  by (auto simp: build_block_def make_header_def Let_def split: option.splits)

section \<open>Properties\<close>

text \<open>(C33) Quorums intersect: any two finality certificates that a reachable cluster accepts, for
  whatever heights and blocks, have more than a third of the active validators as common signers.
  So two different blocks are certified at one height only if more than a third of the active
  validators signed both.\<close>

theorem certificates_intersect:
  assumes "cluster_reachable E C"
    and "cluster_verify_finality_certificate C cert h hash = Inr ()"
    and "cluster_verify_finality_certificate C cert' h' hash' = Inr ()"
  shows "fcard (active_validators C)
    < 3 * fcard (fset_of_list (fc_signers cert) |\<inter>| fset_of_list (fc_signers cert'))"
proof -
  have ok: "cluster_ok C" using assms(1) by (rule cluster_reachable_ok)
  show ?thesis
    using verified_signers [OF assms(2) ok] verified_signers [OF assms(3) ok] by (intro quorums_intersect)
qed

text \<open>Four validators, three of which sign.\<close>

definition sample_ids :: "string list" where
  "sample_ids = [''a'', ''b'', ''c'', ''d'']"

definition sample_cluster :: consensus_cluster where
  "sample_cluster = \<lparr>cc_validators = fmap_of_list (map (\<lambda>i. (i, new_validator i (sample_state))) sample_ids),
     cc_slashing_records = fmempty, cc_applied_updates = {||}\<rparr>"

lemma sample_cluster_new: "new_cluster (map (\<lambda>i. (i, sample_state)) sample_ids) = Inr sample_cluster"
proof -
  have "fmap_of_list (map (\<lambda>i. (i, new_validator i (sample_state))) sample_ids)
    = foldl (\<lambda>m i. fmupd i (new_validator i (sample_state)) m) fmempty sample_ids"
    by (rule fmap_ext) (simp add: sample_ids_def fmlookup_of_list)
  then show ?thesis by (simp add: new_cluster_def sample_cluster_def sample_ids_def)
qed

lemma sample_cluster_reached: "cluster_reachable sample_env sample_cluster"
  using sample_cluster_new by (rule cluster_reachable.start)

lemma sample_cluster_active: "active_validators sample_cluster = fset_of_list sample_ids"
  by (auto simp: active_validators_def is_slashed_def sample_cluster_def sample_ids_def)

theorem certificates_intersect_witness:
  "fcard (active_validators sample_cluster)
     < 3 * fcard (fset_of_list [''a'', ''b'', ''c''] |\<inter>| fset_of_list [''b'', ''c'', ''d''])"
proof -
  let ?c = "\<lparr>fc_height = 1, fc_block_hash = ''x'', fc_signers = [''a'', ''b'', ''c'']\<rparr>"
  let ?d = "\<lparr>fc_height = 1, fc_block_hash = ''y'', fc_signers = [''b'', ''c'', ''d'']\<rparr>"
  note reached = sample_cluster_reached
  have "cluster_verify_finality_certificate sample_cluster ?c 1 ''x'' = Inr ()"
    "cluster_verify_finality_certificate sample_cluster ?d 1 ''y'' = Inr ()"
    using active_count [OF cluster_reachable_ok [OF reached]]
      check_signers_None [of sample_cluster "fc_signers ?c"] check_signers_None [of sample_cluster "fc_signers ?d"]
    by (simp_all add: cluster_verify_finality_certificate_def verify_finality_certificate_def sample_cluster_active
        sample_ids_def quorum_def quorum_for_def Let_def fcard.rep_eq del: check_signers.simps)
  from certificates_intersect [OF reached this] show ?thesis by simp
qed

text \<open>(C34) Equivocation is detected exactly: the detection finds nothing if and only if no
  validator votes for two blocks at one height, and what it finds is proved by two of the votes.\<close>

theorem equivocation_exact:
  "case detect_equivocation votes of
     None \<Rightarrow> \<forall>v \<in> set votes. \<forall>w \<in> set votes. vt_validator_id v = vt_validator_id w \<longrightarrow>
       vt_height v = vt_height w \<longrightarrow> vt_block_hash v = vt_block_hash w
   | Some ev \<Rightarrow> \<exists>v \<in> set votes. \<exists>w \<in> set votes. vt_validator_id v = ee_validator_id ev
       \<and> vt_validator_id w = ee_validator_id ev \<and> vt_height v = ee_height ev \<and> vt_height w = ee_height ev
       \<and> vt_block_hash v = ee_first_block_hash ev \<and> vt_block_hash w = ee_second_block_hash ev
       \<and> ee_first_block_hash ev < ee_second_block_hash ev"
proof (cases "detect_equivocation votes")
  case None
  then have "conflict_free (set votes)" by (simp only: detect_None)
  then show ?thesis
    unfolding None option.case conflict_free_def conflict_def slot_def prod.inject by blast
next
  case (Some ev)
  then obtain v w where vw: "v \<in> set votes" "w \<in> set votes" "proves ev v w"
    unfolding detect_equivocation_def using detect_from_Some [of fmempty votes ev "set votes"] by auto
  show ?thesis
    unfolding Some option.case
    by (rule bexI [OF _ vw(1)], rule bexI [OF _ vw(2)]) (use vw(3) in \<open>simp add: proves_def conflict_def slot_def\<close>)
qed

theorem equivocation_exact_witness:
  "detect_equivocation [\<lparr>vt_validator_id = ''a'', vt_height = 1, vt_block_hash = ''y''\<rparr>,
      \<lparr>vt_validator_id = ''a'', vt_height = 1, vt_block_hash = ''x''\<rparr>]
    = Some \<lparr>ee_validator_id = ''a'', ee_height = 1, ee_first_block_hash = ''x'', ee_second_block_hash = ''y''\<rparr>
   \<and> (''x'' :: string) < ''y''"
proof -
  let ?votes = "[\<lparr>vt_validator_id = ''a'', vt_height = 1, vt_block_hash = ''y''\<rparr>,
      \<lparr>vt_validator_id = ''a'', vt_height = 1, vt_block_hash = ''x''\<rparr>]"
  have "detect_equivocation ?votes
    = Some \<lparr>ee_validator_id = ''a'', ee_height = 1, ee_first_block_hash = ''x'', ee_second_block_hash = ''y''\<rparr>"
    by (simp add: detect_equivocation_def ordered_hash_pair_def)
  note found = this
  have "(''x'' :: string) < ''y''"
    using equivocation_exact [of ?votes, unfolded found option.case equivocation_evidence.select_convs] by blast
  with found show ?thesis by (rule conjI)
qed

text \<open>(C35) Agreement: if the active validators of a reachable cluster are in one state and a block is
  finalised, then they are in one state again, the one that applying the block leads to; each of them has
  stored the block, and the cluster accepts the certificate it got.\<close>

theorem finalized_agreement:
  assumes "cluster_reachable E C" "synced C s" "finalize_block E blk C = Some (Inr cert, C')"
    and "active_validators C \<noteq> {||}"
  shows "\<exists>t. apply_block E blk s = Some (Inr t) \<and> synced C' t
    \<and> (\<forall>i. i |\<in>| active_validators C' \<longrightarrow> (\<exists>node. fmlookup (cc_validators C') i = Some node
        \<and> get_block node (bh_height (b_header blk)) = Some blk))
    \<and> cluster_verify_finality_certificate C' cert (bh_height (b_header blk)) (block_hash E blk) = Inr ()"
  using assms(3)
proof (rule finalized_cases)
  fix nodes
  assume C': "C' = C\<lparr>cc_validators := nodes\<rparr>"
    and cert: "fc_signers cert = sorted_list_of_fset (active_validators C')"
      "fc_height cert = bh_height (b_header blk)" "fc_block_hash cert = block_hash E blk"
    and dom: "fmdom nodes = fmdom (cc_validators C)"
    and applied: "\<And>i. i |\<in>| active_validators C \<Longrightarrow> \<exists>node node'. fmlookup (cc_validators C) i = Some node
      \<and> validate_and_apply E blk node = Some (Inr node') \<and> fmlookup nodes i = Some node'"
  have active: "active_validators C' = active_validators C" unfolding C' using dom by (rule active_same)
  have step: "\<exists>node'. fmlookup nodes i = Some node' \<and> apply_block E blk s = Some (Inr (vn_state node'))
      \<and> get_block node' (bh_height (b_header blk)) = Some blk" if i: "i |\<in>| active_validators C" for i
  proof -
    obtain node node' where "fmlookup (cc_validators C) i = Some node"
      "validate_and_apply E blk node = Some (Inr node')" "fmlookup nodes i = Some node'"
      using applied [OF i] by blast
    with assms(2) i applied_node(1,3) show ?thesis by (fastforce simp: synced_def get_block_def)
  qed
  obtain i where "i |\<in>| active_validators C" using assms(4) by blast
  from step [OF this] obtain t where t: "apply_block E blk s = Some (Inr t)" by blast
  have "synced C' t"
    unfolding synced_def active
  proof (intro allI impI)
    fix i node
    assume i: "i |\<in>| active_validators C" and node: "fmlookup (cc_validators C') i = Some node"
    from step [OF i] t node show "vn_state node = t" by (auto simp: C')
  qed
  moreover have "cluster_ok C'"
    using assms(3) cluster_reachable_ok [OF assms(1)] by (rule finalize_ok)
  then have "cluster_verify_finality_certificate C' cert (bh_height (b_header blk)) (block_hash E blk) = Inr ()"
    using verify_active [OF cert(1)] cert(2,3) active assms(4) by simp
  moreover have "\<exists>node. fmlookup (cc_validators C') i = Some node \<and> get_block node (bh_height (b_header blk)) = Some blk"
    if "i |\<in>| active_validators C'" for i
    using step [of i] that unfolding active by (auto simp: C')
  ultimately show ?thesis using t by (intro exI [of _ t] conjI allI impI)
qed

text \<open>A block of the sample cluster.\<close>

lemma sample_cluster_synced: "synced sample_cluster sample_state"
  by (auto simp: synced_def sample_cluster_def fmlookup_of_list new_validator_def dest!: map_of_SomeD)

lemma sample_finalized:
  obtains blk cert C' where "finalize_block sample_env blk sample_cluster = Some (Inr cert, C')"
    "b_transactions blk = [sample_transfer]"
proof -
  obtain blk t where build: "build_block sample_env sample_state 1 [sample_transfer] 5 ''a'' ''c'' = Some (blk, t)"
    using build_block_total by blast
  note facts = built_accepted [OF build sample_block_units] built_transactions [OF build] built_proposer [OF build]
  have "\<not> is_slashed sample_cluster ''a''" by (simp add: is_slashed_def sample_cluster_def)
  then obtain cert C' where "finalize_block sample_env blk sample_cluster = Some (Inr cert, C')"
    using finalize_succeeds [OF cluster_reachable_ok [OF sample_cluster_reached]
        cluster_reachable_own [OF sample_cluster_reached] sample_cluster_synced facts(1)] facts(2,3) sample_block_units
    by auto
  then show thesis using facts(2) that by blast
qed

theorem finalized_agreement_witness:
  "\<exists>blk cert C' t. finalize_block sample_env blk sample_cluster = Some (Inr cert, C')
     \<and> b_transactions blk = [sample_transfer] \<and> synced C' t
     \<and> cluster_verify_finality_certificate C' cert (bh_height (b_header blk)) (block_hash sample_env blk) = Inr ()"
proof -
  obtain blk cert C' where fin: "finalize_block sample_env blk sample_cluster = Some (Inr cert, C')"
    "b_transactions blk = [sample_transfer]" by (rule sample_finalized)
  have "active_validators sample_cluster \<noteq> {||}" by (simp add: sample_cluster_active sample_ids_def)
  from finalized_agreement [OF sample_cluster_reached sample_cluster_synced fin(1) this] fin
  show ?thesis by blast
qed

text \<open>(C36) Liveness: in a reachable cluster whose active validators are in one state, a block that an
  active validator proposes within the default resource limit is finalised by the cluster.\<close>

theorem proposal_finalized:
  assumes "cluster_reachable E C" "synced C s" "i |\<in>| active_validators C"
    and "block_resource_units txs \<le> default_block_resource_limit"
  shows "\<exists>blk cert C'. cluster_propose_block E C i h txs ts = Some (Inr blk)
    \<and> finalize_block E blk C = Some (Inr cert, C') \<and> b_transactions blk = txs"
proof -
  have own: "own_nodes (cc_validators C)" using assms(1) by (rule cluster_reachable_own)
  have i: "i |\<in>| fmdom (cc_validators C)" "\<not> is_slashed C i"
    using assms(3) by (auto simp: active_validators_def)
  from i(1) obtain node where node: "fmlookup (cc_validators C) i = Some node" by (rule fmdomE)
  then have state: "vn_state node = s" "vn_validator_id node = i"
    using assms(2,3) own by (auto simp: synced_def own_nodes_def own_node_def)
  obtain blk t where build: "build_block E s h txs ts i (''sim-cert:'' @ i @ '':'' @ u128_to_string (as_amount h))
      = Some (blk, t)"
    using build_block_total by blast
  have txs: "b_transactions blk = txs" using build by (rule built_transactions)
  have proposer: "bh_proposer (b_header blk) = i" using build by (rule built_proposer)
  have proposed: "cluster_propose_block E C i h txs ts = Some (Inr blk)"
    using node i(2) build by (simp add: cluster_propose_block_def propose_block_def state)
  have accepted: "apply_block E blk s = Some (Inr t)" using build assms(4) by (rule built_accepted)
  obtain cert C' where "finalize_block E blk C = Some (Inr cert, C')"
    using finalize_succeeds [OF cluster_reachable_ok [OF assms(1)] own assms(2) accepted] assms(4) i(2) txs proposer
    by auto
  with proposed txs show ?thesis by blast
qed

theorem proposal_finalized_witness:
  "\<exists>blk cert C'. cluster_propose_block sample_env sample_cluster ''b'' 1 [sample_transfer] 5 = Some (Inr blk)
     \<and> finalize_block sample_env blk sample_cluster = Some (Inr cert, C')"
proof -
  have "''b'' |\<in>| active_validators sample_cluster" by (simp add: sample_cluster_active sample_ids_def)
  from proposal_finalized [OF sample_cluster_reached sample_cluster_synced this sample_block_units] show ?thesis
    by blast
qed



text \<open>With every validator slashed the quorum is zero, and a certificate without any signer changes the
  validator set.\<close>

lemma unsigned_update_accepted:
  assumes "cluster_ok C" "active_validators C = {||}" "vu_update_id u |\<notin>| cc_applied_updates C"
    and "validate_validator_set_update C u = None" "fc_signers cert = []"
  shows "\<exists>C'. apply_validator_set_update u cert C = Inr C'"
  using assms active_count [OF assms(1)]
  by (simp add: apply_validator_set_update_def require_active_quorum_def quorum_def quorum_for_def)

end
