(* ===== verification/Spec2Isabelle.thy ===== *)
theory Spec2Isabelle
  imports Token_Safety Vault_Safety Staking_Withdrawals Consensus
begin

text \<open>
  A verification library for the DeTTa chain (\<open>src/crates\<close>): the deterministic state machine of
  \<open>detta-core\<close>, the aspect language it hosts, and the cluster of validators around it.

  \<^bold>\<open>The program.\<close> \<open>detta-core/src/lib.rs\<close> holds \<open>DeTTaState\<close>: deployed contracts, a typed
  key-value storage, a registry of grants, nonces, events and a cross-shard outbox.
  \<open>apply_transaction\<close> checks a transaction, runs \<open>execute_call\<close> on it and restores checkpoints when
  that fails; \<open>execute_call\<close> looks the target contract up, checks its method policy and dispatches to
  one of eleven kinds of contract. A contract of kind \<open>AspectModule\<close> is a program of the aspect
  language, evaluated by \<open>detta-aspect-runtime\<close>; its host operations come back as further calls.
  \<open>build_block\<close> and \<open>apply_block\<close> execute lists of transactions and commit to the result with Merkle
  roots. A \<open>ValidatorNode\<close> keeps a \<open>Mempool\<close> of pending transactions, proposes blocks from it and applies
  the blocks of others; a \<open>ConsensusCluster\<close> (\<open>detta-consensus/src/lib.rs\<close>) holds the validators, collects
  their votes on a block into a finality certificate, slashes equivocation and updates the set.

  \<^bold>\<open>The theories.\<close> \<open>Detta_Prelude\<close> and \<open>Exec_Monad\<close> hold words with checked arithmetic, sums over
  finite maps, and the state and error monad all operations are written in. \<open>Aspect_Ir\<close>,
  \<open>Detta_Types\<close>, \<open>Commitments\<close> and \<open>Manifests\<close> hold the data, the hashing of it, and the record a
  deployment stores. \<open>State_Ops\<close> holds the reads, scoped writes, declared invariants and roots of
  \<open>DeTTaState\<close>. \<open>Assets\<close>, \<open>Token_Contract\<close>, \<open>Amm_Pool\<close>, \<open>Oracle_Contract\<close>, \<open>Bridge_Contract\<close>,
  \<open>Governance_Contract\<close>, \<open>Lending_Vault\<close>, \<open>Staking_Contract\<close>, \<open>Deployment\<close> and \<open>Aspect_Host\<close> hold one
  definition per handler of \<open>impl DeTTaState\<close>, with the handler's name; \<open>Aspect_Runtime\<close> is the
  evaluator; \<open>Executor\<close> is dispatch, resource units and \<open>apply_transaction\<close>; \<open>Blocks\<close> adds blocks
  and snapshots, \<open>Mempool\<close> and \<open>Validator_Node\<close> the pool and the validator, and \<open>Consensus\<close> the cluster. A \<open>BTreeMap\<close> is an \<open>fmap\<close>, iterated in key order, a \<open>BTreeSet\<close> an \<open>fset\<close>, \<open>u128\<close> and
  \<open>u64\<close> are words, \<open>usize\<close> is \<open>nat\<close>. A handler is a function from a state to an error or a value and
  the state it leaves, also on an error, so that what the checkpoints restore is visible.

  \<^bold>\<open>The lemmas.\<close> \<open>Call_Relation\<close> proves once, in a locale, that a relation kept by every leaf
  operation is kept by \<open>execute_call\<close> with all its nested calls; \<open>Executor_Frame\<close>,
  \<open>Contract_Frame\<close>, \<open>Token_Supply\<close>, \<open>Part_Frame\<close> and \<open>Ledgers\<close> interpret it: frames, permanence of
  contracts, conservation of token supplies, and ledgers whose entries add up to a recorded total.
  \<open>Run_Rules\<close> inverts successful runs. \<open>Call_Depth\<close> bounds the nesting of calls. \<open>Transactions\<close>,
  \<open>Admission\<close> and \<open>Blocks\<close> lift this to transactions and blocks; \<open>Bridge_Safety\<close>, \<open>Pool_Safety\<close>,
  \<open>Staking_Safety\<close>, \<open>Staking_Withdrawals\<close>, \<open>Control_Safety\<close>, \<open>Token_Safety\<close> and \<open>Vault_Safety\<close> are
  about one kind of contract each; \<open>Reachability\<close> puts
  them together: the invariants that contracts declare hold in every reachable state. \<open>Mempool\<close> shows
  that the selection for a block is a part of the pool within the limit and that nothing that fits
  waits for ever; \<open>Validator_Node\<close> that replicas in one state accept a proposal and agree; \<open>Consensus\<close>
  that quorums intersect, equivocation is detected exactly, and proposals are finalised with agreement.

  \<^bold>\<open>Bounds.\<close> \<open>execute_call\<close> takes fuel. Every nested call enters a contract that is not active, and
  only aspect contracts make nested calls more than once, so twice the number of aspect contracts
  and a constant is enough; \<open>Call_Depth\<close> proves it and \<open>apply_transaction_total\<close> states it.

  \<^bold>\<open>Parameters.\<close> SHA-256, the JSON encoding of committed values and the parsing of certificates and
  of aspect modules are fields of the record \<open>env\<close>. Nothing is assumed of them but, where a theorem
  says so, that SHA-256 does not collide on the preimages at hand.

  \<^bold>\<open>Not modelled.\<close> The command line, HTTP and file system code of the node, storage, network and
  client crates (input and output), the demonstration and conformance code of \<open>detta-verify\<close>, and
  tests.
\<close>

end
